(* ===== verification/Virtu_Prelude.thy ===== *)
theory Virtu_Prelude
  imports Main "HOL-Library.Word"
begin

text \<open>
  Shared vocabulary of the development: fallible results, the state-passing computations that
  model functions taking a \<open>FileSystem\<close>, a small Hoare calculus for them, and list lemmas.

  A Rust \<open>Result<T, E>\<close> is \<open>'e + 'a\<close> with \<open>Inl\<close> for \<open>Err\<close>. A function that mutates a file
  system and may fail is \<open>'s \<Rightarrow> ('e + 'a) \<times> 's\<close>: the state is returned on the error path
  too, because the mutations made before an early return stay.
\<close>

named_theorems io_simps "unfolding rules of the state-passing combinators"
named_theorems triple_intros "Hoare rules, one per combinator"

type_synonym u32 = "32 word"
type_synonym u64 = "64 word"

type_synonym ('s, 'e, 'a) io = "'s \<Rightarrow> ('e + 'a) \<times> 's"

section \<open>Results\<close>

definition map_err :: "('e \<Rightarrow> 'f) \<Rightarrow> 'e + 'a \<Rightarrow> 'f + 'a" where
  "map_err g r = (case r of Inl e \<Rightarrow> Inl (g e) | Inr a \<Rightarrow> Inr a)"

definition res_then :: "'e + 'a \<Rightarrow> ('a \<Rightarrow> 'e + 'b) \<Rightarrow> 'e + 'b" where
  "res_then r f = (case r of Inl e \<Rightarrow> Inl e | Inr a \<Rightarrow> f a)"

definition is_ok :: "'e + 'a \<Rightarrow> bool" where
  "is_ok r = (case r of Inl _ \<Rightarrow> False | Inr _ \<Rightarrow> True)"

lemma map_err_simps [simp]:
  "map_err g (Inl e) = Inl (g e)" "map_err g (Inr a) = Inr a"
  by (simp_all add: map_err_def)

lemma map_err_Inl_iff [simp]: "map_err g r = Inl e \<longleftrightarrow> (\<exists>e'. r = Inl e' \<and> e = g e')"
  by (cases r) (auto simp: map_err_def)

lemma map_err_Inr_iff [simp]: "map_err g r = Inr a \<longleftrightarrow> r = Inr a"
  by (cases r) auto

lemma res_then_simps [simp]:
  "res_then (Inl e) f = Inl e" "res_then (Inr a) f = f a"
  by (simp_all add: res_then_def)

lemma res_then_Inr_iff: "res_then r f = Inr b \<longleftrightarrow> (\<exists>a. r = Inr a \<and> f a = Inr b)"
  by (cases r) auto

lemma is_ok_simps [simp]: "\<not> is_ok (Inl e)" "is_ok (Inr a)"
  by (simp_all add: is_ok_def)

lemma is_ok_iff: "is_ok r \<longleftrightarrow> (\<exists>a. r = Inr a)"
  by (cases r) auto

section \<open>State-passing computations\<close>

definition io_ok :: "'a \<Rightarrow> ('s, 'e, 'a) io" where
  "io_ok a s = (Inr a, s)"

definition io_err :: "'e \<Rightarrow> ('s, 'e, 'a) io" where
  "io_err e s = (Inl e, s)"

definition io_lift :: "'e + 'a \<Rightarrow> ('s, 'e, 'a) io" where
  "io_lift r s = (r, s)"

text \<open>A read of the state that does not change it (\<open>read\<close>, \<open>exists\<close>, \<open>is_executable\<close>).\<close>

definition io_query :: "('s \<Rightarrow> 'e + 'a) \<Rightarrow> ('s, 'e, 'a) io" where
  "io_query f s = (f s, s)"

definition io_gets :: "('s \<Rightarrow> 'a) \<Rightarrow> ('s, 'e, 'a) io" where
  "io_gets f s = (Inr (f s), s)"

text \<open>The \<open>?\<close> operator: run the first computation, return its error or go on with its value.\<close>

definition io_then :: "('s, 'e, 'a) io \<Rightarrow> ('a \<Rightarrow> ('s, 'e, 'b) io) \<Rightarrow> ('s, 'e, 'b) io" where
  "io_then m f s = (case m s of (Inl e, s') \<Rightarrow> (Inl e, s') | (Inr a, s') \<Rightarrow> f a s')"

definition io_map_err :: "('e \<Rightarrow> 'f) \<Rightarrow> ('s, 'e, 'a) io \<Rightarrow> ('s, 'f, 'a) io" where
  "io_map_err g m s = (case m s of (r, s') \<Rightarrow> (map_err g r, s'))"

text \<open>A \<open>for\<close> loop over a list that threads an accumulator and may return early.\<close>

fun io_fold :: "('b \<Rightarrow> 'a \<Rightarrow> ('s, 'e, 'b) io) \<Rightarrow> 'b \<Rightarrow> 'a list \<Rightarrow> ('s, 'e, 'b) io" where
  "io_fold f b [] = io_ok b"
| "io_fold f b (x # xs) = io_then (f b x) (\<lambda>b'. io_fold f b' xs)"

lemma io_apply [io_simps, simp]:
  "io_ok a s = (Inr a, s)" "io_err e s = (Inl e, s)" "io_lift r s = (r, s)"
  "io_query f s = (f s, s)" "io_gets g s = (Inr (g s), s)"
  by (simp_all add: io_ok_def io_err_def io_lift_def io_query_def io_gets_def)

lemma io_then_Inr: "m s = (Inr a, s') \<Longrightarrow> io_then m f s = f a s'"
  by (simp add: io_then_def)

lemma io_then_Inl: "m s = (Inl e, s') \<Longrightarrow> io_then m f s = (Inl e, s')"
  by (simp add: io_then_def)

lemma io_then_InrE:
  assumes "io_then m f s = (Inr b, s2)"
  obtains a s1 where "m s = (Inr a, s1)" "f a s1 = (Inr b, s2)"
  using assms by (auto simp: io_then_def split: prod.splits sum.splits)

lemma io_then_Inr_iff:
  "io_then m f s = (Inr b, s2) \<longleftrightarrow> (\<exists>a s1. m s = (Inr a, s1) \<and> f a s1 = (Inr b, s2))"
  by (auto simp: io_then_def split: prod.splits sum.splits)

lemma io_map_err_Inr_iff [simp]: "io_map_err g m s = (Inr a, s') \<longleftrightarrow> m s = (Inr a, s')"
  by (auto simp: io_map_err_def split: prod.splits)

lemma io_then_ok [simp]: "io_then (io_ok a) f = f a"
  by (simp add: io_then_def fun_eq_iff)

lemma io_then_err [simp]: "io_then (io_err e) f = io_err e"
  by (simp add: io_then_def fun_eq_iff)

lemma io_then_assoc: "io_then (io_then m f) g = io_then m (\<lambda>x. io_then (f x) g)"
  by (auto simp: io_then_def fun_eq_iff split: prod.splits sum.splits)

lemma io_fold_append:
  "io_fold f b (xs @ ys) = io_then (io_fold f b xs) (\<lambda>b'. io_fold f b' ys)"
  by (induction xs arbitrary: b) (simp_all add: io_then_assoc)

section \<open>Hoare triples with an error postcondition\<close>

text \<open>
  \<open>triple P m Q E\<close>: from a state satisfying \<open>P\<close>, the computation either returns a value and a
  state satisfying \<open>Q\<close>, or fails in a state satisfying \<open>E\<close>. Computations are total, so this is
  total correctness.
\<close>

definition triple ::
  "('s \<Rightarrow> bool) \<Rightarrow> ('s, 'e, 'a) io \<Rightarrow> ('a \<Rightarrow> 's \<Rightarrow> bool) \<Rightarrow> ('e \<Rightarrow> 's \<Rightarrow> bool) \<Rightarrow> bool"
where
  "triple P m Q E \<longleftrightarrow>
     (\<forall>s. P s \<longrightarrow> (case m s of (Inr a, s') \<Rightarrow> Q a s' | (Inl e, s') \<Rightarrow> E e s'))"

lemma tripleI:
  assumes "\<And>s a s'. P s \<Longrightarrow> m s = (Inr a, s') \<Longrightarrow> Q a s'"
    and "\<And>s e s'. P s \<Longrightarrow> m s = (Inl e, s') \<Longrightarrow> E e s'"
  shows "triple P m Q E"
  using assms by (auto simp: triple_def split: prod.splits sum.splits)

lemma triple_Inr: "triple P m Q E \<Longrightarrow> P s \<Longrightarrow> m s = (Inr a, s') \<Longrightarrow> Q a s'"
  by (auto simp: triple_def split: prod.splits sum.splits)

lemma triple_Inl: "triple P m Q E \<Longrightarrow> P s \<Longrightarrow> m s = (Inl e, s') \<Longrightarrow> E e s'"
  by (auto simp: triple_def split: prod.splits sum.splits)

lemma triple_pre: "triple P m Q E \<Longrightarrow> (\<And>s. P' s \<Longrightarrow> P s) \<Longrightarrow> triple P' m Q E"
  by (auto simp: triple_def)

lemma triple_post:
  "triple P m Q E \<Longrightarrow> (\<And>a s. Q a s \<Longrightarrow> Q' a s) \<Longrightarrow> (\<And>e s. E e s \<Longrightarrow> E' e s) \<Longrightarrow>
   triple P m Q' E'"
  by (fastforce simp: triple_def split: prod.splits sum.splits)

lemma triple_ok [triple_intros]: "(\<And>s. P s \<Longrightarrow> Q a s) \<Longrightarrow> triple P (io_ok a) Q E"
  by (simp add: triple_def)

lemma triple_err [triple_intros]: "(\<And>s. P s \<Longrightarrow> E e s) \<Longrightarrow> triple P (io_err e) Q E"
  by (simp add: triple_def)

lemma triple_query [triple_intros]:
  "(\<And>s a. P s \<Longrightarrow> f s = Inr a \<Longrightarrow> Q a s) \<Longrightarrow> (\<And>s e. P s \<Longrightarrow> f s = Inl e \<Longrightarrow> E e s) \<Longrightarrow>
   triple P (io_query f) Q E"
  by (rule tripleI) auto

lemma triple_gets [triple_intros]: "(\<And>s. P s \<Longrightarrow> Q (f s) s) \<Longrightarrow> triple P (io_gets f) Q E"
  by (rule tripleI) auto

lemma triple_lift [triple_intros]:
  "(\<And>s a. P s \<Longrightarrow> r = Inr a \<Longrightarrow> Q a s) \<Longrightarrow> (\<And>s e. P s \<Longrightarrow> r = Inl e \<Longrightarrow> E e s) \<Longrightarrow>
   triple P (io_lift r) Q E"
  by (rule tripleI) auto

lemma triple_then:
  "triple P m Q E \<Longrightarrow> (\<And>a. triple (Q a) (f a) R E) \<Longrightarrow> triple P (io_then m f) R E"
  by (fastforce simp: triple_def io_then_def split: prod.splits sum.splits)

lemma triple_map_err:
  "triple P m Q (\<lambda>e. E (g e)) \<Longrightarrow> triple P (io_map_err g m) Q E"
  by (auto simp: triple_def io_map_err_def map_err_def split: prod.splits sum.splits)

lemma triple_if [triple_intros]:
  "(b \<Longrightarrow> triple P m Q E) \<Longrightarrow> (\<not> b \<Longrightarrow> triple P n Q E) \<Longrightarrow>
   triple P (if b then m else n) Q E"
  by simp

text \<open>A loop keeps an invariant over the accumulator and the state.\<close>

lemma triple_fold:
  assumes "\<And>b x. x \<in> set xs \<Longrightarrow> triple (I b) (f b x) I E"
  shows "triple (I b) (io_fold f b xs) I E"
  using assms
proof (induction xs arbitrary: b)
  case Nil
  show ?case by (simp add: triple_def)
next
  case (Cons x xs)
  have "triple (I b) (f b x) I E" by (rule Cons.prems) simp
  moreover have "\<And>b'. triple (I b') (io_fold f b' xs) I E"
    by (rule Cons.IH) (simp add: Cons.prems)
  ultimately show ?case by (simp add: triple_then)
qed

section \<open>Lists\<close>

text \<open>Rust's \<open>Vec::dedup\<close> removes consecutive repetitions; \<open>sort\<close> then \<open>dedup\<close> is a set.\<close>

lemma set_remdups_adj_sort: "set (remdups_adj (sort xs)) = set xs"
  by simp

text \<open>\<open>Iterator::find\<close> is \<open>List.find\<close>; the facts below are used by every lookup of the code.\<close>

lemma distinct_remdups_adj_sorted: "sorted xs \<Longrightarrow> distinct (remdups_adj xs)"
  by (induction xs rule: remdups_adj.induct) (auto simp: order_le_less)

lemma find_SomeD: "List.find P xs = Some x \<Longrightarrow> x \<in> set xs \<and> P x"
  by (auto simp: find_Some_iff)

lemma find_None_ex: "List.find P xs = None \<longleftrightarrow> \<not> (\<exists>x \<in> set xs. P x)"
  by (auto simp: find_None_iff)

lemma find_append: "List.find P (xs @ ys) =
    (case List.find P xs of Some x \<Rightarrow> Some x | None \<Rightarrow> List.find P ys)"
  by (induction xs) auto

text \<open>Insertion at the end unless present, the code's \<open>if !v.contains(x) { v.push(x) }\<close>.\<close>

lemma list_ex_eq_image: "list_ex (\<lambda>x. f x = y) xs \<longleftrightarrow> y \<in> f ` set xs"
  by (auto simp: list_ex_iff)

definition push_new :: "'a list \<Rightarrow> 'a \<Rightarrow> 'a list" where
  "push_new xs x = (if x \<in> set xs then xs else xs @ [x])"

lemma set_push_new [simp]: "set (push_new xs x) = insert x (set xs)"
  by (auto simp: push_new_def)

lemma distinct_push_new [simp]: "distinct (push_new xs x) = distinct xs"
  by (auto simp: push_new_def)

lemma push_new_present [simp]: "x \<in> set xs \<Longrightarrow> push_new xs x = xs"
  by (simp add: push_new_def)

lemma push_new_absent: "x \<notin> set xs \<Longrightarrow> push_new xs x = xs @ [x]"
  by (simp add: push_new_def)

lemma set_fold_push_new [simp]: "set (foldl push_new xs ys) = set xs \<union> set ys"
  by (induction ys arbitrary: xs) auto

lemma distinct_fold_push_new [simp]: "distinct (foldl push_new xs ys) = distinct xs"
  by (induction ys arbitrary: xs) auto

lemma fold_push_new_present: "set ys \<subseteq> set xs \<Longrightarrow> foldl push_new xs ys = xs"
  by (induction ys arbitrary: xs) auto

lemma fold_push_new_prefix: "\<exists>zs. foldl push_new xs ys = xs @ zs \<and> set zs \<subseteq> set ys"
proof (induction ys arbitrary: xs)
  case Nil
  show ?case by simp
next
  case (Cons y ys)
  obtain zs where "foldl push_new (push_new xs y) ys = push_new xs y @ zs" "set zs \<subseteq> set ys"
    using Cons.IH by blast
  then show ?case by (cases "y \<in> set xs") (auto simp: push_new_absent)
qed

end
