(* ===== verification/Rust_Strings.thy ===== *)
theory Rust_Strings
  imports Virtu_Prelude
begin

text \<open>
  The part of Rust's \<open>str\<close> that the program uses. A \<open>String\<close> is modelled by the list of its UTF-8
  bytes (a HOL \<^typ>\<open>char\<close> is a byte), which is what Rust stores. Whitespace is ASCII whitespace:
  the multi-byte Unicode spaces that Rust's \<open>char::is_whitespace\<close> also accepts are not treated as
  separators. \<open>to_lowercase\<close> is likewise the ASCII part.
\<close>

abbreviation LF :: char where "LF \<equiv> CHR 0x0A"
abbreviation CR :: char where "CR \<equiv> CHR 0x0D"
abbreviation TAB :: char where "TAB \<equiv> CHR 0x09"
abbreviation SP :: char where "SP \<equiv> CHR 0x20"
abbreviation DQ :: char where "DQ \<equiv> CHR 0x22"
abbreviation SQ :: char where "SQ \<equiv> CHR 0x27"
abbreviation BSLASH :: char where "BSLASH \<equiv> CHR 0x5C"
abbreviation BTICK :: char where "BTICK \<equiv> CHR 0x60"

section \<open>Characters\<close>

definition is_ws :: "char \<Rightarrow> bool" where
  "is_ws c \<longleftrightarrow> c = SP \<or> c = TAB \<or> c = LF \<or> c = CR \<or> c = CHR 0x0B \<or> c = CHR 0x0C"

definition ascii_digit :: "char \<Rightarrow> bool" where
  "ascii_digit c \<longleftrightarrow> (let n = (of_char c :: nat) in 48 \<le> n \<and> n \<le> 57)"

definition ascii_hexdigit :: "char \<Rightarrow> bool" where
  "ascii_hexdigit c \<longleftrightarrow> (let n = (of_char c :: nat) in
     48 \<le> n \<and> n \<le> 57 \<or> 65 \<le> n \<and> n \<le> 70 \<or> 97 \<le> n \<and> n \<le> 102)"

definition ascii_alphanumeric :: "char \<Rightarrow> bool" where
  "ascii_alphanumeric c \<longleftrightarrow> (let n = (of_char c :: nat) in
     48 \<le> n \<and> n \<le> 57 \<or> 65 \<le> n \<and> n \<le> 90 \<or> 97 \<le> n \<and> n \<le> 122)"

definition ascii_lower :: "char \<Rightarrow> char" where
  "ascii_lower c = (let n = (of_char c :: nat) in
     if 65 \<le> n \<and> n \<le> 90 then char_of (n + 32) else c)"

definition to_lower :: "string \<Rightarrow> string" where
  "to_lower s = map ascii_lower s"

definition eq_ignore_case :: "string \<Rightarrow> string \<Rightarrow> bool" where
  "eq_ignore_case s t \<longleftrightarrow> to_lower s = to_lower t"

lemma eq_ignore_case_refl [simp]: "eq_ignore_case s s"
  by (simp add: eq_ignore_case_def)

lemma eq_ignore_case_sym: "eq_ignore_case s t \<Longrightarrow> eq_ignore_case t s"
  by (simp add: eq_ignore_case_def)

text \<open>The separators the writers handle are neither digits nor letters.\<close>

lemma is_ws_separators [simp]: "is_ws SP" "is_ws LF" "is_ws CR" "is_ws TAB"
  by (simp_all add: is_ws_def)

lemma hexdigit_not_ws: "ascii_hexdigit c \<Longrightarrow> \<not> is_ws c"
  by (auto simp: ascii_hexdigit_def is_ws_def Let_def)

lemma alphanumeric_not_ws: "ascii_alphanumeric c \<Longrightarrow> \<not> is_ws c"
  by (auto simp: ascii_alphanumeric_def is_ws_def Let_def)

section \<open>Trimming, searching, joining\<close>

definition trim_start :: "string \<Rightarrow> string" where
  "trim_start s = dropWhile is_ws s"

definition trim_end :: "string \<Rightarrow> string" where
  "trim_end s = rev (dropWhile is_ws (rev s))"

definition trim :: "string \<Rightarrow> string" where
  "trim s = trim_end (trim_start s)"

fun starts_with :: "string \<Rightarrow> string \<Rightarrow> bool" where
  "starts_with [] s = True"
| "starts_with (p # ps) [] = False"
| "starts_with (p # ps) (c # cs) = (p = c \<and> starts_with ps cs)"

definition ends_with :: "string \<Rightarrow> string \<Rightarrow> bool" where
  "ends_with p s = starts_with (rev p) (rev s)"

fun contains_str :: "string \<Rightarrow> string \<Rightarrow> bool" where
  "contains_str p [] = (p = [])"
| "contains_str p (c # cs) = (starts_with p (c # cs) \<or> contains_str p cs)"

text \<open>\<open>s.find(c)\<close> with the two slices around it: the text before the first \<open>c\<close> and the text after.\<close>

fun split_once :: "char \<Rightarrow> string \<Rightarrow> (string \<times> string) option" where
  "split_once c [] = None"
| "split_once c (x # xs) =
     (if x = c then Some ([], xs)
      else case split_once c xs of None \<Rightarrow> None | Some (a, b) \<Rightarrow> Some (x # a, b))"

fun str_join :: "string \<Rightarrow> string list \<Rightarrow> string" where
  "str_join sep [] = []"
| "str_join sep [x] = x"
| "str_join sep (x # y # xs) = x @ sep @ str_join sep (y # xs)"

text \<open>\<open>str::lines\<close>: split after each line feed, drop one carriage return before it.\<close>

fun str_lines :: "string \<Rightarrow> string list" where
  "str_lines [] = []"
| "str_lines (c # cs) =
     (if c = LF then [] # str_lines cs
      else if c = CR \<and> (case cs of d # _ \<Rightarrow> d = LF | [] \<Rightarrow> False) then str_lines cs
      else (case str_lines cs of [] \<Rightarrow> [[c]] | l # ls \<Rightarrow> (c # l) # ls))"

fun split_ws :: "string \<Rightarrow> string list" where
  "split_ws [] = []"
| "split_ws (c # cs) =
     (if is_ws c then split_ws cs
      else if (case cs of d # _ \<Rightarrow> is_ws d | [] \<Rightarrow> True) then [c] # split_ws cs
      else (case split_ws cs of [] \<Rightarrow> [[c]] | w # ws \<Rightarrow> (c # w) # ws))"

fun show_nat :: "nat \<Rightarrow> string" where
  "show_nat n = (if n < 10 then [char_of (48 + n)]
                 else show_nat (n div 10) @ [char_of (48 + n mod 10)])"

declare show_nat.simps [simp del]

text \<open>\<open>str::parse\<close> for an unsigned type of the given exclusive bound: an optional plus sign, then digits.\<close>

fun digits_value :: "nat \<Rightarrow> string \<Rightarrow> nat option" where
  "digits_value n [] = Some n"
| "digits_value n (c # cs) =
     (if ascii_digit c then digits_value (10 * n + (of_char c - 48)) cs else None)"

definition parse_uint :: "nat \<Rightarrow> string \<Rightarrow> nat option" where
  "parse_uint bound s =
     (let ds = (case s of c # cs \<Rightarrow> if c = CHR ''+'' then cs else s | [] \<Rightarrow> s)
      in if ds = [] then None
         else (case digits_value 0 ds of None \<Rightarrow> None
               | Some n \<Rightarrow> if n < bound then Some n else None))"

section \<open>Laws of the searches\<close>

lemma starts_with_iff: "starts_with p s \<longleftrightarrow> (\<exists>r. s = p @ r)"
  by (induction p s rule: starts_with.induct) auto

lemma starts_with_append [simp]: "starts_with p (p @ r)"
  by (simp add: starts_with_iff)

lemma ends_with_iff: "ends_with p s \<longleftrightarrow> (\<exists>r. s = r @ p)"
  unfolding ends_with_def starts_with_iff
  by (metis append_is_Nil_conv rev_append rev_rev_ident)

lemma ends_with_append [simp]: "ends_with p (r @ p)"
  by (auto simp: ends_with_iff)

lemma contains_str_iff: "contains_str p s \<longleftrightarrow> (\<exists>a b. s = a @ p @ b)"
proof (induction s)
  case Nil
  show ?case by auto
next
  case (Cons c cs)
  show ?case
  proof
    assume "contains_str p (c # cs)"
    then consider "starts_with p (c # cs)" | "contains_str p cs" by auto
    then show "\<exists>a b. c # cs = a @ p @ b"
    proof cases
      case 1
      then show ?thesis by (metis append_Nil starts_with_iff)
    next
      case 2
      then show ?thesis using Cons.IH by (metis append_Cons)
    qed
  next
    assume "\<exists>a b. c # cs = a @ p @ b"
    then obtain a b where ab: "c # cs = a @ p @ b" by blast
    show "contains_str p (c # cs)"
    proof (cases a)
      case Nil
      then have "starts_with p (c # cs)" using ab by (auto simp: starts_with_iff)
      then show ?thesis by simp
    next
      case (Cons x xs)
      then have "contains_str p cs" using ab Cons.IH by auto
      then show ?thesis by simp
    qed
  qed
qed

lemma contains_str_mid [simp]: "contains_str p (a @ p @ b)"
  by (auto simp: contains_str_iff)

lemma split_once_append [simp]: "c \<notin> set a \<Longrightarrow> split_once c (a @ c # b) = Some (a, b)"
  by (induction a) auto

lemma split_once_SomeD: "split_once c s = Some (a, b) \<Longrightarrow> s = a @ c # b \<and> c \<notin> set a"
proof (induction s arbitrary: a)
  case Nil
  then show ?case by simp
next
  case (Cons x xs)
  then show ?case by (auto split: if_splits option.splits)
qed

lemma split_once_Some:
  "split_once c s = Some (a, b) \<longleftrightarrow> s = a @ c # b \<and> c \<notin> set a"
  using split_once_SomeD split_once_append by blast

lemma split_once_None: "split_once c s = None \<longleftrightarrow> c \<notin> set s"
  by (induction s) (auto split: option.splits)

lemma trim_start_nows [simp]: "s \<noteq> [] \<Longrightarrow> \<not> is_ws (hd s) \<Longrightarrow> trim_start s = s"
  by (cases s) (simp_all add: trim_start_def)

lemma set_trim_start: "set (trim_start s) \<subseteq> set s"
  by (auto simp: trim_start_def dest: set_dropWhileD)

lemma trim_noop: "(\<forall>c \<in> set s. \<not> is_ws c) \<Longrightarrow> trim s = s"
proof -
  assume nows: "\<forall>c \<in> set s. \<not> is_ws c"
  then have 1: "trim_start s = s" by (cases s) (auto simp: trim_start_def)
  have "dropWhile is_ws (rev s) = rev s"
    using nows hd_in_set [of "rev s"] by (auto simp: dropWhile_eq_self_iff)
  then show ?thesis by (simp add: trim_def trim_end_def 1)
qed

section \<open>Tokens\<close>

text \<open>A token: not empty, no whitespace. \<open>split_ws\<close> yields tokens, and inverts joining by a space.\<close>

definition is_token :: "string \<Rightarrow> bool" where
  "is_token w \<longleftrightarrow> w \<noteq> [] \<and> (\<forall>c \<in> set w. \<not> is_ws c)"

lemma is_token_Cons: "is_token (c # cs) \<longleftrightarrow> \<not> is_ws c \<and> (cs = [] \<or> is_token cs)"
  by (auto simp: is_token_def)

lemma split_ws_Cons_ws: "is_ws c \<Longrightarrow> split_ws (c # cs) = split_ws cs"
  by simp

lemma split_ws_Cons_end:
  "\<not> is_ws c \<Longrightarrow> (case cs of d # _ \<Rightarrow> is_ws d | [] \<Rightarrow> True) \<Longrightarrow> split_ws (c # cs) = [c] # split_ws cs"
  by simp

lemma split_ws_Cons_mid:
  "\<not> is_ws c \<Longrightarrow> \<not> (case cs of d # _ \<Rightarrow> is_ws d | [] \<Rightarrow> True) \<Longrightarrow>
   split_ws (c # cs) = (case split_ws cs of [] \<Rightarrow> [[c]] | w # ws \<Rightarrow> (c # w) # ws)"
  by simp

lemmas split_ws_cases = split_ws_Cons_ws split_ws_Cons_end split_ws_Cons_mid

declare split_ws.simps(2) [simp del]

lemma split_ws_tokens: "\<forall>w \<in> set (split_ws s). is_token w"
proof (induction s)
  case Nil
  show ?case by simp
next
  case (Cons c cs)
  consider "is_ws c" | "\<not> is_ws c" "case cs of d # _ \<Rightarrow> is_ws d | [] \<Rightarrow> True"
    | "\<not> is_ws c" "\<not> (case cs of d # _ \<Rightarrow> is_ws d | [] \<Rightarrow> True)" by blast
  then show ?case
  proof cases
    case 1
    then show ?thesis using Cons.IH by (simp add: split_ws_Cons_ws)
  next
    case 2
    then show ?thesis using Cons.IH by (simp add: split_ws_Cons_end is_token_Cons)
  next
    case 3
    then show ?thesis using Cons.IH
      by (cases "split_ws cs") (simp_all add: split_ws_Cons_mid is_token_Cons)
  qed
qed

lemma split_ws_token_then:
  "is_token w \<Longrightarrow> (case r of d # _ \<Rightarrow> is_ws d | [] \<Rightarrow> True) \<Longrightarrow> split_ws (w @ r) = w # split_ws r"
proof (induction w)
  case Nil
  then show ?case by (simp add: is_token_def)
next
  case (Cons c cs)
  have c: "\<not> is_ws c" using Cons.prems(1) by (simp add: is_token_Cons)
  show ?case
  proof (cases cs)
    case Nil
    then show ?thesis using c Cons.prems(2) by (simp add: split_ws_Cons_end)
  next
    case (Cons d ds)
    then have t: "is_token cs" using Cons.prems(1) by (simp add: is_token_Cons)
    have d: "\<not> is_ws d" using t Cons by (simp add: is_token_Cons)
    have "split_ws (cs @ r) = cs # split_ws r" by (rule Cons.IH [OF t Cons.prems(2)])
    then show ?thesis using c d Cons by (simp add: split_ws_Cons_mid)
  qed
qed

lemma split_ws_token: "is_token w \<Longrightarrow> split_ws w = [w]"
  using split_ws_token_then [of w "[]"] by simp

lemma split_ws_join:
  "\<forall>w \<in> set ws. is_token w \<Longrightarrow> split_ws (str_join [SP] ws) = ws"
proof (induction ws rule: induct_list012)
  case 1
  show ?case by simp
next
  case (2 x)
  then show ?case by (simp add: split_ws_token)
next
  case (3 x y zs)
  then have "split_ws (x @ [SP] @ str_join [SP] (y # zs)) =
      x # split_ws ([SP] @ str_join [SP] (y # zs))"
    by (intro split_ws_token_then) simp_all
  also have "\<dots> = x # y # zs" using 3 by (simp add: split_ws_Cons_ws)
  finally show ?case by simp
qed

lemma split_ws_idem: "split_ws (str_join [SP] (split_ws s)) = split_ws s"
  by (rule split_ws_join) (rule split_ws_tokens)

lemma set_str_join: "set (str_join sep xs) \<subseteq> \<Union> (set ` set xs) \<union> set sep"
  by (induction sep xs rule: str_join.induct) auto

lemma set_str_joinD: "c \<in> set (str_join sep xs) \<Longrightarrow> (\<exists>x \<in> set xs. c \<in> set x) \<or> c \<in> set sep"
  using set_str_join by fastforce

lemma str_join_append:
  "xs \<noteq> [] \<Longrightarrow> ys \<noteq> [] \<Longrightarrow> str_join sep (xs @ ys) = str_join sep xs @ sep @ str_join sep ys"
proof (induction sep xs rule: str_join.induct)
  case (2 sep x)
  then show ?case by (cases ys) simp_all
qed simp_all

lemma split_ws_subset: "w \<in> set (split_ws s) \<Longrightarrow> set w \<subseteq> set s"
proof (induction s arbitrary: w)
  case Nil
  then show ?case by simp
next
  case (Cons c cs)
  consider "is_ws c" | "\<not> is_ws c" "case cs of d # _ \<Rightarrow> is_ws d | [] \<Rightarrow> True"
    | "\<not> is_ws c" "\<not> (case cs of d # _ \<Rightarrow> is_ws d | [] \<Rightarrow> True)" by blast
  then show ?case
  proof cases
    case 1
    then show ?thesis using Cons by (auto simp: split_ws_Cons_ws)
  next
    case 2
    then show ?thesis using Cons by (auto simp: split_ws_Cons_end)
  next
    case 3
    then show ?thesis using Cons
      by (cases "split_ws cs") (fastforce simp: split_ws_Cons_mid)+
  qed
qed

end
