(* ===== verification/Rust_Lines.thy ===== *)
theory Rust_Lines
  imports Rust_Strings
begin

text \<open>
  Laws of \<open>str::lines\<close> and of joining lines again, and the strict and lossy readings of bytes as
  UTF-8 text (\<open>String::from_utf8\<close>, \<open>String::from_utf8_lossy\<close>).
\<close>

section \<open>Lines\<close>

text \<open>A clean line holds no line terminator; files without carriage returns have clean lines only.\<close>

definition clean_line :: "string \<Rightarrow> bool" where
  "clean_line l \<longleftrightarrow> LF \<notin> set l \<and> CR \<notin> set l"

lemma clean_line_simps [simp]:
  "clean_line []" "clean_line (c # l) \<longleftrightarrow> c \<noteq> LF \<and> c \<noteq> CR \<and> clean_line l"
  "clean_line (l @ m) \<longleftrightarrow> clean_line l \<and> clean_line m"
  by (auto simp: clean_line_def)

lemma str_lines_LF [simp]: "str_lines (LF # cs) = [] # str_lines cs"
  by simp

lemma str_lines_char:
  "c \<noteq> LF \<Longrightarrow> c \<noteq> CR \<Longrightarrow>
   str_lines (c # cs) = (case str_lines cs of [] \<Rightarrow> [[c]] | l # ls \<Rightarrow> (c # l) # ls)"
  by simp

declare str_lines.simps(2) [simp del]

lemma str_lines_line_LF: "clean_line l \<Longrightarrow> str_lines (l @ LF # r) = l # str_lines r"
  by (induction l) (simp_all add: str_lines_char)

lemma str_lines_line: "clean_line l \<Longrightarrow> str_lines l = (if l = [] then [] else [l])"
proof (induction l)
  case Nil
  show ?case by simp
next
  case (Cons c l)
  then show ?case by (cases "l = []") (simp_all add: str_lines_char)
qed

lemma str_lines_join:
  "\<forall>l \<in> set ls. clean_line l \<Longrightarrow> ls \<noteq> [] \<Longrightarrow> last ls \<noteq> [] \<Longrightarrow> str_lines (str_join [LF] ls) = ls"
proof (induction ls rule: induct_list012)
  case 1
  then show ?case by simp
next
  case (2 x)
  then show ?case by (simp add: str_lines_line)
next
  case (3 x y zs)
  then have "str_lines (str_join [LF] (y # zs)) = y # zs" by simp
  then show ?case using 3 by (simp add: str_lines_line_LF)
qed

lemma str_lines_join_LF:
  "\<forall>l \<in> set ls. clean_line l \<Longrightarrow> ls \<noteq> [] \<Longrightarrow> str_lines (str_join [LF] ls @ [LF]) = ls"
proof (induction ls rule: induct_list012)
  case 1
  then show ?case by simp
next
  case (2 x)
  then show ?case using str_lines_line_LF [of x "[]"] by simp
next
  case (3 x y zs)
  then have "str_lines (str_join [LF] (y # zs) @ [LF]) = y # zs" by simp
  then show ?case using 3 by (simp add: str_lines_line_LF)
qed

lemma str_lines_clean: "CR \<notin> set s \<Longrightarrow> \<forall>l \<in> set (str_lines s). clean_line l"
proof (induction s)
  case Nil
  show ?case by simp
next
  case (Cons c cs)
  show ?case
  proof (cases "c = LF")
    case True
    then show ?thesis using Cons by simp
  next
    case False
    moreover have "c \<noteq> CR" "\<forall>l \<in> set (str_lines cs). clean_line l" using Cons by auto
    ultimately show ?thesis
      by (cases "str_lines cs") (simp_all add: str_lines_char)
  qed
qed

lemma str_lines_eq_Nil [simp]: "CR \<notin> set s \<Longrightarrow> str_lines s = [] \<longleftrightarrow> s = []"
proof (cases s)
  case (Cons c cs)
  assume "CR \<notin> set s"
  then show ?thesis using Cons
    by (cases "c = LF") (auto simp: str_lines_char split: list.splits)
qed simp

text \<open>A file is the join of its lines, with one more line feed if it ends in one.\<close>

lemma join_str_lines:
  "CR \<notin> set s \<Longrightarrow> s \<noteq> [] \<Longrightarrow>
   str_join [LF] (str_lines s) @ (if ends_with [LF] s then [LF] else []) = s"
proof (induction s)
  case Nil
  then show ?case by simp
next
  case (Cons c cs)
  show ?case
  proof (cases "cs = []")
    case True
    then show ?thesis using Cons.prems
      by (cases "c = LF") (simp_all add: str_lines_char ends_with_def)
  next
    case False
    have IH: "str_join [LF] (str_lines cs) @ (if ends_with [LF] cs then [LF] else []) = cs"
      using Cons False by simp
    have e: "ends_with [LF] (c # cs) = ends_with [LF] cs"
      using False by (cases "rev cs") (simp_all add: ends_with_def)
    obtain l ls where l: "str_lines cs = l # ls"
      using False Cons.prems by (cases "str_lines cs") auto
    show ?thesis
    proof (cases "c = LF")
      case True
      then show ?thesis using IH e l by simp
    next
      case c: False
      moreover have "c \<noteq> CR" using Cons.prems by auto
      ultimately have sl: "str_lines (c # cs) = (c # l) # ls"
        using l by (simp add: str_lines_char)
      have "str_join [LF] ((c # l) # ls) = c # str_join [LF] (l # ls)"
        by (cases ls) simp_all
      then show ?thesis using IH e l sl by simp
    qed
  qed
qed

text \<open>\<open>writeln!\<close> into a \<open>String\<close>, which cannot fail.\<close>

definition writeln :: "string \<Rightarrow> string" where
  "writeln l = l @ [LF]"

section \<open>UTF-8\<close>

text \<open>
  One step of the decoder: whether the text starts with a well-formed scalar value and its
  length, or how many bytes form the maximal ill-formed prefix (at least one).
\<close>

definition byte_in :: "nat \<Rightarrow> nat \<Rightarrow> char \<Rightarrow> bool" where
  "byte_in lo hi c \<longleftrightarrow> lo \<le> (of_char c :: nat) \<and> (of_char c :: nat) \<le> hi"

definition utf8_second :: "char \<Rightarrow> char \<Rightarrow> bool" where
  "utf8_second b c =
     (if byte_in 224 224 b then byte_in 160 191 c
      else if byte_in 237 237 b then byte_in 128 159 c
      else if byte_in 240 240 b then byte_in 144 191 c
      else if byte_in 244 244 b then byte_in 128 143 c
      else byte_in 128 191 c)"

fun utf8_step :: "string \<Rightarrow> bool \<times> nat" where
  "utf8_step [] = (True, 1)"
| "utf8_step (b # r) =
     (if byte_in 0 127 b then (True, 1)
      else if byte_in 194 223 b then
        (case r of c # _ \<Rightarrow> if byte_in 128 191 c then (True, 2) else (False, 1) | [] \<Rightarrow> (False, 1))
      else if byte_in 224 239 b then
        (case r of c # r2 \<Rightarrow>
           if \<not> utf8_second b c then (False, 1)
           else (case r2 of d # _ \<Rightarrow> if byte_in 128 191 d then (True, 3) else (False, 2)
                 | [] \<Rightarrow> (False, 2))
         | [] \<Rightarrow> (False, 1))
      else if byte_in 240 244 b then
        (case r of c # r2 \<Rightarrow>
           if \<not> utf8_second b c then (False, 1)
           else (case r2 of d # r3 \<Rightarrow>
                   if \<not> byte_in 128 191 d then (False, 2)
                   else (case r3 of e # _ \<Rightarrow> if byte_in 128 191 e then (True, 4) else (False, 3)
                         | [] \<Rightarrow> (False, 3))
                 | [] \<Rightarrow> (False, 2))
         | [] \<Rightarrow> (False, 1))
      else (False, 1))"

lemma utf8_step_pos [simp]: "0 < snd (utf8_step s)"
  by (cases s) (simp_all split: list.splits)

lemma utf8_drop_less: "s \<noteq> [] \<Longrightarrow> length (drop (snd (utf8_step s)) s) < length s"
  using utf8_step_pos [of s] length_greater_0_conv [of s] by (simp only: length_drop) arith

function valid_utf8 :: "string \<Rightarrow> bool" where
  "valid_utf8 s =
     (if s = [] then True
      else if fst (utf8_step s) then valid_utf8 (drop (snd (utf8_step s)) s) else False)"
  by pat_completeness auto
termination
  by (relation "measure length") (auto intro: utf8_drop_less simp del: length_drop)

declare valid_utf8.simps [simp del]

text \<open>U+FFFD, the replacement character, in UTF-8.\<close>

definition replacement_char :: string where
  "replacement_char = [CHR 0xEF, CHR 0xBF, CHR 0xBD]"

function from_utf8_lossy :: "string \<Rightarrow> string" where
  "from_utf8_lossy s =
     (if s = [] then []
      else (if fst (utf8_step s) then take (snd (utf8_step s)) s else replacement_char)
           @ from_utf8_lossy (drop (snd (utf8_step s)) s))"
  by pat_completeness auto
termination
  by (relation "measure length") (auto intro: utf8_drop_less simp del: length_drop)

declare from_utf8_lossy.simps [simp del]

definition from_utf8 :: "string \<Rightarrow> string option" where
  "from_utf8 s = (if valid_utf8 s then Some s else None)"

lemma from_utf8_Some [simp]: "valid_utf8 s \<Longrightarrow> from_utf8 s = Some s"
  by (simp add: from_utf8_def)

lemma valid_utf8_Nil [simp]: "valid_utf8 []"
  by (simp add: valid_utf8.simps)

lemma lossy_valid: "valid_utf8 s \<Longrightarrow> from_utf8_lossy s = s"
proof (induction "length s" arbitrary: s rule: less_induct)
  case (less s)
  show ?case
  proof (cases "s = []")
    case True
    then show ?thesis by (simp add: from_utf8_lossy.simps)
  next
    case False
    then have "fst (utf8_step s)" "valid_utf8 (drop (snd (utf8_step s)) s)"
      using less.prems valid_utf8.simps [of s] by (auto split: if_splits)
    then show ?thesis
      using less.hyps [OF utf8_drop_less [OF False]] False
      by (simp add: from_utf8_lossy.simps [of s])
  qed
qed

lemma valid_utf8_ascii: "\<forall>c \<in> set s. byte_in 0 127 c \<Longrightarrow> valid_utf8 s"
proof (induction s)
  case (Cons c s)
  then show ?case by (subst valid_utf8.simps) simp
qed simp

end
