(* ===== verification/Rust_Paths.thy ===== *)
theory Rust_Paths
  imports Rust_Strings
begin

text \<open>
  \<open>std::path::Path\<close> as the program uses it: absolute or relative, and a list of components.
  Rust compares paths by components, so two spellings of a path (doubled or trailing slashes,
  inner \<open>.\<close>) are one value here; \<open>path_display\<close> is its normalised spelling. \<open>..\<close> is an ordinary
  component, as in Rust: nothing is resolved against the disk.
\<close>

datatype path = Path (is_absolute: bool) (components: "string list")

fun split_char :: "char \<Rightarrow> string \<Rightarrow> string list" where
  "split_char c [] = [[]]"
| "split_char c (x # xs) =
     (if x = c then [] # split_char c xs
      else (case split_char c xs of [] \<Rightarrow> [[x]] | w # ws \<Rightarrow> (x # w) # ws))"

definition path_of :: "string \<Rightarrow> path" where
  "path_of s =
     (let abs = starts_with ''/'' s; ps = split_char (CHR ''/'') s;
          cs = filter (\<lambda>p. p \<noteq> [] \<and> p \<noteq> ''.'') ps
      in if \<not> abs \<and> hd ps = ''.'' then Path False (''.'' # cs) else Path abs cs)"

definition path_display :: "path \<Rightarrow> string" where
  "path_display p = (if is_absolute p then [CHR ''/''] else []) @ str_join ''/'' (components p)"

definition path_is_empty :: "path \<Rightarrow> bool" where
  "path_is_empty p \<longleftrightarrow> \<not> is_absolute p \<and> components p = []"

definition path_join :: "path \<Rightarrow> path \<Rightarrow> path" where
  "path_join p q =
     (if is_absolute q then q
      else Path (is_absolute p)
        (components p @ (if path_is_empty p then components q
                         else filter (\<lambda>c. c \<noteq> ''.'') (components q))))"

text \<open>\<open>base.join("name")\<close> with a string on the right.\<close>

definition path_push :: "path \<Rightarrow> string \<Rightarrow> path" where
  "path_push p s = path_join p (path_of s)"

definition path_parent :: "path \<Rightarrow> path option" where
  "path_parent p =
     (if components p = [] then None else Some (Path (is_absolute p) (butlast (components p))))"

definition path_file_name :: "path \<Rightarrow> string option" where
  "path_file_name p =
     (if components p = [] then None
      else let l = last (components p) in if l = ''..'' \<or> l = ''.'' then None else Some l)"

text \<open>\<open>Path::extension\<close>: the part of the file name after its last dot, unless the dot is first.\<close>

definition path_extension :: "path \<Rightarrow> string option" where
  "path_extension p =
     (case path_file_name p of None \<Rightarrow> None
      | Some f \<Rightarrow>
          (case split_once (CHR ''.'') (rev f) of None \<Rightarrow> None
           | Some (ext, stem) \<Rightarrow> if stem = [] then None else Some (rev ext)))"

lemma path_eq_iff: "p = q \<longleftrightarrow> is_absolute p = is_absolute q \<and> components p = components q"
  by (cases p; cases q) auto

text \<open>A file name with no separator and no dot-only spelling is one component.\<close>

definition plain_name :: "string \<Rightarrow> bool" where
  "plain_name s \<longleftrightarrow> s \<noteq> [] \<and> s \<noteq> ''.'' \<and> CHR ''/'' \<notin> set s"

lemma split_char_none: "c \<notin> set s \<Longrightarrow> split_char c s = [s]"
  by (induction s) auto

lemma split_char_append: "c \<notin> set x \<Longrightarrow> split_char c (x @ c # y) = x # split_char c y"
  by (induction x) auto

lemma split_char_join:
  "xs \<noteq> [] \<Longrightarrow> \<forall>x \<in> set xs. c \<notin> set x \<Longrightarrow> split_char c (str_join [c] xs) = xs"
  by (induction xs rule: induct_list012) (simp_all add: split_char_none split_char_append)

lemma path_of_plain: "plain_name s \<Longrightarrow> path_of s = Path False [s]"
proof -
  assume p: "plain_name s"
  then have "split_char (CHR ''/'') s = [s]" by (simp add: plain_name_def split_char_none)
  moreover have "\<not> starts_with ''/'' s"
    using p by (cases s) (auto simp: plain_name_def)
  ultimately show ?thesis using p by (simp add: path_of_def plain_name_def)
qed

lemma path_push_plain:
  "plain_name s \<Longrightarrow> path_push p s = Path (is_absolute p) (components p @ [s])"
  by (simp add: path_push_def path_of_plain path_join_def plain_name_def)

lemma path_push_plain_inject:
  "plain_name s \<Longrightarrow> plain_name t \<Longrightarrow> path_push p s = path_push q t \<longleftrightarrow> p = q \<and> s = t"
  by (auto simp: path_push_plain path_eq_iff)

lemma path_parent_push: "plain_name s \<Longrightarrow> path_parent (path_push p s) = Some p"
  by (simp add: path_push_plain path_parent_def path_eq_iff)

lemma path_push_not_empty: "plain_name s \<Longrightarrow> \<not> path_is_empty (path_push p s)"
  by (simp add: path_push_plain path_is_empty_def)

text \<open>\<open>a/b\<close> starts with \<open>a\<close>: being below a directory, by components.\<close>

definition path_under :: "path \<Rightarrow> path \<Rightarrow> bool" where
  "path_under d p \<longleftrightarrow> is_absolute d = is_absolute p \<and> (\<exists>r. components p = components d @ r)"

lemma path_under_refl [simp]: "path_under d d"
  by (simp add: path_under_def)

lemma path_under_push: "plain_name s \<Longrightarrow> path_under d p \<Longrightarrow> path_under d (path_push p s)"
  by (auto simp: path_under_def path_push_plain)

lemma path_under_join: "\<not> is_absolute q \<Longrightarrow> path_under d p \<Longrightarrow> path_under d (path_join p q)"
  by (auto simp: path_under_def path_join_def)

text \<open>The chain of a path and its parents, up to the root or to the empty relative path.\<close>

function path_chain :: "path \<Rightarrow> path list" where
  "path_chain p =
     (if path_is_empty p then []
      else p # (case path_parent p of None \<Rightarrow> [] | Some d \<Rightarrow> path_chain d))"
  by pat_completeness auto
termination
  by (relation "measure (\<lambda>p. length (components p))")
    (auto simp: path_parent_def split: if_splits)

declare path_chain.simps [simp del]

lemma path_chain_mem:
  "q \<in> set (path_chain p) \<longleftrightarrow>
     \<not> path_is_empty p \<and> (q = p \<or> (\<exists>d. path_parent p = Some d \<and> q \<in> set (path_chain d)))"
  by (subst path_chain.simps) (auto split: option.splits)

lemma path_chain_self: "\<not> path_is_empty p \<Longrightarrow> p \<in> set (path_chain p)"
  by (subst path_chain_mem) simp

lemma path_chain_parent:
  "path_parent p = Some d \<Longrightarrow> \<not> path_is_empty p \<Longrightarrow> set (path_chain d) \<subseteq> set (path_chain p)"
  by (auto simp: path_chain_mem [of _ p])

lemma path_chain_no_empty: "q \<in> set (path_chain p) \<Longrightarrow> \<not> path_is_empty q"
proof (induction p rule: path_chain.induct)
  case (1 p)
  then show ?case using path_chain_mem [of q p] by auto
qed

lemma path_chain_trans: "q \<in> set (path_chain p) \<Longrightarrow> set (path_chain q) \<subseteq> set (path_chain p)"
proof (induction p arbitrary: q rule: path_chain.induct)
  case (1 p)
  show ?case
  proof (cases "q = p")
    case False
    then obtain d where ne: "\<not> path_is_empty p" and d: "path_parent p = Some d"
      and q: "q \<in> set (path_chain d)"
      using "1.prems" path_chain_mem [of q p] by auto
    show ?thesis using "1.IH" [OF ne d q] path_chain_parent [OF d ne] by blast
  qed simp
qed

end
