(* ===== verification/File_System.thy ===== *)
theory File_System
  imports Rust_Paths
begin

text \<open>
  \<open>snapshot/fs.rs\<close>: the \<open>FileSystem\<close> trait as a record of operations, the interface laws its
  clients rely on as a locale, and \<open>MemoryFileSystem\<close>, which satisfies them. Functions of the
  code that take \<open>&impl FileSystem\<close> take the record here. The \<open>Mutex\<close> of the memory file system
  cannot be poisoned in a single-threaded run, so the poisoned branches are not modelled.
\<close>

section \<open>The trait\<close>

datatype error_kind = NotFound | InvalidInput | InvalidData | OtherError

datatype io_error = IoError (io_kind: error_kind) (io_message: string)

record 'fs file_system =
  fs_read :: "path \<Rightarrow> 'fs \<Rightarrow> io_error + string"
  fs_write_atomic :: "path \<Rightarrow> string \<Rightarrow> ('fs, io_error, unit) io"
  fs_copy :: "path \<Rightarrow> path \<Rightarrow> ('fs, io_error, unit) io"
  fs_exists :: "path \<Rightarrow> 'fs \<Rightarrow> bool"
  fs_create_dir_all :: "path \<Rightarrow> ('fs, io_error, unit) io"
  fs_remove_file :: "path \<Rightarrow> ('fs, io_error, unit) io"
  fs_set_executable :: "path \<Rightarrow> ('fs, io_error, unit) io"
  fs_is_executable :: "path \<Rightarrow> 'fs \<Rightarrow> bool"

text \<open>What a client can observe of the files: the contents it can read.\<close>

definition fs_content :: "'fs file_system \<Rightarrow> 'fs \<Rightarrow> path \<Rightarrow> string option" where
  "fs_content F s p = (case fs_read F p s of Inl _ \<Rightarrow> None | Inr c \<Rightarrow> Some c)"

lemma fs_content_read: "fs_content F s p = Some c \<longleftrightarrow> fs_read F p s = Inr c"
  by (simp add: fs_content_def split: sum.splits)

lemma fs_content_read_err: "fs_content F s p = None \<longleftrightarrow> (\<exists>e. fs_read F p s = Inl e)"
  by (simp add: fs_content_def split: sum.splits)

text \<open>
  The contract: a successful write installs exactly its content and nothing else, a failed
  operation leaves every file as it was (a write is all or nothing), directories and mode bits do
  not show in the contents, and a readable file exists.
\<close>

locale file_system_laws =
  fixes F :: "'fs file_system"
  assumes write_ok:
      "fs_write_atomic F p c s = (Inr u, s') \<Longrightarrow> fs_content F s' = (fs_content F s)(p \<mapsto> c)"
    and write_err:
      "fs_write_atomic F p c s = (Inl e, s') \<Longrightarrow> fs_content F s' = fs_content F s"
    and mkdir_content:
      "fs_create_dir_all F p s = (r, s') \<Longrightarrow> fs_content F s' = fs_content F s"
    and remove_ok:
      "fs_remove_file F p s = (Inr u, s') \<Longrightarrow> fs_content F s' = (fs_content F s)(p := None)"
    and remove_err:
      "fs_remove_file F p s = (Inl e, s') \<Longrightarrow> fs_content F s' = fs_content F s"
    and chmod_content:
      "fs_set_executable F p s = (r, s') \<Longrightarrow> fs_content F s' = fs_content F s"
    and content_exists:
      "fs_content F s p = Some c \<Longrightarrow> fs_exists F p s"
begin

lemma read_content: "fs_read F p s = Inr c \<Longrightarrow> fs_content F s p = Some c"
  by (simp add: fs_content_read)

lemma write_frame:
  "fs_write_atomic F p c s = (r, s') \<Longrightarrow> q \<noteq> p \<Longrightarrow> fs_content F s' q = fs_content F s q"
  by (cases r) (auto dest: write_ok write_err)

lemma remove_frame:
  "fs_remove_file F p s = (r, s') \<Longrightarrow> q \<noteq> p \<Longrightarrow> fs_content F s' q = fs_content F s q"
  by (cases r) (auto dest: remove_ok remove_err)

text \<open>The laws as Hoare triples over the contents.\<close>

lemma triple_write:
  "triple (\<lambda>s. P ((fs_content F s)(p \<mapsto> c)) \<and> E (fs_content F s))
     (fs_write_atomic F p c) (\<lambda>_ s. P (fs_content F s)) (\<lambda>_ s. E (fs_content F s))"
  by (rule tripleI) (auto dest: write_ok write_err)

lemma triple_mkdir:
  "triple (\<lambda>s. P (fs_content F s)) (fs_create_dir_all F p)
     (\<lambda>_ s. P (fs_content F s)) (\<lambda>_ s. P (fs_content F s))"
  by (rule tripleI) (auto dest: mkdir_content)

lemma triple_remove:
  "triple (\<lambda>s. P ((fs_content F s)(p := None)) \<and> E (fs_content F s))
     (fs_remove_file F p) (\<lambda>_ s. P (fs_content F s)) (\<lambda>_ s. E (fs_content F s))"
  by (rule tripleI) (auto dest: remove_ok remove_err)

lemma triple_chmod:
  "triple (\<lambda>s. P (fs_content F s)) (fs_set_executable F p)
     (\<lambda>_ s. P (fs_content F s)) (\<lambda>_ s. P (fs_content F s))"
  by (rule tripleI) (auto dest: chmod_content)

lemma absent_not_content: "\<not> fs_exists F p s \<Longrightarrow> fs_content F s p = None"
  using content_exists by (metis not_None_eq)

end

section \<open>\<open>MemoryFileSystem\<close>\<close>

record mem_fs =
  mem_files :: "path \<rightharpoonup> string"
  mem_dirs :: "path set"
  mem_exec :: "path set"

definition mem_empty :: mem_fs where
  "mem_empty = \<lparr>mem_files = Map.empty, mem_dirs = {}, mem_exec = {}\<rparr>"

text \<open>The parent check of \<open>write_atomic\<close> and \<open>copy\<close>.\<close>

definition parent_missing :: "mem_fs \<Rightarrow> path \<Rightarrow> bool" where
  "parent_missing s p =
     (case path_parent p of None \<Rightarrow> False | Some d \<Rightarrow> \<not> path_is_empty d \<and> d \<notin> mem_dirs s)"

definition mem_read :: "path \<Rightarrow> mem_fs \<Rightarrow> io_error + string" where
  "mem_read p s =
     (case mem_files s p of Some c \<Rightarrow> Inr c
      | None \<Rightarrow> Inl (IoError NotFound (''memory fs: no file at '' @ path_display p)))"

definition mem_write_atomic :: "path \<Rightarrow> string \<Rightarrow> (mem_fs, io_error, unit) io" where
  "mem_write_atomic p c s =
     (if parent_missing s p
      then (Inl (IoError NotFound (''memory fs: parent dir missing for '' @ path_display p)), s)
      else (Inr (), s\<lparr>mem_files := (mem_files s)(p \<mapsto> c)\<rparr>))"

definition mem_copy :: "path \<Rightarrow> path \<Rightarrow> (mem_fs, io_error, unit) io" where
  "mem_copy src dst s =
     (case mem_files s src of
        None \<Rightarrow> (Inl (IoError NotFound
                   (''memory fs: source missing for copy: '' @ path_display src)), s)
      | Some c \<Rightarrow>
          if parent_missing s dst
          then (Inl (IoError NotFound (''memory fs: parent dir missing for '' @ path_display dst)), s)
          else (Inr (), s\<lparr>mem_files := (mem_files s)(dst \<mapsto> c)\<rparr>))"

definition mem_exists :: "path \<Rightarrow> mem_fs \<Rightarrow> bool" where
  "mem_exists p s \<longleftrightarrow> mem_files s p \<noteq> None \<or> p \<in> mem_dirs s"

definition mem_create_dir_all :: "path \<Rightarrow> (mem_fs, io_error, unit) io" where
  "mem_create_dir_all p s = (Inr (), s\<lparr>mem_dirs := mem_dirs s \<union> set (path_chain p)\<rparr>)"

definition mem_remove_file :: "path \<Rightarrow> (mem_fs, io_error, unit) io" where
  "mem_remove_file p s =
     (case mem_files s p of
        None \<Rightarrow> (Inl (IoError NotFound (''memory fs: no file at '' @ path_display p)), s)
      | Some _ \<Rightarrow>
          (Inr (), s\<lparr>mem_files := (mem_files s)(p := None), mem_exec := mem_exec s - {p}\<rparr>))"

definition mem_set_executable :: "path \<Rightarrow> (mem_fs, io_error, unit) io" where
  "mem_set_executable p s =
     (case mem_files s p of
        None \<Rightarrow> (Inl (IoError NotFound
                   (''memory fs: cannot mark missing file executable: '' @ path_display p)), s)
      | Some _ \<Rightarrow> (Inr (), s\<lparr>mem_exec := insert p (mem_exec s)\<rparr>))"

definition mem_is_executable :: "path \<Rightarrow> mem_fs \<Rightarrow> bool" where
  "mem_is_executable p s \<longleftrightarrow> p \<in> mem_exec s"

definition mem_seed_file :: "path \<Rightarrow> string \<Rightarrow> mem_fs \<Rightarrow> mem_fs" where
  "mem_seed_file p c s =
     s\<lparr>mem_files := (mem_files s)(p \<mapsto> c),
       mem_dirs := mem_dirs s \<union>
         (case path_parent p of None \<Rightarrow> {} | Some d \<Rightarrow> set (path_chain d))\<rparr>"

definition mem_ops :: "mem_fs file_system" where
  "mem_ops =
     \<lparr>fs_read = mem_read, fs_write_atomic = mem_write_atomic, fs_copy = mem_copy,
      fs_exists = mem_exists, fs_create_dir_all = mem_create_dir_all,
      fs_remove_file = mem_remove_file, fs_set_executable = mem_set_executable,
      fs_is_executable = mem_is_executable\<rparr>"

lemma mem_ops_simps [simp]:
  "fs_read mem_ops = mem_read" "fs_write_atomic mem_ops = mem_write_atomic"
  "fs_copy mem_ops = mem_copy" "fs_exists mem_ops = mem_exists"
  "fs_create_dir_all mem_ops = mem_create_dir_all" "fs_remove_file mem_ops = mem_remove_file"
  "fs_set_executable mem_ops = mem_set_executable"
  "fs_is_executable mem_ops = mem_is_executable"
  by (simp_all add: mem_ops_def)

lemmas mem_op_defs =
  mem_read_def mem_write_atomic_def mem_copy_def mem_exists_def mem_create_dir_all_def
  mem_remove_file_def mem_set_executable_def mem_is_executable_def

lemma mem_content [simp]: "fs_content mem_ops s = mem_files s"
  by (auto simp: fs_content_def mem_read_def fun_eq_iff split: option.splits)

interpretation memfs: file_system_laws mem_ops
  by unfold_locales (auto simp: mem_op_defs split: if_splits option.splits)

section \<open>Directories of the memory file system\<close>

text \<open>
  The invariant the constructors of a \<open>MemoryFileSystem\<close> establish: the directory of every file is
  recorded, together with all its parents, and only files are executable.
\<close>

definition mem_wf :: "mem_fs \<Rightarrow> bool" where
  "mem_wf s \<longleftrightarrow>
     (\<forall>p c. mem_files s p = Some c \<longrightarrow> \<not> parent_missing s p) \<and>
     (\<forall>d \<in> mem_dirs s. set (path_chain d) \<subseteq> mem_dirs s) \<and>
     mem_exec s \<subseteq> dom (mem_files s)"

lemma parent_missing_mono:
  "mem_dirs s \<subseteq> mem_dirs t \<Longrightarrow> parent_missing t p \<Longrightarrow> parent_missing s p"
  by (auto simp: parent_missing_def split: option.splits)

lemma parent_missing_frame [simp]:
  "parent_missing (s\<lparr>mem_files := m\<rparr>) p = parent_missing s p"
  "parent_missing (s\<lparr>mem_exec := x\<rparr>) p = parent_missing s p"
  by (simp_all add: parent_missing_def split: option.splits)

lemma mem_wf_empty: "mem_wf mem_empty"
  by (simp add: mem_wf_def mem_empty_def)

lemma mem_wf_write:
  "mem_wf s \<Longrightarrow> mem_write_atomic p c s = (r, s') \<Longrightarrow> mem_wf s'"
  by (fastforce simp: mem_wf_def mem_write_atomic_def split: if_splits)

lemma mem_wf_remove:
  "mem_wf s \<Longrightarrow> mem_remove_file p s = (r, s') \<Longrightarrow> mem_wf s'"
  by (fastforce simp: mem_wf_def mem_remove_file_def split: if_splits option.splits)

lemma mem_wf_mkdir:
  assumes "mem_wf s" and "mem_create_dir_all p s = (r, s')"
  shows "mem_wf s'"
proof -
  have s': "s' = s\<lparr>mem_dirs := mem_dirs s \<union> set (path_chain p)\<rparr>"
    using assms(2) by (simp add: mem_create_dir_all_def)
  have "\<And>q. parent_missing s' q \<Longrightarrow> parent_missing s q"
    by (rule parent_missing_mono [rotated]) (auto simp: s')
  moreover have "set (path_chain d) \<subseteq> mem_dirs s'" if "d \<in> mem_dirs s'" for d
  proof (cases "d \<in> mem_dirs s")
    case True
    then show ?thesis using assms(1) by (auto simp: mem_wf_def s')
  next
    case False
    then show ?thesis using that path_chain_trans [of d p] by (auto simp: s')
  qed
  ultimately show ?thesis using assms(1) unfolding mem_wf_def s' by fastforce
qed

lemma mem_wf_chmod:
  "mem_wf s \<Longrightarrow> mem_set_executable p s = (r, s') \<Longrightarrow> mem_wf s'"
  by (fastforce simp: mem_wf_def mem_set_executable_def split: option.splits)

text \<open>After \<open>create_dir_all(parent)\<close> a write cannot fail.\<close>

lemma mkdir_then_write:
  assumes "path_parent p = Some d" and "mem_create_dir_all d s = (r, s1)"
  shows "mem_write_atomic p c s1 = (Inr (), s1\<lparr>mem_files := (mem_files s1)(p \<mapsto> c)\<rparr>)"
  using assms path_chain_self [of d]
  by (auto simp: mem_create_dir_all_def mem_write_atomic_def parent_missing_def)

end
