(* ===== verification/Host_Profile.thy ===== *)
theory Host_Profile
  imports Rust_Paths
begin

text \<open>
  \<open>detect/\<close>: the immutable picture of the host that every later stage reads, and the pure
  methods of its parts. A \<open>u32\<close> or \<open>u64\<close> field is a machine word; a \<open>HashMap\<close> with iterated keys
  (\<open>core_to_threads\<close>) is an association list with distinct keys, in the unspecified order of
  the map.
\<close>

section \<open>CPU and memory\<close>

record numa_node =
  numa_id :: u32
  numa_cpu_list :: "u32 list"
  numa_memory_mb :: u64

record cpu_info =
  cpu_vendor :: string
  cpu_model_name :: string
  physical_cores :: u32
  logical_cores :: u32
  numa_nodes :: "numa_node list"
  iommu_capable :: bool
  iommu_enabled :: bool
  has_hyperthreading :: bool
  core_to_threads :: "(u32 \<times> u32 list) list"

record mem_info =
  total_kb :: u64
  available_kb :: u64
  hugepage_size_kb :: u64
  hugepages_total :: u64
  hugepages_free :: u64

definition sat_sub :: "'a::len word \<Rightarrow> 'a word \<Rightarrow> 'a word" where
  "sat_sub a b = (if a < b then 0 else a - b)"

definition total_gb :: "mem_info \<Rightarrow> u64" where
  "total_gb m = total_kb m div 1048576"

definition hugepage_eligible_gb :: "mem_info \<Rightarrow> u64" where
  "hugepage_eligible_gb m = available_kb m div 1048576"

definition recommended_vm_ram_mb :: "mem_info \<Rightarrow> u64" where
  "recommended_vm_ram_mb m =
     (let total_mb = total_kb m div 1024 in
      if total_mb = 0 then 0
      else (let max_for_vm = sat_sub total_mb 4096 in
            if max_for_vm = 0 then 0
            else (let half = total_mb div 2; target = min half max_for_vm
                  in max target (min 4096 max_for_vm))))"

section \<open>PCI devices and IOMMU groups\<close>

datatype gpu_vendor = Nvidia | Amd | Intel | UnknownVendor string

definition gpu_vendor_display :: "gpu_vendor \<Rightarrow> string" where
  "gpu_vendor_display v =
     (case v of Nvidia \<Rightarrow> ''NVIDIA'' | Amd \<Rightarrow> ''AMD'' | Intel \<Rightarrow> ''Intel''
      | UnknownVendor s \<Rightarrow> ''Unknown('' @ s @ '')'')"

datatype gpu_type = Discrete | Integrated | UnknownGpuType

record companion_device =
  comp_pci_slot :: string
  comp_vendor_id :: string
  comp_device_id :: string
  comp_class :: string
  comp_current_driver :: "string option"

record gpu_info =
  gpu_pci_slot :: string
  gpu_vendor :: gpu_vendor
  gpu_type :: gpu_type
  gpu_model_name :: string
  gpu_vendor_id :: string
  gpu_device_id :: string
  subsystem_vendor_id :: string
  subsystem_device_id :: string
  gpu_current_driver :: "string option"
  iommu_group_id :: "u32 option"
  iommu_isolated :: bool
  rom_accessible :: bool
  companion_audio :: "companion_device option"
  is_boot_vga :: bool
  vfio_compatible :: bool
  gpu_quirks :: "string list"

definition vendor_id_to_vendor :: "string \<Rightarrow> gpu_vendor" where
  "vendor_id_to_vendor v =
     (if v = ''10de'' then Nvidia else if v = ''1002'' then Amd
      else if v = ''8086'' then Intel else UnknownVendor v)"

record iommu_device =
  dev_pci_slot :: string
  dev_class :: string
  dev_vendor_id :: string
  dev_device_id :: string
  dev_is_bridge :: bool

record iommu_group =
  group_id :: u32
  group_devices :: "iommu_device list"
  is_isolated_for_gpu :: bool

definition is_bridge_class :: "string \<Rightarrow> bool" where
  "is_bridge_class class = starts_with ''0x06'' (to_lower (trim class))"

definition gpu_group_class :: "string \<Rightarrow> bool" where
  "gpu_group_class class =
     (let c = to_lower class in
      starts_with ''0x03'' c \<or> starts_with ''0x0401'' c \<or> starts_with ''0x0403'' c)"

definition check_gpu_isolation :: "iommu_device list \<Rightarrow> bool" where
  "check_gpu_isolation devices =
     (let non_bridge = filter (\<lambda>d. \<not> dev_is_bridge d) devices in
      if non_bridge = [] then False
      else list_all (\<lambda>d. gpu_group_class (dev_class d)) non_bridge)"

definition is_gpu_isolated :: "iommu_group list \<Rightarrow> string \<Rightarrow> bool" where
  "is_gpu_isolated groups slot =
     list_ex (\<lambda>g. list_ex (\<lambda>d. dev_pci_slot d = slot) (group_devices g) \<and> is_isolated_for_gpu g)
       groups"

definition group_for_pci_slot :: "iommu_group list \<Rightarrow> string \<Rightarrow> u32 option" where
  "group_for_pci_slot groups slot =
     map_option group_id
       (List.find (\<lambda>g. list_ex (\<lambda>d. dev_pci_slot d = slot) (group_devices g)) groups)"

section \<open>Software facts\<close>

datatype distro_family =
  ArchFamily | DebianFamily | UbuntuFamily | FedoraFamily | RhelFamily | OpenSuseFamily
| GentooFamily | UnknownFamily

datatype package_manager = Pacman | Apt | Dnf | Zypper | Portage | UnknownManager

definition install_command :: "package_manager \<Rightarrow> string" where
  "install_command pm =
     (case pm of Pacman \<Rightarrow> ''pacman -S --noconfirm'' | Apt \<Rightarrow> ''apt-get install -y''
      | Dnf \<Rightarrow> ''dnf install -y'' | Zypper \<Rightarrow> ''zypper install -y''
      | Portage \<Rightarrow> ''emerge'' | UnknownManager \<Rightarrow> ''unknown'')"

record distro_info =
  distro_id :: string
  distro_id_like :: "string list"
  distro_pretty_name :: string
  distro_version_id :: string
  distro_family :: distro_family
  package_manager :: package_manager

datatype bootloader_kind = Grub2 | SystemdBoot | Refind | Syslinux | Efistub | UnknownBootloader

definition bootloader_display :: "bootloader_kind \<Rightarrow> string" where
  "bootloader_display k =
     (case k of Grub2 \<Rightarrow> ''GRUB2'' | SystemdBoot \<Rightarrow> ''systemd-boot'' | Refind \<Rightarrow> ''rEFInd''
      | Syslinux \<Rightarrow> ''Syslinux/EXTLINUX'' | Efistub \<Rightarrow> ''EFISTUB (efibootmgr)''
      | UnknownBootloader \<Rightarrow> ''Unknown'')"

record bootloader_info =
  bootloader_kind :: bootloader_kind
  bootloader_config_path :: "path option"
  entry_paths :: "path list"
  active_entry :: "string option"
  update_command :: "string option"
  is_uefi :: bool

datatype initramfs_system = Mkinitcpio | Dracut | UpdateInitramfs | UnknownInitramfs

definition initramfs_name :: "initramfs_system \<Rightarrow> string" where
  "initramfs_name i =
     (case i of Mkinitcpio \<Rightarrow> ''mkinitcpio (Arch)''
      | Dracut \<Rightarrow> ''dracut (Fedora/RHEL/OpenSUSE)''
      | UpdateInitramfs \<Rightarrow> ''update-initramfs (Debian/Ubuntu)''
      | UnknownInitramfs \<Rightarrow> ''Unknown'')"

definition rebuild_command :: "initramfs_system \<Rightarrow> string" where
  "rebuild_command i =
     (case i of Mkinitcpio \<Rightarrow> ''mkinitcpio -P'' | Dracut \<Rightarrow> ''dracut --force''
      | UpdateInitramfs \<Rightarrow> ''update-initramfs -u -k all'' | UnknownInitramfs \<Rightarrow> '''')"

datatype display_manager = Gdm | Sddm | LightDm | Greetd | Ly | Lxdm | NoDm | UnknownDm

definition dm_service_name :: "display_manager \<Rightarrow> string option" where
  "dm_service_name dm =
     (case dm of Gdm \<Rightarrow> Some ''gdm'' | Sddm \<Rightarrow> Some ''sddm'' | LightDm \<Rightarrow> Some ''lightdm''
      | Greetd \<Rightarrow> Some ''greetd'' | Ly \<Rightarrow> Some ''ly'' | Lxdm \<Rightarrow> Some ''lxdm'' | _ \<Rightarrow> None)"

definition dm_display :: "display_manager \<Rightarrow> string" where
  "dm_display dm =
     (case dm of Gdm \<Rightarrow> ''GDM'' | Sddm \<Rightarrow> ''SDDM'' | LightDm \<Rightarrow> ''LightDM'' | Greetd \<Rightarrow> ''greetd''
      | Ly \<Rightarrow> ''ly'' | Lxdm \<Rightarrow> ''LXDM'' | NoDm \<Rightarrow> ''None (TTY)'' | UnknownDm \<Rightarrow> ''Unknown'')"

datatype display_server = Wayland | X11 | BothServers | TtyServer | UnknownServer

definition display_server_display :: "display_server \<Rightarrow> string" where
  "display_server_display ds =
     (case ds of Wayland \<Rightarrow> ''Wayland'' | X11 \<Rightarrow> ''X11'' | BothServers \<Rightarrow> ''Wayland + X11''
      | TtyServer \<Rightarrow> ''TTY only'' | UnknownServer \<Rightarrow> ''Unknown'')"

datatype audio_system = PipeWire | PulseAudio | Alsa | Jack | UnknownAudio

definition audio_display :: "audio_system \<Rightarrow> string" where
  "audio_display a =
     (case a of PipeWire \<Rightarrow> ''PipeWire'' | PulseAudio \<Rightarrow> ''PulseAudio'' | Alsa \<Rightarrow> ''ALSA''
      | Jack \<Rightarrow> ''JACK'' | UnknownAudio \<Rightarrow> ''Unknown'')"

record monitor_info =
  connector_name :: string
  monitor_connected :: bool
  current_mode :: "string option"
  monitor_card :: string
  monitor_gpu_pci_slot :: "string option"
  monitor_is_internal :: bool

datatype usb_device_class = Keyboard | Mouse | Gamepad | UsbHub | OtherUsb

record usb_device =
  usb_name :: string
  usb_evdev_path :: "path option"
  usb_vendor_id :: string
  usb_product_id :: string
  usb_device_class :: usb_device_class
  usb_bus_path :: "string option"

record storage_info =
  default_vm_dir :: path
  available_bytes :: u64

definition available_gb :: "storage_info \<Rightarrow> u64" where
  "available_gb s = available_bytes s div 1073741824"

record virt_info =
  qemu_version :: "string option"
  libvirt_version :: "string option"
  virsh_available :: bool
  virt_manager_available :: bool
  libvirtd_running :: bool

record kernel_headers_info =
  headers_present :: bool
  headers_path :: "path option"

record ovmf_info =
  code_paths :: "path list"
  vars_paths :: "path list"

definition ovmf_available :: "ovmf_info \<Rightarrow> bool" where
  "ovmf_available o' \<longleftrightarrow> code_paths o' \<noteq> [] \<and> vars_paths o' \<noteq> []"

record user_access_info =
  access_username :: "string option"
  access_groups :: "string list"
  in_libvirt_group :: bool
  in_kvm_group :: bool

record libvirt_domain_info =
  domain_id :: "string option"
  domain_name :: string
  domain_state :: string

record readiness_info =
  kernel_version :: string
  readiness_cmdline :: string
  kernel_cmdline_params :: "string list"
  loaded_modules :: "string list"
  kernel_headers :: kernel_headers_info
  readiness_secure_boot :: bool
  ovmf :: ovmf_info
  user_access :: user_access_info
  libvirt_domains :: "libvirt_domain_info list"

section \<open>The system profile\<close>

record system_profile =
  sp_cpu :: cpu_info
  sp_gpus :: "gpu_info list"
  sp_iommu_groups :: "iommu_group list"
  sp_ram :: mem_info
  sp_distro :: distro_info
  sp_bootloader :: bootloader_info
  sp_initramfs_system :: initramfs_system
  sp_display_manager :: display_manager
  sp_display_server :: display_server
  sp_audio :: audio_system
  sp_monitors :: "monitor_info list"
  sp_usb_devices :: "usb_device list"
  sp_storage :: storage_info
  sp_virtualization :: virt_info
  sp_readiness :: readiness_info
  sp_secure_boot :: bool
  sp_kernel_cmdline :: string

definition iommu_active :: "system_profile \<Rightarrow> bool" where
  "iommu_active p \<longleftrightarrow> sp_iommu_groups p \<noteq> []"

text \<open>The loop of \<open>scan_system\<close> that completes each GPU once the groups are known.\<close>

definition annotate_gpu :: "iommu_group list \<Rightarrow> gpu_info \<Rightarrow> gpu_info" where
  "annotate_gpu groups g =
     (let iso = is_gpu_isolated groups (gpu_pci_slot g) in
      g\<lparr>iommu_isolated := iso,
        iommu_group_id := group_for_pci_slot groups (gpu_pci_slot g),
        vfio_compatible := (iso \<and> gpu_current_driver g \<noteq> Some ''vfio-pci'')\<rparr>)"

section \<open>Facts\<close>

lemma unat_sat_sub: "unat (sat_sub a b) = unat a - unat b"
  by (auto simp: sat_sub_def unat_sub_if_size word_less_nat_alt word_le_nat_alt)

lemma check_gpu_isolation_iff:
  "check_gpu_isolation ds \<longleftrightarrow>
     (\<exists>d \<in> set ds. \<not> dev_is_bridge d) \<and>
     (\<forall>d \<in> set ds. \<not> dev_is_bridge d \<longrightarrow> gpu_group_class (dev_class d))"
  by (auto simp: check_gpu_isolation_def Let_def list_all_iff filter_empty_conv)

lemma annotated_isolated:
  "iommu_isolated (annotate_gpu gs g) \<longleftrightarrow>
     (\<exists>grp \<in> set gs. is_isolated_for_gpu grp \<and>
        (\<exists>d \<in> set (group_devices grp). dev_pci_slot d = gpu_pci_slot g))"
  by (auto simp: annotate_gpu_def Let_def is_gpu_isolated_def list_ex_iff)

lemma annotated_no_groups: "\<not> iommu_isolated (annotate_gpu [] g)"
  by (simp add: annotated_isolated)

end
