(* ===== verification/Passthrough_Config.thy ===== *)
theory Passthrough_Config
  imports Host_Profile
begin

text \<open>
  \<open>vm/passthrough.rs\<close>: the user's choices, the queries on them, and the defaults the program
  recommends for a detected host. \<open>recommended_defaults\<close> indexes \<open>gpus[1]\<close>, so its model can
  return a panic; that it never does is a theorem below.
\<close>

section \<open>Choices\<close>

datatype guest_os = Windows7 | Windows10 | Windows11 | LinuxGuest | OtherGuest

definition requires_tpm :: "guest_os \<Rightarrow> bool" where
  "requires_tpm g \<longleftrightarrow> g = Windows11"

definition benefits_from_hyperv :: "guest_os \<Rightarrow> bool" where
  "benefits_from_hyperv g \<longleftrightarrow> g = Windows7 \<or> g = Windows10 \<or> g = Windows11"

definition enables_secure_boot :: "guest_os \<Rightarrow> bool" where
  "enables_secure_boot g \<longleftrightarrow> g = Windows11"

datatype gpu_mode = DualGpu | IgpuHost | SingleGpu | MultiGpu

definition gpu_mode_display :: "gpu_mode \<Rightarrow> string" where
  "gpu_mode_display m =
     (case m of DualGpu \<Rightarrow> ''dual GPU'' | IgpuHost \<Rightarrow> ''iGPU host + dGPU passthrough''
      | SingleGpu \<Rightarrow> ''single GPU'' | MultiGpu \<Rightarrow> ''multi-GPU passthrough'')"

datatype gpu_role = Host | Passthrough | Ignored

record gpu_role_assignment =
  role_pci_slot :: string
  role_role :: gpu_role

datatype single_monitor_strategy = LookingGlassOnly | SwitchInputs | HookHandoff

datatype monitor_plan =
  OneMonitor (one_strategy: single_monitor_strategy)
| TwoMonitors (host_connector: string) (vm_connector: string)

datatype install_mode = ManualInstall | AutoBuild

record resolution =
  res_width :: u32
  res_height :: u32

datatype looking_glass_choice = LgDisabled | LgEnabled install_mode resolution

datatype disk_format = Qcow2 | Raw

definition disk_extension :: "disk_format \<Rightarrow> string" where
  "disk_extension f = (case f of Qcow2 \<Rightarrow> ''qcow2'' | Raw \<Rightarrow> ''raw'')"

datatype disk_choice = ExistingDisk path | CreateDisk path u64 disk_format

record vm_resources =
  ram_mb :: u64
  vcpu_count :: u32
  res_disk :: disk_choice

datatype network_choice = NatNetwork | BridgeNetwork string | NoNetwork

datatype audio_choice = HostAudio | Scream | NoAudio

record input_choice =
  keyboard_evdev :: "path option"
  mouse_evdev :: "path option"
  additional_evdev :: "path list"

definition all_evdev_paths :: "input_choice \<Rightarrow> path list" where
  "all_evdev_paths i =
     (case keyboard_evdev i of Some p \<Rightarrow> [p] | None \<Rightarrow> [])
     @ (case mouse_evdev i of Some p \<Rightarrow> [p] | None \<Rightarrow> []) @ additional_evdev i"

record passthrough_config =
  vm_name :: string
  cfg_guest_os :: guest_os
  cfg_gpu_mode :: gpu_mode
  gpu_roles :: "gpu_role_assignment list"
  cfg_monitor_plan :: monitor_plan
  looking_glass :: looking_glass_choice
  iso_path :: "path option"
  resources :: vm_resources
  cfg_network :: network_choice
  cfg_audio :: audio_choice
  cfg_input :: input_choice

section \<open>Queries on the role list\<close>

definition find_gpu :: "system_profile \<Rightarrow> string \<Rightarrow> gpu_info option" where
  "find_gpu p slot = List.find (\<lambda>g. gpu_pci_slot g = slot) (sp_gpus p)"

definition roles_with :: "gpu_role \<Rightarrow> passthrough_config \<Rightarrow> gpu_role_assignment list" where
  "roles_with r c = filter (\<lambda>a. role_role a = r) (gpu_roles c)"

text \<open>The first assignment of a role, unless there is a second one.\<close>

definition host_gpu :: "passthrough_config \<Rightarrow> system_profile \<Rightarrow> gpu_info option" where
  "host_gpu c p =
     (case roles_with Host c of [a] \<Rightarrow> find_gpu p (role_pci_slot a) | _ \<Rightarrow> None)"

definition primary_passthrough_gpu :: "passthrough_config \<Rightarrow> system_profile \<Rightarrow> gpu_info option" where
  "primary_passthrough_gpu c p =
     (case roles_with Passthrough c of [a] \<Rightarrow> find_gpu p (role_pci_slot a) | _ \<Rightarrow> None)"

definition passthrough_gpus :: "passthrough_config \<Rightarrow> system_profile \<Rightarrow> gpu_info list" where
  "passthrough_gpus c p =
     List.map_filter (\<lambda>a. find_gpu p (role_pci_slot a)) (roles_with Passthrough c)"

definition derived_mode :: "passthrough_config \<Rightarrow> system_profile \<Rightarrow> gpu_mode option" where
  "derived_mode c p =
     (let active = filter (\<lambda>a. role_role a \<noteq> Ignored) (gpu_roles c);
          host_count = length (filter (\<lambda>a. role_role a = Host) active);
          pass_count = length (filter (\<lambda>a. role_role a = Passthrough) active)
      in if pass_count = 0 then None
         else if 2 \<le> pass_count then Some MultiGpu
         else if host_count = 0 then Some SingleGpu
         else (case host_gpu c p of None \<Rightarrow> None
               | Some g \<Rightarrow> Some (if gpu_type g = Integrated then IgpuHost else DualGpu)))"

section \<open>Names\<close>

definition is_valid_vm_name :: "string \<Rightarrow> bool" where
  "is_valid_vm_name n \<longleftrightarrow>
     n \<noteq> [] \<and>
     (\<forall>c \<in> set n. ascii_alphanumeric c \<or> c = CHR ''_'' \<or> c = CHR ''.'' \<or> c = CHR ''+'' \<or> c = CHR ''-'')"

definition domain_names :: "system_profile \<Rightarrow> string list" where
  "domain_names p = map domain_name (libvirt_domains (sp_readiness p))"

fun first_free_name :: "string list \<Rightarrow> string \<Rightarrow> nat list \<Rightarrow> string \<Rightarrow> string" where
  "first_free_name existing base [] fallback = fallback"
| "first_free_name existing base (n # ns) fallback =
     (let candidate = base @ ''-'' @ show_nat n in
      if candidate \<notin> set existing then candidate
      else first_free_name existing base ns fallback)"

text \<open>\<open>stamp\<close> is the current time formatted as \<open>%Y%m%d%H%M%S\<close>, read only when 999 names are taken.\<close>

definition default_vm_name :: "string \<Rightarrow> system_profile \<Rightarrow> string" where
  "default_vm_name stamp p =
     (let base = ''virtu-windows''; existing = domain_names p in
      if base \<notin> set existing then base
      else first_free_name existing base [2..<1000] (base @ ''-'' @ stamp))"

section \<open>Recommended defaults\<close>

datatype panic = IndexOutOfBounds

definition or_else :: "'a option \<Rightarrow> 'a option \<Rightarrow> 'a option" where
  "or_else a b = (case a of Some x \<Rightarrow> Some x | None \<Rightarrow> b)"

definition assign_roles :: "string \<Rightarrow> string \<Rightarrow> gpu_info list \<Rightarrow> gpu_role_assignment list" where
  "assign_roles host_slot pass_slot gpus =
     map (\<lambda>g. \<lparr>role_pci_slot = gpu_pci_slot g,
               role_role = (if gpu_pci_slot g = host_slot then Host
                            else if gpu_pci_slot g = pass_slot then Passthrough else Ignored)\<rparr>)
       gpus"

definition recommend_same_kind ::
  "gpu_info list \<Rightarrow> gpu_info \<Rightarrow> gpu_info \<Rightarrow> gpu_mode \<times> gpu_role_assignment list"
where
  "recommend_same_kind gpus g0 g1 =
     (let pass = (case or_else (List.find (\<lambda>g. iommu_isolated g \<and> \<not> is_boot_vga g) gpus)
                     (or_else (List.find iommu_isolated gpus)
                       (List.find (\<lambda>g. \<not> is_boot_vga g) gpus)) of
                    Some g \<Rightarrow> g | None \<Rightarrow> g1);
          other = (\<lambda>g. gpu_pci_slot g \<noteq> gpu_pci_slot pass);
          host = (case or_else (List.find (\<lambda>g. is_boot_vga g \<and> other g) gpus)
                     (List.find other gpus) of
                    Some g \<Rightarrow> g | None \<Rightarrow> g0)
      in (DualGpu, assign_roles (gpu_pci_slot host) (gpu_pci_slot pass) gpus))"

definition recommend_gpu_assignment ::
  "gpu_info list \<Rightarrow> panic + (gpu_mode \<times> gpu_role_assignment list)"
where
  "recommend_gpu_assignment gpus =
     (case gpus of
        [only] \<Rightarrow>
          Inr (SingleGpu, [\<lparr>role_pci_slot = gpu_pci_slot only, role_role = Passthrough\<rparr>])
      | _ \<Rightarrow>
          (let igpu = List.find (\<lambda>g. gpu_type g = Integrated) gpus;
               discrete = filter (\<lambda>g. gpu_type g = Discrete) gpus;
               dgpu = or_else (List.find iommu_isolated discrete)
                        (List.find (\<lambda>g. gpu_type g = Discrete) gpus)
           in case (igpu, dgpu) of
                (Some i, Some d) \<Rightarrow>
                  Inr (IgpuHost, assign_roles (gpu_pci_slot i) (gpu_pci_slot d) gpus)
              | _ \<Rightarrow>
                  (case gpus of g0 # g1 # _ \<Rightarrow> Inr (recommend_same_kind gpus g0 g1)
                   | _ \<Rightarrow> Inl IndexOutOfBounds)))"

definition recommend_monitor_plan ::
  "system_profile \<Rightarrow> gpu_role_assignment list \<Rightarrow> monitor_plan"
where
  "recommend_monitor_plan p roles =
     (let connected = filter monitor_connected (sp_monitors p);
          slot_of = (\<lambda>r. map_option role_pci_slot (List.find (\<lambda>a. role_role a = r) roles));
          on_slot = (\<lambda>slot. case slot of None \<Rightarrow> None
             | Some s \<Rightarrow> List.find (\<lambda>m. monitor_gpu_pci_slot m = Some s) connected);
          fallback = OneMonitor LookingGlassOnly
      in if length connected < 2 then fallback
         else
           (let host = or_else (on_slot (slot_of Host)) (List.find (\<lambda>_. True) connected);
                vm = or_else (on_slot (slot_of Passthrough))
                  (List.find (\<lambda>m. case host of None \<Rightarrow> True
                      | Some h \<Rightarrow> connector_name h \<noteq> connector_name m) connected)
            in case (host, vm) of
                 (Some h, Some v) \<Rightarrow>
                   if connector_name h \<noteq> connector_name v
                   then TwoMonitors (connector_name h) (connector_name v) else fallback
               | _ \<Rightarrow> fallback))"

definition parse_mode_string :: "string \<Rightarrow> (u32 \<times> u32) option" where
  "parse_mode_string mode =
     (case split_once (CHR ''x'') (trim mode) of None \<Rightarrow> None
      | Some (w, h) \<Rightarrow>
          (case (parse_uint (2 ^ 32) w, parse_uint (2 ^ 32) h) of
             (Some a, Some b) \<Rightarrow> Some (of_nat a, of_nat b) | _ \<Rightarrow> None))"

definition recommend_resolution :: "system_profile \<Rightarrow> resolution" where
  "recommend_resolution p =
     (let default = \<lparr>res_width = 1920, res_height = 1080\<rparr> in
      case List.find monitor_connected (sp_monitors p) of None \<Rightarrow> default
      | Some m \<Rightarrow>
          (case current_mode m of None \<Rightarrow> default
           | Some mode \<Rightarrow>
               (case parse_mode_string mode of None \<Rightarrow> default
                | Some (w, h) \<Rightarrow> \<lparr>res_width = w, res_height = h\<rparr>)))"

definition recommend_vcpu_count :: "system_profile \<Rightarrow> u32" where
  "recommend_vcpu_count p =
     (let host_threads = max (logical_cores (sp_cpu p)) 1;
          max_for_vm = max (sat_sub host_threads 1) 1;
          physical = max (physical_cores (sp_cpu p)) 1;
          threads_per_core = (if has_hyperthreading (sp_cpu p) then 2 else 1);
          suggested_physical = max (physical * 3 div 4) 1;
          target = suggested_physical * threads_per_core
      in max (min target max_for_vm) 1)"

definition recommend_resources :: "system_profile \<Rightarrow> vm_resources" where
  "recommend_resources p =
     \<lparr>ram_mb = recommended_vm_ram_mb (sp_ram p), vcpu_count = recommend_vcpu_count p,
      res_disk = CreateDisk (path_push (default_vm_dir (sp_storage p)) ''virtu-windows.qcow2'')
                   100 Qcow2\<rparr>"

definition recommended_defaults ::
  "string \<Rightarrow> system_profile \<Rightarrow> panic + passthrough_config option"
where
  "recommended_defaults stamp p =
     (if sp_gpus p = [] then Inr None
      else
        (case recommend_gpu_assignment (sp_gpus p) of Inl e \<Rightarrow> Inl e
         | Inr (mode, roles) \<Rightarrow>
             (let plan = recommend_monitor_plan p roles;
                  lg = (if plan = OneMonitor LookingGlassOnly
                        then LgEnabled ManualInstall (recommend_resolution p) else LgDisabled);
                  aud = (case sp_audio p of PipeWire \<Rightarrow> HostAudio | PulseAudio \<Rightarrow> HostAudio
                         | _ \<Rightarrow> NoAudio)
              in Inr (Some
                   \<lparr>vm_name = default_vm_name stamp p, cfg_guest_os = Windows11,
                    cfg_gpu_mode = mode, gpu_roles = roles, cfg_monitor_plan = plan,
                    looking_glass = lg, iso_path = None, resources = recommend_resources p,
                    cfg_network = NatNetwork, cfg_audio = aud,
                    cfg_input = \<lparr>keyboard_evdev = None, mouse_evdev = None,
                                 additional_evdev = []\<rparr>\<rparr>))))"

section \<open>Facts about the queries\<close>

lemma or_else_simps [simp]: "or_else None b = b" "or_else (Some x) b = Some x"
  by (simp_all add: or_else_def)

lemma or_else_Some: "or_else a b = Some x \<Longrightarrow> a = Some x \<or> b = Some x"
  by (cases a) auto

lemma find_gpu_SomeD: "find_gpu p s = Some g \<Longrightarrow> g \<in> set (sp_gpus p) \<and> gpu_pci_slot g = s"
  by (auto simp: find_gpu_def dest: find_SomeD)

lemma find_gpu_None: "find_gpu p s = None \<longleftrightarrow> (\<forall>g \<in> set (sp_gpus p). gpu_pci_slot g \<noteq> s)"
  by (auto simp: find_gpu_def find_None_iff)

lemma set_roles_with: "a \<in> set (roles_with r c) \<longleftrightarrow> a \<in> set (gpu_roles c) \<and> role_role a = r"
  by (simp add: roles_with_def)

lemma derived_mode_alt:
  "derived_mode c p =
     (let n = length (roles_with Passthrough c) in
      if n = 0 then None else if 2 \<le> n then Some MultiGpu
      else if roles_with Host c = [] then Some SingleGpu
      else map_option (\<lambda>g. if gpu_type g = Integrated then IgpuHost else DualGpu) (host_gpu c p))"
proof -
  have act: "filter (\<lambda>a. role_role a \<noteq> Ignored \<and> role_role a = Host) (gpu_roles c) = roles_with Host c"
    "filter (\<lambda>a. role_role a \<noteq> Ignored \<and> role_role a = Passthrough) (gpu_roles c) =
       roles_with Passthrough c"
    by (auto simp: roles_with_def intro!: filter_cong)
  show ?thesis
    unfolding derived_mode_def Let_def filter_filter act by (auto split: option.splits)
qed

lemma derived_mode_single:
  "derived_mode c p = Some SingleGpu \<longleftrightarrow>
     length (roles_with Passthrough c) = 1 \<and> roles_with Host c = []"
  by (cases "roles_with Passthrough c"; cases "tl (roles_with Passthrough c)")
    (auto simp: derived_mode_alt Let_def split: option.splits if_splits)

lemma valid_name_chars:
  "is_valid_vm_name n \<Longrightarrow> c \<in> set n \<Longrightarrow> c \<noteq> CHR ''/'' \<and> c \<noteq> SQ \<and> c \<noteq> DQ \<and> \<not> is_ws c"
  by (auto simp: is_valid_vm_name_def ascii_alphanumeric_def is_ws_def Let_def)

end
