(* ===== verification/Compatibility.thy ===== *)
theory Compatibility
  imports Passthrough_Config
begin

text \<open>
  \<open>engine/compatibility.rs\<close>: the read-only report on a detected host. Every \<open>push_*\<close> function
  of the code appends to one vector; each is modelled by the findings it appends, and
  \<open>build_compatibility_report\<close> concatenates them in the order of the calls. The messages are the
  code's own, with the formatted values spliced in.
\<close>

section \<open>Findings\<close>

datatype compatibility_status = Ready | Warnings | Blocked

definition status_display :: "compatibility_status \<Rightarrow> string" where
  "status_display s =
     (case s of Ready \<Rightarrow> ''ready'' | Warnings \<Rightarrow> ''ready with warnings'' | Blocked \<Rightarrow> ''blocked'')"

datatype finding_severity = Pass | Warn | Fail

definition severity_display :: "finding_severity \<Rightarrow> string" where
  "severity_display s = (case s of Pass \<Rightarrow> ''PASS'' | Warn \<Rightarrow> ''WARN'' | Fail \<Rightarrow> ''FAIL'')"

datatype fix_automation = VirtuCanApply | ManualFix | NotAutomatable

definition automation_display :: "fix_automation \<Rightarrow> string" where
  "automation_display a =
     (case a of VirtuCanApply \<Rightarrow> ''Virtu can apply after approval''
      | ManualFix \<Rightarrow> ''manual action required'' | NotAutomatable \<Rightarrow> ''not automatable'')"

record fix_option =
  fix_title :: string
  fix_details :: string
  fix_automation :: fix_automation
  fix_requires_confirmation :: bool

definition new_fix :: "string \<Rightarrow> string \<Rightarrow> fix_automation \<Rightarrow> bool \<Rightarrow> fix_option" where
  "new_fix t d a r =
     \<lparr>fix_title = t, fix_details = d, fix_automation = a, fix_requires_confirmation = r\<rparr>"

record compatibility_finding =
  finding_id :: string
  finding_severity :: finding_severity
  finding_title :: string
  finding_explanation :: string
  finding_evidence :: "string list"
  finding_fixes :: "fix_option list"

definition new_finding ::
  "string \<Rightarrow> finding_severity \<Rightarrow> string \<Rightarrow> string \<Rightarrow> compatibility_finding" where
  "new_finding i sev t e =
     \<lparr>finding_id = i, finding_severity = sev, finding_title = t, finding_explanation = e,
      finding_evidence = [], finding_fixes = []\<rparr>"

definition with_evidence :: "string \<Rightarrow> compatibility_finding \<Rightarrow> compatibility_finding" where
  "with_evidence e f = f\<lparr>finding_evidence := finding_evidence f @ [e]\<rparr>"

definition with_fix :: "fix_option \<Rightarrow> compatibility_finding \<Rightarrow> compatibility_finding" where
  "with_fix x f = f\<lparr>finding_fixes := finding_fixes f @ [x]\<rparr>"

record compatibility_report =
  report_status :: compatibility_status
  report_findings :: "compatibility_finding list"

definition new_report :: "compatibility_finding list \<Rightarrow> compatibility_report" where
  "new_report fs =
     \<lparr>report_status =
        (if list_ex (\<lambda>f. finding_severity f = Fail) fs then Blocked
         else if list_ex (\<lambda>f. finding_severity f = Warn) fs then Warnings else Ready),
      report_findings = fs\<rparr>"

definition report_blocked :: "compatibility_report \<Rightarrow> bool" where
  "report_blocked r \<longleftrightarrow> report_status r = Blocked"

definition report_count :: "finding_severity \<Rightarrow> compatibility_report \<Rightarrow> nat" where
  "report_count sev r = length (filter (\<lambda>f. finding_severity f = sev) (report_findings r))"

definition report_finding :: "string \<Rightarrow> compatibility_report \<Rightarrow> compatibility_finding option" where
  "report_finding i r = List.find (\<lambda>f. finding_id f = i) (report_findings r)"

section \<open>What \<open>print_human\<close> prints\<close>

definition finding_lines :: "compatibility_finding \<Rightarrow> string list" where
  "finding_lines f =
     [LF # ''['' @ severity_display (finding_severity f) @ ''] '' @ finding_title f,
      ''  '' @ finding_explanation f]
     @ map (\<lambda>e. ''  Evidence: '' @ e) (finding_evidence f)
     @ concat (map (\<lambda>x. [''  Fix: '' @ fix_title x @ '' ('' @ automation_display (fix_automation x) @ '')'',
                         ''       '' @ fix_details x]) (finding_fixes f))"

definition report_lines :: "compatibility_report \<Rightarrow> string list" where
  "report_lines r =
     [LF # ''=== VIRTU COMPATIBILITY FINDINGS ==='',
      ''Overall: '' @ status_display (report_status r) @ '' ('' @ show_nat (report_count Pass r)
        @ '' pass, '' @ show_nat (report_count Warn r) @ '' warn, ''
        @ show_nat (report_count Fail r) @ '' fail)'']
     @ concat (map (\<lambda>sev. concat (map finding_lines
                        (filter (\<lambda>f. finding_severity f = sev) (report_findings r))))
                 [Fail, Warn, Pass])
     @ ['''']"

section \<open>Formatting\<close>

definition show_bool :: "bool \<Rightarrow> string" where
  "show_bool b = (if b then ''true'' else ''false'')"

definition expected_iommu_param :: "system_profile \<Rightarrow> string" where
  "expected_iommu_param p =
     (if contains_str ''amd'' (to_lower (cpu_vendor (sp_cpu p))) then ''amd_iommu=on''
      else ''intel_iommu=on'')"

definition format_cmdline :: "string \<Rightarrow> string" where
  "format_cmdline cmdline =
     (let c = trim cmdline in
      if c = [] then ''kernel cmdline: <empty or unavailable>'' else ''kernel cmdline: '' @ c)"

definition format_gpu_list :: "system_profile \<Rightarrow> string" where
  "format_gpu_list p = str_join ''; ''
     (map (\<lambda>g. gpu_pci_slot g @ '' '' @ gpu_model_name g @ '' ['' @ gpu_vendor_id g @ '':''
              @ gpu_device_id g @ ''] driver=''
              @ (case gpu_current_driver g of Some d \<Rightarrow> d | None \<Rightarrow> ''none'')
              @ '' isolated='' @ show_bool (iommu_isolated g)) (sp_gpus p))"

definition format_iommu_groups :: "iommu_group list \<Rightarrow> string" where
  "format_iommu_groups gs =
     (if gs = [] then ''no IOMMU groups detected''
      else str_join ''; ''
        (map (\<lambda>g. ''group '' @ show_nat (unat (group_id g)) @ '' isolated_for_gpu=''
                 @ show_bool (is_isolated_for_gpu g) @ '' devices=[''
                 @ str_join '', '' (map (\<lambda>d. dev_pci_slot d @ '' '' @ dev_class d) (group_devices g))
                 @ '']'') gs))"

section \<open>The checks\<close>

definition push_cpu_virtualization :: "system_profile \<Rightarrow> compatibility_finding list" where
  "push_cpu_virtualization p =
     (let c = sp_cpu p in
      if iommu_capable c then
        [with_evidence
           (cpu_vendor c @ '' '' @ cpu_model_name c @ '', '' @ show_nat (unat (physical_cores c))
            @ '' physical cores / '' @ show_nat (unat (logical_cores c)) @ '' logical threads'')
          (new_finding ''cpu-virtualization'' Pass ''CPU virtualization extensions detected''
            ''The CPU exposes virtualization support required for KVM-based passthrough.'')]
      else
        [with_fix (new_fix ''Use supported hardware''
             ''If the firmware exposes no virtualization controls, this system cannot support GPU passthrough safely.''
             NotAutomatable False)
          (with_fix (new_fix ''Enable virtualization in firmware''
             ''Enable Intel VT-x/VT-d or AMD SVM/AMD-Vi in BIOS/UEFI, then boot Linux again.''
             ManualFix False)
          (with_evidence
             (cpu_vendor c @ '' '' @ cpu_model_name c
              @ ''; VMX/SVM flags not found in detected CPU data'')
          (new_finding ''cpu-virtualization'' Fail
             ''CPU virtualization extensions were not detected''
             ''Virtu cannot continue until hardware virtualization is available to the host.'')))])"

definition push_iommu_state :: "system_profile \<Rightarrow> compatibility_finding list" where
  "push_iommu_state p =
     (if iommu_active p then
        [with_evidence (format_cmdline (sp_kernel_cmdline p))
          (with_evidence (show_nat (length (sp_iommu_groups p)) @ '' IOMMU group(s) detected'')
          (new_finding ''iommu-active'' Pass ''IOMMU groups are active''
            ''The kernel exposes IOMMU groups, so Virtu can reason about device isolation.''))]
      else
        (let finding =
           with_fix (new_fix ''Enable IOMMU in firmware''
             ''Enable Intel VT-d or AMD-Vi/IOMMU in BIOS/UEFI. Some boards also require Above 4G Decoding.''
             ManualFix False)
          (with_evidence (format_cmdline (sp_kernel_cmdline p))
          (with_evidence ''0 IOMMU groups detected''
          (new_finding ''iommu-active'' Fail ''IOMMU groups are not active''
            ''GPU passthrough is unsafe without active IOMMU groups because the host cannot isolate PCI devices.'')))
         in [if bootloader_kind (sp_bootloader p) \<noteq> UnknownBootloader
             then with_fix (new_fix ''Add IOMMU kernel parameters''
                    (''Virtu can later plan a bootloader edit that adds `''
                     @ expected_iommu_param p @ ''` and preserves rollback data first.'')
                    VirtuCanApply True) finding
             else finding]))"

definition push_bootloader_state :: "system_profile \<Rightarrow> compatibility_finding list" where
  "push_bootloader_state p =
     (case bootloader_kind (sp_bootloader p) of
        UnknownBootloader \<Rightarrow>
          [with_fix (new_fix ''Identify the bootloader manually''
             ''Confirm whether the system uses GRUB2, systemd-boot, rEFInd, Syslinux/Extlinux, or EFISTUB and add a detector fixture for this layout.''
             ManualFix False)
          (with_evidence ''Bootloader kind: Unknown''
          (new_finding ''bootloader-detected'' Fail ''Bootloader could not be identified''
            ''Virtu cannot safely plan kernel-parameter changes until it knows exactly where boot entries live.''))]
      | Efistub \<Rightarrow>
          [with_fix (new_fix ''Review EFI entry before mutation''
             ''Virtu should show the exact efibootmgr command and require explicit confirmation before changing EFI variables.''
             VirtuCanApply True)
          (with_evidence ''Bootloader kind: EFISTUB''
          (new_finding ''bootloader-detected'' Warn ''EFISTUB boot path detected''
            ''EFISTUB is a target boot path, but changing EFI boot variables is high impact and must remain explicit.''))]
      | kind \<Rightarrow>
          (let config = (case bootloader_config_path (sp_bootloader p) of
                           Some q \<Rightarrow> path_display q | None \<Rightarrow> ''no single config path'')
           in [with_evidence (''Config: '' @ config)
          (with_evidence (''Bootloader: '' @ bootloader_display kind)
          (new_finding ''bootloader-detected'' Pass ''Supported bootloader detected''
            ''Virtu can build a bootloader-specific plan instead of editing generic files blindly.''))]))"

definition push_initramfs_state :: "system_profile \<Rightarrow> compatibility_finding list" where
  "push_initramfs_state p =
     (if sp_initramfs_system p = UnknownInitramfs then
        [with_fix (new_fix ''Add distro-specific initramfs support''
             ''Identify whether this host uses mkinitcpio, dracut, update-initramfs, or another generator before mutating module order.''
             ManualFix False)
          (with_evidence ''Initramfs system: Unknown''
          (new_finding ''initramfs-detected'' Fail ''Initramfs system could not be identified''
            ''Virtu cannot safely place VFIO modules early in boot without knowing how initramfs is generated.''))]
      else
        [with_evidence (''Rebuild command: '' @ rebuild_command (sp_initramfs_system p))
          (with_evidence (initramfs_name (sp_initramfs_system p))
          (new_finding ''initramfs-detected'' Pass ''Initramfs system detected''
            ''Virtu can later plan VFIO module ordering and the correct rebuild command for this distro.''))])"

definition push_gpu_layout :: "system_profile \<Rightarrow> compatibility_finding list" where
  "push_gpu_layout p =
     (case sp_gpus p of
        [gpu] \<Rightarrow>
          (let finding =
             with_fix (new_fix ''Use single-GPU mode only after rollback is ready''
               ''Virtu should generate display-manager-aware hooks, syntax-check them, and provide recovery instructions before enabling this path.''
               VirtuCanApply True)
            (with_evidence (''Only GPU: '' @ gpu_model_name gpu @ '' ('' @ gpu_pci_slot gpu @ '')'')
            (new_finding ''gpu-layout'' Warn ''Single-GPU setup detected''
              ''Single-GPU passthrough can work, but it requires display-manager hooks and a tested rollback path before Virtu should automate it.''))
           in [if dm_service_name (sp_display_manager p) = None
               then with_evidence (''Display manager: '' @ dm_display (sp_display_manager p)
                      @ '' (hook behavior may need manual review)'') finding
               else finding])
      | gpus \<Rightarrow>
          (let igpu = length (filter (\<lambda>g. gpu_type g = Integrated) gpus);
               dgpu = length (filter (\<lambda>g. gpu_type g = Discrete) gpus);
               title = (if 0 < igpu \<and> 0 < dgpu then ''iGPU plus dGPU layout detected''
                        else ''Multi-GPU layout detected'')
           in [with_evidence (show_nat igpu @ '' integrated GPU(s), '' @ show_nat dgpu
                 @ '' discrete GPU(s), '' @ show_nat (length gpus) @ '' total GPU(s)'')
            (new_finding ''gpu-layout'' Pass title
              ''The hardware layout can support safer host-GPU plus guest-GPU planning, while still allowing the user to ignore any GPU.'')]))"

definition push_gpu_state :: "system_profile \<Rightarrow> compatibility_finding list" where
  "push_gpu_state p =
     (if sp_gpus p = [] then
        [with_fix (new_fix ''Check PCI visibility''
             ''Confirm the GPU appears under `/sys/bus/pci/devices` and is not hidden by firmware or kernel configuration.''
             ManualFix False)
          (new_finding ''gpus-detected'' Fail ''No GPUs were detected''
            ''Virtu cannot plan GPU passthrough without at least one display-class PCI device.'')]
      else
        (let isolated = filter iommu_isolated (sp_gpus p) in
         [with_evidence (format_gpu_list p)
          (with_evidence (show_nat (length (sp_gpus p)) @ '' GPU(s) detected'')
          (new_finding ''gpus-detected'' Pass ''GPU devices detected''
            ''Virtu found display-class PCI devices that can be evaluated for passthrough roles.''))]
         @ (if isolated = [] then
              [with_fix (new_fix ''ACS override is risky''
                 ''An ACS override may split groups on some systems, but it can reduce DMA isolation and must be treated as an explicit high-risk option.''
                 ManualFix True)
              (with_fix (new_fix ''Try another PCIe slot or firmware settings''
                 ''Move the GPU to another slot when possible and enable Above 4G Decoding or similar PCIe/IOMMU options in firmware.''
                 ManualFix False)
              (with_evidence (format_iommu_groups (sp_iommu_groups p))
              (new_finding ''gpu-isolation'' Fail ''No GPU is isolated for passthrough''
                ''At least one selected GPU must be in an IOMMU group that contains only GPU display/audio functions and harmless bridges.'')))]
            else
              [with_evidence
                 (str_join ''; '' (map (\<lambda>g. gpu_model_name g @ '' ('' @ gpu_pci_slot g @ '') in group ''
                    @ (case iommu_group_id g of Some i \<Rightarrow> show_nat (unat i) | None \<Rightarrow> ''?'')) isolated))
              (new_finding ''gpu-isolation'' Pass ''At least one GPU is isolated''
                ''Virtu has a viable PCI isolation candidate before any user choice or VFIO binding plan.'')])
         @ push_gpu_layout p))"

definition push_virtualization_tools :: "system_profile \<Rightarrow> compatibility_finding list" where
  "push_virtualization_tools p =
     (let v = sp_virtualization p; cmd = install_command (package_manager (sp_distro p)) in
      (case qemu_version v of
         Some version \<Rightarrow>
           [with_evidence version
             (new_finding ''qemu-available'' Pass ''QEMU is available''
               ''QEMU is required to run the VM after host configuration succeeds.'')]
       | None \<Rightarrow>
           [with_fix (new_fix ''Install QEMU packages''
                (''Use the distro package manager to install QEMU. Detected installer family command: `''
                 @ cmd @ ''`.'') ManualFix False)
             (new_finding ''qemu-available'' Fail ''QEMU is not available''
               ''Virtu cannot create or run the passthrough VM without QEMU.'')])
      @ (if virsh_available v then
           [with_evidence (case libvirt_version v of Some s \<Rightarrow> s | None \<Rightarrow> ''virsh command detected'')
             (new_finding ''libvirt-available'' Pass ''libvirt tools are available''
               ''Virtu can validate and define libvirt domains once VM generation is implemented.'')]
         else
           [with_fix (new_fix ''Install libvirt tools''
                (''Install libvirt and virsh using `'' @ cmd
                 @ ''` or the equivalent distro package set.'') ManualFix False)
             (new_finding ''libvirt-available'' Fail ''libvirt tools are not available''
               ''Virtu needs `virsh` and libvirt to validate XML, detect domain conflicts, and register VMs safely.'')])
      @ (if virsh_available v \<and> \<not> libvirtd_running v then
           [with_fix (new_fix ''Start libvirt service''
                ''Virtu can later run a targeted `systemctl start libvirtd` or distro-equivalent service command after approval.''
                VirtuCanApply True)
             (new_finding ''libvirtd-running'' Warn ''libvirt service is not running''
               ''The VM can be planned, but libvirt must be running before Virtu validates or defines a domain.'')]
         else []))"

definition push_ovmf_state :: "system_profile \<Rightarrow> compatibility_finding list" where
  "push_ovmf_state p =
     (let o' = ovmf (sp_readiness p) in
      if ovmf_available o' then
        [with_evidence (''code: '' @ str_join '', '' (map path_display (code_paths o'))
             @ ''; vars: '' @ str_join '', '' (map path_display (vars_paths o')))
          (new_finding ''ovmf-available'' Pass ''OVMF firmware is available''
            ''UEFI firmware files are present for modern Windows and Linux guest VMs.'')]
      else
        [with_fix (new_fix ''Install OVMF/edk2 firmware package''
             ''Install the distro package named OVMF, edk2-ovmf, edk2-ovmf-code, or equivalent, then scan again.''
             ManualFix False)
          (with_evidence (show_nat (length (code_paths o')) @ '' code path(s), ''
             @ show_nat (length (vars_paths o')) @ '' vars path(s)'')
          (new_finding ''ovmf-available'' Fail ''OVMF firmware was not found''
            ''Virtu needs OVMF code and variable templates to generate modern UEFI libvirt XML.''))])"

definition missing_groups :: "user_access_info \<Rightarrow> string list" where
  "missing_groups a =
     (if in_libvirt_group a then [] else [''libvirt'']) @ (if in_kvm_group a then [] else [''kvm''])"

definition push_user_access :: "system_profile \<Rightarrow> compatibility_finding list" where
  "push_user_access p =
     (let a = user_access (sp_readiness p) in
      if missing_groups a = [] then
        [with_evidence (''user: '' @ (case access_username a of Some u \<Rightarrow> u | None \<Rightarrow> ''unknown'')
             @ ''; groups: '' @ str_join '' '' (access_groups a))
          (new_finding ''user-access'' Pass ''User has virtualization group access''
            ''The current user appears to have the libvirt and KVM group memberships normally needed to run VMs without full-root execution.'')]
      else
        [with_fix (new_fix ''Add the user to required groups''
             ''Add the normal user to the missing groups and log out/in so group membership is refreshed.''
             ManualFix False)
          (with_evidence (''missing group(s): '' @ str_join '', '' (missing_groups a)
             @ ''; current groups: '' @ str_join '' '' (access_groups a))
          (new_finding ''user-access'' Fail ''User is missing virtualization group access''
            ''Virtu should not run the whole application as root, so the normal user needs libvirt/KVM access before VM creation.''))])"

definition push_kernel_headers :: "system_profile \<Rightarrow> compatibility_finding list" where
  "push_kernel_headers p =
     (let h = kernel_headers (sp_readiness p) in
      if headers_present h then
        [with_evidence (case headers_path h of Some q \<Rightarrow> path_display q | None \<Rightarrow> ''header path detected'')
          (new_finding ''kernel-headers'' Pass ''Kernel headers are installed''
            ''Header files are available for workflows that need local module builds or deeper diagnostics.'')]
      else
        [with_fix (new_fix ''Install matching kernel headers''
             ''Install the header package for the currently running kernel before using workflows that compile local components.''
             ManualFix False)
          (with_evidence (''kernel: '' @ kernel_version (sp_readiness p))
          (new_finding ''kernel-headers'' Warn ''Kernel headers were not found''
            ''Basic VFIO may still work, but some diagnostics, DKMS drivers, and advanced fixes require headers matching the running kernel.''))])"

definition push_secure_boot :: "system_profile \<Rightarrow> compatibility_finding list" where
  "push_secure_boot p =
     (if sp_secure_boot p then
        [with_fix (new_fix ''Use signed modules or disable Secure Boot''
             ''Keep Secure Boot enabled only if required modules are signed and trusted, or disable it in firmware before applying VFIO changes.''
             ManualFix False)
          (new_finding ''secure-boot'' Warn ''Secure Boot is enabled''
            ''Secure Boot can block unsigned kernel modules or custom boot paths, so Virtu must avoid silent module-signing assumptions.'')]
      else
        [new_finding ''secure-boot'' Pass ''Secure Boot is disabled''
            ''Unsigned VFIO-related module workflows are less likely to be blocked by firmware policy.''])"

definition push_monitor_state :: "system_profile \<Rightarrow> compatibility_finding list" where
  "push_monitor_state p =
     (let connected = length (filter monitor_connected (sp_monitors p)) in
      if connected = 0 then
        [with_evidence (show_nat (length (sp_monitors p)) @ '' DRM connector(s) scanned'')
          (new_finding ''monitors-detected'' Warn ''No connected monitors were detected''
            ''Virtu can still plan Looking Glass later, but physical-display workflows need monitor ownership data.'')]
      else
        [with_evidence (show_nat connected @ '' connected monitor(s) detected'')
          (new_finding ''monitors-detected'' Pass ''Connected monitor data is available''
            ''Virtu can ask whether the user wants one-monitor, two-monitor, physical display, or Looking Glass workflows.'')])"

definition push_storage_state :: "system_profile \<Rightarrow> compatibility_finding list" where
  "push_storage_state p =
     (let gb = available_gb (sp_storage p); dir = path_display (default_vm_dir (sp_storage p)) in
      if gb = 0 then
        [with_evidence (''default VM directory: '' @ dir)
          (new_finding ''vm-storage'' Warn ''VM storage availability could not be confirmed''
            ''Virtu needs enough free space for the selected VM disk before it can create storage safely.'')]
      else if gb < 64 then
        [with_evidence (show_nat (unat gb) @ '' GiB available in '' @ dir)
          (new_finding ''vm-storage'' Warn ''Default VM storage is low''
            ''Windows gaming VMs usually need more than the currently detected free space.'')]
      else
        [with_evidence (show_nat (unat gb) @ '' GiB available in '' @ dir)
          (new_finding ''vm-storage'' Pass ''Default VM storage has usable free space''
            ''The default libvirt image directory appears large enough for an initial Windows VM disk.'')])"

definition build_compatibility_report :: "system_profile \<Rightarrow> compatibility_report" where
  "build_compatibility_report p = new_report
     (push_cpu_virtualization p @ push_iommu_state p @ push_bootloader_state p
      @ push_initramfs_state p @ push_gpu_state p @ push_virtualization_tools p
      @ push_ovmf_state p @ push_user_access p @ push_kernel_headers p @ push_secure_boot p
      @ push_monitor_state p @ push_storage_state p)"

section \<open>Facts\<close>

text \<open>Ids and severities are all that later stages read.\<close>

definition tag :: "compatibility_finding \<Rightarrow> string \<times> finding_severity" where
  "tag f = (finding_id f, finding_severity f)"

lemma tag_simps [simp]:
  "tag (with_evidence e f) = tag f" "tag (with_fix x f) = tag f"
  "tag (new_finding i sev t ex) = (i, sev)"
  by (simp_all add: tag_def with_evidence_def with_fix_def new_finding_def)

definition pass_or :: "finding_severity \<Rightarrow> bool \<Rightarrow> finding_severity" where
  "pass_or sev ok = (if ok then Pass else sev)"

lemma pass_or_eq [simp]:
  "pass_or sev ok = Pass \<longleftrightarrow> ok \<or> sev = Pass"
  "pass_or Fail ok = Fail \<longleftrightarrow> \<not> ok" "pass_or Warn ok = Warn \<longleftrightarrow> \<not> ok"
  "pass_or Warn ok \<noteq> Fail" "pass_or Fail ok \<noteq> Warn"
  "Fail = pass_or Fail ok \<longleftrightarrow> \<not> ok" "Warn = pass_or Warn ok \<longleftrightarrow> \<not> ok"
  "Fail \<noteq> pass_or Warn ok" "Warn \<noteq> pass_or Fail ok"
  by (simp_all add: pass_or_def)

lemma push_tags:
  "map tag (push_cpu_virtualization p) =
     [(''cpu-virtualization'', pass_or Fail (iommu_capable (sp_cpu p)))]"
  "map tag (push_iommu_state p) = [(''iommu-active'', pass_or Fail (iommu_active p))]"
  "map tag (push_initramfs_state p) =
     [(''initramfs-detected'', pass_or Fail (sp_initramfs_system p \<noteq> UnknownInitramfs))]"
  "map tag (push_ovmf_state p) =
     [(''ovmf-available'', pass_or Fail (ovmf_available (ovmf (sp_readiness p))))]"
  "map tag (push_user_access p) =
     [(''user-access'', pass_or Fail (in_libvirt_group (user_access (sp_readiness p)) \<and>
                                      in_kvm_group (user_access (sp_readiness p))))]"
  "map tag (push_kernel_headers p) =
     [(''kernel-headers'', pass_or Warn (headers_present (kernel_headers (sp_readiness p))))]"
  "map tag (push_secure_boot p) = [(''secure-boot'', pass_or Warn (\<not> sp_secure_boot p))]"
  "map tag (push_monitor_state p) =
     [(''monitors-detected'', pass_or Warn (list_ex monitor_connected (sp_monitors p)))]"
  "map tag (push_storage_state p) =
     [(''vm-storage'', pass_or Warn (64 \<le> available_gb (sp_storage p)))]"
  subgoal by (simp add: push_cpu_virtualization_def Let_def pass_or_def)
  subgoal by (simp add: push_iommu_state_def Let_def pass_or_def)
  subgoal by (simp add: push_initramfs_state_def Let_def pass_or_def)
  subgoal by (simp add: push_ovmf_state_def Let_def pass_or_def)
  subgoal by (simp add: push_user_access_def missing_groups_def Let_def pass_or_def)
  subgoal by (simp add: push_kernel_headers_def Let_def pass_or_def)
  subgoal by (simp add: push_secure_boot_def Let_def pass_or_def)
  subgoal by (simp add: push_monitor_state_def Let_def pass_or_def list_ex_iff filter_empty_conv)
  subgoal by (auto simp: push_storage_state_def Let_def pass_or_def)
  done

lemma push_bootloader_tags:
  "map tag (push_bootloader_state p) =
     [(''bootloader-detected'',
       case bootloader_kind (sp_bootloader p) of UnknownBootloader \<Rightarrow> Fail | Efistub \<Rightarrow> Warn
       | _ \<Rightarrow> Pass)]"
  by (simp add: push_bootloader_state_def Let_def split: bootloader_kind.splits)

lemma push_layout_tags:
  "map tag (push_gpu_layout p) = [(''gpu-layout'', pass_or Warn (length (sp_gpus p) \<noteq> 1))]"
  by (cases "sp_gpus p" rule: list.exhaust; cases "tl (sp_gpus p)" rule: list.exhaust)
    (auto simp: push_gpu_layout_def Let_def pass_or_def)

lemma push_gpu_tags:
  "map tag (push_gpu_state p) =
     (if sp_gpus p = [] then [(''gpus-detected'', Fail)]
      else [(''gpus-detected'', Pass),
            (''gpu-isolation'', pass_or Fail (list_ex iommu_isolated (sp_gpus p))),
            (''gpu-layout'', pass_or Warn (length (sp_gpus p) \<noteq> 1))])"
  by (auto simp: push_gpu_state_def Let_def push_layout_tags list_ex_iff filter_empty_conv pass_or_def)

lemma push_tools_tags:
  "map tag (push_virtualization_tools p) =
     [(''qemu-available'', pass_or Fail (qemu_version (sp_virtualization p) \<noteq> None)),
      (''libvirt-available'', pass_or Fail (virsh_available (sp_virtualization p)))]
     @ (if virsh_available (sp_virtualization p) \<and> \<not> libvirtd_running (sp_virtualization p)
        then [(''libvirtd-running'', Warn)] else [])"
  by (auto simp: push_virtualization_tools_def Let_def pass_or_def split: option.splits)

lemmas report_tags = push_tags push_bootloader_tags push_gpu_tags push_tools_tags

lemma report_status_tags:
  "report_status (new_report fs) =
     (if Fail \<in> set (map snd (map tag fs)) then Blocked
      else if Warn \<in> set (map snd (map tag fs)) then Warnings else Ready)"
proof -
  have "sev \<in> set (map snd (map tag fs)) \<longleftrightarrow> list_ex (\<lambda>f. finding_severity f = sev) fs" for sev
    by (auto simp: list_ex_iff tag_def image_iff)
  then show ?thesis by (simp add: new_report_def)
qed

lemma report_blocked_tags: "report_blocked (new_report fs) \<longleftrightarrow> Fail \<in> set (map snd (map tag fs))"
  by (simp add: report_blocked_def report_status_tags)

text \<open>The conditions under which no finding fails: what the host must offer.\<close>

definition host_supported :: "system_profile \<Rightarrow> bool" where
  "host_supported p \<longleftrightarrow>
     iommu_capable (sp_cpu p) \<and> iommu_active p \<and>
     bootloader_kind (sp_bootloader p) \<noteq> UnknownBootloader \<and>
     sp_initramfs_system p \<noteq> UnknownInitramfs \<and>
     (\<exists>g \<in> set (sp_gpus p). iommu_isolated g) \<and>
     qemu_version (sp_virtualization p) \<noteq> None \<and> virsh_available (sp_virtualization p) \<and>
     ovmf_available (ovmf (sp_readiness p)) \<and>
     in_libvirt_group (user_access (sp_readiness p)) \<and> in_kvm_group (user_access (sp_readiness p))"

lemma report_blocked_iff:
  "report_blocked (build_compatibility_report p) \<longleftrightarrow> \<not> host_supported p"
  unfolding build_compatibility_report_def report_blocked_tags map_append report_tags
    host_supported_def
  by (auto simp: list_ex_iff split: bootloader_kind.splits)

end
