(* ===== verification/Validation.thy ===== *)
theory Validation
  imports Compatibility
begin

text \<open>
  \<open>vm/validation.rs\<close>: the read-only check of the user's choices against the host and the
  compatibility report. Each \<open>check_*\<close> function appends to one vector of issues and is modelled by
  the issues it appends. \<open>Path::exists\<close> asks the real file system of the host; it is the
  parameter \<open>exists\<close> of the model.
\<close>

section \<open>Issues\<close>

datatype validation_severity = SevError | SevWarning

definition validation_severity_display :: "validation_severity \<Rightarrow> string" where
  "validation_severity_display s = (case s of SevError \<Rightarrow> ''ERROR'' | SevWarning \<Rightarrow> ''WARN'')"

datatype issue_id =
  CompatibilityBlocked | VmNameEmpty | VmNameInvalidChars | VmNameCollidesWithDomain
| GpuRolesEmpty | GpuRoleSlotUnknown | GpuRoleDuplicate | GpuRoleMissing | GpuModeMismatch
| PassthroughGpuNotIsolated | HostGpuPassthroughBound | SingleGpuRiskAcknowledged
| MultiGpuNotImplemented | MonitorConnectorUnknown | MonitorConnectorsCollide
| MonitorPlanNeedsTwoMonitors | LookingGlassRequiresPassthrough | LookingGlassResolutionInvalid
| LookingGlassAutoBuildNotImplemented | HookHandoffRequiresSingleGpu
| HookHandoffRequiresKnownDisplayManager | IsoMissing | DiskPathExistsForCreate
| DiskPathMissingForExisting | DiskTooSmall | StorageInsufficient | RamTooSmall | RamExceedsHost
| VcpuTooLow | VcpuExceedsHost | AudioBackendMissing | AudioBackendNotPipeable
| NetworkInterfaceMissing | EvdevPathUnknown | EvdevPathDuplicated

definition issue_id_display :: "issue_id \<Rightarrow> string" where
  "issue_id_display i = (case i of
     CompatibilityBlocked \<Rightarrow> ''compatibility-blocked''
   | VmNameEmpty \<Rightarrow> ''vm-name-empty''
   | VmNameInvalidChars \<Rightarrow> ''vm-name-invalid-chars''
   | VmNameCollidesWithDomain \<Rightarrow> ''vm-name-collides-with-domain''
   | GpuRolesEmpty \<Rightarrow> ''gpu-roles-empty''
   | GpuRoleSlotUnknown \<Rightarrow> ''gpu-role-slot-unknown''
   | GpuRoleDuplicate \<Rightarrow> ''gpu-role-duplicate''
   | GpuRoleMissing \<Rightarrow> ''gpu-role-missing''
   | GpuModeMismatch \<Rightarrow> ''gpu-mode-mismatch''
   | PassthroughGpuNotIsolated \<Rightarrow> ''passthrough-gpu-not-isolated''
   | HostGpuPassthroughBound \<Rightarrow> ''host-gpu-passthrough-bound''
   | SingleGpuRiskAcknowledged \<Rightarrow> ''single-gpu-risk-acknowledged''
   | MultiGpuNotImplemented \<Rightarrow> ''multi-gpu-not-implemented''
   | MonitorConnectorUnknown \<Rightarrow> ''monitor-connector-unknown''
   | MonitorConnectorsCollide \<Rightarrow> ''monitor-connectors-collide''
   | MonitorPlanNeedsTwoMonitors \<Rightarrow> ''monitor-plan-needs-two-monitors''
   | LookingGlassRequiresPassthrough \<Rightarrow> ''looking-glass-requires-passthrough''
   | LookingGlassResolutionInvalid \<Rightarrow> ''looking-glass-resolution-invalid''
   | LookingGlassAutoBuildNotImplemented \<Rightarrow> ''looking-glass-auto-build-not-implemented''
   | HookHandoffRequiresSingleGpu \<Rightarrow> ''hook-handoff-requires-single-gpu''
   | HookHandoffRequiresKnownDisplayManager \<Rightarrow> ''hook-handoff-requires-known-display-manager''
   | IsoMissing \<Rightarrow> ''iso-missing''
   | DiskPathExistsForCreate \<Rightarrow> ''disk-path-exists-for-create''
   | DiskPathMissingForExisting \<Rightarrow> ''disk-path-missing-for-existing''
   | DiskTooSmall \<Rightarrow> ''disk-too-small''
   | StorageInsufficient \<Rightarrow> ''storage-insufficient''
   | RamTooSmall \<Rightarrow> ''ram-too-small''
   | RamExceedsHost \<Rightarrow> ''ram-exceeds-host''
   | VcpuTooLow \<Rightarrow> ''vcpu-too-low''
   | VcpuExceedsHost \<Rightarrow> ''vcpu-exceeds-host''
   | AudioBackendMissing \<Rightarrow> ''audio-backend-missing''
   | AudioBackendNotPipeable \<Rightarrow> ''audio-backend-not-pipeable''
   | NetworkInterfaceMissing \<Rightarrow> ''network-interface-missing''
   | EvdevPathUnknown \<Rightarrow> ''evdev-path-unknown''
   | EvdevPathDuplicated \<Rightarrow> ''evdev-path-duplicated'')"

record validation_issue =
  issue_id :: issue_id
  issue_severity :: validation_severity
  issue_message :: string

definition error_issue :: "issue_id \<Rightarrow> string \<Rightarrow> validation_issue" where
  "error_issue i m = \<lparr>issue_id = i, issue_severity = SevError, issue_message = m\<rparr>"

definition warn_issue :: "issue_id \<Rightarrow> string \<Rightarrow> validation_issue" where
  "warn_issue i m = \<lparr>issue_id = i, issue_severity = SevWarning, issue_message = m\<rparr>"

record validation_report =
  report_issues :: "validation_issue list"

definition has_errors :: "validation_report \<Rightarrow> bool" where
  "has_errors r = list_ex (\<lambda>i. issue_severity i = SevError) (report_issues r)"

definition validation_ok :: "validation_report \<Rightarrow> bool" where
  "validation_ok r \<longleftrightarrow> \<not> has_errors r"

definition has_warnings :: "validation_report \<Rightarrow> bool" where
  "has_warnings r = list_ex (\<lambda>i. issue_severity i = SevWarning) (report_issues r)"

definition report_errors :: "validation_report \<Rightarrow> validation_issue list" where
  "report_errors r = filter (\<lambda>i. issue_severity i = SevError) (report_issues r)"

definition report_warnings :: "validation_report \<Rightarrow> validation_issue list" where
  "report_warnings r = filter (\<lambda>i. issue_severity i = SevWarning) (report_issues r)"

definition has_issue :: "issue_id \<Rightarrow> validation_report \<Rightarrow> bool" where
  "has_issue i r = list_ex (\<lambda>x. issue_id x = i) (report_issues r)"

section \<open>The checks\<close>

definition propagate_blockers :: "compatibility_report \<Rightarrow> validation_issue list" where
  "propagate_blockers r =
     (let blockers = map finding_id (filter (\<lambda>f. finding_severity f = Fail) (report_findings r)) in
      if blockers = [] then []
      else [error_issue CompatibilityBlocked
              (''Compatibility report has '' @ show_nat (length blockers)
               @ '' blocker(s) that must be resolved before any plan: '' @ str_join '', '' blockers)])"

definition check_vm_name :: "system_profile \<Rightarrow> passthrough_config \<Rightarrow> validation_issue list" where
  "check_vm_name p c =
     (if vm_name c = [] then
        [error_issue VmNameEmpty ''VM name is empty. Choose a name like `virtu-windows`.'']
      else if \<not> is_valid_vm_name (vm_name c) then
        [error_issue VmNameInvalidChars
           (''VM name `'' @ vm_name c @ ''` contains characters libvirt does not accept. Allowed: letters, digits, `_`, `.`, `+`, `-`.'')]
      else if list_ex (\<lambda>d. domain_name d = vm_name c) (libvirt_domains (sp_readiness p)) then
        [error_issue VmNameCollidesWithDomain
           (''VM name `'' @ vm_name c @ ''` is already registered with libvirt. Choose a different name or undefine the existing domain.'')]
      else [])"

text \<open>The loop over the assignments, with the vector \<open>seen\<close> of the slots met so far.\<close>

fun role_slot_issues ::
  "system_profile \<Rightarrow> string list \<Rightarrow> gpu_role_assignment list \<Rightarrow> validation_issue list" where
  "role_slot_issues p seen [] = []"
| "role_slot_issues p seen (r # rs) =
     (if role_pci_slot r \<in> set seen then
        [error_issue GpuRoleDuplicate
           (''GPU at PCI slot '' @ role_pci_slot r @ '' appears in role assignments more than once.'')]
      else [])
     @ (if \<not> list_ex (\<lambda>g. gpu_pci_slot g = role_pci_slot r) (sp_gpus p) then
          [error_issue GpuRoleSlotUnknown
             (''PCI slot '' @ role_pci_slot r @ '' is not present in the detected system profile.'')]
        else [])
     @ role_slot_issues p
         (if role_pci_slot r \<in> set seen then seen else seen @ [role_pci_slot r]) rs"

definition unassigned_gpu_issues ::
  "system_profile \<Rightarrow> passthrough_config \<Rightarrow> validation_issue list" where
  "unassigned_gpu_issues p c =
     map (\<lambda>g. error_issue GpuRoleMissing
                (''Detected GPU at '' @ gpu_pci_slot g @ '' ('' @ gpu_model_name g
                 @ '') has no role assignment. Mark it Host, Passthrough, or Ignored.''))
       (filter (\<lambda>g. \<not> list_ex (\<lambda>r. role_pci_slot r = gpu_pci_slot g) (gpu_roles c)) (sp_gpus p))"

definition isolation_issues :: "system_profile \<Rightarrow> passthrough_config \<Rightarrow> validation_issue list" where
  "isolation_issues p c = concat (map
     (\<lambda>a. case find_gpu p (role_pci_slot a) of None \<Rightarrow> []
          | Some g \<Rightarrow>
              if \<not> iommu_isolated g then
                [error_issue PassthroughGpuNotIsolated
                   (''GPU '' @ gpu_pci_slot g @ '' ('' @ gpu_model_name g
                    @ '') is not isolated in its IOMMU group and cannot be passed through safely.'')]
              else [])
     (roles_with Passthrough c))"

definition host_bound_issues :: "system_profile \<Rightarrow> passthrough_config \<Rightarrow> validation_issue list" where
  "host_bound_issues p c = concat (map
     (\<lambda>a. case find_gpu p (role_pci_slot a) of None \<Rightarrow> []
          | Some g \<Rightarrow>
              if gpu_current_driver g = Some ''vfio-pci'' then
                [error_issue HostGpuPassthroughBound
                   (''GPU '' @ gpu_pci_slot g
                    @ '' is currently bound to vfio-pci and cannot be the host GPU until it is rebound.'')]
              else [])
     (roles_with Host c))"

definition mode_issues :: "passthrough_config \<Rightarrow> gpu_mode option \<Rightarrow> validation_issue list" where
  "mode_issues c derived =
     (case derived of None \<Rightarrow> []
      | Some m \<Rightarrow>
          (if m \<noteq> cfg_gpu_mode c then
             [error_issue GpuModeMismatch
                (''Stated GPU mode `'' @ gpu_mode_display (cfg_gpu_mode c)
                 @ ''` does not match assignments which describe `'' @ gpu_mode_display m @ ''`.'')]
           else [])
          @ (case m of
               SingleGpu \<Rightarrow>
                 [warn_issue SingleGpuRiskAcknowledged
                    ''Single-GPU passthrough requires display-manager-aware hooks and is supported only after rollback is reliable.'']
             | MultiGpu \<Rightarrow>
                 [error_issue MultiGpuNotImplemented
                    ''Multiple Passthrough GPUs are not supported by the current automation path.'']
             | _ \<Rightarrow> []))"

definition check_gpu_roles ::
  "system_profile \<Rightarrow> passthrough_config \<Rightarrow> validation_issue list \<times> gpu_mode option" where
  "check_gpu_roles p c =
     (if gpu_roles c = [] then
        ([error_issue GpuRolesEmpty
            ''No GPU role assignments were provided. Assign each detected GPU to a role.''], None)
      else
        (let derived = derived_mode c p in
         (role_slot_issues p [] (gpu_roles c)
          @ unassigned_gpu_issues p c
          @ (if roles_with Passthrough c = [] then
               [error_issue GpuRoleMissing ''At least one GPU must be assigned the Passthrough role.'']
             else [])
          @ isolation_issues p c @ host_bound_issues p c @ mode_issues c derived, derived)))"

definition unknown_connector_issues :: "system_profile \<Rightarrow> string list \<Rightarrow> validation_issue list" where
  "unknown_connector_issues p cs =
     map (\<lambda>c. error_issue MonitorConnectorUnknown
                (''Connector `'' @ c @ ''` is not present in the detected DRM monitor list.''))
       (filter (\<lambda>c. \<not> list_ex (\<lambda>m. connector_name m = c) (sp_monitors p)) cs)"

definition check_monitors :: "system_profile \<Rightarrow> passthrough_config \<Rightarrow> validation_issue list" where
  "check_monitors p c =
     (case cfg_monitor_plan c of
        OneMonitor strategy \<Rightarrow>
          (if strategy = HookHandoff then
             (if derived_mode c p \<noteq> Some SingleGpu then
                [error_issue HookHandoffRequiresSingleGpu
                   ''Hook-based monitor hand-off only applies to single-GPU passthrough.'']
              else [])
             @ (if sp_display_manager p = UnknownDm \<or> sp_display_manager p = NoDm then
                  [error_issue HookHandoffRequiresKnownDisplayManager
                     (''Single-GPU hook hand-off requires a recognized display manager ''
                      @ ''so the begin/end scripts can stop and restart it cleanly. ''
                      @ ''Detected display manager: `'' @ dm_display (sp_display_manager p)
                      @ ''`. Switch the monitor plan to ''
                      @ ''`SwitchInputs`, install one of the supported display managers ''
                      @ ''(GDM / SDDM / LightDM / greetd / ly / lxdm), or run on a host ''
                      @ ''where a managed DM is active.'')]
                else [])
           else [])
      | TwoMonitors h v \<Rightarrow>
          (if h = v then
             [error_issue MonitorConnectorsCollide
                ''Two-monitor plans must use two different connectors.'']
           else [])
          @ unknown_connector_issues p [h, v]
          @ (if length (filter monitor_connected (sp_monitors p)) < 2 then
               [warn_issue MonitorPlanNeedsTwoMonitors
                  ''Two-monitor plan was selected but only one connector is currently reported as connected.'']
             else []))"

definition check_looking_glass ::
  "passthrough_config \<Rightarrow> gpu_mode option \<Rightarrow> validation_issue list" where
  "check_looking_glass c mode =
     (case looking_glass c of
        LgDisabled \<Rightarrow> []
      | LgEnabled im r \<Rightarrow>
          (if mode = None then
             [error_issue LookingGlassRequiresPassthrough
                ''Looking Glass requires at least one Passthrough GPU.'']
           else [])
          @ (if res_width r = 0 \<or> res_height r = 0 then
               [error_issue LookingGlassResolutionInvalid
                  ''Looking Glass target resolution must have non-zero width and height.'']
             else [])
          @ (if im = AutoBuild then
               [warn_issue LookingGlassAutoBuildNotImplemented
                  ''Looking Glass auto-build will only run after explicit consent and once the installer milestone ships. Choose Manual until then.'']
             else []))"

definition host_ram_mb :: "system_profile \<Rightarrow> u64" where
  "host_ram_mb p = total_kb (sp_ram p) div 1024"

definition host_threads :: "system_profile \<Rightarrow> u32" where
  "host_threads p = max (logical_cores (sp_cpu p)) 1"

definition ram_issues :: "system_profile \<Rightarrow> u64 \<Rightarrow> validation_issue list" where
  "ram_issues p ram =
     (let host = host_ram_mb p in
      (if ram < 2048 then [error_issue RamTooSmall ''VM RAM must be at least 2048 MiB.''] else [])
      @ (if 0 < host \<and> host \<le> ram then
           [error_issue RamExceedsHost
              (''Requested '' @ show_nat (unat ram) @ '' MiB of VM RAM is not available; host has ''
               @ show_nat (unat host) @ '' MiB total.'')]
         else if 0 < host \<and> host < ram + 2048 then
           [warn_issue RamExceedsHost
              (''VM RAM '' @ show_nat (unat ram) @ '' MiB leaves less than 2 GiB for the host (total ''
               @ show_nat (unat host) @ '' MiB).'')]
         else []))"

definition vcpu_issues :: "system_profile \<Rightarrow> u32 \<Rightarrow> validation_issue list" where
  "vcpu_issues p vcpus =
     (if vcpus < 2 then [error_issue VcpuTooLow ''VM must have at least 2 vCPUs.''] else [])
     @ (if host_threads p \<le> vcpus then
          [error_issue VcpuExceedsHost
             (''Requested '' @ show_nat (unat vcpus)
              @ '' vCPUs leaves no logical cores for the host (host has ''
              @ show_nat (unat (host_threads p)) @ '').'')]
        else [])"

definition disk_issues ::
  "(path \<Rightarrow> bool) \<Rightarrow> system_profile \<Rightarrow> disk_choice \<Rightarrow> validation_issue list" where
  "disk_issues exists p d =
     (let free = available_gb (sp_storage p) in
      case d of
        CreateDisk q size_gb fmt \<Rightarrow>
          (if size_gb < 30 then
             [warn_issue DiskTooSmall
                (''Disk size '' @ show_nat (unat size_gb)
                 @ '' GiB is unusually small for a Windows gaming VM.'')]
           else [])
          @ (if exists q then
               [error_issue DiskPathExistsForCreate
                  (''Disk path '' @ path_display q
                   @ '' already exists. Choose Existing instead of Create, or pick a new path.'')]
             else [])
          @ (if 0 < free \<and> free < size_gb then
               [error_issue StorageInsufficient
                  (''Requested '' @ show_nat (unat size_gb) @ '' GiB exceeds detected free space (''
                   @ show_nat (unat free) @ '' GiB) in ''
                   @ path_display (default_vm_dir (sp_storage p)) @ ''.'')]
             else [])
      | ExistingDisk q \<Rightarrow>
          (if \<not> exists q then
             [error_issue DiskPathMissingForExisting
                (''Existing disk path '' @ path_display q @ '' could not be found.'')]
           else []))"

definition check_resources ::
  "(path \<Rightarrow> bool) \<Rightarrow> system_profile \<Rightarrow> passthrough_config \<Rightarrow> validation_issue list" where
  "check_resources exists p c =
     ram_issues p (ram_mb (resources c)) @ vcpu_issues p (vcpu_count (resources c))
     @ disk_issues exists p (res_disk (resources c))"

definition check_audio :: "system_profile \<Rightarrow> passthrough_config \<Rightarrow> validation_issue list" where
  "check_audio p c =
     (if cfg_audio c = HostAudio then
        (case sp_audio p of
           PipeWire \<Rightarrow> [] | PulseAudio \<Rightarrow> []
         | UnknownAudio \<Rightarrow>
             [error_issue AudioBackendMissing
                ''Host-audio passthrough was selected but no PipeWire/PulseAudio backend was detected.'']
         | a \<Rightarrow>
             [warn_issue AudioBackendNotPipeable
                (''Detected audio backend '' @ audio_display a
                 @ '' cannot pipe directly into libvirt; consider Scream or None.'')])
      else [])"

definition check_network :: "passthrough_config \<Rightarrow> validation_issue list" where
  "check_network c =
     (case cfg_network c of
        BridgeNetwork i \<Rightarrow>
          (if trim i = [] then
             [error_issue NetworkInterfaceMissing
                ''Bridge networking was selected without a host interface name.'']
           else [])
      | _ \<Rightarrow> [])"

fun evdev_issues :: "(path \<Rightarrow> bool) \<Rightarrow> string list \<Rightarrow> path list \<Rightarrow> validation_issue list" where
  "evdev_issues exists seen [] = []"
| "evdev_issues exists seen (q # qs) =
     (if \<not> exists q then
        [warn_issue EvdevPathUnknown
           (''Evdev device path '' @ path_display q
            @ '' does not exist on this host. Confirm the device is plugged in.'')]
      else [])
     @ (let key = path_display q in
        if key \<in> set seen then
          error_issue EvdevPathDuplicated (''Evdev path '' @ key @ '' is selected more than once.'')
          # evdev_issues exists seen qs
        else evdev_issues exists (seen @ [key]) qs)"

definition check_input :: "(path \<Rightarrow> bool) \<Rightarrow> passthrough_config \<Rightarrow> validation_issue list" where
  "check_input exists c = evdev_issues exists [] (all_evdev_paths (cfg_input c))"

definition check_iso :: "(path \<Rightarrow> bool) \<Rightarrow> passthrough_config \<Rightarrow> validation_issue list" where
  "check_iso exists c =
     (case iso_path c of None \<Rightarrow> []
      | Some q \<Rightarrow>
          (if \<not> exists q then
             [error_issue IsoMissing (''Selected ISO '' @ path_display q @ '' could not be found.'')]
           else []))"

definition validate ::
  "(path \<Rightarrow> bool) \<Rightarrow> system_profile \<Rightarrow> compatibility_report \<Rightarrow> passthrough_config \<Rightarrow> validation_report"
  where
  "validate exists p r c =
     (let (gpu_issues, mode) = check_gpu_roles p c in
      \<lparr>report_issues =
         propagate_blockers r @ check_vm_name p c @ gpu_issues @ check_monitors p c
         @ check_looking_glass c mode @ check_resources exists p c @ check_audio p c
         @ check_network c @ check_input exists c @ check_iso exists c\<rparr>)"

section \<open>What passes validation\<close>

definition errors_in :: "validation_issue list \<Rightarrow> bool" where
  "errors_in is = list_ex (\<lambda>i. issue_severity i = SevError) is"

lemma errors_in_simps [simp]:
  "\<not> errors_in []" "errors_in (error_issue i m # is)"
  "errors_in (warn_issue i m # is) = errors_in is"
  "errors_in (is @ js) = (errors_in is \<or> errors_in js)"
  by (simp_all add: errors_in_def error_issue_def warn_issue_def)

lemma errors_in_map_error [simp]: "errors_in (map (\<lambda>x. error_issue (f x) (m x)) xs) \<longleftrightarrow> xs \<noteq> []"
  by (cases xs) simp_all

lemma errors_in_concat: "errors_in (concat xss) \<longleftrightarrow> (\<exists>xs \<in> set xss. errors_in xs)"
  by (induction xss) auto

lemma validation_ok_iff: "validation_ok r \<longleftrightarrow> \<not> errors_in (report_issues r)"
  by (simp add: validation_ok_def has_errors_def errors_in_def)

lemma propagate_errors: "errors_in (propagate_blockers r) \<longleftrightarrow>
    (\<exists>f \<in> set (report_findings r). finding_severity f = Fail)"
  by (auto simp: propagate_blockers_def Let_def filter_empty_conv)

definition name_ok :: "system_profile \<Rightarrow> passthrough_config \<Rightarrow> bool" where
  "name_ok p c \<longleftrightarrow> is_valid_vm_name (vm_name c) \<and> vm_name c \<notin> set (domain_names p)"

lemma name_errors: "errors_in (check_vm_name p c) \<longleftrightarrow> \<not> name_ok p c"
  by (auto simp: check_vm_name_def name_ok_def domain_names_def list_ex_eq_image is_valid_vm_name_def)

lemma slot_errors:
  "errors_in (role_slot_issues p seen rs) \<longleftrightarrow>
     \<not> (distinct (map role_pci_slot rs) \<and> set (map role_pci_slot rs) \<inter> set seen = {} \<and>
        set (map role_pci_slot rs) \<subseteq> set (map gpu_pci_slot (sp_gpus p)))"
  by (induction rs arbitrary: seen) (auto simp: list_ex_eq_image)

text \<open>The assignments give each detected GPU one role, pass one isolated GPU through, and keep no
  host GPU that \<open>vfio-pci\<close> holds; the stated mode is the derived one, where one is derived.\<close>

definition roles_ok :: "system_profile \<Rightarrow> passthrough_config \<Rightarrow> bool" where
  "roles_ok p c \<longleftrightarrow>
     distinct (map role_pci_slot (gpu_roles c)) \<and>
     set (map role_pci_slot (gpu_roles c)) = set (map gpu_pci_slot (sp_gpus p)) \<and>
     (\<exists>a g. roles_with Passthrough c = [a] \<and> find_gpu p (role_pci_slot a) = Some g \<and>
            iommu_isolated g) \<and>
     (\<forall>a \<in> set (roles_with Host c). \<forall>g. find_gpu p (role_pci_slot a) = Some g \<longrightarrow>
            gpu_current_driver g \<noteq> Some ''vfio-pci'') \<and>
     (\<forall>m. derived_mode c p = Some m \<longrightarrow> cfg_gpu_mode c = m)"

lemma isolation_errors:
  "errors_in (isolation_issues p c) \<longleftrightarrow>
     \<not> (\<forall>a \<in> set (roles_with Passthrough c). \<forall>g. find_gpu p (role_pci_slot a) = Some g \<longrightarrow>
        iommu_isolated g)"
  by (auto simp: isolation_issues_def errors_in_concat split: option.splits)

lemma host_bound_errors:
  "errors_in (host_bound_issues p c) \<longleftrightarrow>
     \<not> (\<forall>a \<in> set (roles_with Host c). \<forall>g. find_gpu p (role_pci_slot a) = Some g \<longrightarrow>
        gpu_current_driver g \<noteq> Some ''vfio-pci'')"
  by (auto simp: host_bound_issues_def errors_in_concat split: option.splits)

lemma mode_errors:
  "errors_in (mode_issues c d) \<longleftrightarrow> \<not> ((\<forall>m. d = Some m \<longrightarrow> cfg_gpu_mode c = m) \<and> d \<noteq> Some MultiGpu)"
  by (auto simp: mode_issues_def split: option.splits gpu_mode.splits)

lemma unassigned_errors:
  "errors_in (unassigned_gpu_issues p c) \<longleftrightarrow>
     \<not> set (map gpu_pci_slot (sp_gpus p)) \<subseteq> set (map role_pci_slot (gpu_roles c))"
  by (auto simp: unassigned_gpu_issues_def filter_empty_conv list_ex_eq_image)

lemma multi_iff: "derived_mode c p = Some MultiGpu \<longleftrightarrow> 2 \<le> length (roles_with Passthrough c)"
  by (auto simp: derived_mode_alt Let_def)

lemma length_one_iff: "length xs = 1 \<longleftrightarrow> xs \<noteq> [] \<and> \<not> 2 \<le> length xs"
  by (cases xs; cases "tl xs") auto

lemma find_gpu_known: "s \<in> set (map gpu_pci_slot (sp_gpus p)) \<Longrightarrow> \<exists>g. find_gpu p s = Some g"
  by (cases "find_gpu p s") (auto simp: find_gpu_None)

lemma role_errors: "errors_in (fst (check_gpu_roles p c)) \<longleftrightarrow> \<not> roles_ok p c"
proof (cases "gpu_roles c = []")
  case True
  then show ?thesis by (auto simp: check_gpu_roles_def roles_ok_def roles_with_def)
next
  case False
  let ?P = "roles_with Passthrough c"
  have single: "(\<exists>a. ?P = [a]) \<longleftrightarrow> ?P \<noteq> [] \<and> derived_mode c p \<noteq> Some MultiGpu"
    using length_one_iff[of ?P] by (simp add: multi_iff length_Suc_conv)
  have known: "a \<in> set ?P \<Longrightarrow> set (map role_pci_slot (gpu_roles c)) \<subseteq> set (map gpu_pci_slot (sp_gpus p))
      \<Longrightarrow> \<exists>g. find_gpu p (role_pci_slot a) = Some g" for a
    by (intro find_gpu_known) (auto simp: set_roles_with)
  have uniq: "(\<exists>a g. ?P = [a] \<and> find_gpu p (role_pci_slot a) = Some g \<and> iommu_isolated g) \<longleftrightarrow>
      ?P \<noteq> [] \<and> derived_mode c p \<noteq> Some MultiGpu \<and>
      (\<forall>a \<in> set ?P. \<forall>g. find_gpu p (role_pci_slot a) = Some g \<longrightarrow> iommu_isolated g)"
    if "set (map role_pci_slot (gpu_roles c)) = set (map gpu_pci_slot (sp_gpus p))"
  proof (cases "\<exists>a. ?P = [a]")
    case True
    then obtain a where a: "?P = [a]" ..
    have "derived_mode c p \<noteq> Some MultiGpu" using True single by simp
    with a known[of a] that show ?thesis by auto
  next
    case False
    then show ?thesis using single by blast
  qed
  have "errors_in (fst (check_gpu_roles p c)) \<longleftrightarrow>
      \<not> (distinct (map role_pci_slot (gpu_roles c)) \<and>
         set (map role_pci_slot (gpu_roles c)) = set (map gpu_pci_slot (sp_gpus p)) \<and>
         ?P \<noteq> [] \<and> derived_mode c p \<noteq> Some MultiGpu \<and>
         (\<forall>a \<in> set ?P. \<forall>g. find_gpu p (role_pci_slot a) = Some g \<longrightarrow> iommu_isolated g) \<and>
         (\<forall>a \<in> set (roles_with Host c). \<forall>g. find_gpu p (role_pci_slot a) = Some g \<longrightarrow>
            gpu_current_driver g \<noteq> Some ''vfio-pci'') \<and>
         (\<forall>m. derived_mode c p = Some m \<longrightarrow> cfg_gpu_mode c = m))"
    using False
    by (simp add: check_gpu_roles_def Let_def slot_errors unassigned_errors isolation_errors
        host_bound_errors mode_errors set_eq_subset del: not_all) argo
  also have "\<dots> \<longleftrightarrow> \<not> roles_ok p c"
    using uniq by (simp add: roles_ok_def) blast
  finally show ?thesis .
qed

definition monitors_ok :: "system_profile \<Rightarrow> passthrough_config \<Rightarrow> bool" where
  "monitors_ok p c \<longleftrightarrow>
     (case cfg_monitor_plan c of
        OneMonitor s \<Rightarrow> s = HookHandoff \<longrightarrow>
          derived_mode c p = Some SingleGpu \<and> sp_display_manager p \<noteq> UnknownDm \<and>
          sp_display_manager p \<noteq> NoDm
      | TwoMonitors h v \<Rightarrow> h \<noteq> v \<and> {h, v} \<subseteq> set (map connector_name (sp_monitors p)))"

lemma monitor_errors: "errors_in (check_monitors p c) \<longleftrightarrow> \<not> monitors_ok p c"
  by (auto simp: check_monitors_def monitors_ok_def unknown_connector_issues_def filter_empty_conv
      list_ex_iff image_iff split: monitor_plan.splits)

definition looking_glass_ok :: "passthrough_config \<Rightarrow> gpu_mode option \<Rightarrow> bool" where
  "looking_glass_ok c mode \<longleftrightarrow>
     (\<forall>im r. looking_glass c = LgEnabled im r \<longrightarrow> mode \<noteq> None \<and> res_width r \<noteq> 0 \<and> res_height r \<noteq> 0)"

lemma looking_glass_errors: "errors_in (check_looking_glass c mode) \<longleftrightarrow> \<not> looking_glass_ok c mode"
  by (auto simp: check_looking_glass_def looking_glass_ok_def split: looking_glass_choice.splits)

definition resources_ok :: "(path \<Rightarrow> bool) \<Rightarrow> system_profile \<Rightarrow> vm_resources \<Rightarrow> bool" where
  "resources_ok exists p r \<longleftrightarrow>
     2048 \<le> ram_mb r \<and> (0 < host_ram_mb p \<longrightarrow> ram_mb r < host_ram_mb p) \<and>
     2 \<le> vcpu_count r \<and> vcpu_count r < host_threads p \<and>
     (case res_disk r of
        CreateDisk q size_gb _ \<Rightarrow> \<not> exists q \<and>
          (0 < available_gb (sp_storage p) \<longrightarrow> size_gb \<le> available_gb (sp_storage p))
      | ExistingDisk q \<Rightarrow> exists q)"

lemma resource_errors:
  "errors_in (check_resources exists p c) \<longleftrightarrow> \<not> resources_ok exists p (resources c)"
proof -
  have "errors_in (ram_issues p m) \<longleftrightarrow> \<not> (2048 \<le> m \<and> (0 < host_ram_mb p \<longrightarrow> m < host_ram_mb p))" for m
    by (auto simp: ram_issues_def Let_def)
  moreover have "errors_in (vcpu_issues p n) \<longleftrightarrow> \<not> (2 \<le> n \<and> n < host_threads p)" for n
    by (auto simp: vcpu_issues_def)
  ultimately show ?thesis
    by (auto simp: check_resources_def resources_ok_def disk_issues_def Let_def not_less not_le
        split: disk_choice.splits)
qed

lemma audio_errors:
  "errors_in (check_audio p c) \<longleftrightarrow> cfg_audio c = HostAudio \<and> sp_audio p = UnknownAudio"
  by (auto simp: check_audio_def split: audio_system.splits)

lemma network_errors:
  "errors_in (check_network c) \<longleftrightarrow> (\<exists>i. cfg_network c = BridgeNetwork i \<and> trim i = [])"
  by (auto simp: check_network_def split: network_choice.splits)

lemma evdev_errors:
  "errors_in (evdev_issues exists seen qs) \<longleftrightarrow>
     \<not> (distinct (map path_display qs) \<and> set (map path_display qs) \<inter> set seen = {})"
  by (induction qs arbitrary: seen) (auto simp: Let_def)

lemma iso_errors: "errors_in (check_iso exists c) \<longleftrightarrow> (\<exists>q. iso_path c = Some q \<and> \<not> exists q)"
  by (auto simp: check_iso_def split: option.splits)

definition choices_ok :: "(path \<Rightarrow> bool) \<Rightarrow> system_profile \<Rightarrow> passthrough_config \<Rightarrow> bool" where
  "choices_ok exists p c \<longleftrightarrow>
     name_ok p c \<and> roles_ok p c \<and> monitors_ok p c \<and> looking_glass_ok c (derived_mode c p) \<and>
     resources_ok exists p (resources c) \<and>
     (cfg_audio c = HostAudio \<longrightarrow> sp_audio p \<noteq> UnknownAudio) \<and>
     (\<forall>i. cfg_network c = BridgeNetwork i \<longrightarrow> trim i \<noteq> []) \<and>
     distinct (map path_display (all_evdev_paths (cfg_input c))) \<and>
     (\<forall>q. iso_path c = Some q \<longrightarrow> exists q)"

lemma check_gpu_roles_mode: "gpu_roles c \<noteq> [] \<Longrightarrow> snd (check_gpu_roles p c) = derived_mode c p"
  by (simp add: check_gpu_roles_def Let_def)

lemma roles_ok_nonempty: "roles_ok p c \<Longrightarrow> gpu_roles c \<noteq> []"
  by (auto simp: roles_ok_def roles_with_def)

text \<open>Validation reports no error exactly when no finding of the report fails and the choices satisfy
  the declarative conditions of \<open>choices_ok\<close>.\<close>

lemma validate_ok_iff:
  "validation_ok (validate exists p r c) \<longleftrightarrow>
     (\<forall>f \<in> set (report_findings r). finding_severity f \<noteq> Fail) \<and> choices_ok exists p c"
proof -
  have mode: "roles_ok p c \<Longrightarrow> snd (check_gpu_roles p c) = derived_mode c p"
    by (simp add: check_gpu_roles_mode roles_ok_nonempty)
  have "validation_ok (validate exists p r c) \<longleftrightarrow>
      (\<forall>f \<in> set (report_findings r). finding_severity f \<noteq> Fail) \<and> name_ok p c \<and> roles_ok p c \<and>
      monitors_ok p c \<and> looking_glass_ok c (snd (check_gpu_roles p c)) \<and>
      resources_ok exists p (resources c) \<and>
      (cfg_audio c = HostAudio \<longrightarrow> sp_audio p \<noteq> UnknownAudio) \<and>
      (\<forall>i. cfg_network c = BridgeNetwork i \<longrightarrow> trim i \<noteq> []) \<and>
      distinct (map path_display (all_evdev_paths (cfg_input c))) \<and>
      (\<forall>q. iso_path c = Some q \<longrightarrow> exists q)"
    by (simp add: validation_ok_iff validate_def case_prod_beta propagate_errors name_errors
        role_errors monitor_errors looking_glass_errors resource_errors audio_errors network_errors
        check_input_def evdev_errors iso_errors) blast
  then show ?thesis using mode by (cases "roles_ok p c") (simp_all add: choices_ok_def)
qed

text \<open>The sum \<open>ram_mb + 2048\<close> that the warning compares never wraps around where it is read.\<close>

lemma ram_sum_no_wrap:
  assumes "0 < host_ram_mb p" and "ram < host_ram_mb p"
  shows "unat (ram + 2048) = unat ram + 2048"
proof -
  have "unat (host_ram_mb p) \<le> 2 ^ 64 div 1024"
    using unsigned_less[of "total_kb (sp_ram p)", where ?'a=nat] unfolding host_ram_mb_def
    by (simp add: unat_div)
  then have "unat ram < 2 ^ 64 div 1024" using assms by (simp add: word_less_nat_alt)
  then show ?thesis by (simp add: unat_word_ariths(1))
qed

end
