(* ===== verification/Steps.thy ===== *)
theory Steps
  imports Validation
begin

text \<open>
  \<open>engine/step.rs\<close>: the declarative step of a plan. The derived order of risks is the order of
  \<open>planner::risk_rank\<close>; it makes \<open>step_risk\<close> a \<open>linorder\<close>, so that the maximum over a plan is
  the library's \<open>Max\<close>.
\<close>

datatype step_kind =
  SnapshotStep | BootloaderWrite | VfioConfig | InitramfsWrite | HookInstall | VmXmlGenerate
| VmRegister | LookingGlassInstall | Verify

definition step_label :: "step_kind \<Rightarrow> string" where
  "step_label k =
     (case k of SnapshotStep \<Rightarrow> ''snapshot'' | BootloaderWrite \<Rightarrow> ''bootloader''
      | VfioConfig \<Rightarrow> ''vfio'' | InitramfsWrite \<Rightarrow> ''initramfs'' | HookInstall \<Rightarrow> ''hooks''
      | VmXmlGenerate \<Rightarrow> ''vm-xml'' | VmRegister \<Rightarrow> ''vm-register''
      | LookingGlassInstall \<Rightarrow> ''looking-glass'' | Verify \<Rightarrow> ''verify'')"

datatype step_risk = RiskReadOnly | RiskLow | RiskMedium | RiskHigh

definition risk_display :: "step_risk \<Rightarrow> string" where
  "risk_display r =
     (case r of RiskReadOnly \<Rightarrow> ''read-only'' | RiskLow \<Rightarrow> ''low'' | RiskMedium \<Rightarrow> ''medium''
      | RiskHigh \<Rightarrow> ''high'')"

definition risk_rank :: "step_risk \<Rightarrow> nat" where
  "risk_rank r = (case r of RiskReadOnly \<Rightarrow> 0 | RiskLow \<Rightarrow> 1 | RiskMedium \<Rightarrow> 2 | RiskHigh \<Rightarrow> 3)"

lemma risk_rank_inject: "risk_rank a = risk_rank b \<longleftrightarrow> a = b"
  by (cases a; cases b) (simp_all add: risk_rank_def)

instantiation step_risk :: linorder
begin

definition less_eq_step_risk :: "step_risk \<Rightarrow> step_risk \<Rightarrow> bool" where
  "a \<le> b \<longleftrightarrow> risk_rank a \<le> risk_rank b"

definition less_step_risk :: "step_risk \<Rightarrow> step_risk \<Rightarrow> bool" where
  "a < b \<longleftrightarrow> risk_rank a < risk_rank b"

instance
  by standard (auto simp: less_eq_step_risk_def less_step_risk_def risk_rank_inject)

end

lemma risk_bounds [simp]: "RiskReadOnly \<le> r" "r \<le> RiskHigh"
  by (cases r; simp add: less_eq_step_risk_def risk_rank_def)+

datatype privilege_need = UserPrivilege | RootViaSudo

definition privilege_display :: "privilege_need \<Rightarrow> string" where
  "privilege_display p = (case p of UserPrivilege \<Rightarrow> ''user'' | RootViaSudo \<Rightarrow> ''root via sudo'')"

datatype step_state = Pending | AlreadySatisfied

definition state_display :: "step_state \<Rightarrow> string" where
  "state_display s = (case s of Pending \<Rightarrow> ''pending'' | AlreadySatisfied \<Rightarrow> ''already satisfied'')"

record planned_step =
  step_kind :: step_kind
  step_title :: string
  step_summary :: string
  step_risk :: step_risk
  step_privilege :: privilege_need
  step_state :: step_state
  step_touches :: "path list"
  step_commands :: "string list"
  step_verification :: string
  step_rollback :: string
  step_requires_reboot :: bool
  step_requires_confirmation :: bool

definition must_confirm :: "planned_step \<Rightarrow> bool" where
  "must_confirm s \<longleftrightarrow> step_requires_confirmation s \<or> step_risk s = RiskHigh"

end
