(* ===== verification/Planner.thy ===== *)
theory Planner
  imports Steps "HOL-Library.List_Lexorder" "HOL-Library.Char_ord"
begin

text \<open>
  \<open>engine/planner.rs\<close>: the read-only construction of a plan. \<open>getenv\<close> stands for
  \<open>std::env::var\<close> (the environment of the process), \<open>exists\<close> for \<open>Path::exists\<close>.
\<close>

section \<open>Plans\<close>

datatype plan_error =
  ValidationFailed validation_report | PlanCompatibilityBlocked "string list"

definition plan_error_display :: "plan_error \<Rightarrow> string" where
  "plan_error_display e =
     (case e of
        ValidationFailed r \<Rightarrow> ''Cannot plan: user-choice validation has ''
          @ show_nat (length (report_errors r)) @ '' error(s).''
      | PlanCompatibilityBlocked ids \<Rightarrow>
          ''Cannot plan: compatibility report has hard blockers: '' @ str_join '', '' ids)"

record plan_summary =
  total_steps :: nat
  pending_steps :: nat
  already_satisfied_steps :: nat
  max_risk :: step_risk
  sum_requires_reboot :: bool
  sum_requires_confirmation :: bool

record plan =
  plan_steps :: "planned_step list"
  plan_warnings :: "validation_issue list"
  plan_summary :: plan_summary

definition plan_pending :: "plan \<Rightarrow> planned_step list" where
  "plan_pending pl = filter (\<lambda>s. step_state s = Pending) (plan_steps pl)"

text \<open>\<open>max_by\<close> keeps the later of two steps of equal rank; the value is the same.\<close>

fun max_by_rank :: "step_risk \<Rightarrow> step_risk list \<Rightarrow> step_risk" where
  "max_by_rank m [] = m"
| "max_by_rank m (r # rs) = max_by_rank (if risk_rank m \<le> risk_rank r then r else m) rs"

definition summarize :: "planned_step list \<Rightarrow> plan_summary" where
  "summarize steps =
     (let total = length steps;
          pending = length (filter (\<lambda>s. step_state s = Pending) steps)
      in \<lparr>total_steps = total, pending_steps = pending, already_satisfied_steps = total - pending,
          max_risk = (case map step_risk steps of [] \<Rightarrow> RiskReadOnly | r # rs \<Rightarrow> max_by_rank r rs),
          sum_requires_reboot = list_ex step_requires_reboot steps,
          sum_requires_confirmation = list_ex must_confirm steps\<rparr>)"

section \<open>What \<open>print_human\<close> prints\<close>

definition step_lines :: "nat \<Rightarrow> planned_step \<Rightarrow> string list" where
  "step_lines n s =
     [LF # ''['' @ show_nat n @ ''] '' @ step_title s @ ''  ('' @ risk_display (step_risk s)
        @ '', '' @ privilege_display (step_privilege s) @ '', '' @ state_display (step_state s) @ '')'',
      ''    '' @ step_summary s]
     @ (if step_touches s \<noteq> [] then
          [''    Touches: '' @ str_join '', '' (map path_display (step_touches s))] else [])
     @ map (\<lambda>c. ''    Run: '' @ c) (step_commands s)
     @ [''    Verify: '' @ step_verification s, ''    Rollback: '' @ step_rollback s]
     @ (if must_confirm s then
          [''    Requires explicit user confirmation before running.''] else [])"

definition plan_lines :: "plan \<Rightarrow> string list" where
  "plan_lines pl =
     (let sm = plan_summary pl in
      [LF # ''=== VIRTU PLAN ==='',
       ''Total: '' @ show_nat (total_steps sm) @ '' step(s); '' @ show_nat (pending_steps sm)
         @ '' pending, '' @ show_nat (already_satisfied_steps sm) @ '' already satisfied'',
       ''Max risk: '' @ risk_display (max_risk sm)]
      @ (if sum_requires_reboot sm then [''Reboot: required after applying.''] else [])
      @ (if sum_requires_confirmation sm then
           [''Some step(s) require explicit user confirmation.''] else [])
      @ concat (map (\<lambda>(i, s). step_lines (i + 1) s) (List.enumerate 0 (plan_steps pl)))
      @ (if plan_warnings pl \<noteq> [] then
           (LF # ''Warnings:'')
           # map (\<lambda>w. ''  - '' @ issue_message w @ '' ('' @ issue_id_display (issue_id w) @ '')'')
               (plan_warnings pl)
         else [])
      @ [''''])"

section \<open>The steps\<close>

text \<open>The home directory: \<open>HOME\<close>, then \<open>USERPROFILE\<close>, then the current directory.\<close>

definition virtu_home :: "(string \<Rightarrow> string option) \<Rightarrow> path" where
  "virtu_home getenv =
     (case or_else (getenv ''HOME'') (getenv ''USERPROFILE'') of
        Some h \<Rightarrow> path_of h | None \<Rightarrow> path_of ''.'')"

definition virtu_snapshots_dir :: "(string \<Rightarrow> string option) \<Rightarrow> path" where
  "virtu_snapshots_dir getenv = path_push (path_push (virtu_home getenv) ''.virtu'') ''snapshots''"

definition snapshot_step :: "(string \<Rightarrow> string option) \<Rightarrow> planned_step" where
  "snapshot_step getenv =
     \<lparr>step_kind = SnapshotStep, step_title = ''Capture rollback snapshot'',
      step_summary = ''Record the original contents and hashes of every file Virtu may edit, before any mutation.'',
      step_risk = RiskReadOnly, step_privilege = UserPrivilege, step_state = Pending,
      step_touches = [virtu_snapshots_dir getenv], step_commands = [],
      step_verification = ''Verify the snapshot manifest exists and that every recorded path'' @ [SQ]
        @ ''s pre-edit hash matches the live file.'',
      step_rollback = ''No rollback is needed for the snapshot step itself; the snapshot is the rollback baseline.'',
      step_requires_reboot = False, step_requires_confirmation = False\<rparr>"

definition device_id :: "string \<Rightarrow> string \<Rightarrow> string" where
  "device_id v d = v @ '':'' @ d"

text \<open>The ids one assignment contributes: the GPU, then its audio companion.\<close>

definition assignment_ids :: "system_profile \<Rightarrow> gpu_role_assignment \<Rightarrow> string list" where
  "assignment_ids p a =
     (if role_role a \<noteq> Passthrough then []
      else (case find_gpu p (role_pci_slot a) of None \<Rightarrow> []
            | Some g \<Rightarrow>
                device_id (gpu_vendor_id g) (gpu_device_id g)
                # (case companion_audio g of None \<Rightarrow> []
                   | Some au \<Rightarrow> [device_id (comp_vendor_id au) (comp_device_id au)])))"

definition passthrough_pci_ids :: "system_profile \<Rightarrow> passthrough_config \<Rightarrow> string list" where
  "passthrough_pci_ids p c =
     remdups_adj (sort (foldl (\<lambda>ids a. foldl push_new ids (assignment_ids p a)) [] (gpu_roles c)))"

definition iommu_params :: "system_profile \<Rightarrow> string list" where
  "iommu_params p =
     (if contains_str ''amd'' (to_lower (cpu_vendor (sp_cpu p))) then [''amd_iommu=on'', ''iommu=pt'']
      else [''intel_iommu=on'', ''iommu=pt''])"

definition vfio_ids_param :: "string list \<Rightarrow> string" where
  "vfio_ids_param ids = ''vfio-pci.ids='' @ str_join '','' ids"

definition bootloader_step :: "system_profile \<Rightarrow> passthrough_config \<Rightarrow> planned_step option" where
  "bootloader_step p c =
     (let bl = sp_bootloader p in
      if bootloader_kind bl = UnknownBootloader then None
      else (case bootloader_config_path bl of None \<Rightarrow> None
        | Some config_path \<Rightarrow>
            (let ids = passthrough_pci_ids p c;
                 needed = iommu_params p;
                 cmdline = sp_kernel_cmdline p;
                 cmdline_has = list_all (\<lambda>q. q \<in> set (split_ws cmdline)) needed;
                 ids_have = (if ids = [] then True else contains_str (vfio_ids_param ids) cmdline);
                 params = needed @ (if ids \<noteq> [] then [vfio_ids_param ids] else [])
             in Some
               \<lparr>step_kind = BootloaderWrite,
                step_title = ''Configure '' @ bootloader_display (bootloader_kind bl)
                  @ '' kernel parameters'',
                step_summary = ''Add IOMMU and VFIO kernel parameters ('' @ str_join '' '' params
                  @ '') to the detected '' @ bootloader_display (bootloader_kind bl) @ '' entry.'',
                step_risk = RiskMedium, step_privilege = RootViaSudo,
                step_state = (if cmdline_has \<and> ids_have then AlreadySatisfied else Pending),
                step_touches = [config_path],
                step_commands = (case update_command bl of Some u \<Rightarrow> [u] | None \<Rightarrow> []),
                step_verification = ''Re-read the bootloader config and the regenerated cmdline; confirm every required parameter is present.'',
                step_rollback = ''Restore the bootloader config from the snapshot manifest and re-run the update command.'',
                step_requires_reboot = True, step_requires_confirmation = False\<rparr>)))"

definition vfio_pci_loaded :: "system_profile \<Rightarrow> bool" where
  "vfio_pci_loaded p = list_ex (\<lambda>m. m = ''vfio_pci'') (loaded_modules (sp_readiness p))"

definition vfio_conf_path :: path where
  "vfio_conf_path = path_of ''/etc/modprobe.d/virtu-vfio.conf''"

definition vfio_step :: "system_profile \<Rightarrow> passthrough_config \<Rightarrow> planned_step option" where
  "vfio_step p c =
     (let ids = passthrough_pci_ids p c in
      if ids = [] then None
      else (let bound = list_ex (\<lambda>g. gpu_current_driver g = Some ''vfio-pci'') (passthrough_gpus c p)
        in Some
          \<lparr>step_kind = VfioConfig, step_title = ''Write VFIO modprobe configuration'',
           step_summary = ''Write `/etc/modprobe.d/virtu-vfio.conf` so vfio-pci claims devices ''
             @ str_join '','' ids @ '' and loads before host GPU drivers.'',
           step_risk = RiskMedium, step_privilege = RootViaSudo,
           step_state = (if vfio_pci_loaded p \<and> bound then AlreadySatisfied else Pending),
           step_touches = [vfio_conf_path], step_commands = [],
           step_verification = ''Re-read the modprobe snippet and confirm `lsmod` shows vfio-pci after reboot.'',
           step_rollback = ''Remove the modprobe snippet and restore any prior file from the snapshot manifest.'',
           step_requires_reboot = True, step_requires_confirmation = False\<rparr>))"

definition initramfs_touches :: "initramfs_system \<Rightarrow> path list" where
  "initramfs_touches k =
     (case k of Mkinitcpio \<Rightarrow> [path_of ''/etc/mkinitcpio.conf'']
      | Dracut \<Rightarrow> [path_of ''/etc/dracut.conf.d/virtu-vfio.conf'']
      | UpdateInitramfs \<Rightarrow> [path_of ''/etc/initramfs-tools/modules''] | UnknownInitramfs \<Rightarrow> [])"

definition initramfs_step :: "system_profile \<Rightarrow> planned_step option" where
  "initramfs_step p =
     (let kind = sp_initramfs_system p in
      if kind = UnknownInitramfs then None
      else Some
        \<lparr>step_kind = InitramfsWrite, step_title = ''Add VFIO modules to '' @ initramfs_name kind,
         step_summary = ''Ensure vfio, vfio_iommu_type1, vfio_pci, and vfio_virqfd load before host GPU drivers, then run `''
           @ rebuild_command kind @ ''`.'',
         step_risk = RiskMedium, step_privilege = RootViaSudo,
         step_state = (if vfio_pci_loaded p then AlreadySatisfied else Pending),
         step_touches = initramfs_touches kind, step_commands = [rebuild_command kind],
         step_verification = ''Re-read the initramfs config and confirm the rebuild command exited 0.'',
         step_rollback = ''Restore the initramfs config from the snapshot manifest and re-run the rebuild command.'',
         step_requires_reboot = True, step_requires_confirmation = False\<rparr>)"

definition hooks_dir :: path where
  "hooks_dir = path_of ''/etc/libvirt/hooks/qemu.d''"

definition single_gpu_hook_step :: "system_profile \<Rightarrow> passthrough_config \<Rightarrow> planned_step" where
  "single_gpu_hook_step p c =
     (let dispatcher = path_push hooks_dir (vm_name c);
          helper_dir = path_push hooks_dir (vm_name c @ ''.d'')
      in \<lparr>step_kind = HookInstall,
          step_title = ''Install single-GPU passthrough hooks for `'' @ vm_name c @ ''`'',
          step_summary = ''Generate display-manager-aware libvirt hooks for ''
            @ dm_display (sp_display_manager p) @ ''/''
            @ display_server_display (sp_display_server p)
            @ '' under /etc/libvirt/hooks/qemu.d/'' @ vm_name c
            @ ''/. The host display server will be torn down when the VM starts and restored when it stops.'',
          step_risk = RiskHigh, step_privilege = RootViaSudo, step_state = Pending,
          step_touches = [dispatcher, path_push helper_dir ''release'',
                          path_push helper_dir ''reattach''],
          step_commands = [],
          step_verification = ''Run each generated hook through `bash -n`; confirm the host display manager starts again after a synthetic stop event.'',
          step_rollback = ''Remove generated hooks and restore the previous /etc/libvirt/hooks layout from the snapshot manifest. The user must reboot if the host display did not return.'',
          step_requires_reboot = False, step_requires_confirmation = True\<rparr>)"

definition looking_glass_step :: "install_mode \<Rightarrow> planned_step" where
  "looking_glass_step im =
     (let (title, summary) =
        (case im of
           ManualInstall \<Rightarrow>
             (''Defer Looking Glass setup'',
              ''Looking Glass is cut from Virtu v1.0. Preserve the user's manual-setup choice for future compatibility, but do not write host files, emit IVSHMEM XML, or install anything.'')
         | AutoBuild \<Rightarrow>
             (''Defer Looking Glass auto-build request'',
              ''Looking Glass auto-build is cut from Virtu v1.0. Preserve the user's request for future compatibility, but do not download source, build a client, write tmpfiles, or emit IVSHMEM XML.''))
      in \<lparr>step_kind = LookingGlassInstall, step_title = title, step_summary = summary,
          step_risk = RiskReadOnly, step_privilege = UserPrivilege, step_state = Pending,
          step_touches = [], step_commands = [],
          step_verification = ''Read-only deferred step; no v1.0 verification is required.'',
          step_rollback = ''Read-only step; no rollback needed.'',
          step_requires_reboot = False, step_requires_confirmation = False\<rparr>)"

definition vm_xml_path :: "(string \<Rightarrow> string option) \<Rightarrow> string \<Rightarrow> path" where
  "vm_xml_path getenv name = path_push (path_push (virtu_home getenv) ''.virtu'') (name @ ''.xml'')"

definition vm_xml_step :: "(string \<Rightarrow> string option) \<Rightarrow> passthrough_config \<Rightarrow> planned_step" where
  "vm_xml_step getenv c =
     (let xml = vm_xml_path getenv (vm_name c) in
      \<lparr>step_kind = VmXmlGenerate, step_title = ''Generate libvirt domain XML for '' @ vm_name c,
       step_summary =
         (case res_disk (resources c) of
            CreateDisk q size_gb fmt \<Rightarrow>
              ''Generate libvirt domain XML for `'' @ vm_name c @ ''` targeting a new ''
              @ show_nat (unat size_gb) @ '' GiB '' @ disk_extension fmt @ '' image at ''
              @ path_display q @ ''.''
          | ExistingDisk q \<Rightarrow>
              ''Generate libvirt domain XML for `'' @ vm_name c
              @ ''` referencing the existing disk image at '' @ path_display q @ ''.''),
       step_risk = RiskLow, step_privilege = UserPrivilege, step_state = Pending,
       step_touches = [xml], step_commands = [''virt-xml-validate '' @ path_display xml],
       step_verification = ''Run `virt-xml-validate '' @ path_display xml
         @ ''` and confirm exit code 0.'',
       step_rollback = ''Delete the generated XML file at '' @ path_display xml
         @ ''. No host configuration is changed by this step.'',
       step_requires_reboot = False, step_requires_confirmation = False\<rparr>)"

definition vm_register_step :: "passthrough_config \<Rightarrow> planned_step" where
  "vm_register_step c =
     (let disk = res_disk (resources c) in
      \<lparr>step_kind = VmRegister, step_title = ''Register libvirt domain `'' @ vm_name c @ ''`'',
       step_summary =
         (case disk of
            CreateDisk _ _ _ \<Rightarrow>
              ''Create the VM disk image with `qemu-img create`, then register libvirt domain `''
              @ vm_name c @ ''` with `virsh define`.''
          | ExistingDisk _ \<Rightarrow> ''Register libvirt domain `'' @ vm_name c @ ''` with `virsh define`.''),
       step_risk = RiskLow, step_privilege = UserPrivilege, step_state = Pending,
       step_touches = (case disk of CreateDisk q _ _ \<Rightarrow> [q] | ExistingDisk _ \<Rightarrow> []),
       step_commands =
         (case disk of
            CreateDisk q size_gb fmt \<Rightarrow>
              [''qemu-img create -f '' @ disk_extension fmt @ '' '' @ path_display q @ '' ''
               @ show_nat (unat size_gb) @ ''G'']
          | ExistingDisk _ \<Rightarrow> [])
         @ [''virsh define ~/.virtu/'' @ vm_name c @ ''.xml''],
       step_verification = ''Run `virsh dominfo '' @ vm_name c
         @ ''` and confirm the domain exists; `virsh list --all` should include `'' @ vm_name c @ ''`.'',
       step_rollback = ''Run `virsh undefine '' @ vm_name c
         @ ''` and remove the generated disk image if it was created in this step.'',
       step_requires_reboot = False, step_requires_confirmation = False\<rparr>)"

definition verify_step :: planned_step where
  "verify_step =
     \<lparr>step_kind = Verify, step_title = ''Verify final state'',
      step_summary = ''Re-scan IOMMU groups, vfio-pci binding, and libvirt domain visibility.'',
      step_risk = RiskReadOnly, step_privilege = UserPrivilege, step_state = Pending,
      step_touches = [], step_commands = [],
      step_verification = ''All targeted facts are reported as healthy; the user is shown what reboot or service restart, if any, is still required.'',
      step_rollback = ''Verification itself is read-only; rollback is the previous step's responsibility.'',
      step_requires_reboot = False, step_requires_confirmation = False\<rparr>"

definition single_gpu_hook_handoff :: "passthrough_config \<Rightarrow> bool" where
  "single_gpu_hook_handoff c \<longleftrightarrow> cfg_monitor_plan c = OneMonitor HookHandoff"

section \<open>The planner\<close>

definition opt_list :: "'a option \<Rightarrow> 'a list" where
  "opt_list x = (case x of None \<Rightarrow> [] | Some y \<Rightarrow> [y])"

definition build_steps ::
  "(string \<Rightarrow> string option) \<Rightarrow> system_profile \<Rightarrow> passthrough_config \<Rightarrow> planned_step list" where
  "build_steps getenv p c =
     [snapshot_step getenv]
     @ opt_list (bootloader_step p c) @ opt_list (vfio_step p c) @ opt_list (initramfs_step p)
     @ (if derived_mode c p = Some SingleGpu \<or> single_gpu_hook_handoff c
        then [single_gpu_hook_step p c] else [])
     @ (case looking_glass c of LgEnabled im _ \<Rightarrow> [looking_glass_step im] | LgDisabled \<Rightarrow> [])
     @ [vm_xml_step getenv c, vm_register_step c, verify_step]"

definition make_plan ::
  "(path \<Rightarrow> bool) \<Rightarrow> (string \<Rightarrow> string option) \<Rightarrow> system_profile \<Rightarrow> compatibility_report
    \<Rightarrow> passthrough_config \<Rightarrow> plan_error + plan" where
  "make_plan exists getenv p r c =
     (if report_status r = Blocked then
        Inl (PlanCompatibilityBlocked
               (map finding_id (filter (\<lambda>f. finding_severity f = Fail) (report_findings r))))
      else (let validation = validate exists p r c in
        if has_errors validation then Inl (ValidationFailed validation)
        else (let steps = build_steps getenv p c in
          Inr \<lparr>plan_steps = steps, plan_warnings = report_warnings validation,
               plan_summary = summarize steps\<rparr>)))"

definition build_plan :: "(string \<Rightarrow> string option) \<Rightarrow> system_profile \<Rightarrow> planned_step list" where
  "build_plan getenv p =
     snapshot_step getenv
     # (if \<not> iommu_active p then
          (case bootloader_config_path (sp_bootloader p) of None \<Rightarrow> []
           | Some config_path \<Rightarrow>
               [\<lparr>step_kind = BootloaderWrite, step_title = ''Enable IOMMU kernel parameters'',
                 step_summary = ''Add the Intel or AMD IOMMU parameter to the detected bootloader entry.'',
                 step_risk = RiskMedium, step_privilege = RootViaSudo, step_state = Pending,
                 step_touches = [config_path],
                 step_commands = opt_list (update_command (sp_bootloader p)),
                 step_verification = ''Re-read bootloader config and confirm the IOMMU parameter is present after update.'',
                 step_rollback = ''Restore the bootloader config from the snapshot manifest and re-run the bootloader update command.'',
                 step_requires_reboot = True, step_requires_confirmation = False\<rparr>])
        else [])"

section \<open>Facts\<close>

lemma set_opt_list [simp]: "x \<in> set (opt_list y) \<longleftrightarrow> y = Some x"
  by (auto simp: opt_list_def split: option.splits)

lemma max_by_rank_Max: "max_by_rank m rs = Max (set (m # rs))"
proof (induction rs arbitrary: m)
  case (Cons r rs)
  have "(if risk_rank m \<le> risk_rank r then r else m) = max m r"
    by (simp add: max_def less_eq_step_risk_def)
  then show ?case by (cases "rs = []") (simp_all add: Cons.IH max.assoc)
qed simp

lemma summarize_max: "steps \<noteq> [] \<Longrightarrow> max_risk (summarize steps) = Max (step_risk ` set steps)"
  by (cases steps) (simp_all add: summarize_def Let_def max_by_rank_Max)

lemma bootloader_step_kind: "bootloader_step p c = Some s \<Longrightarrow>
    step_kind s = BootloaderWrite \<and> step_risk s = RiskMedium \<and> step_requires_reboot s \<and>
    step_privilege s = RootViaSudo \<and> \<not> step_requires_confirmation s"
  by (auto simp: bootloader_step_def Let_def split: if_splits option.splits)

lemma vfio_step_kind: "vfio_step p c = Some s \<Longrightarrow>
    step_kind s = VfioConfig \<and> step_risk s = RiskMedium \<and> step_requires_reboot s \<and>
    step_privilege s = RootViaSudo \<and> \<not> step_requires_confirmation s"
  by (auto simp: vfio_step_def Let_def split: if_splits)

lemma initramfs_step_kind: "initramfs_step p = Some s \<Longrightarrow>
    step_kind s = InitramfsWrite \<and> step_risk s = RiskMedium \<and> step_requires_reboot s \<and>
    step_privilege s = RootViaSudo \<and> \<not> step_requires_confirmation s"
  by (auto simp: initramfs_step_def Let_def split: if_splits)

lemma other_step_kinds [simp]:
  "step_kind (snapshot_step e) = SnapshotStep" "step_risk (snapshot_step e) = RiskReadOnly"
  "step_kind (single_gpu_hook_step p c) = HookInstall"
  "step_risk (single_gpu_hook_step p c) = RiskHigh"
  "step_kind (looking_glass_step im) = LookingGlassInstall"
  "step_risk (looking_glass_step im) = RiskReadOnly"
  "step_kind (vm_xml_step e c) = VmXmlGenerate" "step_risk (vm_xml_step e c) = RiskLow"
  "step_kind (vm_register_step c) = VmRegister" "step_risk (vm_register_step c) = RiskLow"
  "step_kind verify_step = Verify" "step_risk verify_step = RiskReadOnly"
  by (simp_all add: snapshot_step_def single_gpu_hook_step_def looking_glass_step_def
      vm_xml_step_def vm_register_step_def verify_step_def Let_def case_prod_beta)

lemma set_passthrough_pci_ids:
  "set (passthrough_pci_ids p c) = (\<Union>a \<in> set (gpu_roles c). set (assignment_ids p a))"
proof -
  have "set (foldl (\<lambda>ids a. foldl push_new ids (assignment_ids p a)) ids as) =
      set ids \<union> (\<Union>a \<in> set as. set (assignment_ids p a))" for ids as
    by (induction as arbitrary: ids) auto
  then show ?thesis by (simp add: passthrough_pci_ids_def set_remdups_adj_sort)
qed

lemma passthrough_pci_ids_distinct:
  "sorted (passthrough_pci_ids p c) \<and> distinct (passthrough_pci_ids p c)"
  by (simp add: passthrough_pci_ids_def distinct_remdups_adj_sorted)

lemma passthrough_ids_from_gpu:
  "roles_with Passthrough c = [a] \<Longrightarrow> find_gpu p (role_pci_slot a) = Some g \<Longrightarrow>
   set (passthrough_pci_ids p c) =
     insert (device_id (gpu_vendor_id g) (gpu_device_id g))
       ((\<lambda>au. device_id (comp_vendor_id au) (comp_device_id au)) ` set_option (companion_audio g))"
proof -
  assume one: "roles_with Passthrough c = [a]" and g: "find_gpu p (role_pci_slot a) = Some g"
  have mem: "b \<in> set (gpu_roles c) \<and> role_role b = Passthrough \<longleftrightarrow> b = a" for b
    using one by (metis (mono_tags) empty_iff empty_set set_ConsD list.set_intros(1) set_roles_with)
  have none: "role_role b \<noteq> Passthrough \<Longrightarrow> assignment_ids p b = []" for b
    by (simp add: assignment_ids_def)
  have "set (passthrough_pci_ids p c) = set (assignment_ids p a)"
    unfolding set_passthrough_pci_ids using mem none by fastforce
  moreover have "role_role a = Passthrough" using mem by blast
  ultimately show ?thesis using g
    by (auto simp: assignment_ids_def split: option.splits)
qed

lemma roles_ok_ids: "roles_ok p c \<Longrightarrow> passthrough_pci_ids p c \<noteq> []"
  using passthrough_ids_from_gpu[of c _ p] unfolding roles_ok_def
  by (metis empty_iff empty_set insertI1)

lemma vfio_step_planned: "vfio_step p c = None \<longleftrightarrow> passthrough_pci_ids p c = []"
  by (simp add: vfio_step_def Let_def)

lemma initramfs_step_planned: "initramfs_step p = None \<longleftrightarrow> sp_initramfs_system p = UnknownInitramfs"
  by (simp add: initramfs_step_def Let_def)

lemma bootloader_step_planned:
  "bootloader_step p c = None \<longleftrightarrow> bootloader_kind (sp_bootloader p) = UnknownBootloader \<or>
     bootloader_config_path (sp_bootloader p) = None"
  by (auto simp: bootloader_step_def Let_def split: option.splits)

lemma build_steps_kinds:
  "map step_kind (build_steps e p c) =
     [SnapshotStep]
     @ (if bootloader_step p c = None then [] else [BootloaderWrite])
     @ (if vfio_step p c = None then [] else [VfioConfig])
     @ (if initramfs_step p = None then [] else [InitramfsWrite])
     @ (if derived_mode c p = Some SingleGpu \<or> single_gpu_hook_handoff c then [HookInstall] else [])
     @ (if looking_glass c = LgDisabled then [] else [LookingGlassInstall])
     @ [VmXmlGenerate, VmRegister, Verify]"
  by (auto simp: build_steps_def opt_list_def bootloader_step_kind vfio_step_kind
      initramfs_step_kind split: option.splits looking_glass_choice.splits)

lemma build_steps_mem:
  "s \<in> set (build_steps e p c) \<longleftrightarrow>
     s = snapshot_step e \<or> bootloader_step p c = Some s \<or> vfio_step p c = Some s \<or>
     initramfs_step p = Some s \<or>
     (derived_mode c p = Some SingleGpu \<or> single_gpu_hook_handoff c) \<and> s = single_gpu_hook_step p c \<or>
     (\<exists>im r. looking_glass c = LgEnabled im r \<and> s = looking_glass_step im) \<or>
     s \<in> {vm_xml_step e c, vm_register_step c, verify_step}"
  by (cases "looking_glass c") (auto simp: build_steps_def)

lemma make_plan_Inr:
  "make_plan ex e p r c = Inr pl \<longleftrightarrow>
     report_status r \<noteq> Blocked \<and> validation_ok (validate ex p r c) \<and>
     pl = \<lparr>plan_steps = build_steps e p c, plan_warnings = report_warnings (validate ex p r c),
           plan_summary = summarize (build_steps e p c)\<rparr>"
  by (auto simp: make_plan_def Let_def validation_ok_def)

lemma make_plan_choices:
  "make_plan ex e p r c = Inr pl \<Longrightarrow> choices_ok ex p c \<and> plan_steps pl = build_steps e p c \<and>
     plan_summary pl = summarize (build_steps e p c)"
  by (auto simp: make_plan_Inr validate_ok_iff)

lemma not_blocked_no_fail:
  "report_status (new_report fs) \<noteq> Blocked \<longleftrightarrow> (\<forall>f \<in> set fs. finding_severity f \<noteq> Fail)"
  by (auto simp: new_report_def list_ex_iff)

lemma make_plan_ok_iff:
  "is_ok (make_plan ex e p (build_compatibility_report p) c) \<longleftrightarrow>
     host_supported p \<and> choices_ok ex p c"
proof -
  let ?r = "build_compatibility_report p"
  have "report_status ?r \<noteq> Blocked \<longleftrightarrow> (\<forall>f \<in> set (report_findings ?r). finding_severity f \<noteq> Fail)"
    by (simp add: build_compatibility_report_def not_blocked_no_fail) (simp add: new_report_def)
  moreover have "report_status ?r \<noteq> Blocked \<longleftrightarrow> host_supported p"
    using report_blocked_iff[of p] by (simp add: report_blocked_def)
  ultimately show ?thesis
    by (auto simp: is_ok_iff make_plan_Inr validate_ok_iff)
qed

end
