(* ===== verification/Sample_Host.thy ===== *)
theory Sample_Host
  imports Planner
begin

text \<open>
  A concrete host and concrete choices on which the hypotheses of the later theorems are
  discharged: an Intel machine with an integrated GPU for the host, an isolated NVIDIA card with
  its audio function for the guest, GRUB and mkinitcpio.
\<close>

definition sample_audio :: companion_device where
  "sample_audio =
     \<lparr>comp_pci_slot = ''0000:01:00.1'', comp_vendor_id = ''10de'', comp_device_id = ''1aef'',
      comp_class = ''0x040300'', comp_current_driver = None\<rparr>"

definition sample_gpu :: "string \<Rightarrow> gpu_type \<Rightarrow> string \<Rightarrow> string \<Rightarrow> bool \<Rightarrow> companion_device option \<Rightarrow> gpu_info"
  where
  "sample_gpu slot ty vendor device isolated audio =
     \<lparr>gpu_pci_slot = slot, gpu_vendor = vendor_id_to_vendor vendor, gpu_type = ty,
      gpu_model_name = ''GPU'', gpu_vendor_id = vendor, gpu_device_id = device,
      subsystem_vendor_id = '''', subsystem_device_id = '''', gpu_current_driver = None,
      iommu_group_id = Some 1, iommu_isolated = isolated, rom_accessible = True,
      companion_audio = audio, is_boot_vga = \<not> isolated, vfio_compatible = isolated,
      gpu_quirks = []\<rparr>"

definition sample_igpu :: gpu_info where
  "sample_igpu = sample_gpu ''0000:00:02.0'' Integrated ''8086'' ''4680'' False None"

definition sample_dgpu :: gpu_info where
  "sample_dgpu = sample_gpu ''0000:01:00.0'' Discrete ''10de'' ''2204'' True (Some sample_audio)"

definition sample_profile :: system_profile where
  "sample_profile =
     \<lparr>sp_cpu = \<lparr>cpu_vendor = ''GenuineIntel'', cpu_model_name = ''Core'', physical_cores = 8,
        logical_cores = 16, numa_nodes = [], iommu_capable = True, iommu_enabled = True,
        has_hyperthreading = True, core_to_threads = [(0, [0, 1]), (1, [2, 3])]\<rparr>,
      sp_gpus = [sample_igpu, sample_dgpu],
      sp_iommu_groups = [\<lparr>group_id = 1,
        group_devices = [\<lparr>dev_pci_slot = ''0000:01:00.0'', dev_class = ''0x030000'',
          dev_vendor_id = ''10de'', dev_device_id = ''2204'', dev_is_bridge = False\<rparr>],
        is_isolated_for_gpu = True\<rparr>],
      sp_ram = \<lparr>total_kb = 33554432, available_kb = 16777216, hugepage_size_kb = 2048,
        hugepages_total = 0, hugepages_free = 0\<rparr>,
      sp_distro = \<lparr>distro_id = ''arch'', distro_id_like = [], distro_pretty_name = ''Arch'',
        distro_version_id = '''', distro_family = ArchFamily, package_manager = Pacman\<rparr>,
      sp_bootloader = \<lparr>bootloader_kind = Grub2,
        bootloader_config_path = Some (path_of ''/etc/default/grub''), entry_paths = [],
        active_entry = None, update_command = Some ''grub-mkconfig -o /boot/grub/grub.cfg'',
        is_uefi = True\<rparr>,
      sp_initramfs_system = Mkinitcpio, sp_display_manager = Sddm, sp_display_server = Wayland,
      sp_audio = PipeWire, sp_monitors = [], sp_usb_devices = [],
      sp_storage = \<lparr>default_vm_dir = path_of ''/var/lib/libvirt/images'',
        available_bytes = 214748364800\<rparr>,
      sp_virtualization = \<lparr>qemu_version = Some ''8.2'', libvirt_version = Some ''10.0'',
        virsh_available = True, virt_manager_available = True, libvirtd_running = True\<rparr>,
      sp_readiness = \<lparr>kernel_version = ''6.8'', readiness_cmdline = ''quiet'',
        kernel_cmdline_params = [''quiet''], loaded_modules = [],
        kernel_headers = \<lparr>headers_present = True, headers_path = None\<rparr>,
        readiness_secure_boot = False,
        ovmf = \<lparr>code_paths = [path_of ''/usr/share/OVMF/CODE.fd''],
                vars_paths = [path_of ''/usr/share/OVMF/VARS.fd'']\<rparr>,
        user_access = \<lparr>access_username = Some ''u'', access_groups = [''kvm'', ''libvirt''],
          in_libvirt_group = True, in_kvm_group = True\<rparr>, libvirt_domains = []\<rparr>,
      sp_secure_boot = False, sp_kernel_cmdline = ''quiet''\<rparr>"

definition sample_config :: passthrough_config where
  "sample_config =
     \<lparr>vm_name = ''win11'', cfg_guest_os = Windows11, cfg_gpu_mode = IgpuHost,
      gpu_roles = [\<lparr>role_pci_slot = ''0000:00:02.0'', role_role = Host\<rparr>,
                   \<lparr>role_pci_slot = ''0000:01:00.0'', role_role = Passthrough\<rparr>],
      cfg_monitor_plan = OneMonitor SwitchInputs, looking_glass = LgDisabled, iso_path = None,
      resources = \<lparr>ram_mb = 16384, vcpu_count = 4,
        res_disk = CreateDisk (path_of ''/var/lib/libvirt/images/win11.qcow2'') 100 Qcow2\<rparr>,
      cfg_network = NatNetwork, cfg_audio = HostAudio,
      cfg_input = \<lparr>keyboard_evdev = None, mouse_evdev = None, additional_evdev = []\<rparr>\<rparr>"

text \<open>The same host with the card as its only GPU, passed through with \<open>strategy\<close>.\<close>

definition single_profile :: "display_manager \<Rightarrow> system_profile" where
  "single_profile dm =
     sample_profile\<lparr>sp_gpus := [sample_dgpu], sp_display_manager := dm\<rparr>"

definition single_config :: "single_monitor_strategy \<Rightarrow> passthrough_config" where
  "single_config strategy =
     sample_config\<lparr>cfg_gpu_mode := SingleGpu, cfg_monitor_plan := OneMonitor strategy,
       gpu_roles := [\<lparr>role_pci_slot = ''0000:01:00.0'', role_role = Passthrough\<rparr>]\<rparr>"

definition sample_exists :: "path \<Rightarrow> bool" where
  "sample_exists q = False"

definition sample_env :: "string \<Rightarrow> string option" where
  "sample_env v = (if v = ''HOME'' then Some ''/home/u'' else None)"

lemmas sample_gpu_defs = sample_igpu_def sample_dgpu_def sample_gpu_def sample_audio_def

lemma sample_host_supported: "host_supported sample_profile"
  by (simp add: host_supported_def sample_profile_def iommu_active_def sample_gpu_defs
      ovmf_available_def)

lemma single_host_supported: "host_supported (single_profile dm)"
  by (simp add: host_supported_def single_profile_def sample_profile_def iommu_active_def
      sample_gpu_defs ovmf_available_def)

lemma sample_roles:
  "roles_with Passthrough sample_config = [\<lparr>role_pci_slot = ''0000:01:00.0'', role_role = Passthrough\<rparr>]"
  "roles_with Host sample_config = [\<lparr>role_pci_slot = ''0000:00:02.0'', role_role = Host\<rparr>]"
  "roles_with Passthrough (single_config s) = [\<lparr>role_pci_slot = ''0000:01:00.0'', role_role = Passthrough\<rparr>]"
  "roles_with Host (single_config s) = []"
  by (simp_all add: roles_with_def sample_config_def single_config_def)

lemma sample_find:
  "find_gpu sample_profile ''0000:01:00.0'' = Some sample_dgpu"
  "find_gpu sample_profile ''0000:00:02.0'' = Some sample_igpu"
  "find_gpu (single_profile dm) ''0000:01:00.0'' = Some sample_dgpu"
  by (simp_all add: find_gpu_def sample_profile_def single_profile_def sample_gpu_defs)

lemma sample_mode: "derived_mode sample_config sample_profile = Some IgpuHost"
  by (simp add: derived_mode_alt sample_roles host_gpu_def sample_find) (simp add: sample_gpu_defs)

lemma single_mode: "derived_mode (single_config s) (single_profile dm) = Some SingleGpu"
  by (simp add: derived_mode_alt sample_roles)

lemma sample_dgpu_ids [simp]:
  "gpu_vendor_id sample_dgpu = ''10de''" "gpu_device_id sample_dgpu = ''2204''"
  "companion_audio sample_dgpu = Some sample_audio" "comp_vendor_id sample_audio = ''10de''"
  "comp_device_id sample_audio = ''1aef''"
  by (simp_all add: sample_gpu_defs)

lemma sample_fields [simp]:
  "bootloader_kind (sp_bootloader sample_profile) = Grub2"
  "bootloader_config_path (sp_bootloader sample_profile) = Some (path_of ''/etc/default/grub'')"
  "sp_initramfs_system sample_profile = Mkinitcpio" "looking_glass sample_config = LgDisabled"
  by (simp_all add: sample_profile_def sample_config_def)

lemma single_unchanged [simp]:
  "sp_bootloader (single_profile dm) = sp_bootloader sample_profile"
  "sp_initramfs_system (single_profile dm) = sp_initramfs_system sample_profile"
  "looking_glass (single_config s) = looking_glass sample_config"
  by (simp_all add: single_profile_def single_config_def)

lemma single_fields [simp]:
  "cfg_monitor_plan (single_config s) = OneMonitor s" "sp_display_manager (single_profile dm) = dm"
  by (simp_all add: single_config_def single_profile_def)

lemma sample_choices_ok: "choices_ok sample_exists sample_profile sample_config"
  unfolding choices_ok_def
  by (intro conjI)
    (simp_all add: name_ok_def roles_ok_def monitors_ok_def looking_glass_ok_def resources_ok_def
      sample_roles sample_find sample_mode,
     simp_all add: sample_config_def sample_profile_def sample_gpu_defs is_valid_vm_name_def
      domain_names_def ascii_alphanumeric_def sample_exists_def host_ram_mb_def host_threads_def
      available_gb_def all_evdev_paths_def)

lemma single_choices_ok:
  "s \<noteq> HookHandoff \<or> dm \<noteq> UnknownDm \<and> dm \<noteq> NoDm \<Longrightarrow>
   choices_ok sample_exists (single_profile dm) (single_config s)"
  unfolding choices_ok_def
  by (intro conjI)
    (simp_all add: name_ok_def roles_ok_def monitors_ok_def looking_glass_ok_def resources_ok_def
      sample_roles sample_find single_mode,
     auto simp: sample_config_def single_config_def single_profile_def sample_profile_def
      sample_gpu_defs is_valid_vm_name_def
      domain_names_def ascii_alphanumeric_def sample_exists_def host_ram_mb_def host_threads_def
      available_gb_def all_evdev_paths_def)

end
