(* ===== verification/Planning.thy ===== *)
theory Planning
  imports Sample_Host
begin

text \<open>
  The properties of the read-only half of the program: compatibility report, validation and
  planner together, with witnesses on the hosts of \<open>Sample_Host\<close>.
\<close>

section \<open>When a plan exists\<close>

text \<open>C26: for every host and every choice, the planner run on the host's own compatibility report
  produces a plan if and only if the host offers all ten requirements of \<open>host_supported\<close> and the
  choices satisfy the declarative conditions of \<open>choices_ok\<close>; in every other case it
  returns an error.\<close>

theorem plannable_iff:
  "is_ok (make_plan ex e p (build_compatibility_report p) c) \<longleftrightarrow>
     host_supported p \<and> choices_ok ex p c"
  by (rule make_plan_ok_iff)

text \<open>The two refusals. A blocked report is refused with exactly the ids of its failing findings,
  in the order of the report; an unblocked one with validation errors is refused with the whole
  validation report.\<close>

theorem plan_refusals:
  "make_plan ex e p r c = Inl err \<longleftrightarrow>
     report_status r = Blocked \<and>
       err = PlanCompatibilityBlocked
         (map finding_id (filter (\<lambda>f. finding_severity f = Fail) (report_findings r))) \<or>
     report_status r \<noteq> Blocked \<and> \<not> validation_ok (validate ex p r c) \<and>
       err = ValidationFailed (validate ex p r c)"
  by (auto simp: make_plan_def Let_def validation_ok_def)

section \<open>The shape of a plan\<close>

text \<open>C27: a plan consists of these steps in this order: the snapshot first; the bootloader edit when
  a bootloader and its configuration file were detected; the VFIO configuration, always; the
  initramfs edit when the generator is known; the hooks exactly in single-GPU mode; Looking Glass
  when it was chosen; then XML, registration and the final verification.\<close>

theorem plan_shape:
  assumes "make_plan ex e p r c = Inr pl"
  shows "map step_kind (plan_steps pl) =
     [SnapshotStep]
     @ (if bootloader_kind (sp_bootloader p) = UnknownBootloader
           \<or> bootloader_config_path (sp_bootloader p) = None then [] else [BootloaderWrite])
     @ [VfioConfig]
     @ (if sp_initramfs_system p = UnknownInitramfs then [] else [InitramfsWrite])
     @ (if derived_mode c p = Some SingleGpu then [HookInstall] else [])
     @ (if looking_glass c = LgDisabled then [] else [LookingGlassInstall])
     @ [VmXmlGenerate, VmRegister, Verify]"
proof -
  from assms have ch: "choices_ok ex p c" and st: "plan_steps pl = build_steps e p c"
    by (simp_all add: make_plan_choices)
  from ch have "vfio_step p c \<noteq> None"
    by (simp add: vfio_step_planned roles_ok_ids choices_ok_def)
  moreover from ch have "single_gpu_hook_handoff c \<Longrightarrow> derived_mode c p = Some SingleGpu"
    by (simp add: choices_ok_def monitors_ok_def single_gpu_hook_handoff_def)
  ultimately show ?thesis
    by (auto simp: st build_steps_kinds bootloader_step_planned initramfs_step_planned)
qed

lemma sample_plan: "\<exists>pl. make_plan sample_exists sample_env sample_profile
    (build_compatibility_report sample_profile) sample_config = Inr pl"
  using make_plan_ok_iff[of sample_exists sample_env sample_profile sample_config]
  by (simp add: sample_host_supported sample_choices_ok is_ok_iff)

lemma single_plan: "s \<noteq> HookHandoff \<or> dm \<noteq> UnknownDm \<and> dm \<noteq> NoDm \<Longrightarrow>
  \<exists>pl. make_plan sample_exists sample_env (single_profile dm)
    (build_compatibility_report (single_profile dm)) (single_config s) = Inr pl"
  using make_plan_ok_iff[of sample_exists sample_env "single_profile dm" "single_config s"]
  by (simp add: single_host_supported single_choices_ok is_ok_iff)

theorem plan_shape_witness:
  "\<exists>pl. make_plan sample_exists sample_env (single_profile Sddm)
      (build_compatibility_report (single_profile Sddm)) (single_config SwitchInputs) = Inr pl \<and>
    map step_kind (plan_steps pl) =
      [SnapshotStep, BootloaderWrite, VfioConfig, InitramfsWrite, HookInstall, VmXmlGenerate,
       VmRegister, Verify]"
proof -
  obtain pl where pl: "make_plan sample_exists sample_env (single_profile Sddm)
      (build_compatibility_report (single_profile Sddm)) (single_config SwitchInputs) = Inr pl"
    using single_plan[of SwitchInputs Sddm] by auto
  from plan_shape[OF pl] have "map step_kind (plan_steps pl) =
      [SnapshotStep, BootloaderWrite, VfioConfig, InitramfsWrite, HookInstall, VmXmlGenerate,
       VmRegister, Verify]"
    by (simp add: single_mode)
  with pl show ?thesis by (intro exI conjI)
qed

text \<open>The summary of a plan is the truth about its steps: the counts add up, the maximal risk is
  the maximum of the steps' risks in the order of risks, it is high exactly in single-GPU
  mode and medium otherwise, the user is asked exactly then, and a reboot is always announced.\<close>

theorem plan_summary_true:
  assumes "make_plan ex e p r c = Inr pl"
  shows "total_steps (plan_summary pl) = length (plan_steps pl) \<and>
     pending_steps (plan_summary pl) + already_satisfied_steps (plan_summary pl) =
       total_steps (plan_summary pl) \<and>
     pending_steps (plan_summary pl) = length (plan_pending pl) \<and>
     max_risk (plan_summary pl) = Max (step_risk ` set (plan_steps pl)) \<and>
     max_risk (plan_summary pl) =
       (if derived_mode c p = Some SingleGpu then RiskHigh else RiskMedium) \<and>
     (sum_requires_confirmation (plan_summary pl) \<longleftrightarrow> derived_mode c p = Some SingleGpu) \<and>
     sum_requires_reboot (plan_summary pl)"
proof -
  let ?S = "build_steps e p c"
  from assms have ch: "choices_ok ex p c" and st: "plan_steps pl = ?S"
    and sm: "plan_summary pl = summarize ?S" by (simp_all add: make_plan_choices)
  from ch obtain v where v: "vfio_step p c = Some v"
    by (cases "vfio_step p c") (simp_all add: vfio_step_planned roles_ok_ids choices_ok_def)
  from ch have ho: "single_gpu_hook_handoff c \<Longrightarrow> derived_mode c p = Some SingleGpu"
    by (simp add: choices_ok_def monitors_ok_def single_gpu_hook_handoff_def)
  have mx: "max_risk (summarize ?S) = Max (step_risk ` set ?S)"
    by (simp add: summarize_max build_steps_def)
  have hook: "derived_mode c p = Some SingleGpu \<Longrightarrow> single_gpu_hook_step p c \<in> set ?S"
    by (simp add: build_steps_mem)
  have low: "derived_mode c p \<noteq> Some SingleGpu \<Longrightarrow> s \<in> set ?S \<Longrightarrow>
      step_risk s \<le> RiskMedium \<and> \<not> must_confirm s" for s
    using ho by (auto simp: build_steps_mem must_confirm_def less_eq_step_risk_def risk_rank_def
      dest!: bootloader_step_kind vfio_step_kind initramfs_step_kind)
      (simp_all add: snapshot_step_def looking_glass_step_def vm_xml_step_def vm_register_step_def
        verify_step_def Let_def case_prod_beta)
  have "Max (step_risk ` set ?S) = (if derived_mode c p = Some SingleGpu then RiskHigh else RiskMedium)"
  proof (cases "derived_mode c p = Some SingleGpu")
    case True
    then show ?thesis using hook by (auto intro!: Max_eqI rev_image_eqI[OF hook])
  next
    case False
    have "v \<in> set ?S" using v by (simp add: build_steps_mem)
    then have "RiskMedium \<in> step_risk ` set ?S" using vfio_step_kind[OF v] by force
    then show ?thesis using low False by (auto intro!: Max_eqI)
  qed
  moreover have "list_ex must_confirm ?S \<longleftrightarrow> derived_mode c p = Some SingleGpu"
    using low hook[THEN bexI[rotated], where P=must_confirm]
    by (auto simp: list_ex_iff) (simp add: must_confirm_def)
  moreover have "list_ex step_requires_reboot ?S"
    using v vfio_step_kind[OF v] by (auto simp: list_ex_iff build_steps_mem)
  moreover have "length (filter (\<lambda>s. step_state s = Pending) ?S) \<le> length ?S" by simp
  ultimately show ?thesis using mx
    by (simp add: sm st plan_pending_def) (simp add: summarize_def Let_def)
qed

theorem plan_summary_true_witness:
  "\<exists>pl. make_plan sample_exists sample_env sample_profile
      (build_compatibility_report sample_profile) sample_config = Inr pl \<and>
    max_risk (plan_summary pl) = RiskMedium"
proof -
  obtain pl where pl: "make_plan sample_exists sample_env sample_profile
      (build_compatibility_report sample_profile) sample_config = Inr pl"
    using sample_plan by auto
  with plan_summary_true[OF pl] show ?thesis by (auto simp: sample_mode)
qed

section \<open>Which devices are passed through\<close>



section \<open>The recommended defaults\<close>

lemma filter_unique:
  "distinct (map f xs) \<Longrightarrow> x \<in> set xs \<Longrightarrow> filter (\<lambda>y. f y = f x) xs = [x]"
proof (induction xs)
  case (Cons a xs)
  then show ?case by (cases "x = a") (auto simp: filter_empty_conv image_iff)
qed simp

lemma assign_roles_with:
  assumes "distinct (map gpu_pci_slot gs)" "g \<in> set gs" "h \<in> set gs"
    "gpu_pci_slot g \<noteq> gpu_pci_slot h"
  shows "map role_pci_slot (assign_roles (gpu_pci_slot h) (gpu_pci_slot g) gs) = map gpu_pci_slot gs"
    "filter (\<lambda>a. role_role a = Passthrough) (assign_roles (gpu_pci_slot h) (gpu_pci_slot g) gs) =
       [\<lparr>role_pci_slot = gpu_pci_slot g, role_role = Passthrough\<rparr>]"
    "filter (\<lambda>a. role_role a = Host) (assign_roles (gpu_pci_slot h) (gpu_pci_slot g) gs) =
       [\<lparr>role_pci_slot = gpu_pci_slot h, role_role = Host\<rparr>]"
proof -
  let ?r = "\<lambda>x. if gpu_pci_slot x = gpu_pci_slot h then Host
      else if gpu_pci_slot x = gpu_pci_slot g then Passthrough else Ignored"
  have pass: "(?r x = Passthrough) = (gpu_pci_slot x = gpu_pci_slot g)"
    and host: "(?r x = Host) = (gpu_pci_slot x = gpu_pci_slot h)" for x
    using assms(4) by auto
  show "map role_pci_slot (assign_roles (gpu_pci_slot h) (gpu_pci_slot g) gs) = map gpu_pci_slot gs"
    by (simp add: assign_roles_def)
  show "filter (\<lambda>a. role_role a = Passthrough) (assign_roles (gpu_pci_slot h) (gpu_pci_slot g) gs) =
       [\<lparr>role_pci_slot = gpu_pci_slot g, role_role = Passthrough\<rparr>]"
    unfolding assign_roles_def filter_map o_def gpu_role_assignment.simps pass
      filter_unique[OF assms(1,2)] using assms(4) by simp
  show "filter (\<lambda>a. role_role a = Host) (assign_roles (gpu_pci_slot h) (gpu_pci_slot g) gs) =
       [\<lparr>role_pci_slot = gpu_pci_slot h, role_role = Host\<rparr>]"
    unfolding assign_roles_def filter_map o_def gpu_role_assignment.simps host
      filter_unique[OF assms(1,3)] by simp
qed

text \<open>What the two-card branches assign: a pass-through card and a different host card.\<close>

lemma recommend_pair:
  assumes "distinct (map gpu_pci_slot gs)" and "2 \<le> length gs"
  shows "\<exists>h g. h \<in> set gs \<and> g \<in> set gs \<and> gpu_pci_slot g \<noteq> gpu_pci_slot h \<and>
     recommend_gpu_assignment gs =
       Inr (if (\<exists>x \<in> set gs. gpu_type x = Integrated) \<and> (\<exists>x \<in> set gs. gpu_type x = Discrete)
            then IgpuHost else DualGpu, assign_roles (gpu_pci_slot h) (gpu_pci_slot g) gs) \<and>
     ((\<exists>x \<in> set gs. gpu_type x = Integrated) \<and> (\<exists>x \<in> set gs. gpu_type x = Discrete) \<longrightarrow>
        gpu_type h = Integrated)"
proof -
  obtain g0 g1 rest where gs: "gs = g0 # g1 # rest"
    using assms(2) by (cases gs; cases "tl gs") auto
  let ?ig = "List.find (\<lambda>g. gpu_type g = Integrated) gs"
  let ?dg = "or_else (List.find iommu_isolated (filter (\<lambda>g. gpu_type g = Discrete) gs))
               (List.find (\<lambda>g. gpu_type g = Discrete) gs)"
  have step: "recommend_gpu_assignment gs =
      (case (?ig, ?dg) of (Some i, Some d) \<Rightarrow>
          Inr (IgpuHost, assign_roles (gpu_pci_slot i) (gpu_pci_slot d) gs)
       | _ \<Rightarrow> Inr (recommend_same_kind gs g0 g1))"
    unfolding recommend_gpu_assignment_def Let_def gs by (simp only: list.case)
  have ig: "?ig = None \<longleftrightarrow> \<not> (\<exists>x \<in> set gs. gpu_type x = Integrated)" by (simp add: find_None_ex)
  have dg: "?dg = None \<longleftrightarrow> \<not> (\<exists>x \<in> set gs. gpu_type x = Discrete)"
    by (auto simp: or_else_def find_None_ex split: option.splits dest!: find_SomeD)
  show ?thesis
  proof (cases "?ig = None \<or> ?dg = None")
    case True
    have kind: "recommend_gpu_assignment gs = Inr (recommend_same_kind gs g0 g1)"
      unfolding step using True by (auto split: option.splits)
    define q where "q = (case or_else (List.find (\<lambda>g. iommu_isolated g \<and> \<not> is_boot_vga g) gs)
        (or_else (List.find iommu_isolated gs) (List.find (\<lambda>g. \<not> is_boot_vga g) gs)) of
          Some g \<Rightarrow> g | None \<Rightarrow> g1)"
    define h where "h = (case or_else
        (List.find (\<lambda>g. is_boot_vga g \<and> gpu_pci_slot g \<noteq> gpu_pci_slot q) gs)
        (List.find (\<lambda>g. gpu_pci_slot g \<noteq> gpu_pci_slot q) gs) of Some g \<Rightarrow> g | None \<Rightarrow> g0)"
    have q: "q \<in> set gs"
      unfolding q_def by (auto simp: gs split: option.splits dest!: or_else_Some find_SomeD)
    have "\<exists>x \<in> set gs. gpu_pci_slot x \<noteq> gpu_pci_slot q"
      using assms(1) by (auto simp: gs)
    then have h: "h \<in> set gs \<and> gpu_pci_slot h \<noteq> gpu_pci_slot q"
      unfolding h_def by (auto simp: or_else_def find_None_ex split: option.splits dest: find_SomeD)
    have "recommend_same_kind gs g0 g1 = (DualGpu, assign_roles (gpu_pci_slot h) (gpu_pci_slot q) gs)"
      by (simp add: recommend_same_kind_def Let_def h_def q_def)
    then show ?thesis using q h kind True ig dg by fastforce
  next
    case False
    then obtain i d where id: "?ig = Some i" "?dg = Some d" by auto
    have i: "i \<in> set gs \<and> gpu_type i = Integrated" using find_SomeD[OF id(1)] .
    have d: "d \<in> set gs \<and> gpu_type d = Discrete"
      using or_else_Some[OF id(2)] by (auto dest: find_SomeD)
    have "gpu_pci_slot d \<noteq> gpu_pci_slot i"
      using i d assms(1) by (metis gpu_type.distinct(1) inj_on_def distinct_map)
    then show ?thesis using i d ig dg False unfolding step id by fastforce
  qed
qed

lemma recommend_vcpu_fits:
  "2 \<le> host_threads p \<Longrightarrow> recommend_vcpu_count p < host_threads p"
proof -
  assume h: "2 \<le> host_threads p"
  have s: "sat_sub (host_threads p) 1 < host_threads p" "1 \<le> sat_sub (host_threads p) 1"
    using h by (simp_all add: word_less_nat_alt word_le_nat_alt unat_sat_sub)
  have "recommend_vcpu_count p \<le> max (max (sat_sub (host_threads p) 1) 1) 1"
    unfolding recommend_vcpu_count_def Let_def host_threads_def
    by (intro max.mono min.cobounded2 order_refl)
  then show ?thesis using s by (simp add: max_def split: if_splits)
qed

lemma recommend_ram_fits:
  "0 < host_ram_mb p \<Longrightarrow> recommended_vm_ram_mb (sp_ram p) < host_ram_mb p"
proof -
  let ?t = "host_ram_mb p"
  assume h: "0 < ?t"
  have t: "total_kb (sp_ram p) div 1024 = ?t" by (simp add: host_ram_mb_def)
  have lt: "sat_sub ?t 4096 < ?t" using h by (simp add: word_less_nat_alt unat_sat_sub)
  have "min (?t div 2) (sat_sub ?t 4096) \<le> sat_sub ?t 4096" "min 4096 (sat_sub ?t 4096) \<le> sat_sub ?t 4096"
    by simp_all
  with lt have "min (?t div 2) (sat_sub ?t 4096) < ?t" "min 4096 (sat_sub ?t 4096) < ?t" by order+
  with h show ?thesis by (auto simp: recommended_vm_ram_mb_def Let_def t)
qed

text \<open>On a host with at least one GPU and distinct PCI slots the recommended defaults exist (the
  access \<open>gpus[1]\<close> never panics), assign every detected GPU exactly one role and exactly one of
  them \<open>Passthrough\<close>, state the mode that the assignments describe (except that a pair without a
  discrete GPU is called dual-GPU although its host card is integrated), and ask for
  fewer threads and less memory than the host has.\<close>

theorem defaults_consistent:
  assumes "sp_gpus p \<noteq> []" and "distinct (map gpu_pci_slot (sp_gpus p))"
  shows "\<exists>c. recommended_defaults stamp p = Inr (Some c) \<and>
     map role_pci_slot (gpu_roles c) = map gpu_pci_slot (sp_gpus p) \<and>
     length (roles_with Passthrough c) = 1 \<and>
     (derived_mode c p = Some (cfg_gpu_mode c) \<or>
      derived_mode c p = Some IgpuHost \<and> cfg_gpu_mode c = DualGpu \<and>
        (\<forall>g \<in> set (sp_gpus p). gpu_type g \<noteq> Discrete)) \<and>
     (2 \<le> host_threads p \<longrightarrow> vcpu_count (resources c) < host_threads p) \<and>
     (0 < host_ram_mb p \<longrightarrow> ram_mb (resources c) < host_ram_mb p)"
proof -
  let ?gs = "sp_gpus p"
  have res: "vcpu_count (recommend_resources p) = recommend_vcpu_count p"
    "ram_mb (recommend_resources p) = recommended_vm_ram_mb (sp_ram p)"
    by (simp_all add: recommend_resources_def)
  note fits = recommend_vcpu_fits[of p] recommend_ram_fits[of p]
  show ?thesis
  proof (cases "length ?gs = 1")
    case True
    then obtain g where g: "?gs = [g]" by (auto simp: length_Suc_conv)
    show ?thesis
      using fits by (simp add: recommended_defaults_def recommend_gpu_assignment_def g Let_def
        roles_with_def derived_mode_alt res)
  next
    case False
    with assms(1) have "2 \<le> length ?gs" by (cases ?gs; cases "tl ?gs") auto
    from recommend_pair[OF assms(2) this] obtain h g where hg: "h \<in> set ?gs" "g \<in> set ?gs"
        "gpu_pci_slot g \<noteq> gpu_pci_slot h"
      and rec: "recommend_gpu_assignment ?gs = Inr
        (if (\<exists>x \<in> set ?gs. gpu_type x = Integrated) \<and> (\<exists>x \<in> set ?gs. gpu_type x = Discrete)
         then IgpuHost else DualGpu, assign_roles (gpu_pci_slot h) (gpu_pci_slot g) ?gs)"
      and igpu: "(\<exists>x \<in> set ?gs. gpu_type x = Integrated) \<and> (\<exists>x \<in> set ?gs. gpu_type x = Discrete)
        \<longrightarrow> gpu_type h = Integrated" by blast
    obtain c where c: "recommended_defaults stamp p = Inr (Some c)"
      and roles: "gpu_roles c = assign_roles (gpu_pci_slot h) (gpu_pci_slot g) ?gs"
      and mode: "cfg_gpu_mode c = (if (\<exists>x \<in> set ?gs. gpu_type x = Integrated) \<and>
          (\<exists>x \<in> set ?gs. gpu_type x = Discrete) then IgpuHost else DualGpu)"
      and rs: "resources c = recommend_resources p"
      using assms(1) by (simp add: recommended_defaults_def rec Let_def)
    note rw = assign_roles_with[OF assms(2) hg(2,1,3)]
    have find: "find_gpu p (gpu_pci_slot h) = Some h"
    proof (cases "find_gpu p (gpu_pci_slot h)")
      case None
      then show ?thesis using hg(1) by (auto simp: find_gpu_None)
    next
      case (Some x)
      then show ?thesis
        using find_gpu_SomeD[OF Some] hg(1) assms(2) by (auto simp: distinct_map inj_on_def)
    qed
    have der: "derived_mode c p = Some (if gpu_type h = Integrated then IgpuHost else DualGpu)"
      by (simp add: derived_mode_alt roles_with_def roles rw host_gpu_def find)
    show ?thesis using c mode der igpu hg fits rw
      by (intro exI[of _ c]) (auto simp: roles roles_with_def rs res)
  qed
qed

theorem defaults_consistent_witness:
  "\<exists>c. recommended_defaults ''20240101'' sample_profile = Inr (Some c) \<and>
     length (roles_with Passthrough c) = 1"
  using defaults_consistent[of sample_profile "''20240101''"]
  by (auto simp: sample_profile_def sample_gpu_defs)

text \<open>A host whose second card is of a type the detector does not know.\<close>

definition odd_profile :: system_profile where
  "odd_profile = sample_profile\<lparr>sp_gpus := [sample_igpu, sample_dgpu\<lparr>gpu_type := UnknownGpuType\<rparr>]\<rparr>"

text \<open>The exception in the previous property is real: on a host with an integrated GPU and a card
  of unknown type the program's own recommended defaults are refused by its validation, whatever
  the file system and the report, with a mode-mismatch error.\<close>

theorem defaults_refused:
  "\<exists>c. recommended_defaults stamp odd_profile = Inr (Some c) \<and>
     has_issue GpuModeMismatch (validate ex odd_profile r c) \<and>
     \<not> validation_ok (validate ex odd_profile r c)"
proof -
  have gs: "sp_gpus odd_profile = [sample_igpu, sample_dgpu\<lparr>gpu_type := UnknownGpuType\<rparr>]"
    by (simp add: odd_profile_def)
  have rec: "recommend_gpu_assignment (sp_gpus odd_profile) = Inr (DualGpu,
      [\<lparr>role_pci_slot = ''0000:00:02.0'', role_role = Host\<rparr>,
       \<lparr>role_pci_slot = ''0000:01:00.0'', role_role = Passthrough\<rparr>])"
    by (simp add: gs recommend_gpu_assignment_def recommend_same_kind_def assign_roles_def
        sample_gpu_defs)
  obtain c where c: "recommended_defaults stamp odd_profile = Inr (Some c)"
    and mode: "cfg_gpu_mode c = DualGpu"
    and roles: "gpu_roles c = [\<lparr>role_pci_slot = ''0000:00:02.0'', role_role = Host\<rparr>,
       \<lparr>role_pci_slot = ''0000:01:00.0'', role_role = Passthrough\<rparr>]"
    by (simp add: recommended_defaults_def rec[unfolded gs] gs Let_def)
  have der: "derived_mode c odd_profile = Some IgpuHost"
    by (simp add: derived_mode_alt roles_with_def roles host_gpu_def find_gpu_def gs)
      (simp add: sample_gpu_defs)
  have mis: "\<lparr>issue_id = GpuModeMismatch, issue_severity = SevError, issue_message = m\<rparr>
      \<in> set (report_issues (validate ex odd_profile r c)) \<Longrightarrow> ?thesis" for m
    by (rule exI[of _ c]) (force simp: c has_issue_def validation_ok_def has_errors_def list_ex_iff)
  have "error_issue GpuModeMismatch (''Stated GPU mode `'' @ gpu_mode_display DualGpu
      @ ''` does not match assignments which describe `'' @ gpu_mode_display IgpuHost @ ''`.'')
      \<in> set (report_issues (validate ex odd_profile r c))"
    by (simp add: validate_def case_prod_beta check_gpu_roles_def Let_def der mode_issues_def mode
        roles del: append_assoc)
  then show ?thesis unfolding error_issue_def by (rule mis)
qed

section \<open>Machine arithmetic\<close>

text \<open>The sum \<open>ram_mb + 2048\<close> that the RAM warning compares is computed only where it does not
  wrap around: there it is the true sum.\<close>

theorem ram_sum_exact:
  assumes "0 < host_ram_mb p" and "ram < host_ram_mb p"
  shows "unat (ram + 2048) = unat ram + 2048"
  using assms by (rule ram_sum_no_wrap)

theorem ram_sum_exact_witness: "unat ((16384::u64) + 2048) = 18432"
  using ram_sum_exact[of sample_profile 16384] by (simp add: host_ram_mb_def sample_profile_def)

end
