(* ===== verification/Manifest.thy ===== *)
theory Manifest
  imports Planner
begin

text \<open>
  \<open>snapshot/manifest.rs\<close>: the persisted record of an attempt to apply a plan. A \<open>DateTime<Utc>\<close> is
  the number of milliseconds since the epoch; \<open>stamp\<close> formats it as the code asks \<open>chrono\<close> to
  (\<open>%Y-%m-%dT%H-%M-%S-%3fZ\<close>).
\<close>

definition virtu_version :: string where
  "virtu_version = ''0.1.0''"

record host_summary =
  hs_distro_id :: string
  hs_distro_pretty_name :: string
  hs_kernel_version :: string
  hs_bootloader :: bootloader_kind
  hs_initramfs :: initramfs_system

definition host_summary_from_profile :: "system_profile \<Rightarrow> host_summary" where
  "host_summary_from_profile p =
     \<lparr>hs_distro_id = distro_id (sp_distro p),
      hs_distro_pretty_name = distro_pretty_name (sp_distro p),
      hs_kernel_version = kernel_version (sp_readiness p),
      hs_bootloader = bootloader_kind (sp_bootloader p),
      hs_initramfs = sp_initramfs_system p\<rparr>"

record snapshot_entry =
  original_path :: path
  backup_path :: path
  pre_edit_sha256 :: string
  post_edit_sha256 :: "string option"
  original_existed :: bool
  entry_produced_by :: step_kind

definition record_post_edit_hash :: "string \<Rightarrow> snapshot_entry \<Rightarrow> snapshot_entry" where
  "record_post_edit_hash h e = e\<lparr>post_edit_sha256 := Some h\<rparr>"

datatype restore_action =
  RegenerateBootloader string
| RebuildInitramfs string
| ReloadKernelModules string
| UndefineLibvirtDomain string
| RemoveHookScripts string
| RecommendReboot

definition restore_action_summary :: "restore_action \<Rightarrow> string" where
  "restore_action_summary a = (case a of
     RegenerateBootloader c \<Rightarrow> ''Re-run bootloader update: '' @ c
   | RebuildInitramfs c \<Rightarrow> ''Rebuild initramfs: '' @ c
   | ReloadKernelModules m \<Rightarrow> ''Reload kernel module: modprobe -r '' @ m @ '' && modprobe '' @ m
   | UndefineLibvirtDomain n \<Rightarrow> ''Undefine libvirt domain: virsh undefine '' @ n
   | RemoveHookScripts n \<Rightarrow> ''Remove single-GPU libvirt hook scripts for '' @ n
       @ '': rm -f /etc/libvirt/hooks/qemu.d/'' @ n @ '' && rm -rf /etc/libvirt/hooks/qemu.d/'' @ n
       @ ''.d''
   | RecommendReboot \<Rightarrow> ''Reboot to fully apply the rollback.'')"

record snapshot_manifest =
  manifest_version :: string
  created_at :: nat
  manifest_id :: string
  manifest_host :: host_summary
  manifest_plan_summary :: plan_summary
  entries :: "snapshot_entry list"
  restore_actions :: "restore_action list"

definition new_manifest ::
  "nat \<Rightarrow> string \<Rightarrow> host_summary \<Rightarrow> plan_summary \<Rightarrow> restore_action list \<Rightarrow> snapshot_manifest" where
  "new_manifest now i h ps acts =
     \<lparr>manifest_version = virtu_version, created_at = now, manifest_id = i, manifest_host = h,
      manifest_plan_summary = ps, entries = [], restore_actions = acts\<rparr>"

definition generate_id :: "(nat \<Rightarrow> string) \<Rightarrow> nat \<Rightarrow> string" where
  "generate_id stamp now = stamp now @ ''-v'' @ virtu_version"

definition push_entry :: "snapshot_entry \<Rightarrow> snapshot_manifest \<Rightarrow> snapshot_manifest" where
  "push_entry e m = m\<lparr>entries := entries m @ [e]\<rparr>"

definition entry_for :: "path \<Rightarrow> snapshot_manifest \<Rightarrow> snapshot_entry option" where
  "entry_for target m = List.find (\<lambda>e. original_path e = target) (entries m)"

text \<open>\<open>entry_for_mut\<close> gives a reference to the first entry of the path; the update through it:\<close>

fun update_first :: "('a \<Rightarrow> bool) \<Rightarrow> ('a \<Rightarrow> 'a) \<Rightarrow> 'a list \<Rightarrow> 'a list" where
  "update_first P f [] = []"
| "update_first P f (x # xs) = (if P x then f x # xs else x # update_first P f xs)"

definition update_entry ::
  "path \<Rightarrow> (snapshot_entry \<Rightarrow> snapshot_entry) \<Rightarrow> snapshot_manifest \<Rightarrow> snapshot_manifest" where
  "update_entry target f m =
     m\<lparr>entries := update_first (\<lambda>e. original_path e = target) f (entries m)\<rparr>"

section \<open>Facts\<close>

lemma entries_push [simp]: "entries (push_entry e m) = entries m @ [e]"
  by (simp add: push_entry_def)

lemma manifest_push [simp]:
  "manifest_id (push_entry e m) = manifest_id m"
  "restore_actions (push_entry e m) = restore_actions m"
  by (simp_all add: push_entry_def)

lemma entries_new [simp]:
  "entries (new_manifest n i h p a) = []" "manifest_id (new_manifest n i h p a) = i"
  "restore_actions (new_manifest n i h p a) = a"
  by (simp_all add: new_manifest_def)

lemma entry_for_SomeD: "entry_for t m = Some e \<Longrightarrow> e \<in> set (entries m) \<and> original_path e = t"
  by (auto simp: entry_for_def dest: find_SomeD)

lemma entry_for_None: "entry_for t m = None \<longleftrightarrow> (\<forall>e \<in> set (entries m). original_path e \<noteq> t)"
  by (auto simp: entry_for_def find_None_ex)

lemma length_update_first [simp]: "length (update_first P f xs) = length xs"
  by (induction xs) auto

lemma map_update_first: "(\<And>x. g (f x) = g x) \<Longrightarrow> map g (update_first P f xs) = map g xs"
  by (induction xs) auto

lemma set_update_firstD: "y \<in> set (update_first P f xs) \<Longrightarrow> y \<in> set xs \<or> (\<exists>x \<in> set xs. P x \<and> y = f x)"
  by (induction xs) (auto split: if_splits)

lemma find_update_first:
  "List.find P xs = Some x \<Longrightarrow> P (f x) \<Longrightarrow> List.find P (update_first P f xs) = Some (f x)"
  by (induction xs) (auto split: if_splits)

lemma entry_for_update:
  "entry_for t m = Some e \<Longrightarrow> original_path (f e) = t \<Longrightarrow> entry_for t (update_entry t f m) = Some (f e)"
  by (simp add: entry_for_def update_entry_def find_update_first)

lemma update_entry_fields [simp]:
  "manifest_id (update_entry t f m) = manifest_id m"
  "restore_actions (update_entry t f m) = restore_actions m"
  by (simp_all add: update_entry_def)

end
