(* ===== verification/Snapshot.thy ===== *)
theory Snapshot
  imports Manifest File_System Rust_Lines
begin

text \<open>
  \<open>snapshot/mod.rs\<close> and \<open>config/atomic_write.rs\<close>: capture before any mutation, the one write
  primitive of the host files, and restore. Outside \<open>src/\<close> are the hash \<open>H\<close> (hex of SHA-256), the
  TOML library (\<open>codec\<close>) and the clock (\<open>now\<close>): they are parameters. The wording of errors that
  the standard library or the TOML library produces is not modelled.
\<close>

section \<open>Errors\<close>

datatype snapshot_error =
  SnapIo path io_error
| MissingManifest string
| ManifestParse string string
| ManifestSerialize string
| HashMismatch string path string string

definition io_error_display :: "io_error \<Rightarrow> string" where
  "io_error_display e = io_message e"

definition snapshot_error_display :: "snapshot_error \<Rightarrow> string" where
  "snapshot_error_display e = (case e of
     SnapIo p src \<Rightarrow> ''snapshot I/O error at '' @ path_display p @ '': '' @ io_error_display src
   | MissingManifest i \<Rightarrow> ''snapshot '' @ i @ '': manifest is missing or invalid''
   | ManifestParse i src \<Rightarrow> ''snapshot '' @ i @ '': manifest cannot be parsed: '' @ src
   | ManifestSerialize src \<Rightarrow> ''snapshot manifest cannot be serialized: '' @ src
   | HashMismatch i p ex ac \<Rightarrow> ''snapshot '' @ i @ '': rollback hash mismatch for '' @ path_display p
       @ '': expected '' @ ex @ '', got '' @ ac)"

text \<open>The TOML library on manifests, with its error messages.\<close>

record 'm codec =
  to_toml :: "'m \<Rightarrow> string + string"
  from_toml :: "string \<Rightarrow> string + 'm"

section \<open>Capture\<close>

definition files_subdir :: string where "files_subdir = ''files''"

definition manifest_filename :: string where "manifest_filename = ''manifest.toml''"

definition sanitize_path :: "path \<Rightarrow> string" where
  "sanitize_path p =
     map (\<lambda>c. if c = CHR ''/'' \<or> c = CHR '':'' \<or> c = BSLASH then CHR ''_'' else c) (path_display p)"

definition backup_relative_path :: "path \<Rightarrow> path" where
  "backup_relative_path target = path_push (path_of files_subdir) (sanitize_path target)"

definition collect_targets :: "planned_step list \<Rightarrow> path list" where
  "collect_targets steps =
     foldl (\<lambda>seen s. if step_kind s = SnapshotStep then seen
              else foldl push_new seen (filter (\<lambda>t. \<not> path_is_empty t) (step_touches s))) [] steps"

definition produced_by :: "planned_step list \<Rightarrow> path \<Rightarrow> step_kind" where
  "produced_by steps target =
     (case List.find (\<lambda>s. target \<in> set (step_touches s)) steps of
        Some s \<Rightarrow> step_kind s | None \<Rightarrow> Verify)"

definition derive_restore_actions :: "plan \<Rightarrow> system_profile \<Rightarrow> restore_action list" where
  "derive_restore_actions pl host =
     concat (map (\<lambda>s. case step_kind s of
          BootloaderWrite \<Rightarrow>
            (case update_command (sp_bootloader host) of
               Some cmd \<Rightarrow> [RegenerateBootloader cmd] | None \<Rightarrow> [])
        | InitramfsWrite \<Rightarrow>
            (let cmd = rebuild_command (sp_initramfs_system host) in
             if cmd \<noteq> [] then [RebuildInitramfs cmd] else [])
        | VfioConfig \<Rightarrow> [ReloadKernelModules ''vfio_pci'']
        | _ \<Rightarrow> []) (plan_steps pl))
     @ (if sum_requires_reboot (plan_summary pl) then [RecommendReboot] else [])"

definition capture_one ::
  "'fs file_system \<Rightarrow> (string \<Rightarrow> string) \<Rightarrow> planned_step list \<Rightarrow> path \<Rightarrow> path
    \<Rightarrow> ('fs, snapshot_error, snapshot_entry) io" where
  "capture_one F H steps snapshot_dir target =
     (let rel = backup_relative_path target; abs = path_join snapshot_dir rel;
          entry = (\<lambda>hash existed. \<lparr>original_path = target, backup_path = rel, pre_edit_sha256 = hash,
             post_edit_sha256 = None, original_existed = existed,
             entry_produced_by = produced_by steps target\<rparr>)
      in io_then (io_gets (fs_exists F target)) (\<lambda>ex.
         if ex then
           io_then (io_map_err (SnapIo target) (io_query (fs_read F target))) (\<lambda>bytes.
           io_then (case path_parent abs of
                      Some parent \<Rightarrow> io_map_err (SnapIo parent) (fs_create_dir_all F parent)
                    | None \<Rightarrow> io_ok ()) (\<lambda>_.
           io_then (io_map_err (SnapIo abs) (fs_write_atomic F abs bytes)) (\<lambda>_.
             io_ok (entry (H bytes) True))))
         else io_ok (entry '''' False)))"

definition capture_with_id ::
  "'fs file_system \<Rightarrow> (string \<Rightarrow> string) \<Rightarrow> snapshot_manifest codec \<Rightarrow> nat \<Rightarrow> plan \<Rightarrow> system_profile
    \<Rightarrow> path \<Rightarrow> string \<Rightarrow> ('fs, snapshot_error, string) io" where
  "capture_with_id F H codec now pl host root sid =
     (let snapshot_dir = path_push root sid; files_dir = path_push snapshot_dir files_subdir;
          manifest_path = path_push snapshot_dir manifest_filename;
          m0 = new_manifest now sid (host_summary_from_profile host) (plan_summary pl)
                 (derive_restore_actions pl host)
      in io_then (io_map_err (SnapIo files_dir) (fs_create_dir_all F files_dir)) (\<lambda>_.
         io_then (io_fold (\<lambda>m target.
                    io_then (capture_one F H (plan_steps pl) snapshot_dir target)
                      (\<lambda>e. io_ok (push_entry e m))) m0 (collect_targets (plan_steps pl))) (\<lambda>m.
         io_then (io_lift (map_err ManifestSerialize (to_toml codec m))) (\<lambda>serialized.
         io_then (io_map_err (SnapIo manifest_path)
                    (fs_write_atomic F manifest_path serialized)) (\<lambda>_.
           io_ok sid)))))"

text \<open>The clock is read twice: for the id, and again by \<open>SnapshotManifest::new\<close>.\<close>

definition capture ::
  "'fs file_system \<Rightarrow> (string \<Rightarrow> string) \<Rightarrow> snapshot_manifest codec \<Rightarrow> (nat \<Rightarrow> string) \<Rightarrow> nat \<Rightarrow> nat
    \<Rightarrow> plan \<Rightarrow> system_profile \<Rightarrow> path \<Rightarrow> ('fs, snapshot_error, string) io" where
  "capture F H codec stamp now now' pl host root =
     (let sid = generate_id stamp now in
      io_then (capture_with_id F H codec now' pl host root sid) (\<lambda>_. io_ok sid))"

section \<open>The write primitive\<close>

definition snapshot_then_write ::
  "'fs file_system \<Rightarrow> (string \<Rightarrow> string) \<Rightarrow> snapshot_manifest \<Rightarrow> path \<Rightarrow> string
    \<Rightarrow> ('fs, snapshot_error, snapshot_manifest) io" where
  "snapshot_then_write F H m target content =
     (case entry_for target m of
        None \<Rightarrow> io_err (SnapIo target (IoError NotFound
          (''snapshot manifest has no entry for '' @ path_display target
           @ '' - capture must run before snapshot_then_write'')))
      | Some entry \<Rightarrow>
          io_then
            (if original_existed entry then
               io_then (io_map_err (SnapIo target) (io_query (fs_read F target))) (\<lambda>current.
                 if H current \<noteq> pre_edit_sha256 entry then
                   io_err (HashMismatch (manifest_id m) target (pre_edit_sha256 entry) (H current))
                 else io_ok ())
             else io_ok ()) (\<lambda>_.
          io_then (io_map_err (SnapIo target) (fs_write_atomic F target content)) (\<lambda>_.
            io_ok (update_entry target (record_post_edit_hash (H content)) m))))"

definition declare_created_entry ::
  "path \<Rightarrow> path \<Rightarrow> step_kind \<Rightarrow> snapshot_manifest \<Rightarrow> snapshot_manifest" where
  "declare_created_entry target backup kind m =
     (if entry_for target m \<noteq> None then m
      else push_entry \<lparr>original_path = target, backup_path = backup, pre_edit_sha256 = '''',
             post_edit_sha256 = None, original_existed = False, entry_produced_by = kind\<rparr> m)"

section \<open>Restore\<close>

record restore_summary =
  rs_id :: string
  rs_restored :: "path list"
  rs_already :: "path list"
  rs_deleted :: "path list"
  rs_post_actions :: "restore_action list"

definition restore_lines :: "restore_summary \<Rightarrow> string list" where
  "restore_lines r =
     (let listed = (\<lambda>title ps. if ps = [] then []
            else (LF # title) # map (\<lambda>p. ''  - '' @ path_display p) ps)
      in [LF # ''=== VIRTU ROLLBACK ==='', ''Snapshot: '' @ rs_id r]
         @ (if rs_restored r = [] \<and> rs_already r = [] \<and> rs_deleted r = []
            then [''No entries to restore.''] else [])
         @ listed ''Restored:'' (rs_restored r)
         @ listed ''Already at pre-edit state:'' (rs_already r)
         @ listed ''Deleted or already absent (re-created file rolled back):'' (rs_deleted r)
         @ (if rs_post_actions r = [] then []
            else (LF # ''Post-restore actions you must run:'')
                 # map (\<lambda>a. ''  - '' @ restore_action_summary a) (rs_post_actions r))
         @ [''''])"

text \<open>The body of the loop over the entries.\<close>

definition restore_entry ::
  "'fs file_system \<Rightarrow> (string \<Rightarrow> string) \<Rightarrow> string \<Rightarrow> path \<Rightarrow> restore_summary \<Rightarrow> snapshot_entry
    \<Rightarrow> ('fs, snapshot_error, restore_summary) io" where
  "restore_entry F H sid snapshot_dir sm e =
     (let target = original_path e; backup = path_join snapshot_dir (backup_path e) in
      if original_existed e then
        io_then (io_gets (fs_exists F target)) (\<lambda>ex.
        io_then
          (if ex then
             io_then (io_map_err (SnapIo target) (io_query (fs_read F target))) (\<lambda>current.
               io_ok (H current = pre_edit_sha256 e))
           else io_ok False) (\<lambda>skip.
        if skip then io_ok (sm\<lparr>rs_already := rs_already sm @ [target]\<rparr>)
        else
          io_then (io_map_err (SnapIo backup) (io_query (fs_read F backup))) (\<lambda>bytes.
          if H bytes \<noteq> pre_edit_sha256 e then
            io_err (HashMismatch sid backup (pre_edit_sha256 e) (H bytes))
          else
            io_then (case path_parent target of
                       Some parent \<Rightarrow>
                         if \<not> path_is_empty parent
                         then io_map_err (SnapIo parent) (fs_create_dir_all F parent) else io_ok ()
                     | None \<Rightarrow> io_ok ()) (\<lambda>_.
            io_then (io_map_err (SnapIo target) (fs_write_atomic F target bytes)) (\<lambda>_.
              io_ok (sm\<lparr>rs_restored := rs_restored sm @ [target]\<rparr>))))))
      else
        io_then (io_gets (fs_exists F target)) (\<lambda>ex.
        io_then (if ex then io_map_err (SnapIo target) (fs_remove_file F target) else io_ok ()) (\<lambda>_.
          io_ok (sm\<lparr>rs_deleted := rs_deleted sm @ [target]\<rparr>))))"

definition read_manifest ::
  "'fs file_system \<Rightarrow> snapshot_manifest codec \<Rightarrow> path \<Rightarrow> string
    \<Rightarrow> ('fs, snapshot_error, snapshot_manifest) io" where
  "read_manifest F codec snapshot_dir sid =
     (let manifest_path = path_push snapshot_dir manifest_filename in
      io_then (io_gets (fs_exists F manifest_path)) (\<lambda>ex.
      if \<not> ex then io_err (MissingManifest sid)
      else
        io_then (io_map_err (SnapIo manifest_path) (io_query (fs_read F manifest_path))) (\<lambda>bytes.
        case from_utf8 bytes of
          None \<Rightarrow> io_err (SnapIo manifest_path (IoError InvalidData ''invalid utf-8''))
        | Some text \<Rightarrow> io_lift (map_err (ManifestParse sid) (from_toml codec text)))))"

definition restore ::
  "'fs file_system \<Rightarrow> (string \<Rightarrow> string) \<Rightarrow> snapshot_manifest codec \<Rightarrow> path \<Rightarrow> string
    \<Rightarrow> ('fs, snapshot_error, restore_summary) io" where
  "restore F H codec root sid =
     (let snapshot_dir = path_push root sid in
      io_then (read_manifest F codec snapshot_dir sid) (\<lambda>m.
        io_fold (restore_entry F H sid snapshot_dir)
          \<lparr>rs_id = sid, rs_restored = [], rs_already = [], rs_deleted = [],
           rs_post_actions = restore_actions m\<rparr> (entries m)))"

section \<open>What a manifest promises\<close>

text \<open>
  The backup of an entry lies in the snapshot directory. \<open>entry_backed\<close> relates an entry to the
  contents \<open>orig\<close> at capture time and the contents \<open>C\<close> now: an existing original has its hash
  recorded and its bytes in the backup file, an absent one is recorded as absent.
\<close>

definition backup_file :: "path \<Rightarrow> snapshot_entry \<Rightarrow> path" where
  "backup_file snapshot_dir e = path_join snapshot_dir (backup_path e)"

definition entry_backed ::
  "(string \<Rightarrow> string) \<Rightarrow> path \<Rightarrow> (path \<Rightarrow> string option) \<Rightarrow> (path \<Rightarrow> string option) \<Rightarrow> snapshot_entry
    \<Rightarrow> bool" where
  "entry_backed H snapshot_dir orig C e \<longleftrightarrow>
     (if original_existed e
      then (\<exists>c. orig (original_path e) = Some c \<and> pre_edit_sha256 e = H c \<and>
                C (backup_file snapshot_dir e) = Some c)
      else orig (original_path e) = None)"

definition manifest_backed ::
  "(string \<Rightarrow> string) \<Rightarrow> path \<Rightarrow> (path \<Rightarrow> string option) \<Rightarrow> (path \<Rightarrow> string option) \<Rightarrow> snapshot_manifest
    \<Rightarrow> bool" where
  "manifest_backed H snapshot_dir orig C m \<longleftrightarrow>
     (\<forall>e \<in> set (entries m). entry_backed H snapshot_dir orig C e)"

text \<open>
  The targets do not interfere with the snapshot: each is a path outside the snapshot directory
  whose flat backup name is a plain file name, and no two share a backup name.
\<close>

definition snapshot_safe :: "path \<Rightarrow> path list \<Rightarrow> bool" where
  "snapshot_safe snapshot_dir targets \<longleftrightarrow>
     (\<forall>t \<in> set targets. plain_name (sanitize_path t) \<and> \<not> path_under snapshot_dir t) \<and>
     inj_on sanitize_path (set targets)"

lemma plain_fixed_names [simp]: "plain_name files_subdir" "plain_name manifest_filename"
  by (simp_all add: plain_name_def files_subdir_def manifest_filename_def)

lemma backup_absolute:
  assumes "plain_name (sanitize_path t)"
  shows "path_join d (backup_relative_path t) =
     path_push (path_push d files_subdir) (sanitize_path t)"
proof -
  have f: "plain_name files_subdir" by simp
  have "backup_relative_path t = Path False [''files'', sanitize_path t]"
    unfolding backup_relative_path_def path_push_plain[OF assms] path_of_plain[OF f]
    by (simp add: files_subdir_def)
  moreover have "sanitize_path t \<noteq> ''.''" using assms by (simp add: plain_name_def)
  ultimately show ?thesis
    unfolding path_push_plain[OF assms] path_push_plain[OF f]
    by (simp add: path_join_def files_subdir_def)
qed

lemma backup_under: "plain_name (sanitize_path t) \<Longrightarrow> path_under d (path_join d (backup_relative_path t))"
  by (simp add: backup_absolute path_under_push)

lemma backup_inject:
  assumes "plain_name (sanitize_path t)" "plain_name (sanitize_path u)"
  shows "path_join d (backup_relative_path t) = path_join d (backup_relative_path u) \<longleftrightarrow>
     sanitize_path t = sanitize_path u"
  by (simp add: backup_absolute assms path_push_plain_inject)

lemma backup_not_manifest:
  assumes "plain_name (sanitize_path t)"
  shows "path_join d (backup_relative_path t) \<noteq> path_push d manifest_filename"
  by (simp add: backup_absolute assms path_push_plain)

lemma manifest_under: "path_under d (path_push d manifest_filename)"
  by (simp add: path_under_push)

definition entry_placed :: "path \<Rightarrow> snapshot_entry \<Rightarrow> bool" where
  "entry_placed d e \<longleftrightarrow> \<not> path_under d (original_path e) \<and> path_under d (backup_file d e)"

text \<open>The invariant of the capture loop.\<close>

definition capture_inv ::
  "(string \<Rightarrow> string) \<Rightarrow> path \<Rightarrow> path list \<Rightarrow> (path \<Rightarrow> string option) \<Rightarrow> (path \<Rightarrow> string option)
    \<Rightarrow> snapshot_manifest \<Rightarrow> bool" where
  "capture_inv H d targets orig C m \<longleftrightarrow>
     manifest_backed H d orig C m \<and>
     (\<forall>e \<in> set (entries m). original_path e \<in> set targets \<and>
        backup_path e = backup_relative_path (original_path e)) \<and>
     (\<forall>p. \<not> path_under d p \<longrightarrow> C p = orig p)"

context file_system_laws
begin

text \<open>Capturing one target: nothing outside the backup file changes, and its entry is backed.\<close>

lemma capture_one_content:
  assumes "capture_one F H steps d t s = (r, s')"
  shows "\<forall>p. p \<noteq> path_join d (backup_relative_path t) \<longrightarrow> fs_content F s' p = fs_content F s p"
  using assms
  by (auto simp: capture_one_def Let_def io_then_def io_map_err_def
      split: prod.splits sum.splits if_splits option.splits
      dest: write_frame dest!: mkdir_content)

lemma capture_one_entry:
  assumes "capture_one F H steps d t s = (Inr e, s')"
    and "orig t = fs_content F s t"
  shows "original_path e = t \<and> backup_path e = backup_relative_path t \<and>
     entry_backed H d orig (fs_content F s') e"
  using assms
  by (auto simp: capture_one_def Let_def io_then_def io_map_err_def entry_backed_def
      backup_file_def
      split: prod.splits sum.splits if_splits option.splits
      dest!: write_ok mkdir_content read_content dest: absent_not_content)

lemma capture_step:
  assumes inv: "capture_inv H d targets orig (fs_content F s) m"
    and safe: "snapshot_safe d targets" and t: "t \<in> set targets"
    and run: "capture_one F H steps d t s = (Inr e, s')"
  shows "capture_inv H d targets orig (fs_content F s') (push_entry e m)"
proof -
  let ?C = "fs_content F s" and ?C' = "fs_content F s'"
  have pt: "plain_name (sanitize_path t)" and ot: "orig t = ?C t"
    using safe t inv by (auto simp: snapshot_safe_def capture_inv_def)
  have frame: "p \<noteq> path_join d (backup_relative_path t) \<Longrightarrow> ?C' p = ?C p" for p
    using capture_one_content[OF run] by blast
  have new: "original_path e = t" "backup_path e = backup_relative_path t"
      "entry_backed H d orig ?C' e"
    using capture_one_entry[of H steps d t s e s' orig, OF run ot] by auto
  have old: "entry_backed H d orig ?C' x" if x: "x \<in> set (entries m)" for x
  proof (cases "backup_file d x = path_join d (backup_relative_path t)")
    case False
    have "entry_backed H d orig ?C x" using inv x by (simp add: capture_inv_def manifest_backed_def)
    then show ?thesis using frame[OF False] by (simp add: entry_backed_def)
  next
    case True
    have xo: "original_path x \<in> set targets" "backup_path x = backup_relative_path (original_path x)"
      using inv x by (auto simp: capture_inv_def)
    then have "plain_name (sanitize_path (original_path x))"
      using safe by (simp add: snapshot_safe_def)
    then have "sanitize_path (original_path x) = sanitize_path t"
      using True backup_inject[OF _ pt] by (simp add: backup_file_def xo(2))
    then have "original_path x = t"
      using safe xo(1) t by (auto simp: snapshot_safe_def dest: inj_onD)
    moreover have "entry_backed H d orig ?C x"
      using inv x by (simp add: capture_inv_def manifest_backed_def)
    ultimately show ?thesis
      using new xo by (auto simp: entry_backed_def backup_file_def split: if_splits)
  qed
  have "\<not> path_under d p \<Longrightarrow> ?C' p = orig p" for p
    using frame backup_under[OF pt, of d] inv by (metis capture_inv_def)
  then show ?thesis
    using old new inv t by (auto simp: capture_inv_def manifest_backed_def)
qed

lemma capture_loop:
  assumes "io_fold (\<lambda>m t. io_then (capture_one F H steps d t) (\<lambda>e. io_ok (push_entry e m))) m ts s
      = (r, s')"
    and "capture_inv H d targets orig (fs_content F s) m"
    and "snapshot_safe d targets" and "set ts \<subseteq> set targets"
  shows "(\<forall>p. \<not> path_under d p \<longrightarrow> fs_content F s' p = orig p) \<and>
     (\<forall>m'. r = Inr m' \<longrightarrow> capture_inv H d targets orig (fs_content F s') m' \<and>
        map original_path (entries m') = map original_path (entries m) @ ts \<and>
        restore_actions m' = restore_actions m)"
  using assms
proof (induction ts arbitrary: m s)
  case Nil
  then show ?case by (auto simp: capture_inv_def)
next
  case (Cons t ts)
  have t: "t \<in> set targets" "plain_name (sanitize_path t)"
    using Cons.prems(3,4) by (auto simp: snapshot_safe_def)
  obtain r1 s1 where run: "capture_one F H steps d t s = (r1, s1)" by fastforce
  show ?case
  proof (cases r1)
    case (Inl er)
    have "\<not> path_under d p \<Longrightarrow> fs_content F s1 p = orig p" for p
      using capture_one_content[OF run] backup_under[OF t(2), of d] Cons.prems(2)
      by (metis capture_inv_def)
    then show ?thesis using Cons.prems(1) run Inl by (auto simp: io_then_def)
  next
    case (Inr e)
    have ot: "orig t = fs_content F s t"
      using Cons.prems(2,3) t by (auto simp: snapshot_safe_def capture_inv_def)
    note e = capture_one_entry[of H steps d t s e s1 orig, OF run[unfolded Inr] ot]
    note IH = Cons.IH[OF _ capture_step[OF Cons.prems(2,3) t(1) run[unfolded Inr]] Cons.prems(3)]
    have rest: "io_fold (\<lambda>m t. io_then (capture_one F H steps d t) (\<lambda>e. io_ok (push_entry e m)))
        (push_entry e m) ts s1 = (r, s')"
      using Cons.prems(1) by (simp only: io_fold.simps io_then_assoc io_then_ok run[unfolded Inr]
          io_then_Inr[where m = "capture_one F H steps d t" and s = s and a = e and s' = s1])
    have sub: "set ts \<subseteq> set targets" using Cons.prems(4) by simp
    from IH[OF rest sub] show ?thesis by (simp add: e)
  qed
qed

text \<open>A whole capture.\<close>

text \<open>Writing the manifest touches no backup.\<close>

lemma capture_inv_manifest:
  assumes inv: "capture_inv H d T orig now m" and safe: "snapshot_safe d T"
    and fr: "\<And>p. p \<noteq> path_push d manifest_filename \<Longrightarrow> now' p = now p"
    and out: "\<forall>p. \<not> path_under d p \<longrightarrow> now' p = orig p"
  shows "capture_inv H d T orig now' m"
  unfolding capture_inv_def manifest_backed_def
proof (intro conjI ballI)
  fix e assume e: "e \<in> set (entries m)"
  from inv e have old: "entry_backed H d orig now e"
    and eo: "original_path e \<in> set T" "backup_path e = backup_relative_path (original_path e)"
    by (auto simp: capture_inv_def manifest_backed_def)
  have "backup_file d e \<noteq> path_push d manifest_filename"
    using safe eo by (auto simp: backup_file_def snapshot_safe_def intro!: backup_not_manifest)
  then show "entry_backed H d orig now' e" using old fr by (simp add: entry_backed_def)
  show "original_path e \<in> set T" "backup_path e = backup_relative_path (original_path e)" using eo by auto
qed (use out in auto)

lemma capture_result:
  assumes "capture_with_id F H codec now pl host root i s = (r, s')"
    and safe: "snapshot_safe (path_push root i) (collect_targets (plan_steps pl))"
  shows "(\<forall>p. \<not> path_under (path_push root i) p \<longrightarrow> fs_content F s' p = fs_content F s p) \<and>
     (\<forall>x. r = Inr x \<longrightarrow>
       (\<exists>m t. capture_inv H (path_push root i) (collect_targets (plan_steps pl))
            (fs_content F s) (fs_content F s') m \<and>
          map original_path (entries m) = collect_targets (plan_steps pl) \<and>
          restore_actions m = derive_restore_actions pl host \<and>
          to_toml codec m = Inr t \<and>
          fs_content F s' (path_push (path_push root i) manifest_filename) = Some t))"
proof -
  let ?d = "path_push root i" and ?T = "collect_targets (plan_steps pl)" and ?o = "fs_content F s"
  let ?m0 = "new_manifest now i (host_summary_from_profile host) (plan_summary pl)
      (derive_restore_actions pl host)"
  let ?mp = "path_push ?d manifest_filename"
  obtain r0 s0 where mk: "fs_create_dir_all F (path_push ?d files_subdir) s = (r0, s0)" by fastforce
  have c0: "fs_content F s0 = ?o" using mkdir_content[OF mk] .
  obtain rl sl where loop: "io_fold (\<lambda>m t. io_then (capture_one F H (plan_steps pl) ?d t)
      (\<lambda>e. io_ok (push_entry e m))) ?m0 ?T s0 = (rl, sl)" by fastforce
  have "capture_inv H ?d ?T ?o (fs_content F s0) ?m0"
    by (simp add: capture_inv_def manifest_backed_def c0)
  note L = capture_loop[OF loop this safe order_refl]
  show ?thesis
  proof (cases "\<exists>m. r0 = Inr () \<and> rl = Inr m")
    case False
    then show ?thesis
      using assms(1) mk loop L c0
      by (cases r0; cases rl) (auto simp: capture_with_id_def Let_def io_then_def io_map_err_def)
  next
    case True
    then obtain m where m: "r0 = Inr ()" "rl = Inr m" by auto
    note inv = conjunct1[OF L[THEN conjunct2, rule_format, OF m(2)]]
    note ents = conjunct2[OF L[THEN conjunct2, rule_format, OF m(2)]]
    show ?thesis
    proof (cases "to_toml codec m")
      case (Inl e)
      then show ?thesis using assms(1) mk loop L m
        by (auto simp: capture_with_id_def Let_def io_then_def io_map_err_def)
    next
      case (Inr t)
      obtain rw sw where w: "fs_write_atomic F ?mp t sl = (rw, sw)" by fastforce
      have rs: "s' = sw" "\<forall>x. r = Inr x \<longrightarrow> rw = Inr ()"
        using assms(1) mk loop m Inr w
        by (auto simp: capture_with_id_def Let_def io_then_def io_map_err_def split: sum.splits)
      have fr: "p \<noteq> ?mp \<Longrightarrow> fs_content F sw p = fs_content F sl p" for p
        using write_frame[OF w] .
      have out: "\<forall>p. \<not> path_under ?d p \<longrightarrow> fs_content F sw p = ?o p"
        using fr L manifest_under[of ?d] by metis
      have "capture_inv H ?d ?T ?o (fs_content F sw) m"
        using capture_inv_manifest[OF inv safe fr out] .
      moreover have "rw = Inr () \<Longrightarrow> fs_content F sw ?mp = Some t"
        using w write_ok by (cases rw) auto
      ultimately show ?thesis using rs out ents Inr by auto
    qed
  qed
qed

text \<open>Restoring one entry.\<close>

lemma restore_entry_effect:
  assumes run: "restore_entry F H i d sm e s = (r, s')"
    and backed: "entry_backed H d orig (fs_content F s) e"
    and nocoll: "\<forall>c c'. orig (original_path e) = Some c \<and>
        fs_content F s (original_path e) = Some c' \<and> H c' = H c \<longrightarrow> c' = c"
  shows "(\<forall>p. p \<noteq> original_path e \<longrightarrow> fs_content F s' p = fs_content F s p) \<and>
     (fs_content F s' (original_path e) = fs_content F s (original_path e) \<or>
      fs_content F s' (original_path e) = orig (original_path e)) \<and>
     (\<forall>x. r = Inr x \<longrightarrow> fs_content F s' (original_path e) = orig (original_path e) \<and>
        rs_post_actions x = rs_post_actions sm)"
proof (cases "original_existed e")
  case False
  have "fs_content F s' p = fs_content F s p" if "p \<noteq> original_path e" for p
    using run False that
    by (auto simp: restore_entry_def Let_def io_then_def io_map_err_def dest: remove_frame
        split: prod.splits sum.splits if_splits)
  moreover have "fs_content F s' (original_path e) = fs_content F s (original_path e) \<or>
      fs_content F s' (original_path e) = None"
    using run False
    by (auto simp: restore_entry_def Let_def io_then_def io_map_err_def
        dest!: remove_ok remove_err split: prod.splits sum.splits if_splits)
  moreover have "r = Inr x \<Longrightarrow> fs_content F s' (original_path e) = None \<and>
      rs_post_actions x = rs_post_actions sm" for x
    using run False
    by (auto simp: restore_entry_def Let_def io_then_def io_map_err_def
        dest!: remove_ok dest: absent_not_content split: prod.splits sum.splits if_splits)
  ultimately show ?thesis using backed False by (simp add: entry_backed_def)
next
  case True
  then obtain c where c: "orig (original_path e) = Some c" "pre_edit_sha256 e = H c"
      "fs_content F s (backup_file d e) = Some c"
    using backed by (auto simp: entry_backed_def)
  have bk: "fs_read F (path_join d (backup_path e)) s = Inr c"
    using c(3) by (simp add: backup_file_def fs_content_read)
  have skip: "\<forall>c'. fs_read F (original_path e) s = Inr c' \<longrightarrow> H c' = H c \<longrightarrow>
      fs_content F s (original_path e) = Some c"
    using nocoll c(1) read_content by metis
  have frame: "fs_content F s' p = fs_content F s p" if "p \<noteq> original_path e" for p
    using run True that
    by (auto simp: restore_entry_def Let_def io_then_def io_map_err_def bk
        dest: write_frame dest!: mkdir_content split: prod.splits sum.splits if_splits option.splits)
  have "fs_content F s' (original_path e) = fs_content F s (original_path e) \<or>
      fs_content F s' (original_path e) = Some c"
    using run True
    by (auto simp: restore_entry_def Let_def io_then_def io_map_err_def bk c(2)
        dest!: write_ok write_err mkdir_content
        split: prod.splits sum.splits if_splits option.splits)
  moreover have "r = Inr x \<Longrightarrow> fs_content F s' (original_path e) = Some c \<and>
      rs_post_actions x = rs_post_actions sm" for x
    using run True skip
    by (auto simp: restore_entry_def Let_def io_then_def io_map_err_def bk c(2)
        dest!: write_ok mkdir_content split: prod.splits sum.splits if_splits option.splits)
  ultimately show ?thesis using frame c(1) by simp
qed

lemma entry_backed_frame:
  assumes "entry_backed H d orig now x" "entry_placed d x" "entry_placed d e"
    and "\<And>p. p \<noteq> original_path e \<Longrightarrow> now' p = now p"
  shows "entry_backed H d orig now' x"
proof -
  have "backup_file d x \<noteq> original_path e" using assms(2,3) by (auto simp: entry_placed_def)
  then show ?thesis using assms(1,4) by (simp add: entry_backed_def)
qed

lemma restore_loop:
  assumes "io_fold (restore_entry F H i d) sm es s = (r, s')"
    and "\<forall>e \<in> set es. entry_backed H d orig (fs_content F s) e \<and> entry_placed d e"
    and "\<forall>e \<in> set es. \<forall>c c'. orig (original_path e) = Some c \<and> now (original_path e) = Some c' \<and>
        H c' = H c \<longrightarrow> c' = c"
    and "\<forall>p. fs_content F s p = now p \<or> fs_content F s p = orig p"
  shows "(\<forall>p. p \<notin> original_path ` set es \<longrightarrow> fs_content F s' p = fs_content F s p) \<and>
     (\<forall>p. fs_content F s' p = now p \<or> fs_content F s' p = orig p) \<and>
     (\<forall>p. fs_content F s p = orig p \<longrightarrow> fs_content F s' p = orig p) \<and>
     (\<forall>x. r = Inr x \<longrightarrow> (\<forall>e \<in> set es. fs_content F s' (original_path e) = orig (original_path e)) \<and>
        rs_post_actions x = rs_post_actions sm)"
  using assms
proof (induction es arbitrary: sm s)
  case Nil
  then show ?case by auto
next
  case (Cons e es)
  obtain r1 s1 where run: "restore_entry F H i d sm e s = (r1, s1)" by fastforce
  have nc: "\<forall>c c'. orig (original_path e) = Some c \<and>
        fs_content F s (original_path e) = Some c' \<and> H c' = H c \<longrightarrow> c' = c"
    using Cons.prems(3,4) by (metis list.set_intros(1) option.inject)
  have eb: "entry_backed H d orig (fs_content F s) e" "entry_placed d e"
    using Cons.prems(2) by auto
  note E = restore_entry_effect[OF run eb(1) nc]
  have now1: "\<forall>p. fs_content F s1 p = now p \<or> fs_content F s1 p = orig p"
    using E Cons.prems(4) by metis
  have keep: "fs_content F s p = orig p \<Longrightarrow> fs_content F s1 p = orig p" for p
    using E by metis
  show ?case
  proof (cases r1)
    case (Inl er)
    then have "r = Inl er" "s' = s1" using Cons.prems(1) run by (auto simp: io_then_def)
    then show ?thesis using E now1 keep by auto
  next
    case (Inr x1)
    have loop: "io_fold (restore_entry F H i d) x1 es s1 = (r, s')"
      using Cons.prems(1) run Inr by (simp add: io_then_def)
    have backed1: "\<forall>x \<in> set es. entry_backed H d orig (fs_content F s1) x \<and> entry_placed d x"
      using Cons.prems(2) entry_backed_frame[OF _ _ eb(2), of H orig "fs_content F s" _ "fs_content F s1"] E by simp
    have IH: "(\<forall>p. p \<notin> original_path ` set es \<longrightarrow> fs_content F s' p = fs_content F s1 p) \<and>
        (\<forall>p. fs_content F s' p = now p \<or> fs_content F s' p = orig p) \<and>
        (\<forall>p. fs_content F s1 p = orig p \<longrightarrow> fs_content F s' p = orig p) \<and>
        (\<forall>x. r = Inr x \<longrightarrow> (\<forall>e \<in> set es. fs_content F s' (original_path e) = orig (original_path e)) \<and>
          rs_post_actions x = rs_post_actions x1)"
      by (rule Cons.IH[OF loop backed1 _ now1], rule ballI, rule bspec[OF Cons.prems(3)]) simp
    have e1: "fs_content F s1 (original_path e) = orig (original_path e)"
      "rs_post_actions x1 = rs_post_actions sm" using E Inr by auto
    show ?thesis
    proof (intro conjI)
      show "\<forall>p. p \<notin> original_path ` set (e # es) \<longrightarrow> fs_content F s' p = fs_content F s p" using IH E by simp
      show "\<forall>p. fs_content F s' p = now p \<or> fs_content F s' p = orig p" using IH by blast
      show "\<forall>p. fs_content F s p = orig p \<longrightarrow> fs_content F s' p = orig p" using IH keep by blast
      show "\<forall>x. r = Inr x \<longrightarrow> (\<forall>y \<in> set (e # es). fs_content F s' (original_path y) = orig (original_path y)) \<and>
          rs_post_actions x = rs_post_actions sm"
        using IH e1 by auto
    qed
  qed
qed

text \<open>A whole restore of a snapshot whose manifest is on disk and backed.\<close>

lemma restore_result:
  assumes run: "restore F H codec root i s = (r, s')"
    and disk: "fs_content F s (path_push (path_push root i) manifest_filename) = Some t"
      "valid_utf8 t" "from_toml codec t = Inr m"
    and backed: "manifest_backed H (path_push root i) orig (fs_content F s) m"
    and placed: "\<forall>e \<in> set (entries m). entry_placed (path_push root i) e"
    and nocoll: "\<forall>e \<in> set (entries m). \<forall>c c'. orig (original_path e) = Some c \<and>
        fs_content F s (original_path e) = Some c' \<and> H c' = H c \<longrightarrow> c' = c"
  shows "(\<forall>p. p \<notin> original_path ` set (entries m) \<longrightarrow> fs_content F s' p = fs_content F s p) \<and>
     (\<forall>p. fs_content F s' p = fs_content F s p \<or> fs_content F s' p = orig p) \<and>
     (\<forall>x. r = Inr x \<longrightarrow>
        (\<forall>e \<in> set (entries m). fs_content F s' (original_path e) = orig (original_path e)) \<and>
        rs_post_actions x = restore_actions m)"
proof -
  let ?d = "path_push root i"
  have rd: "fs_read F (path_push ?d manifest_filename) s = Inr t"
    and ex: "fs_exists F (path_push ?d manifest_filename) s"
    using disk(1) content_exists by (simp_all add: fs_content_read)
  have "read_manifest F codec ?d i s = (Inr m, s)"
    using rd ex disk(2,3) by (simp add: read_manifest_def Let_def io_then_def io_map_err_def)
  then have "io_fold (restore_entry F H i ?d) \<lparr>rs_id = i, rs_restored = [], rs_already = [],
      rs_deleted = [], rs_post_actions = restore_actions m\<rparr> (entries m) s = (r, s')"
    using run by (simp add: restore_def Let_def io_then_def)
  from restore_loop[OF this, of orig "fs_content F s"] show ?thesis
    using backed placed nocoll by (auto simp: manifest_backed_def)
qed

text \<open>The write primitive: all or nothing, and only on a file that is as it was captured.\<close>

lemma snapshot_then_write_result:
  assumes "snapshot_then_write F H m target content s = (r, s')"
  shows "(\<forall>er. r = Inl er \<longrightarrow> fs_content F s' = fs_content F s) \<and>
     (\<forall>m'. r = Inr m' \<longrightarrow> fs_content F s' = (fs_content F s)(target \<mapsto> content) \<and>
        m' = update_entry target (record_post_edit_hash (H content)) m \<and>
        (\<exists>e. entry_for target m = Some e \<and>
           (original_existed e \<longrightarrow>
              (\<exists>c. fs_content F s target = Some c \<and> H c = pre_edit_sha256 e))))"
  using assms
  by (auto simp: snapshot_then_write_def io_then_def io_map_err_def
      split: option.splits prod.splits sum.splits if_splits
      dest!: write_ok write_err read_content)

end

lemma backed_fields:
  "entry_backed H d orig C (record_post_edit_hash h e) = entry_backed H d orig C e"
  "original_path (record_post_edit_hash h e) = original_path e"
  "backup_file d (record_post_edit_hash h e) = backup_file d e"
  by (simp_all add: entry_backed_def backup_file_def record_post_edit_hash_def)

lemma manifest_backed_update:
  "manifest_backed H d orig C m \<Longrightarrow>
   manifest_backed H d orig C (update_entry t (record_post_edit_hash h) m)"
  by (auto simp: manifest_backed_def update_entry_def backed_fields dest!: set_update_firstD)

lemma manifest_backed_outside:
  assumes "manifest_backed H d orig C m" and "\<forall>e \<in> set (entries m). entry_placed d e"
    and "\<forall>p. path_under d p \<longrightarrow> C' p = C p"
  shows "manifest_backed H d orig C' m"
  using assms by (auto simp: manifest_backed_def entry_backed_def entry_placed_def)

lemma placed_update:
  "\<forall>e \<in> set (entries m). entry_placed d e \<Longrightarrow>
   \<forall>e \<in> set (entries (update_entry t (record_post_edit_hash h) m)). entry_placed d e"
  by (auto simp: update_entry_def entry_placed_def backed_fields dest!: set_update_firstD)

lemma capture_inv_placed:
  "capture_inv H d targets orig C m \<Longrightarrow> snapshot_safe d targets \<Longrightarrow>
   \<forall>e \<in> set (entries m). entry_placed d e"
  by (auto simp: capture_inv_def snapshot_safe_def entry_placed_def backup_file_def backup_under)

end
