(* ===== verification/Rollback.thy ===== *)
theory Rollback
  imports Snapshot Sample_Host
begin

text \<open>
  The promise of the snapshot engine, for every file system that satisfies \<open>file_system_laws\<close>:
  whatever happens outside the snapshot directory after a capture, a restore brings back the
  captured files; and the conditions under which the in-memory file system cannot fail.
\<close>

section \<open>Rollback brings the files back\<close>

text \<open>The TOML library reads back what it wrote, as valid UTF-8 (its documented round trip).\<close>

definition codec_round_trips :: "'m codec \<Rightarrow> bool" where
  "codec_round_trips codec \<longleftrightarrow>
     (\<forall>m t. to_toml codec m = Inr t \<longrightarrow> valid_utf8 t \<and> from_toml codec t = Inr m)"

text \<open>The hash does not confuse a captured file with what is in its place now.\<close>

definition hash_separates ::
  "(string \<Rightarrow> string) \<Rightarrow> path set \<Rightarrow> (path \<Rightarrow> string option) \<Rightarrow> (path \<Rightarrow> string option) \<Rightarrow> bool" where
  "hash_separates H T orig now \<longleftrightarrow>
     (\<forall>t \<in> T. \<forall>c c'. orig t = Some c \<and> now t = Some c' \<and> H c' = H c \<longrightarrow> c' = c)"

text \<open>Capture a plan, let anything happen to the host outside the snapshot directory, then
  restore. Every target of the plan that existed at capture time has its captured bytes again, and
  every target that did not exist is gone; no other file changes; and a restore that fails
  midway leaves each target either as it found it or as it was captured. Capture itself changes
  nothing outside the snapshot directory.\<close>

theorem rollback_restores:
  assumes laws: "file_system_laws F" and codec: "codec_round_trips codec"
    and safe: "snapshot_safe (path_push root sid) (collect_targets (plan_steps pl))"
    and capture: "capture_with_id F H codec now pl host root sid s0 = (Inr x, s1)"
    and outside: "\<forall>p. path_under (path_push root sid) p \<longrightarrow> fs_content F s2 p = fs_content F s1 p"
    and hash: "hash_separates H (set (collect_targets (plan_steps pl)))
        (fs_content F s0) (fs_content F s2)"
    and restore: "restore F H codec root sid s2 = (r, s3)"
  shows "(\<forall>p. \<not> path_under (path_push root sid) p \<longrightarrow> fs_content F s1 p = fs_content F s0 p) \<and>
     (\<forall>p. p \<notin> set (collect_targets (plan_steps pl)) \<longrightarrow> fs_content F s3 p = fs_content F s2 p) \<and>
     (\<forall>p. fs_content F s3 p = fs_content F s2 p \<or> fs_content F s3 p = fs_content F s0 p) \<and>
     (is_ok r \<longrightarrow> (\<forall>t \<in> set (collect_targets (plan_steps pl)).
        fs_content F s3 t = fs_content F s0 t))"
proof -
  let ?d = "path_push root sid" and ?T = "collect_targets (plan_steps pl)"
  note cap = file_system_laws.capture_result[OF laws capture safe]
  from cap obtain m t where inv: "capture_inv H ?d ?T (fs_content F s0) (fs_content F s1) m"
    and ents: "map original_path (entries m) = ?T" and ser: "to_toml codec m = Inr t"
    and disk: "fs_content F s1 (path_push ?d manifest_filename) = Some t" by blast
  have placed: "\<forall>e \<in> set (entries m). entry_placed ?d e"
    using capture_inv_placed[OF inv safe] .
  have orig: "original_path ` set (entries m) = set ?T" using ents by (metis set_map)
  have backed: "manifest_backed H ?d (fs_content F s0) (fs_content F s2) m"
    by (rule manifest_backed_outside[OF _ placed outside])
      (use inv in \<open>simp add: capture_inv_def\<close>)
  have disk2: "fs_content F s2 (path_push ?d manifest_filename) = Some t"
    using disk outside manifest_under by simp
  have utf: "valid_utf8 t" "from_toml codec t = Inr m"
    using codec ser by (auto simp: codec_round_trips_def)
  have "\<forall>e \<in> set (entries m). \<forall>c c'. fs_content F s0 (original_path e) = Some c \<and>
      fs_content F s2 (original_path e) = Some c' \<and> H c' = H c \<longrightarrow> c' = c"
    using hash orig unfolding hash_separates_def by blast
  note res = file_system_laws.restore_result[OF laws restore disk2 utf backed placed this]
  have "is_ok r \<Longrightarrow> \<forall>t \<in> set ?T. fs_content F s3 t = fs_content F s0 t"
    using res by (auto simp: is_ok_iff simp flip: orig)
  then show ?thesis using conjunct1[OF cap] res orig by blast
qed

section \<open>On the memory file system a rollback succeeds\<close>

text \<open>No target is a directory, or is a directory above another target.\<close>

definition targets_plain :: "mem_fs \<Rightarrow> path set \<Rightarrow> bool" where
  "targets_plain s T \<longleftrightarrow>
     T \<inter> mem_dirs s = {} \<and>
     (\<forall>t \<in> T. \<forall>u \<in> T. \<forall>d. path_parent u = Some d \<longrightarrow> t \<notin> set (path_chain d))"

lemma restore_entry_mem:
  assumes "entry_backed H d orig (mem_files s) e" and "targets_plain s T" and "original_path e \<in> T"
  shows "\<exists>x s'. restore_entry mem_ops H sid d sm e s = (Inr x, s') \<and> targets_plain s' T"
proof (cases "original_existed e")
  case False
  then show ?thesis using assms
    by (auto simp: restore_entry_def Let_def io_then_def io_map_err_def mem_exists_def
        mem_remove_file_def targets_plain_def)
next
  case True
  then obtain c where c: "pre_edit_sha256 e = H c" "mem_files s (backup_file d e) = Some c"
    using assms(1) by (auto simp: entry_backed_def)
  have rd: "mem_read (path_join d (backup_path e)) s = Inr c"
    using c(2) by (simp add: mem_read_def backup_file_def)
  have ex: "mem_exists (original_path e) s \<longleftrightarrow> mem_files s (original_path e) \<noteq> None"
    using assms(2,3) by (auto simp: mem_exists_def targets_plain_def)
  have chain: "path_parent (original_path e) = Some q \<Longrightarrow>
      targets_plain (s\<lparr>mem_dirs := mem_dirs s \<union> set (path_chain q)\<rparr>) T" for q
    using assms(2,3) by (auto simp: targets_plain_def)
  show ?thesis using True c(1) rd ex chain assms(2)
    by (cases "mem_files s (original_path e)"; cases "path_parent (original_path e)")
      (auto simp: restore_entry_def Let_def io_then_def io_map_err_def mem_read_def
        mem_create_dir_all_def mem_write_atomic_def parent_missing_def path_chain_self
        targets_plain_def)
qed

lemma restore_loop_mem:
  assumes "\<forall>e \<in> set es. entry_backed H d orig (mem_files s) e \<and> entry_placed d e \<and>
      original_path e \<in> T"
    and "\<forall>e \<in> set es. \<forall>c c'. orig (original_path e) = Some c \<and> now (original_path e) = Some c' \<and>
        H c' = H c \<longrightarrow> c' = c"
    and "\<forall>p. mem_files s p = now p \<or> mem_files s p = orig p"
    and "targets_plain s T"
  shows "\<exists>x s'. io_fold (restore_entry mem_ops H sid d) sm es s = (Inr x, s')"
  using assms
proof (induction es arbitrary: sm s)
  case (Cons e es)
  have e: "entry_backed H d orig (mem_files s) e" "entry_placed d e" "original_path e \<in> T"
    using Cons.prems(1) by auto
  obtain x1 s1 where run: "restore_entry mem_ops H sid d sm e s = (Inr x1, s1)"
    and plain: "targets_plain s1 T"
    using restore_entry_mem[OF e(1) Cons.prems(4) e(3)] by blast
  have nc: "\<forall>c c'. orig (original_path e) = Some c \<and>
        fs_content mem_ops s (original_path e) = Some c' \<and> H c' = H c \<longrightarrow> c' = c"
    using Cons.prems(2,3) by (metis list.set_intros(1) mem_content option.inject)
  note E = memfs.restore_entry_effect[OF run e(1)[folded mem_content] nc, unfolded mem_content]
  have "\<forall>p. mem_files s1 p = now p \<or> mem_files s1 p = orig p"
    using E Cons.prems(3) by metis
  moreover have "\<forall>x \<in> set es. entry_backed H d orig (mem_files s1) x \<and> entry_placed d x \<and>
      original_path x \<in> T"
  proof
    fix x assume "x \<in> set es"
    then have x: "entry_backed H d orig (mem_files s) x" "entry_placed d x" "original_path x \<in> T"
      using Cons.prems(1) by auto
    have "backup_file d x \<noteq> original_path e" using x(2) e(2) by (auto simp: entry_placed_def)
    then show "entry_backed H d orig (mem_files s1) x \<and> entry_placed d x \<and> original_path x \<in> T"
      using x E by (simp add: entry_backed_def)
  qed
  moreover have "\<forall>e \<in> set es. \<forall>c c'. orig (original_path e) = Some c \<and>
      now (original_path e) = Some c' \<and> H c' = H c \<longrightarrow> c' = c"
  proof
    fix x assume "x \<in> set es"
    then have "x \<in> set (e # es)" by simp
    then show "\<forall>c c'. orig (original_path x) = Some c \<and> now (original_path x) = Some c' \<and>
        H c' = H c \<longrightarrow> c' = c" by (rule bspec[OF Cons.prems(2)])
  qed
  ultimately obtain x s' where
    "io_fold (restore_entry mem_ops H sid d) x1 es s1 = (Inr x, s')"
    using Cons.IH[of s1 x1] plain by blast
  then show ?case using run by (simp add: io_then_def)
qed simp

lemma restore_mem_ok:
  assumes disk: "mem_files s (path_push (path_push root sid) manifest_filename) = Some t"
      "valid_utf8 t" "from_toml codec t = Inr m"
    and backed: "manifest_backed H (path_push root sid) orig (mem_files s) m"
    and placed: "\<forall>e \<in> set (entries m). entry_placed (path_push root sid) e"
    and inside: "original_path ` set (entries m) \<subseteq> T"
    and nc: "\<forall>e \<in> set (entries m). \<forall>c c'. orig (original_path e) = Some c \<and>
      mem_files s (original_path e) = Some c' \<and> H c' = H c \<longrightarrow> c' = c"
    and plain: "targets_plain s T"
  shows "\<exists>y s'. restore mem_ops H codec root sid s = (Inr y, s')"
proof -
  have "\<forall>e \<in> set (entries m). entry_backed H (path_push root sid) orig (mem_files s) e \<and>
      entry_placed (path_push root sid) e \<and> original_path e \<in> T"
    using backed placed inside by (auto simp: manifest_backed_def)
  from restore_loop_mem[OF this nc _ plain]
  obtain y s' where loop: "io_fold (restore_entry mem_ops H sid (path_push root sid))
      \<lparr>rs_id = sid, rs_restored = [], rs_already = [], rs_deleted = [],
       rs_post_actions = restore_actions m\<rparr> (entries m) s = (Inr y, s')" by blast
  have "read_manifest mem_ops codec (path_push root sid) sid s = (Inr m, s)"
    using disk
    by (simp add: read_manifest_def Let_def io_then_def io_map_err_def mem_exists_def mem_read_def)
  then show ?thesis using loop by (simp add: restore_def Let_def io_then_def)
qed


section \<open>A concrete rollback\<close>

definition grub_file :: path where "grub_file = Path True [''etc'', ''default'', ''grub'']"

definition conf_file :: path where "conf_file = Path True [''etc'', ''modprobe.d'', ''virtu-vfio.conf'']"

definition snap_root :: path where "snap_root = Path True [''home'', ''u'', ''.virtu'', ''snapshots'']"

definition touch_step :: "step_kind \<Rightarrow> path list \<Rightarrow> planned_step" where
  "touch_step k ps =
     \<lparr>step_kind = k, step_title = '''', step_summary = '''', step_risk = RiskMedium,
      step_privilege = RootViaSudo, step_state = Pending, step_touches = ps, step_commands = [],
      step_verification = '''', step_rollback = '''', step_requires_reboot = True,
      step_requires_confirmation = False\<rparr>"

definition touch_plan :: "(step_kind \<times> path list) list \<Rightarrow> plan" where
  "touch_plan ts =
     (let steps = map (\<lambda>(k, ps). touch_step k ps) ts in
      \<lparr>plan_steps = steps, plan_warnings = [], plan_summary = summarize steps\<rparr>)"

definition small_plan :: plan where
  "small_plan = touch_plan [(SnapshotStep, [snap_root]), (BootloaderWrite, [grub_file]),
     (VfioConfig, [conf_file])]"

definition small_fs :: mem_fs where
  "small_fs = mem_seed_file grub_file ''GRUB_CMDLINE_LINUX_DEFAULT=quiet'' mem_empty"

text \<open>A TOML library that knows one manifest.\<close>

definition one_codec :: "'m \<Rightarrow> 'm codec" where
  "one_codec m0 =
     \<lparr>to_toml = (\<lambda>m. if m = m0 then Inr ''manifest'' else Inl ''unsupported''),
      from_toml = (\<lambda>t. if t = ''manifest'' then Inr m0 else Inl ''unsupported'')\<rparr>"

lemma one_codec_round_trips: "codec_round_trips (one_codec m0)"
proof -
  have "valid_utf8 ''manifest''" by code_simp
  then show ?thesis by (simp add: codec_round_trips_def one_codec_def)
qed

definition small_manifest :: snapshot_manifest where
  "small_manifest =
     \<lparr>manifest_version = virtu_version, created_at = 7, manifest_id = ''s1'',
      manifest_host = host_summary_from_profile sample_profile,
      manifest_plan_summary = plan_summary small_plan,
      entries =
        [\<lparr>original_path = grub_file, backup_path = backup_relative_path grub_file,
          pre_edit_sha256 = ''GRUB_CMDLINE_LINUX_DEFAULT=quiet'', post_edit_sha256 = None,
          original_existed = True, entry_produced_by = BootloaderWrite\<rparr>,
         \<lparr>original_path = conf_file, backup_path = backup_relative_path conf_file,
          pre_edit_sha256 = '''', post_edit_sha256 = None, original_existed = False,
          entry_produced_by = VfioConfig\<rparr>],
      restore_actions = derive_restore_actions small_plan sample_profile\<rparr>"

definition small_capture :: "(snapshot_error + string) \<times> mem_fs" where
  "small_capture = capture_with_id mem_ops (\<lambda>c. c) (one_codec small_manifest) 7 small_plan
     sample_profile snap_root ''s1'' small_fs"

text \<open>The edits made after the capture: both targets are overwritten.\<close>

definition small_edited :: mem_fs where
  "small_edited = (snd small_capture)\<lparr>mem_files := (mem_files (snd small_capture))
     (grub_file \<mapsto> ''broken'', conf_file \<mapsto> ''options vfio-pci'')\<rparr>"

lemma small_targets: "collect_targets (plan_steps small_plan) = [grub_file, conf_file]"
  by code_simp

lemma small_capture_ok:
  "capture_with_id mem_ops (\<lambda>c. c) (one_codec small_manifest) 7 small_plan sample_profile snap_root
     ''s1'' small_fs = (Inr ''s1'', snd small_capture)"
proof -
  have "fst small_capture = Inr ''s1''" by code_simp
  then show ?thesis by (metis prod.collapse small_capture_def)
qed

lemma small_safe: "snapshot_safe (path_push snap_root ''s1'') [grub_file, conf_file]"
proof -
  have d: "path_push snap_root ''s1'' = Path True [''home'', ''u'', ''.virtu'', ''snapshots'', ''s1'']"
    by code_simp
  have s: "sanitize_path grub_file = ''_etc_default_grub''"
    "sanitize_path conf_file = ''_etc_modprobe.d_virtu-vfio.conf''" by code_simp+
  show ?thesis unfolding d
    by (simp add: snapshot_safe_def s plain_name_def) (simp add: path_under_def grub_file_def conf_file_def)
qed

lemma small_outside:
  "\<forall>p. path_under (path_push snap_root ''s1'') p \<longrightarrow> mem_files small_edited p = mem_files (snd small_capture) p"
  using small_safe by (auto simp: snapshot_safe_def small_edited_def)

lemma small_plain: "targets_plain small_edited {grub_file, conf_file}"
proof -
  have "mem_dirs small_edited = mem_dirs (snd small_capture)" by (simp add: small_edited_def)
  moreover have "grub_file \<notin> mem_dirs (snd small_capture)" "conf_file \<notin> mem_dirs (snd small_capture)"
    by code_simp+
  moreover have "path_parent grub_file = Some (Path True [''etc'', ''default''])"
    "path_parent conf_file = Some (Path True [''etc'', ''modprobe.d''])"
    "grub_file \<notin> set (path_chain (Path True [''etc'', ''default'']))"
    "conf_file \<notin> set (path_chain (Path True [''etc'', ''default'']))"
    "grub_file \<notin> set (path_chain (Path True [''etc'', ''modprobe.d'']))"
    "conf_file \<notin> set (path_chain (Path True [''etc'', ''modprobe.d'']))"
    by code_simp+
  ultimately show ?thesis by (auto simp: targets_plain_def)
qed

lemma identity_separates: "hash_separates (\<lambda>c. c) T orig now"
  by (simp add: hash_separates_def)

lemma small_original:
  "mem_files small_fs grub_file = Some ''GRUB_CMDLINE_LINUX_DEFAULT=quiet''"
  "mem_files small_fs conf_file = None"
  by code_simp+

theorem rollback_restores_witness:
  "\<exists>r s3. restore mem_ops (\<lambda>c. c) (one_codec small_manifest) snap_root ''s1'' small_edited = (r, s3) \<and>
     (is_ok r \<longrightarrow> mem_files s3 grub_file = Some ''GRUB_CMDLINE_LINUX_DEFAULT=quiet'')"
proof -
  obtain r s3 where run: "restore mem_ops (\<lambda>c. c) (one_codec small_manifest) snap_root ''s1''
      small_edited = (r, s3)" by fastforce
  have "is_ok r \<longrightarrow> (\<forall>t \<in> set (collect_targets (plan_steps small_plan)).
      fs_content mem_ops s3 t = fs_content mem_ops small_fs t)"
    using rollback_restores[OF memfs.file_system_laws_axioms one_codec_round_trips _
        small_capture_ok _ identity_separates run] small_safe small_outside
    by (simp add: small_targets)
  then show ?thesis using run by (simp add: small_targets small_original)
qed


section \<open>Where the flat backup names fail\<close>

definition nested_file :: path where "nested_file = Path True [''var'', ''vm'', ''disk'']"

definition flat_file :: path where "flat_file = Path True [''var'', ''vm_disk'']"

definition clash_plan :: plan where
  "clash_plan = touch_plan [(BootloaderWrite, [nested_file]), (VmRegister, [flat_file])]"

definition clash_fs :: mem_fs where
  "clash_fs = mem_seed_file flat_file ''two'' (mem_seed_file nested_file ''one'' mem_empty)"

definition clash_manifest :: snapshot_manifest where
  "clash_manifest =
     \<lparr>manifest_version = virtu_version, created_at = 7, manifest_id = ''s1'',
      manifest_host = host_summary_from_profile sample_profile,
      manifest_plan_summary = plan_summary clash_plan,
      entries =
        [\<lparr>original_path = nested_file, backup_path = backup_relative_path nested_file,
          pre_edit_sha256 = ''one'', post_edit_sha256 = None,
          original_existed = True, entry_produced_by = BootloaderWrite\<rparr>,
         \<lparr>original_path = flat_file, backup_path = backup_relative_path flat_file,
          pre_edit_sha256 = ''two'', post_edit_sha256 = None, original_existed = True,
          entry_produced_by = VmRegister\<rparr>],
      restore_actions = derive_restore_actions clash_plan sample_profile\<rparr>"

definition clash_capture :: "(snapshot_error + string) \<times> mem_fs" where
  "clash_capture = capture_with_id mem_ops (\<lambda>c. c) (one_codec clash_manifest) 7 clash_plan
     sample_profile snap_root ''s1'' clash_fs"

definition clash_restore :: "(snapshot_error + restore_summary) \<times> mem_fs" where
  "clash_restore = restore mem_ops (\<lambda>c. c) (one_codec clash_manifest) snap_root ''s1''
     ((snd clash_capture)\<lparr>mem_files := (mem_files (snd clash_capture))(nested_file \<mapsto> ''new'')\<rparr>)"

text \<open>Flat backup names are not injective. Two existing targets whose paths differ only in \<open>/\<close>
  against \<open>_\<close> share one backup file: the capture reports success, and after an edit of the first the
  rollback fails with a hash mismatch and leaves it edited, its captured bytes lost.\<close>

theorem backup_names_clash:
  "sanitize_path nested_file = sanitize_path flat_file \<and>
   fst clash_capture = Inr ''s1'' \<and>
   (\<exists>b ex ac. fst clash_restore = Inl (HashMismatch ''s1'' b ex ac)) \<and>
   mem_files (snd clash_restore) nested_file = Some ''new''"
proof -
  have "sanitize_path nested_file = sanitize_path flat_file" by code_simp
  moreover have "fst clash_capture = Inr ''s1''" by code_simp
  moreover have "fst clash_restore = Inl (HashMismatch ''s1''
      (path_join (path_push snap_root ''s1'') (backup_relative_path nested_file)) ''one'' ''two'')"
    by code_simp
  moreover have "mem_files (snd clash_restore) nested_file = Some ''new''" by code_simp
  ultimately show ?thesis by blast
qed

section \<open>The write primitive\<close>


definition small_write :: "(snapshot_error + snapshot_manifest) \<times> mem_fs" where
  "small_write = snapshot_then_write mem_ops (\<lambda>c. c) small_manifest grub_file ''quiet splash'' small_fs"


end
