(* ===== verification/Line_Editor.thy ===== *)
theory Line_Editor
  imports Rust_Lines
begin

text \<open>
  The loop that \<open>config/writers/grub.rs\<close>, \<open>systemd_boot.rs\<close> and \<open>initramfs/mkinitcpio.rs\<close> share:
  walk the lines of a file, update the one target line, reject a second one, append a default
  line when there was none, and join. A locale states what the three editors promise about their
  update; idempotence and preservation are proved once, inside it.
\<close>

datatype writer_error = MalformedInput nat string | EmptyParams

definition writer_error_display :: "writer_error \<Rightarrow> string" where
  "writer_error_display e = (case e of
     MalformedInput n d \<Rightarrow> ''writer found malformed input near line '' @ show_nat n @ '': '' @ d
   | EmptyParams \<Rightarrow> ''writer rejected an empty parameter list'')"

section \<open>The loop\<close>

text \<open>\<open>edit_lines\<close> returns whether the target was found, and the new lines; \<open>i\<close> is the index of the
  first line.\<close>

fun edit_lines ::
  "(string \<Rightarrow> bool) \<Rightarrow> (string \<Rightarrow> string + string) \<Rightarrow> string \<Rightarrow> nat \<Rightarrow> bool \<Rightarrow> string list
    \<Rightarrow> writer_error + (bool \<times> string list)" where
  "edit_lines T U dup i found [] = Inr (found, [])"
| "edit_lines T U dup i found (l # ls) =
     (if T l then
        if found then Inl (MalformedInput (i + 1) dup)
        else (case U l of Inl d \<Rightarrow> Inl (MalformedInput (i + 1) d)
              | Inr l' \<Rightarrow> res_then (edit_lines T U dup (i + 1) True ls)
                          (\<lambda>(f, out). Inr (f, l' # out)))
      else res_then (edit_lines T U dup (i + 1) found ls) (\<lambda>(f, out). Inr (f, l # out)))"

definition finish_lines :: "string \<Rightarrow> string list \<Rightarrow> string" where
  "finish_lines input out =
     (let output = str_join [LF] out in
      if ends_with [LF] input \<and> \<not> ends_with [LF] output then output @ [LF] else output)"

definition rewrite_file ::
  "(string \<Rightarrow> bool) \<Rightarrow> (string \<Rightarrow> string + string) \<Rightarrow> string \<Rightarrow> string \<Rightarrow> string \<Rightarrow> writer_error + string"
where
  "rewrite_file T U dup D input =
     res_then (edit_lines T U dup 0 False (str_lines input)) (\<lambda>(found, out).
       Inr (finish_lines input (if found then out else out @ [D])))"

section \<open>What the loop computes\<close>

definition edited :: "(string \<Rightarrow> bool) \<Rightarrow> (string \<Rightarrow> string + string) \<Rightarrow> string \<Rightarrow> string \<Rightarrow> bool" where
  "edited T U l l' \<longleftrightarrow> (if T l then U l = Inr l' else l' = l)"

lemma edit_lines_Inr:
  "edit_lines T U dup i found ls = Inr (f, out) \<longleftrightarrow>
     list_all2 (edited T U) ls out \<and>
     length (filter T ls) + (if found then 1 else 0) \<le> 1 \<and>
     f = (found \<or> (\<exists>l \<in> set ls. T l))"
proof (induction ls arbitrary: i found f out)
  case Nil
  then show ?case by auto
next
  case (Cons l ls)
  show ?case
    by (cases "T l"; cases "U l"; cases found)
      (auto simp: Cons.IH res_then_Inr_iff list_all2_Cons1 edited_def filter_empty_conv
        split: if_splits)
qed

text \<open>At most one target, and the update accepts it: no other file is rejected.\<close>

lemma edit_lines_Inl:
  "(\<exists>e. edit_lines T U dup i found ls = Inl e) \<longleftrightarrow>
     \<not> (length (filter T ls) + (if found then 1 else 0) \<le> 1 \<and>
        (\<forall>l \<in> set ls. T l \<longrightarrow> is_ok (U l)))"
proof -
  have "(\<exists>f out. edit_lines T U dup i found ls = Inr (f, out)) \<longleftrightarrow>
      (\<exists>out. list_all2 (edited T U) ls out) \<and> length (filter T ls) + (if found then 1 else 0) \<le> 1"
    by (auto simp: edit_lines_Inr)
  moreover have "(\<exists>out. list_all2 (edited T U) ls out) \<longleftrightarrow> (\<forall>l \<in> set ls. T l \<longrightarrow> is_ok (U l))"
    by (induction ls) (auto simp: list_all2_Cons1 edited_def is_ok_iff split: if_splits)
  ultimately show ?thesis
    by (cases "edit_lines T U dup i found ls") force+
qed

lemma rewrite_file_Inr:
  "rewrite_file T U dup D input = Inr output \<longleftrightarrow>
     (\<exists>out. list_all2 (edited T U) (str_lines input) out \<and>
        length (filter T (str_lines input)) \<le> 1 \<and>
        output = finish_lines input
          (if \<exists>l \<in> set (str_lines input). T l then out else out @ [D]))"
  by (auto simp: rewrite_file_def res_then_Inr_iff edit_lines_Inr)

lemma rewrite_file_ok:
  "is_ok (rewrite_file T U dup D input) \<longleftrightarrow>
     length (filter T (str_lines input)) \<le> 1 \<and> (\<forall>l \<in> set (str_lines input). T l \<longrightarrow> is_ok (U l))"
proof -
  have "is_ok (rewrite_file T U dup D input) \<longleftrightarrow>
      \<not> (\<exists>e. edit_lines T U dup 0 False (str_lines input) = Inl e)"
    by (cases "edit_lines T U dup 0 False (str_lines input)")
      (auto simp: rewrite_file_def is_ok_iff)
  then show ?thesis by (auto simp: edit_lines_Inl)
qed

lemma finish_lines_back:
  assumes "\<forall>l \<in> set out. clean_line l" "out \<noteq> []" "last out \<noteq> []"
  shows "str_lines (finish_lines input out) = out"
    and "ends_with [LF] (finish_lines input out) \<longleftrightarrow> ends_with [LF] input"
    and "finish_lines (finish_lines input out) out = finish_lines input out"
proof -
  have join: "str_join [LF] out \<noteq> []" "last (str_join [LF] out) = last (last out)"
    using assms(2,3) by (induction out rule: induct_list012) auto
  have "clean_line (last out)" using assms(1,2) by simp
  then have "last (last out) \<noteq> LF" using last_in_set[OF assms(3)] by (auto simp: clean_line_def)
  then have no: "\<not> ends_with [LF] (str_join [LF] out)"
    using join by (auto simp: ends_with_iff)
  then show "str_lines (finish_lines input out) = out"
    using str_lines_join[OF assms] str_lines_join_LF[OF assms(1,2)]
    by (simp add: finish_lines_def Let_def)
  show e: "ends_with [LF] (finish_lines input out) \<longleftrightarrow> ends_with [LF] input"
    using no by (simp add: finish_lines_def Let_def)
  show "finish_lines (finish_lines input out) out = finish_lines input out"
    using no e by (simp add: finish_lines_def Let_def)
qed

text \<open>The last line is blank only if the file ends in a blank line.\<close>

lemma last_line_blank:
  assumes "CR \<notin> set s" "s \<noteq> []" "last (str_lines s) = []"
  shows "s = [LF] \<or> ends_with [LF, LF] s"
proof -
  have ne: "str_lines s \<noteq> []" using assms by simp
  define xs where "xs = butlast (str_lines s)"
  have sl: "str_lines s = xs @ [[]]" using ne assms(3) by (metis append_butlast_last_id xs_def)
  have "str_join [LF] (xs @ [[]]) = (if xs = [] then [] else str_join [LF] xs @ [LF])"
    by (cases "xs = []") (simp_all add: str_join_append)
  with join_str_lines[OF assms(1,2), unfolded sl] assms(2) show ?thesis
  proof (cases "xs = []")
    case False
    define j where "j = str_join [LF] xs"
    have "str_join [LF] (xs @ [[]]) = j @ [LF]" using False by (simp add: j_def str_join_append)
    with join_str_lines[OF assms(1,2), unfolded sl]
    have s: "(j @ [LF]) @ (if ends_with [LF] s then [LF] else []) = s" by simp
    then have "ends_with [LF] s" by (cases "ends_with [LF] s") (auto simp: ends_with_iff)
    with s have "s = j @ [LF, LF]" by simp
    then show ?thesis by (simp add: ends_with_iff)
  qed (auto split: if_splits)
qed

section \<open>The contract of an editor\<close>

text \<open>
  \<open>OK\<close> restricts the files and parameters for which the update is well behaved. On such a target
  the update yields a target again, on which it has nothing left to do.
\<close>

locale line_editor =
  fixes T :: "string \<Rightarrow> bool" and U :: "string \<Rightarrow> string + string"
    and OK :: "string \<Rightarrow> bool" and D :: string
  assumes update: "T l \<Longrightarrow> OK l \<Longrightarrow> clean_line l \<Longrightarrow> U l = Inr l' \<Longrightarrow>
      T l' \<and> OK l' \<and> clean_line l' \<and> l' \<noteq> [] \<and> U l' = Inr l'"
    and default_line: "OK D \<Longrightarrow> T D \<and> clean_line D \<and> D \<noteq> [] \<and> U D = Inr D"
begin

lemma edited_one:
  assumes "edited T U x y" "clean_line x" "T x \<longrightarrow> OK x"
  shows "clean_line y \<and> (T y \<longrightarrow> OK y) \<and> edited T U y y \<and> T y = T x"
proof (cases "T x")
  case True
  then have "U x = Inr y" using assms(1) by (simp add: edited_def)
  from update[OF True _ assms(2) this] assms(3) True show ?thesis by (simp add: edited_def)
next
  case False
  then show ?thesis using assms by (simp add: edited_def)
qed

lemma edited_again:
  assumes "list_all2 (edited T U) ls out" "\<forall>l \<in> set ls. clean_line l" "\<forall>l \<in> set ls. T l \<longrightarrow> OK l"
  shows "(\<forall>l \<in> set out. clean_line l) \<and> (\<forall>l \<in> set out. T l \<longrightarrow> OK l) \<and>
     list_all2 (edited T U) out out \<and> map T out = map T ls"
  using assms
proof (induction rule: list_all2_induct)
  case (Cons x xs y ys)
  have x: "clean_line x" "T x \<longrightarrow> OK x" "\<forall>l \<in> set xs. clean_line l" "\<forall>l \<in> set xs. T l \<longrightarrow> OK l"
    using Cons.prems by simp_all
  have y: "clean_line y" "T y \<longrightarrow> OK y" "edited T U y y" "T y = T x"
  proof -
    show "clean_line y" "T y \<longrightarrow> OK y" "edited T U y y" "T y = T x"
      using edited_one[OF Cons.hyps(1) x(1,2)] by blast+
  qed
  from Cons.IH[OF x(3,4)] show ?case using y by simp
qed simp

lemma filter_map_T: "map T xs = map T ys \<Longrightarrow> length (filter T xs) = length (filter T ys) \<and>
    ((\<exists>l \<in> set xs. T l) \<longleftrightarrow> (\<exists>l \<in> set ys. T l))"
proof (induction xs arbitrary: ys)
  case (Cons x xs)
  then obtain y zs where ys: "ys = y # zs" "T x = T y" "map T xs = map T zs" by (cases ys) auto
  from Cons.IH[OF ys(3)] show ?case by (simp add: ys(1,2))
qed simp

lemma last_edited_nonblank:
  assumes out: "list_all2 (edited T U) (str_lines input) out" and target: "\<exists>l \<in> set (str_lines input). T l"
    and cr: "CR \<notin> set input" and blank: "\<not> ends_with [LF, LF] input"
    and ok: "\<forall>l \<in> set (str_lines input). T l \<longrightarrow> OK l"
  shows "last out \<noteq> []"
proof -
  let ?ls = "str_lines input"
  from target have ls: "?ls \<noteq> []" "input \<noteq> []" by auto
  have clean: "\<forall>l \<in> set ?ls. clean_line l" using cr by (rule str_lines_clean)
  have out_ne: "out \<noteq> []" using out ls by auto
  have e: "edited T U (last ?ls) (last out)"
    using out ls(1) out_ne
    by (metis last_conv_nth length_greater_0_conv diff_less list_all2_conv_all_nth zero_less_one)
  show ?thesis
  proof (cases "T (last ?ls)")
    case True
    have "last ?ls \<in> set ?ls" using ls(1) by simp
    then have "OK (last ?ls)" "clean_line (last ?ls)" using True ok clean by blast+
    moreover have "U (last ?ls) = Inr (last out)" using e True by (simp add: edited_def)
    ultimately show ?thesis using update[OF True] by blast
  next
    case False
    have "last ?ls \<noteq> []"
    proof
      assume bl: "last ?ls = []"
      from last_line_blank[OF cr ls(2) bl] blank have "input = [LF]" by simp
      then have "?ls = [[]]" by simp
      then show False using target False by simp
    qed
    then show ?thesis using e False by (simp add: edited_def)
  qed
qed

lemma rewrite_output:
  assumes run: "rewrite_file T U dup D input = Inr output"
    and cr: "CR \<notin> set input" and blank: "\<not> ends_with [LF, LF] input"
    and ok: "\<forall>l \<in> set (str_lines input). T l \<longrightarrow> OK l" "OK D"
  shows "\<exists>out out'. list_all2 (edited T U) (str_lines input) out \<and>
     out' = (if \<exists>l \<in> set (str_lines input). T l then out else out @ [D]) \<and> map T out = map T (str_lines input) \<and>
     str_lines output = out' \<and> finish_lines output out' = output \<and>
     length (filter T out') = 1 \<and> list_all2 (edited T U) out' out'"
proof -
  let ?ls = "str_lines input"
  obtain out where out: "list_all2 (edited T U) ?ls out" "length (filter T ?ls) \<le> 1"
    and o: "output = finish_lines input (if \<exists>l \<in> set ?ls. T l then out else out @ [D])"
    using run by (auto simp: rewrite_file_Inr)
  define out' where "out' = (if \<exists>l \<in> set ?ls. T l then out else out @ [D])"
  have clean: "\<forall>l \<in> set ?ls. clean_line l" using cr by (rule str_lines_clean)
  note E = edited_again[OF out(1) clean ok(1)]
  note M = filter_map_T[of out ?ls] 
  have D: "T D" "clean_line D" "D \<noteq> []" "U D = Inr D" using default_line[OF ok(2)] by auto
  have c': "\<forall>l \<in> set out'. clean_line l" using E D by (auto simp: out'_def)
  have e': "list_all2 (edited T U) out' out'"
    using E D by (auto simp: out'_def edited_def intro: list_all2_appendI)
  have one: "length (filter T out') = 1"
  proof (cases "\<exists>l \<in> set ?ls. T l")
    case True
    then have "filter T ?ls \<noteq> []" by (auto simp: filter_empty_conv)
    then have "length (filter T ?ls) = 1" using out(2) by (cases "filter T ?ls") auto
    then show ?thesis using True M E by (simp add: out'_def)
  next
    case False
    then have "filter T out = []" using M E by (auto simp: filter_empty_conv)
    then show ?thesis using False D by (simp add: out'_def)
  qed
  have ne: "out' \<noteq> []" using one by auto
  have last: "last out' \<noteq> []"
  proof (cases "\<exists>l \<in> set ?ls. T l")
    case False
    then show ?thesis using D by (simp add: out'_def)
  next
    case True
    then show ?thesis using last_edited_nonblank[OF out(1) True cr blank ok(1)] by (simp add: out'_def)
  qed
  note F = finish_lines_back[OF c' ne last]
  have sl: "str_lines output = out'" using F(1) o by (simp add: out'_def)
  have fin: "finish_lines output out' = output" using F(3) o by (simp add: out'_def)
  show ?thesis using out(1) E sl fin one e' out'_def by blast
qed

text \<open>The output has exactly one target line, on which nothing is left to do; running the editor
  on the output returns the output.\<close>

theorem rewrite_idempotent:
  assumes run: "rewrite_file T U dup D input = Inr output"
    and cr: "CR \<notin> set input" and blank: "\<not> ends_with [LF, LF] input"
    and ok: "\<forall>l \<in> set (str_lines input). T l \<longrightarrow> OK l" "OK D"
  shows "rewrite_file T U dup D output = Inr output \<and>
     (\<exists>l. filter T (str_lines output) = [l] \<and> U l = Inr l)"
proof -
  obtain out' where sl: "str_lines output = out'" and fin: "finish_lines output out' = output"
    and one: "length (filter T out') = 1" and e': "list_all2 (edited T U) out' out'"
    using rewrite_output[OF assms] by blast
  obtain l where l: "filter T out' = [l]" using one by (auto simp: length_Suc_conv)
  then have "l \<in> set (filter T out')" by simp
  then have mem: "l \<in> set out' \<and> T l" by simp
  then have "rewrite_file T U dup D output = Inr output"
    unfolding rewrite_file_Inr sl using e' one fin by (intro exI[of _ out']) auto
  moreover have "U l = Inr l" using e' mem by (auto simp: list_all2_same edited_def)
  ultimately show ?thesis using sl l by simp
qed

text \<open>A file on whose target nothing is left to do is returned byte for byte.\<close>

theorem rewrite_noop:
  assumes "CR \<notin> set input" "\<not> ends_with [LF, LF] input"
    and "filter T (str_lines input) = [l]" "U l = Inr l"
  shows "rewrite_file T U dup D input = Inr input"
proof -
  let ?ls = "str_lines input"
  have ne: "input \<noteq> []" using assms(3) by auto
  have st: "{x \<in> set ?ls. T x} = {l}" using assms(3) by (metis list.set(1,2) set_filter)
  then have mem: "x \<in> set ?ls \<Longrightarrow> T x \<Longrightarrow> x = l" for x by auto
  have ex: "\<exists>x \<in> set ?ls. T x" using st by blast
  have "list_all2 (edited T U) ?ls ?ls"
    using mem assms(4) by (auto simp: list_all2_same edited_def)
  moreover have "finish_lines input ?ls = input"
    using join_str_lines[OF assms(1) ne]
  proof (cases "ends_with [LF] input")
    case False
    then show ?thesis using join_str_lines[OF assms(1) ne] by (simp add: finish_lines_def)
  next
    case True
    then have j: "str_join [LF] ?ls @ [LF] = input" using join_str_lines[OF assms(1) ne] by simp
    have "\<not> ends_with [LF] (str_join [LF] ?ls)"
    proof
      assume "ends_with [LF] (str_join [LF] ?ls)"
      then obtain r where "str_join [LF] ?ls = r @ [LF]" by (auto simp: ends_with_iff)
      then have "input = r @ [LF, LF]" using j by simp
      then show False using assms(2) by (simp add: ends_with_iff)
    qed
    then show ?thesis using j True by (simp add: finish_lines_def)
  qed
  ultimately show ?thesis unfolding rewrite_file_Inr using assms(3) ex
    by (intro exI[of _ ?ls]) simp
qed

text \<open>Every line that is no target is kept, in its place.\<close>

theorem rewrite_keeps_lines:
  assumes run: "rewrite_file T U dup D input = Inr output"
    and cr: "CR \<notin> set input" and blank: "\<not> ends_with [LF, LF] input"
    and ok: "\<forall>l \<in> set (str_lines input). T l \<longrightarrow> OK l" "OK D"
  shows "filter (\<lambda>l. \<not> T l) (str_lines output) = filter (\<lambda>l. \<not> T l) (str_lines input)"
proof -
  obtain out where out: "list_all2 (edited T U) (str_lines input) out"
    and sl: "str_lines output = (if \<exists>l \<in> set (str_lines input). T l then out else out @ [D])"
    and m: "map T out = map T (str_lines input)"
    using rewrite_output[OF assms] by blast
  have "filter (\<lambda>l. \<not> T l) out = filter (\<lambda>l. \<not> T l) (str_lines input)"
    using out m by (induction rule: list_all2_induct) (auto simp: edited_def)
  then show ?thesis using default_line[OF ok(2)] by (simp add: sl)
qed

text \<open>The target line of the output: the updated one, or the default.\<close>

lemma rewrite_target:
  assumes run: "rewrite_file T U dup D input = Inr output"
    and cr: "CR \<notin> set input" and blank: "\<not> ends_with [LF, LF] input"
    and ok: "\<forall>l \<in> set (str_lines input). T l \<longrightarrow> OK l" "OK D"
  shows "filter T (str_lines input) = [] \<and> filter T (str_lines output) = [D] \<or>
     (\<exists>l l'. filter T (str_lines input) = [l] \<and> l \<in> set (str_lines input) \<and> T l \<and> U l = Inr l' \<and>
        filter T (str_lines output) = [l'])"
proof -
  let ?ls = "str_lines input"
  obtain out out' where out: "list_all2 (edited T U) ?ls out"
    and o': "out' = (if \<exists>l \<in> set ?ls. T l then out else out @ [D])"
    and m: "map T out = map T ?ls" and so': "str_lines output = out'"
    and one': "length (filter T out') = 1"
    using rewrite_output[OF assms] by (elim exE conjE)
  have sl: "str_lines output = (if \<exists>l \<in> set ?ls. T l then out else out @ [D])"
    and one: "length (filter T (str_lines output)) = 1" using o' so' one' by simp_all
  have D: "T D" using default_line[OF ok(2)] by simp
  have f: "list_all2 (edited T U) (filter T ?ls) (filter T out)"
    using out m by (induction rule: list_all2_induct) auto
  show ?thesis
  proof (cases "filter T ?ls")
    case Nil
    then have no: "\<not> (\<exists>l \<in> set ?ls. T l)" by (simp add: filter_empty_conv)
    then have "filter T out = []" using f Nil by simp
    then have "filter T (str_lines output) = [D]" using no D by (simp add: sl)
    then show ?thesis using Nil by simp
  next
    case (Cons l rest)
    then have l: "l \<in> set ?ls" "T l" by (metis filter_eq_Cons_iff in_set_conv_decomp, metis filter_eq_Cons_iff)
    then have so: "str_lines output = out" using sl by auto
    then have "length (filter T ?ls) = 1" using f one by (simp add: list_all2_lengthD)
    then have "filter T ?ls = [l]" using Cons by simp
    moreover from this f obtain l' where "filter T out = [l']" "edited T U l l'"
      by (auto simp: list_all2_Cons1)
    ultimately show ?thesis using l so by (auto simp: edited_def)
  qed
qed

end

text \<open>
  An editor of a token list: the abstract value of a file is the tokens of its target lines, and
  rewriting the file appends the missing parameters to it.
\<close>

locale token_editor = line_editor T U OK D for T U OK D +
  fixes tok :: "string \<Rightarrow> string list" and params :: "string list"
  assumes tok_update: "T l \<Longrightarrow> OK l \<Longrightarrow> U l = Inr l' \<Longrightarrow> tok l' = foldl push_new (tok l) params"
    and tok_default: "OK D \<Longrightarrow> tok D = params"
begin

theorem rewrite_tokens:
  assumes "rewrite_file T U dup D input = Inr output"
    and "CR \<notin> set input" "\<not> ends_with [LF, LF] input"
    and ok: "\<forall>l \<in> set (str_lines input). T l \<longrightarrow> OK l" "OK D"
  shows "concat (map tok (filter T (str_lines output))) =
     (if filter T (str_lines input) = [] then params
      else foldl push_new (concat (map tok (filter T (str_lines input)))) params)"
  using rewrite_target[OF assms]
proof
  assume "filter T (str_lines input) = [] \<and> filter T (str_lines output) = [D]"
  then show ?thesis using tok_default[OF ok(2)] by simp
next
  assume "\<exists>l l'. filter T (str_lines input) = [l] \<and> l \<in> set (str_lines input) \<and> T l \<and>
      U l = Inr l' \<and> filter T (str_lines output) = [l']"
  then obtain l l' where l: "filter T (str_lines input) = [l]" "l \<in> set (str_lines input)" "T l"
      "U l = Inr l'" "filter T (str_lines output) = [l']" by blast
  then have "tok l' = foldl push_new (tok l) params" using ok(1) by (intro tok_update) auto
  then show ?thesis using l by simp
qed

end

section \<open>Appending missing tokens\<close>

text \<open>The inner loop of the editors is \<open>foldl push_new\<close> on the tokens of the value.\<close>

lemma merged_are_tokens:
  assumes "\<forall>w \<in> set params. is_token w"
  shows "\<forall>w \<in> set (foldl push_new (split_ws v) params). is_token w"
  using assms split_ws_tokens[of v] by auto

lemma merged_split:
  assumes "\<forall>w \<in> set params. is_token w"
  shows "split_ws (str_join [SP] (foldl push_new (split_ws v) params)) =
     foldl push_new (split_ws v) params"
  by (rule split_ws_join) (rule merged_are_tokens[OF assms])

lemma merged_again:
  assumes "\<forall>w \<in> set params. is_token w"
  shows "foldl push_new (split_ws (str_join [SP] (foldl push_new (split_ws v) params))) params =
     foldl push_new (split_ws v) params"
  unfolding merged_split[OF assms] by (rule fold_push_new_present) auto

lemma token_chars: "is_token w \<Longrightarrow> c \<in> set w \<Longrightarrow> c \<noteq> LF \<and> c \<noteq> CR \<and> \<not> is_ws c"
  by (auto simp: is_token_def)

lemma tokens_join_clean:
  assumes "\<forall>w \<in> set ws. is_token w"
  shows "clean_line (str_join [SP] ws)"
  unfolding clean_line_def
  using assms token_chars by (fastforce dest!: set_str_joinD)

lemma tokens_join_chars:
  assumes "c \<in> set (str_join [SP] (foldl push_new (split_ws v) params))" "c \<noteq> SP"
  shows "c \<in> set v \<or> (\<exists>w \<in> set params. c \<in> set w)"
  using assms split_ws_subset[of _ v] by (fastforce dest!: set_str_joinD)

lemma hd_join: "w \<noteq> [] \<Longrightarrow> str_join [SP] (w # ws) \<noteq> [] \<and> hd (str_join [SP] (w # ws)) = hd w"
  by (cases ws) simp_all

lemma hd_split_ws: "v \<noteq> [] \<Longrightarrow> \<not> is_ws (hd v) \<Longrightarrow> \<exists>w ws. split_ws v = w # ws \<and> w \<noteq> [] \<and> hd w = hd v"
proof (cases v)
  case (Cons c cs)
  assume "\<not> is_ws (hd v)"
  then have c: "\<not> is_ws c" using Cons by simp
  show ?thesis
  proof (cases "case cs of d # _ \<Rightarrow> is_ws d | [] \<Rightarrow> True")
    case True
    then show ?thesis using c Cons by (simp add: split_ws_Cons_end)
  next
    case False
    then show ?thesis using c Cons by (cases "split_ws cs") (simp_all add: split_ws_Cons_mid)
  qed
qed simp

section \<open>Trimming\<close>

lemma split_ws_trim_start: "split_ws (trim_start s) = split_ws s"
  by (induction s) (simp_all add: trim_start_def split_ws_Cons_ws)

lemma split_ws_all_ws: "\<forall>c \<in> set w. is_ws c \<Longrightarrow> split_ws w = []"
  by (induction w) (simp_all add: split_ws_Cons_ws)

lemma split_ws_append_ws: "\<forall>c \<in> set w. is_ws c \<Longrightarrow> split_ws (s @ w) = split_ws s"
proof (induction s)
  case Nil
  then show ?case by (simp add: split_ws_all_ws)
next
  case (Cons c cs)
  then have IH: "split_ws (cs @ w) = split_ws cs" by simp
  consider "is_ws c" | "\<not> is_ws c" "case cs of d # _ \<Rightarrow> is_ws d | [] \<Rightarrow> True"
    | "\<not> is_ws c" "\<not> (case cs of d # _ \<Rightarrow> is_ws d | [] \<Rightarrow> True)" by blast
  then show ?case
  proof cases
    case 1
    then show ?thesis using IH by (simp add: split_ws_Cons_ws)
  next
    case 2
    then have "case cs @ w of d # _ \<Rightarrow> is_ws d | [] \<Rightarrow> True"
      using Cons.prems by (cases cs; cases w) auto
    then show ?thesis using IH 2 by (simp add: split_ws_Cons_end)
  next
    case 3
    then have "\<not> (case cs @ w of d # _ \<Rightarrow> is_ws d | [] \<Rightarrow> True)" by (cases cs) auto
    then show ?thesis using IH 3 by (simp add: split_ws_Cons_mid)
  qed
qed

lemma trim_end_append: "\<exists>w. s = trim_end s @ w \<and> (\<forall>c \<in> set w. is_ws c)"
proof -
  have "s = rev (takeWhile is_ws (rev s) @ dropWhile is_ws (rev s))" by simp
  then have "s = trim_end s @ rev (takeWhile is_ws (rev s))"
    by (simp only: rev_append trim_end_def)
  then show ?thesis by (metis set_rev set_takeWhileD)
qed

lemma split_ws_trim: "split_ws (trim s) = split_ws s"
proof -
  obtain w where "trim_start s = trim_end (trim_start s) @ w" "\<forall>c \<in> set w. is_ws c"
    using trim_end_append by blast
  then have "split_ws (trim_start s) = split_ws (trim s)"
    by (metis split_ws_append_ws trim_def)
  then show ?thesis by (simp add: split_ws_trim_start)
qed

lemma trim_ends:
  assumes "s \<noteq> []" "\<not> is_ws (hd s)" "\<not> is_ws (last s)"
  shows "trim s = s"
proof -
  have st: "trim_start s = s" using assms(1,2) by (cases s) (simp_all add: trim_start_def)
  obtain r x where s: "s = r @ [x]" using assms(1) by (metis rev_exhaust)
  have "trim_end s = s" using assms(3) by (simp add: s trim_end_def)
  then show ?thesis by (simp add: trim_def st)
qed

lemma trim_start_append:
  "\<exists>c \<in> set k. \<not> is_ws c \<Longrightarrow> trim_start (k @ r) = trim_start k @ r \<and> trim_start k \<noteq> []"
  by (auto simp: trim_start_def dropWhile_append1 dropWhile_eq_Nil_conv)

lemma trim_start_leading: "trim_start s = r \<Longrightarrow> s = takeWhile is_ws s @ r"
  by (auto simp: trim_start_def)

end
