(* ===== verification/Grub.thy ===== *)
theory Grub
  imports Line_Editor
begin

text \<open>
  \<open>config/writers/grub.rs\<close>: the editor of \<open>/etc/default/grub\<close>, and its contract as an instance of
  \<open>line_editor\<close>.
\<close>

definition grub_target_var :: string where
  "grub_target_var = ''GRUB_CMDLINE_LINUX_DEFAULT''"

definition split_assignment :: "string \<Rightarrow> (string \<times> string) option" where
  "split_assignment line =
     (let trimmed = trim_start line in
      if trimmed = [] \<or> starts_with ''#'' trimmed then None
      else (case split_once (CHR ''='') line of None \<Rightarrow> None
            | Some (k, v) \<Rightarrow> Some (trim k, v)))"

definition parse_quoted_value :: "string \<Rightarrow> string + (char option \<times> string \<times> string)" where
  "parse_quoted_value v =
     (case v of [] \<Rightarrow> Inr (None, [], [])
      | first # rest \<Rightarrow>
          if first = DQ \<or> first = SQ then
            (case split_once first rest of
               None \<Rightarrow> Inl (''unterminated '' @ [first] @ '' quote'')
             | Some (inner, tl_text) \<Rightarrow> Inr (Some first, inner, tl_text))
          else Inr (None, v, []))"

definition ensure_params_in_line :: "string list \<Rightarrow> string \<Rightarrow> string + string" where
  "ensure_params_in_line params line =
     (case split_once (CHR ''='') line of None \<Rightarrow> Inl ''no '=' in target line''
      | Some (key, value_with_tail) \<Rightarrow>
          res_then (parse_quoted_value value_with_tail) (\<lambda>(quote, val, tl_text).
            let tokens = foldl push_new (split_ws val) params;
                new_value = str_join [SP] tokens;
                formatted = (case quote of Some q \<Rightarrow> [q] @ new_value @ [q] | None \<Rightarrow> new_value)
            in Inr (key @ ''='' @ formatted @ tl_text)))"

definition grub_target :: "string \<Rightarrow> bool" where
  "grub_target line = (case split_assignment line of Some (k, _) \<Rightarrow> k = grub_target_var | None \<Rightarrow> False)"

definition grub_default_line :: "string list \<Rightarrow> string" where
  "grub_default_line params = grub_target_var @ ''='' @ [DQ] @ str_join [SP] params @ [DQ]"

definition rewrite_grub_default :: "string \<Rightarrow> string list \<Rightarrow> writer_error + string" where
  "rewrite_grub_default input params =
     (if params = [] then Inl EmptyParams
      else rewrite_file grub_target (ensure_params_in_line params)
             (''duplicate '' @ grub_target_var @ '' assignment'') (grub_default_line params) input)"

section \<open>The contract\<close>

text \<open>Parameters without whitespace and quotes, and no blank between the equals sign and the value.\<close>

definition params_ok :: "string list \<Rightarrow> bool" where
  "params_ok params \<longleftrightarrow> (\<forall>w \<in> set params. is_token w \<and> DQ \<notin> set w \<and> SQ \<notin> set w)"

definition grub_ok :: "string list \<Rightarrow> string \<Rightarrow> bool" where
  "grub_ok params line \<longleftrightarrow> params_ok params \<and>
     (\<forall>k v. split_once (CHR ''='') line = Some (k, v) \<longrightarrow> v = [] \<or> \<not> is_ws (hd v))"

lemma grub_target_prefix:
  assumes "split_once (CHR ''='') l = Some (k, v)"
  shows "grub_target l \<longleftrightarrow> trim k = grub_target_var \<and> \<not> starts_with ''#'' (trim_start k)"
proof -
  from split_once_SomeD[OF assms] have l: "l = k @ CHR ''='' # v" by simp
  show ?thesis
  proof (cases "\<forall>c \<in> set k. is_ws c")
    case True
    then have "trim_start k = []" by (simp add: trim_start_def)
    then have "trim k = []" by (simp add: trim_def trim_end_def)
    then show ?thesis by (auto simp: grub_target_def split_assignment_def Let_def assms
        grub_target_var_def)
  next
    case False
    then have "trim_start l = trim_start k @ CHR ''='' # v" "trim_start k \<noteq> []"
      by (auto simp: trim_start_def l dropWhile_append1 dropWhile_eq_Nil_conv)
    then show ?thesis
      by (cases "trim_start k") (auto simp: grub_target_def split_assignment_def Let_def assms)
  qed
qed

lemma grub_target_assign: "grub_target l \<Longrightarrow> \<exists>k v. split_once (CHR ''='') l = Some (k, v)"
  by (auto simp: grub_target_def split_assignment_def Let_def split: option.splits if_splits)

lemma quotes [simp]: "DQ \<noteq> SP" "SQ \<noteq> SP" "\<not> is_ws DQ" "\<not> is_ws SQ" "DQ \<noteq> LF" "SQ \<noteq> LF" "DQ \<noteq> CR" "SQ \<noteq> CR"
  by code_simp+

lemma parse_quoted_again:
  assumes parse: "parse_quoted_value v = Inr (q, val, tl_text)"
    and ok: "params_ok params" and hd: "v = [] \<or> \<not> is_ws (hd v)"
    and new: "new = str_join [SP] (foldl push_new (split_ws val) params)"
  shows "parse_quoted_value ((case q of Some c \<Rightarrow> [c] @ new @ [c] | None \<Rightarrow> new) @ tl_text) =
     Inr (q, new, tl_text)"
proof (cases q)
  case (Some c)
  with parse have c: "c = DQ \<or> c = SQ" and noc: "c \<notin> set val"
    by (auto simp: parse_quoted_value_def split: list.splits if_splits option.splits
        dest: split_once_SomeD)
  have "c \<notin> set new"
    using tokens_join_chars[of c val params] c noc ok by (auto simp: new params_ok_def)
  then show ?thesis using Some c by (auto simp: parse_quoted_value_def)
next
  case None
  with parse have v: "val = v" "tl_text = []" "v = [] \<or> hd v \<noteq> DQ \<and> hd v \<noteq> SQ"
    by (auto simp: parse_quoted_value_def split: list.splits if_splits option.splits)
  have "new = [] \<or> hd new \<noteq> DQ \<and> hd new \<noteq> SQ"
  proof (cases "v = []")
    case False
    then obtain w ws where w: "split_ws v = w # ws" "w \<noteq> []" "hd w = hd v"
      using hd hd_split_ws by blast
    obtain zs where "foldl push_new (w # ws) params = (w # ws) @ zs"
      using fold_push_new_prefix[of "w # ws" params] by blast
    then have "new = str_join [SP] (w # ws @ zs)" by (simp add: new v(1) w(1))
    then have "hd new = hd v" using w(2,3) hd_join[of w "ws @ zs"] by metis
    then show ?thesis using v(3) False by simp
  next
    case True
    then show ?thesis
    proof (cases "new = []")
      case False
      then have "hd new \<in> set new" by simp
      moreover have "DQ \<notin> set new" "SQ \<notin> set new"
        using tokens_join_chars[of _ val params] ok True v by (auto simp: new params_ok_def)
      ultimately show ?thesis by auto
    qed simp
  qed
  then show ?thesis using None v(2) by (cases new) (auto simp: parse_quoted_value_def)
qed

text \<open>A value rebuilt around new tokens: it has no line break, and no blank in front.\<close>

lemma rebuilt_value:
  assumes p: "parse_quoted_value v = Inr (q, val, rest)" and toks: "\<forall>w \<in> set ws. is_token w"
    and v': "v' = (case q of Some c \<Rightarrow> [c] @ str_join [SP] ws @ [c] | None \<Rightarrow> str_join [SP] ws) @ rest"
  shows "clean_line v \<Longrightarrow> clean_line v'" "v' = [] \<or> \<not> is_ws (hd v')"
proof -
  have q: "q = Some c \<Longrightarrow> c = DQ \<or> c = SQ" for c
    using p by (auto simp: parse_quoted_value_def split: list.splits if_splits option.splits)
  assume "clean_line v"
  then have "clean_line rest"
    using p by (auto simp: parse_quoted_value_def split: list.splits if_splits option.splits dest!: split_once_SomeD)
  then show "clean_line v'" using q tokens_join_clean[OF toks] by (auto simp: v' split: option.splits)
next
  show "v' = [] \<or> \<not> is_ws (hd v')"
  proof (cases q)
    case (Some c)
    then show ?thesis using p by (auto simp: v' parse_quoted_value_def split: list.splits if_splits option.splits)
  next
    case None
    then have "rest = []" using p by (auto simp: parse_quoted_value_def split: list.splits if_splits option.splits)
    moreover have "str_join [SP] ws = [] \<or> \<not> is_ws (hd (str_join [SP] ws))"
    proof (cases ws)
      case (Cons w ws')
      then show ?thesis using toks hd_join[of w ws'] by (auto simp: is_token_def)
    qed simp
    ultimately show ?thesis using None by (simp add: v')
  qed
qed

lemma grub_update_law:
  assumes t: "grub_target l" and ok: "grub_ok params l" and clean: "clean_line l"
    and u: "ensure_params_in_line params l = Inr l'"
  shows "grub_target l' \<and> grub_ok params l' \<and> clean_line l' \<and> l' \<noteq> [] \<and>
     ensure_params_in_line params l' = Inr l'"
proof -
  obtain k v where kv: "split_once (CHR ''='') l = Some (k, v)" using grub_target_assign[OF t] by blast
  obtain q val tl_text where p: "parse_quoted_value v = Inr (q, val, tl_text)"
    and l': "l' = k @ ''='' @ (case q of Some c \<Rightarrow> [c] @ str_join [SP] (foldl push_new (split_ws val) params) @ [c]
       | None \<Rightarrow> str_join [SP] (foldl push_new (split_ws val) params)) @ tl_text"
    using u by (auto simp: ensure_params_in_line_def kv res_then_Inr_iff Let_def)
  define new where "new = str_join [SP] (foldl push_new (split_ws val) params)"
  define v' where "v' = (case q of Some c \<Rightarrow> [c] @ new @ [c] | None \<Rightarrow> new) @ tl_text"
  have po: "params_ok params" and hd: "v = [] \<or> \<not> is_ws (hd v)" using ok kv by (auto simp: grub_ok_def)
  have tok: "\<forall>w \<in> set params. is_token w" using po by (simp add: params_ok_def)
  have l'v: "l' = k @ CHR ''='' # v'" by (simp add: l' v'_def new_def split: option.splits)
  have kv': "split_once (CHR ''='') l' = Some (k, v')"
    using split_once_SomeD[OF kv] by (simp add: l'v)
  have p': "parse_quoted_value v' = Inr (q, new, tl_text)"
    unfolding v'_def by (rule parse_quoted_again[OF p po hd new_def])
  note rebuilt = rebuilt_value[OF p merged_are_tokens[OF tok] v'_def[unfolded new_def]]
  have again: "str_join [SP] (foldl push_new (split_ws new) params) = new"
    unfolding new_def merged_again[OF tok] ..
  have "ensure_params_in_line params l' = Inr l'"
    by (simp add: ensure_params_in_line_def kv' p' Let_def again)
      (simp add: l'v v'_def again split: option.splits)
  moreover have "grub_target l'"
    using t grub_target_prefix[OF kv] grub_target_prefix[OF kv'] by simp
  moreover have "clean_line l'"
    using clean rebuilt(1) split_once_SomeD[OF kv] by (auto simp: l'v)
  moreover have "grub_ok params l'" using rebuilt(2) po kv' by (simp add: grub_ok_def)
  ultimately show ?thesis by (simp add: l'v)
qed

lemma grub_default_law:
  assumes "grub_ok params (grub_default_line params)"
  shows "grub_target (grub_default_line params) \<and> clean_line (grub_default_line params) \<and>
     grub_default_line params \<noteq> [] \<and>
     ensure_params_in_line params (grub_default_line params) = Inr (grub_default_line params)"
proof -
  have po: "params_ok params" using assms by (simp add: grub_ok_def)
  then have tok: "\<forall>w \<in> set params. is_token w" by (simp add: params_ok_def)
  have "CHR ''='' \<notin> set grub_target_var" by code_simp
  then have kv: "split_once (CHR ''='') (grub_default_line params) =
      Some (grub_target_var, [DQ] @ str_join [SP] params @ [DQ])"
    by (simp add: grub_default_line_def)
  have "DQ \<notin> set (str_join [SP] params)"
    using po by (auto simp: params_ok_def dest!: set_str_joinD)
  then have p: "parse_quoted_value ([DQ] @ str_join [SP] params @ [DQ]) =
      Inr (Some DQ, str_join [SP] params, [])"
    by (simp add: parse_quoted_value_def)
  have s: "split_ws (str_join [SP] params) = params" by (rule split_ws_join[OF tok])
  have f: "foldl push_new params params = params" by (rule fold_push_new_present) simp
  have t: "trim grub_target_var = grub_target_var" "\<not> starts_with ''#'' (trim_start grub_target_var)"
    "clean_line grub_target_var" "grub_target_var \<noteq> []"
    by code_simp+
  have "ensure_params_in_line params (grub_default_line params) = Inr (grub_default_line params)"
    by (simp add: ensure_params_in_line_def kv p s f Let_def del: append_Cons append.simps)
      (simp add: grub_default_line_def)
  then show ?thesis
    using grub_target_prefix[OF kv] t tokens_join_clean[OF tok]
    by (simp add: grub_default_line_def)
qed

section \<open>The command line of a file\<close>

definition line_params :: "string \<Rightarrow> string list" where
  "line_params line =
     (case split_once (CHR ''='') line of None \<Rightarrow> []
      | Some (_, v) \<Rightarrow>
          (case parse_quoted_value v of Inl _ \<Rightarrow> [] | Inr (_, val, _) \<Rightarrow> split_ws val))"

text \<open>The tokens that the file gives \<open>GRUB_CMDLINE_LINUX_DEFAULT\<close>.\<close>

definition grub_cmdline :: "string \<Rightarrow> string list" where
  "grub_cmdline file = concat (map line_params (filter grub_target (str_lines file)))"

lemma grub_update_params:
  assumes t: "grub_target l" and ok: "grub_ok params l" and u: "ensure_params_in_line params l = Inr l'"
  shows "line_params l' = foldl push_new (line_params l) params"
proof -
  obtain k v where kv: "split_once (CHR ''='') l = Some (k, v)" using grub_target_assign[OF t] by blast
  obtain q val rest where p: "parse_quoted_value v = Inr (q, val, rest)"
    and l': "l' = k @ ''='' @ (case q of Some c \<Rightarrow> [c] @ str_join [SP] (foldl push_new (split_ws val) params) @ [c]
       | None \<Rightarrow> str_join [SP] (foldl push_new (split_ws val) params)) @ rest"
    using u by (auto simp: ensure_params_in_line_def kv res_then_Inr_iff Let_def)
  define new where "new = str_join [SP] (foldl push_new (split_ws val) params)"
  have po: "params_ok params" and hd: "v = [] \<or> \<not> is_ws (hd v)" using ok kv by (auto simp: grub_ok_def)
  have tok: "\<forall>w \<in> set params. is_token w" using po by (simp add: params_ok_def)
  have kv': "split_once (CHR ''='') l' =
      Some (k, (case q of Some c \<Rightarrow> [c] @ new @ [c] | None \<Rightarrow> new) @ rest)"
    using split_once_SomeD[OF kv] by (simp add: l' new_def split: option.splits)
  show ?thesis
    unfolding line_params_def kv' kv using parse_quoted_again[OF p po hd new_def] p
    by (simp add: new_def merged_split[OF tok])
qed

lemma grub_default_params:
  assumes "grub_ok params (grub_default_line params)"
  shows "line_params (grub_default_line params) = params"
proof -
  have po: "params_ok params" using assms by (simp add: grub_ok_def)
  then have tok: "\<forall>w \<in> set params. is_token w" by (simp add: params_ok_def)
  have "CHR ''='' \<notin> set grub_target_var" by code_simp
  then have kv: "split_once (CHR ''='') (grub_default_line params) =
      Some (grub_target_var, [DQ] @ str_join [SP] params @ [DQ])"
    by (simp add: grub_default_line_def)
  have "DQ \<notin> set (str_join [SP] params)"
    using po by (auto simp: params_ok_def dest!: set_str_joinD)
  then have p: "parse_quoted_value ([DQ] @ str_join [SP] params @ [DQ]) =
      Inr (Some DQ, str_join [SP] params, [])"
    by (simp add: parse_quoted_value_def)
  show ?thesis unfolding line_params_def kv using p by (simp add: split_ws_join[OF tok])
qed

interpretation grub: token_editor grub_target "ensure_params_in_line params" "grub_ok params"
  "grub_default_line params" line_params params for params
  by unfold_locales
    (rule grub_update_law, assumption+, rule grub_default_law, assumption,
     rule grub_update_params, assumption+, rule grub_default_params)

section \<open>Properties\<close>

lemma grub_ok_default: "params_ok params \<Longrightarrow> grub_ok params (grub_default_line params)"
proof -
  have "CHR ''='' \<notin> set grub_target_var" by code_simp
  then have kv: "split_once (CHR ''='') (grub_default_line params) =
      Some (grub_target_var, [DQ] @ str_join [SP] params @ [DQ])"
    by (simp add: grub_default_line_def)
  then show "params_ok params \<Longrightarrow> grub_ok params (grub_default_line params)"
    by (simp add: grub_ok_def)
qed

text \<open>A file the editor handles well: no carriage return, no blank last line, and no blank between
  \<open>GRUB_CMDLINE_LINUX_DEFAULT=\<close> and its value.\<close>

definition grub_file_ok :: "string \<Rightarrow> bool" where
  "grub_file_ok file \<longleftrightarrow> CR \<notin> set file \<and> \<not> ends_with [LF, LF] file \<and>
     (\<forall>l \<in> set (str_lines file). grub_target l \<longrightarrow>
        (\<forall>k v. split_once (CHR ''='') l = Some (k, v) \<longrightarrow> v = [] \<or> \<not> is_ws (hd v)))"

lemma grub_rewrite_facts:
  assumes run: "rewrite_grub_default input params = Inr output"
    and fok: "grub_file_ok input" and params: "params_ok params"
  shows "rewrite_file grub_target (ensure_params_in_line params)
      (''duplicate '' @ grub_target_var @ '' assignment'') (grub_default_line params) input = Inr output"
    "CR \<notin> set input" "\<not> ends_with [LF, LF] input"
    "\<forall>l \<in> set (str_lines input). grub_target l \<longrightarrow> grub_ok params l" "grub_ok params (grub_default_line params)"
    "params \<noteq> []"
proof -
  show ne: "params \<noteq> []" using run by (auto simp: rewrite_grub_default_def)
  show "rewrite_file grub_target (ensure_params_in_line params)
      (''duplicate '' @ grub_target_var @ '' assignment'') (grub_default_line params) input = Inr output"
    using run ne by (simp add: rewrite_grub_default_def)
  show "CR \<notin> set input" "\<not> ends_with [LF, LF] input"
    "\<forall>l \<in> set (str_lines input). grub_target l \<longrightarrow> grub_ok params l"
    using fok params by (auto simp: grub_file_ok_def grub_ok_def)
qed (rule grub_ok_default[OF params])

text \<open>Every parameter is on the command line of the rewritten file.\<close>

lemma grub_params_installed:
  assumes "rewrite_grub_default input params = Inr output" "grub_file_ok input" "params_ok params"
  shows "set params \<subseteq> set (grub_cmdline output)"
  using grub.rewrite_tokens[OF grub_rewrite_facts(1-5)[OF assms]]
  by (cases "filter grub_target (str_lines input) = []") (simp_all add: grub_cmdline_def)

text \<open>C33: the editor of \<open>/etc/default/grub\<close> refines the abstract operation append the missing
  parameters: on a well-formed file and parameters the new kernel command line is the old one with
  the missing parameters appended in order (the parameters alone if there was none), every other
  line is kept in its place, and running the editor again changes nothing.\<close>

theorem grub_rewrite_refines:
  assumes run: "rewrite_grub_default input params = Inr output"
    and fok: "grub_file_ok input" and params: "params_ok params"
  shows "grub_cmdline output =
       (if filter grub_target (str_lines input) = [] then params
        else foldl push_new (grub_cmdline input) params) \<and>
     filter (\<lambda>l. \<not> grub_target l) (str_lines output) =
       filter (\<lambda>l. \<not> grub_target l) (str_lines input) \<and>
     rewrite_grub_default output params = Inr output"
proof -
  note facts = grub_rewrite_facts[OF assms]
  show ?thesis
    using grub.rewrite_tokens[OF facts(1-5)] grub.rewrite_keeps_lines[OF facts(1-5)]
      grub.rewrite_idempotent[OF facts(1-5)] facts(6)
    unfolding grub_cmdline_def rewrite_grub_default_def if_not_P[OF facts(6)] by blast
qed

text \<open>The editor fails exactly on an empty parameter list, on a second target line, and on a
  target line with an unterminated quote.\<close>

theorem grub_rewrite_errors:
  "is_ok (rewrite_grub_default input params) \<longleftrightarrow>
     params \<noteq> [] \<and> length (filter grub_target (str_lines input)) \<le> 1 \<and>
     list_all (\<lambda>l. case split_once (CHR ''='') l of None \<Rightarrow> True | Some (_, v) \<Rightarrow> is_ok (parse_quoted_value v))
       (filter grub_target (str_lines input))"
proof -
  have "is_ok (ensure_params_in_line params l) \<longleftrightarrow>
      (\<forall>k v. split_once (CHR ''='') l = Some (k, v) \<longrightarrow> is_ok (parse_quoted_value v))"
    if target: "grub_target l" for l
  proof -
    obtain k v where kv: "split_once (CHR ''='') l = Some (k, v)"
      using grub_target_assign[OF target] by blast
    show ?thesis
      by (cases "parse_quoted_value v")
        (auto simp: ensure_params_in_line_def kv Let_def case_prod_beta)
  qed
  then show ?thesis
    by (auto simp: rewrite_grub_default_def rewrite_file_ok list_all_iff split: option.splits)
qed

definition sample_grub :: string where
  "sample_grub = ''GRUB_TIMEOUT=5'' @ [LF] @ grub_target_var @ ''='' @ [DQ] @ ''quiet splash'' @ [DQ] @ [LF]"

theorem grub_rewrite_refines_witness:
  "\<exists>output. rewrite_grub_default sample_grub [''intel_iommu=on'', ''iommu=pt''] = Inr output \<and>
     grub_cmdline output = [''quiet'', ''splash'', ''intel_iommu=on'', ''iommu=pt'']"
proof -
  define rewritten where "rewritten = ''GRUB_TIMEOUT=5'' @ [LF] @ grub_target_var @ ''='' @ [DQ]
    @ ''quiet splash intel_iommu=on iommu=pt'' @ [DQ] @ [LF]"
  have run: "rewrite_grub_default sample_grub [''intel_iommu=on'', ''iommu=pt''] = Inr rewritten"
    unfolding rewritten_def by code_simp
  have fok: "grub_file_ok sample_grub"
  proof -
    have "str_lines sample_grub = [''GRUB_TIMEOUT=5'',
        grub_target_var @ ''='' @ [DQ] @ ''quiet splash'' @ [DQ]]" by code_simp
    moreover have "split_once (CHR ''='') (grub_target_var @ ''='' @ [DQ] @ ''quiet splash'' @ [DQ]) =
        Some (grub_target_var, [DQ] @ ''quiet splash'' @ [DQ])" by code_simp
    moreover have "\<not> grub_target ''GRUB_TIMEOUT=5''" "CR \<notin> set sample_grub"
      "\<not> ends_with [LF, LF] sample_grub" by code_simp+
    ultimately show ?thesis by (auto simp: grub_file_ok_def)
  qed
  have params: "params_ok [''intel_iommu=on'', ''iommu=pt'']" by code_simp
  have "filter grub_target (str_lines sample_grub) \<noteq> []" by code_simp
  moreover have "foldl push_new (grub_cmdline sample_grub) [''intel_iommu=on'', ''iommu=pt''] =
      [''quiet'', ''splash'', ''intel_iommu=on'', ''iommu=pt'']" by code_simp
  ultimately show ?thesis using run grub_rewrite_refines[OF run fok params] by auto
qed

text \<open>Two inputs on which the promise of idempotence (byte-for-byte equality) fails although
  all parameters are there: a file that ends in a blank line loses it, and a value written after a
  blank (\<open>KEY= "quiet"\<close>) gets the parameters again, outside its quotes, at every run.\<close>

theorem grub_not_idempotent:
  "rewrite_grub_default (grub_target_var @ ''=quiet'' @ [LF, LF]) [''quiet''] =
     Inr (grub_target_var @ ''=quiet'' @ [LF]) \<and>
   rewrite_grub_default (grub_target_var @ ''= '' @ [DQ] @ ''quiet'' @ [DQ]) [''quiet''] =
     Inr (grub_target_var @ ''='' @ [DQ] @ ''quiet'' @ [DQ] @ '' quiet'')"
  by code_simp

end
