(* ===== verification/Systemd_Boot.thy ===== *)
theory Systemd_Boot
  imports Line_Editor
begin

text \<open>
  \<open>config/writers/systemd_boot.rs\<close>: the editor of a systemd-boot entry, whose kernel command line
  is one \<open>options\<close> line, and its contract as an instance of \<open>token_editor\<close>.
\<close>

text \<open>\<open>splitn(2, char::is_whitespace)\<close>: the part before the first whitespace, and the part after it.\<close>

definition split_key :: "string \<Rightarrow> string \<times> string option" where
  "split_key s =
     (takeWhile (\<lambda>c. \<not> is_ws c) s,
      case dropWhile (\<lambda>c. \<not> is_ws c) s of [] \<Rightarrow> None | _ # rest \<Rightarrow> Some rest)"

definition options_target :: "string \<Rightarrow> bool" where
  "options_target line =
     (let trimmed = trim_start line in
      if trimmed = [] \<or> starts_with ''#'' trimmed then False
      else fst (split_key trimmed) = ''options'')"

definition options_tokens :: "string \<Rightarrow> string list" where
  "options_tokens line =
     (let v = trim (case snd (split_key (trim_start line)) of None \<Rightarrow> [] | Some r \<Rightarrow> r) in
      if v = [] then [] else split_ws v)"

definition options_update :: "string list \<Rightarrow> string \<Rightarrow> string + string" where
  "options_update params line =
     (let tokens = foldl push_new (options_tokens line) params;
          leading = takeWhile is_ws line
      in Inr (leading @ ''options '' @ str_join [SP] tokens))"

definition rewrite_systemd_boot_entry :: "string \<Rightarrow> string list \<Rightarrow> writer_error + string" where
  "rewrite_systemd_boot_entry input params =
     (if params = [] then Inl EmptyParams
      else rewrite_file options_target (options_update params) ''duplicate `options` line''
             (''options '' @ str_join [SP] params) input)"

section \<open>The contract\<close>

definition tokens_ok :: "string list \<Rightarrow> bool" where
  "tokens_ok params \<longleftrightarrow> (\<forall>w \<in> set params. is_token w)"

lemma options_tokens_split: "options_tokens line =
    split_ws (case snd (split_key (trim_start line)) of None \<Rightarrow> [] | Some r \<Rightarrow> r)"
proof -
  have "trim v = [] \<Longrightarrow> split_ws v = []" for v using split_ws_trim[of v] by simp
  then show ?thesis by (simp add: options_tokens_def Let_def split_ws_trim)
qed

lemma options_chars: "\<not> is_ws (CHR ''o'')" "\<not> is_ws (CHR ''p'')" "\<not> is_ws (CHR ''t'')"
  "\<not> is_ws (CHR ''i'')" "\<not> is_ws (CHR ''n'')" "\<not> is_ws (CHR ''s'')"
  by code_simp+

lemma trim_start_skip: "\<forall>c \<in> set w. is_ws c \<Longrightarrow> trim_start (w @ r) = trim_start r"
  by (induction w) (simp_all add: trim_start_def)

lemma split_key_options: "split_key (''options '' @ r) = (''options'', Some r)"
  by (simp add: split_key_def options_chars)

lemma options_line:
  assumes "\<forall>c \<in> set w. is_ws c"
  shows "options_target (w @ ''options '' @ r)" "options_tokens (w @ ''options '' @ r) = split_ws r"
    "takeWhile is_ws (w @ ''options '' @ r) = w"
proof -
  have t: "trim_start (w @ ''options '' @ r) = ''options '' @ r"
    unfolding trim_start_skip[OF assms] by (simp add: trim_start_def options_chars)
  then show "options_target (w @ ''options '' @ r)" "options_tokens (w @ ''options '' @ r) = split_ws r"
    unfolding options_target_def options_tokens_split Let_def t split_key_options by simp_all
  show "takeWhile is_ws (w @ ''options '' @ r) = w"
    using assms by (simp add: options_chars)
qed

lemma options_update_law:
  assumes params: "tokens_ok params" and clean: "clean_line l" and u: "options_update params l = Inr l'"
  shows "options_target l' \<and> clean_line l' \<and> l' \<noteq> [] \<and> options_update params l' = Inr l'"
proof -
  define v where "v = (case snd (split_key (trim_start l)) of None \<Rightarrow> [] | Some r \<Rightarrow> r)"
  define new where "new = str_join [SP] (foldl push_new (split_ws v) params)"
  let ?w = "takeWhile is_ws l"
  have tok: "\<forall>w \<in> set params. is_token w" using params by (simp add: tokens_ok_def)
  have l': "l' = ?w @ ''options '' @ new"
    using u by (simp add: options_update_def options_tokens_split v_def new_def)
  have ws: "\<forall>c \<in> set ?w. is_ws c" by (auto dest: set_takeWhileD)
  note line = options_line[OF ws, of new, folded l']
  have "clean_line new" unfolding new_def by (rule tokens_join_clean[OF merged_are_tokens[OF tok]])
  moreover have "clean_line ?w" using clean by (auto simp: clean_line_def dest: set_takeWhileD)
  ultimately have "clean_line l'" by (simp add: l')
  moreover have "options_update params l' = Inr l'"
    unfolding options_update_def line(2,3) Let_def
    by (simp only: new_def merged_again[OF tok]) (simp add: l' new_def)
  ultimately show ?thesis using line(1) by (simp add: l')
qed

lemma options_update_tokens:
  assumes params: "tokens_ok params" and u: "options_update params l = Inr l'"
  shows "options_tokens l' = foldl push_new (options_tokens l) params"
proof -
  have tok: "\<forall>w \<in> set params. is_token w" using params by (simp add: tokens_ok_def)
  have ws: "\<forall>c \<in> set (takeWhile is_ws l). is_ws c" by (auto dest: set_takeWhileD)
  have l': "l' = takeWhile is_ws l @ ''options '' @
      str_join [SP] (foldl push_new (options_tokens l) params)"
    using u by (simp add: options_update_def)
  show ?thesis unfolding l' options_line(2)[OF ws]
    by (simp add: options_tokens_split merged_split[OF tok])
qed

lemma options_default_law:
  assumes "tokens_ok params"
  shows "options_target (''options '' @ str_join [SP] params) \<and>
     clean_line (''options '' @ str_join [SP] params) \<and>
     options_update params (''options '' @ str_join [SP] params) =
       Inr (''options '' @ str_join [SP] params) \<and>
     options_tokens (''options '' @ str_join [SP] params) = params"
proof -
  have tok: "\<forall>w \<in> set params. is_token w" using assms by (simp add: tokens_ok_def)
  have ws: "\<forall>c \<in> set ([] :: string). is_ws c" by simp
  note line = options_line[OF ws, of "str_join [SP] params", simplified append_Nil]
  have "options_tokens (''options '' @ str_join [SP] params) = params"
    unfolding line(2) by (rule split_ws_join[OF tok])
  moreover from this have "options_update params (''options '' @ str_join [SP] params) =
      Inr (''options '' @ str_join [SP] params)"
    unfolding options_update_def Let_def line(3)
    by (simp add: fold_push_new_present)
  ultimately show ?thesis using line(1) tokens_join_clean[OF tok] by simp
qed

interpretation sdboot: token_editor options_target "options_update params" "\<lambda>_. tokens_ok params"
  "''options '' @ str_join [SP] params" options_tokens params for params
proof unfold_locales
  fix l l'
  assume ok: "tokens_ok params" and u: "options_update params l = Inr l'"
  show "clean_line l \<Longrightarrow> options_target l' \<and> tokens_ok params \<and> clean_line l' \<and> l' \<noteq> [] \<and>
      options_update params l' = Inr l'"
    using options_update_law[OF ok _ u] ok by blast
  show "options_tokens l' = foldl push_new (options_tokens l) params"
    by (rule options_update_tokens[OF ok u])
next
  assume ok: "tokens_ok params"
  show "options_target (''options '' @ str_join [SP] params) \<and>
      clean_line (''options '' @ str_join [SP] params) \<and> ''options '' @ str_join [SP] params \<noteq> [] \<and>
      options_update params (''options '' @ str_join [SP] params) =
        Inr (''options '' @ str_join [SP] params)"
    using options_default_law[OF ok] by simp
  show "options_tokens (''options '' @ str_join [SP] params) = params"
    using options_default_law[OF ok] by simp
qed

section \<open>Properties\<close>

text \<open>The kernel command line of an entry: the tokens of its \<open>options\<close> lines.\<close>

definition entry_cmdline :: "string \<Rightarrow> string list" where
  "entry_cmdline entry = concat (map options_tokens (filter options_target (str_lines entry)))"

text \<open>The editor of a systemd-boot entry refines the same abstract operation as the one of
  GRUB: the new kernel command line is the old one with the missing parameters appended in order,
  every other line of the entry is kept in its place, and running the editor again changes nothing.\<close>

theorem sdboot_rewrite_refines:
  assumes run: "rewrite_systemd_boot_entry entry params = Inr output"
    and fok: "CR \<notin> set entry" "\<not> ends_with [LF, LF] entry" and params: "tokens_ok params"
  shows "entry_cmdline output =
       (if filter options_target (str_lines entry) = [] then params
        else foldl push_new (entry_cmdline entry) params) \<and>
     filter (\<lambda>l. \<not> options_target l) (str_lines output) =
       filter (\<lambda>l. \<not> options_target l) (str_lines entry) \<and>
     rewrite_systemd_boot_entry output params = Inr output"
proof -
  have ne: "params \<noteq> []" using run by (auto simp: rewrite_systemd_boot_entry_def)
  have rf: "rewrite_file options_target (options_update params) ''duplicate `options` line''
      (''options '' @ str_join [SP] params) entry = Inr output"
    using run ne by (simp add: rewrite_systemd_boot_entry_def)
  have ok: "\<forall>l \<in> set (str_lines entry). options_target l \<longrightarrow> tokens_ok params" using params by simp
  note ok = fok ok params
  show ?thesis
    using sdboot.rewrite_tokens[OF rf ok] sdboot.rewrite_keeps_lines[OF rf ok]
      sdboot.rewrite_idempotent[OF rf ok] ne
    unfolding entry_cmdline_def rewrite_systemd_boot_entry_def if_not_P[OF ne] by blast
qed

definition sample_entry :: string where
  "sample_entry = ''title Arch'' @ [LF] @ ''  options root=UUID=x  rw'' @ [LF]"

theorem sdboot_rewrite_refines_witness:
  "\<exists>output. rewrite_systemd_boot_entry sample_entry [''rw'', ''iommu=pt''] = Inr output \<and>
     entry_cmdline output = [''root=UUID=x'', ''rw'', ''iommu=pt'']"
proof -
  define rewritten where
    "rewritten = ''title Arch'' @ [LF] @ ''  options root=UUID=x rw iommu=pt'' @ [LF]"
  have run: "rewrite_systemd_boot_entry sample_entry [''rw'', ''iommu=pt''] = Inr rewritten"
    unfolding rewritten_def by code_simp
  have fok: "CR \<notin> set sample_entry" "\<not> ends_with [LF, LF] sample_entry"
    "tokens_ok [''rw'', ''iommu=pt'']" by code_simp+
  have "filter options_target (str_lines sample_entry) \<noteq> []" by code_simp
  moreover have "foldl push_new (entry_cmdline sample_entry) [''rw'', ''iommu=pt''] =
      [''root=UUID=x'', ''rw'', ''iommu=pt'']" by code_simp
  ultimately show ?thesis using run sdboot_rewrite_refines[OF run fok] by auto
qed

text \<open>The editor of a systemd-boot entry fails exactly on an empty parameter list and on a
  second \<open>options\<close> line.\<close>

theorem sdboot_rewrite_errors:
  "is_ok (rewrite_systemd_boot_entry entry params) \<longleftrightarrow>
     params \<noteq> [] \<and> length (filter options_target (str_lines entry)) \<le> 1"
  by (auto simp: rewrite_systemd_boot_entry_def rewrite_file_ok options_update_def Let_def)

end
