(* ===== verification/Initramfs.thy ===== *)
theory Initramfs
  imports Line_Editor
begin

text \<open>
  \<open>config/writers/initramfs/\<close>: the three initramfs writers. The mkinitcpio editor is an instance of
  \<open>token_editor\<close>; the update-initramfs writer appends to its file; the dracut file is generated.
\<close>

definition vfio_modules :: "string list" where
  "vfio_modules = [''vfio_pci'', ''vfio'', ''vfio_iommu_type1'']"

definition file_banner :: string where
  "file_banner = ''# Managed by Virtu (https://github.com/H-Sami/Virtu).'' @ [LF] @
     ''# Edit through `virtu` so the snapshot manifest stays consistent.'' @ [LF]"

section \<open>mkinitcpio\<close>

definition ensure_modules_in_array_line :: "string \<Rightarrow> string + string" where
  "ensure_modules_in_array_line line =
     (case split_once (CHR ''='') line of None \<Rightarrow> Inl ''no '=' in MODULES line''
      | Some (key, val) \<Rightarrow>
          (let trimmed = trim val in
           if \<not> starts_with ''('' trimmed \<or> \<not> ends_with '')'' trimmed
           then Inl ''MODULES value is not a `(...)` array''
           else (let inner = butlast (tl trimmed);
                     tokens = foldl push_new (split_ws inner) vfio_modules
                 in Inr (key @ ''=('' @ str_join [SP] tokens @ '')''))))"

definition modules_target :: "string \<Rightarrow> bool" where
  "modules_target line = starts_with ''MODULES='' (trim_start line)"

definition modules_default :: string where
  "modules_default = ''MODULES=('' @ str_join [SP] vfio_modules @ '')''"

definition rewrite_mkinitcpio_conf :: "string \<Rightarrow> writer_error + string" where
  "rewrite_mkinitcpio_conf input =
     rewrite_file modules_target ensure_modules_in_array_line ''duplicate MODULES= assignment''
       modules_default input"

section \<open>dracut\<close>

definition generate_dracut_conf :: "writer_error + string" where
  "generate_dracut_conf =
     Inr (file_banner @ [LF] @
          ''add_drivers+='' @ [DQ, SP] @ str_join [SP] vfio_modules @ [SP, DQ, LF])"

section \<open>update-initramfs\<close>

definition initramfs_module :: "string \<Rightarrow> string option" where
  "initramfs_module line =
     (let trimmed = trim line in
      if trimmed = [] \<or> starts_with ''#'' trimmed then None
      else (case split_ws trimmed of [] \<Rightarrow> None | w # _ \<Rightarrow> Some w))"

definition existing_modules :: "string \<Rightarrow> string list" where
  "existing_modules input = List.map_filter initramfs_module (str_lines input)"

definition section_header :: string where
  "section_header = ''# Virtu: VFIO modules''"

definition rewrite_initramfs_modules :: "string \<Rightarrow> writer_error + string" where
  "rewrite_initramfs_modules input =
     (let existing = existing_modules input;
          output = (if input \<noteq> [] \<and> \<not> ends_with [LF] input then input @ [LF] else input);
          missing = filter (\<lambda>m. m \<notin> set existing) vfio_modules
      in if missing = [] then Inr output
         else (let headed = (if \<not> contains_str section_header output
                             then output @ section_header @ [LF] else output)
               in Inr (headed @ concat (map (\<lambda>m. m @ [LF]) missing))))"

section \<open>The contract of the mkinitcpio editor\<close>

definition line_modules :: "string \<Rightarrow> string list" where
  "line_modules line =
     (case split_once (CHR ''='') line of None \<Rightarrow> []
      | Some (_, val) \<Rightarrow> split_ws (butlast (tl (trim val))))"

lemma vfio_tokens: "\<forall>w \<in> set vfio_modules. is_token w"
  by code_simp

lemma paren_chars [simp]: "\<not> is_ws (CHR ''('')" "\<not> is_ws (CHR '')'')"
  by code_simp+

lemma trim_array: "trim (''('' @ s @ '')'') = ''('' @ s @ '')''"
  by (rule trim_ends) simp_all

lemma modules_target_split:
  assumes "modules_target l"
  shows "\<exists>k v. split_once (CHR ''='') l = Some (k, v) \<and> k = takeWhile is_ws l @ ''MODULES''"
proof -
  obtain r where "trim_start l = ''MODULES='' @ r"
    using assms by (auto simp: modules_target_def starts_with_iff)
  then have l: "l = takeWhile is_ws l @ ''MODULES='' @ r" by (rule trim_start_leading)
  have "\<not> is_ws (CHR ''='')" by code_simp
  then have ne: "CHR ''='' \<notin> set (takeWhile is_ws l @ ''MODULES'')" by (auto dest: set_takeWhileD)
  have "l = (takeWhile is_ws l @ ''MODULES'') @ CHR ''='' # r" using l by simp
  then have "split_once (CHR ''='') l = Some (takeWhile is_ws l @ ''MODULES'', r)"
    using split_once_append[OF ne, of r] by simp
  then show ?thesis by blast
qed

lemma modules_target_key:
  "\<forall>c \<in> set w. is_ws c \<Longrightarrow> modules_target (w @ ''MODULES='' @ r)"
proof -
  have m: "\<not> is_ws (CHR ''M'')" by code_simp
  assume "\<forall>c \<in> set w. is_ws c"
  then have "trim_start (w @ ''MODULES='' @ r) = ''MODULES='' @ r"
    using m by (simp add: trim_start_def dropWhile_append3)
  then show ?thesis by (simp only: modules_target_def starts_with_append)
qed

lemma array_line_again:
  assumes key: "CHR ''='' \<notin> set key" and tokens: "toks = foldl push_new (split_ws v) vfio_modules"
  shows "ensure_modules_in_array_line (key @ ''=('' @ str_join [SP] toks @ '')'') =
       Inr (key @ ''=('' @ str_join [SP] toks @ '')'')"
    "line_modules (key @ ''=('' @ str_join [SP] toks @ '')'') = toks"
proof -
  let ?v = "''('' @ str_join [SP] toks @ '')''"
  have "key @ ''=('' @ str_join [SP] toks @ '')'' = key @ CHR ''='' # ?v" by simp
  then have kv: "split_once (CHR ''='') (key @ ''=('' @ str_join [SP] toks @ '')'') = Some (key, ?v)"
    using split_once_append[OF key] by metis
  have inner: "butlast (tl ?v) = str_join [SP] toks" by (simp add: butlast_append)
  have s: "split_ws (str_join [SP] toks) = toks"
    unfolding tokens by (rule merged_split[OF vfio_tokens])
  have f: "foldl push_new toks vfio_modules = toks"
    unfolding tokens by (rule fold_push_new_present) auto
  have p: "starts_with ''('' ?v" "ends_with '')'' ?v"
    by (simp, simp only: ends_with_append append_assoc[symmetric])
  show "line_modules (key @ ''=('' @ str_join [SP] toks @ '')'') = toks"
    unfolding line_modules_def kv by (simp only: option.case prod.case trim_array inner s)
  show "ensure_modules_in_array_line (key @ ''=('' @ str_join [SP] toks @ '')'') =
       Inr (key @ ''=('' @ str_join [SP] toks @ '')'')"
    unfolding ensure_modules_in_array_line_def kv
    by (simp only: option.case prod.case trim_array inner s f p Let_def not_True_eq_False simp_thms if_False)
qed

lemma modules_update_law:
  assumes t: "modules_target l" and clean: "clean_line l"
    and u: "ensure_modules_in_array_line l = Inr l'"
  shows "modules_target l' \<and> clean_line l' \<and> l' \<noteq> [] \<and> ensure_modules_in_array_line l' = Inr l'"
proof -
  obtain k v where kv: "split_once (CHR ''='') l = Some (k, v)" and k: "k = takeWhile is_ws l @ ''MODULES''"
    using modules_target_split[OF t] by blast
  define toks where "toks = foldl push_new (split_ws (butlast (tl (trim v)))) vfio_modules"
  have l': "l' = k @ ''=('' @ str_join [SP] toks @ '')''"
    using u by (auto simp: ensure_modules_in_array_line_def kv Let_def toks_def split: if_splits)
  have nk: "CHR ''='' \<notin> set k" using split_once_SomeD[OF kv] by simp
  note again = array_line_again[OF nk toks_def, folded l']
  have "modules_target (takeWhile is_ws l @ ''MODULES='' @ ''('' @ str_join [SP] toks @ '')'')"
    by (rule modules_target_key) (auto dest: set_takeWhileD)
  then have "modules_target l'" by (simp add: l' k)
  moreover have "clean_line k" using clean split_once_SomeD[OF kv] by auto
  then have "clean_line l'"
    using tokens_join_clean[OF merged_are_tokens[OF vfio_tokens]] by (simp add: l' toks_def)
  ultimately show ?thesis using again(1) by (simp add: l')
qed

lemma modules_update_tokens:
  assumes t: "modules_target l" and u: "ensure_modules_in_array_line l = Inr l'"
  shows "line_modules l' = foldl push_new (line_modules l) vfio_modules"
proof -
  obtain k v where kv: "split_once (CHR ''='') l = Some (k, v)"
    using modules_target_split[OF t] by blast
  define toks where "toks = foldl push_new (split_ws (butlast (tl (trim v)))) vfio_modules"
  have l': "l' = k @ ''=('' @ str_join [SP] toks @ '')''"
    using u by (auto simp: ensure_modules_in_array_line_def kv Let_def toks_def split: if_splits)
  have nk: "CHR ''='' \<notin> set k" using split_once_SomeD[OF kv] by simp
  have "line_modules l' = toks" unfolding l' by (rule array_line_again(2)[OF nk toks_def])
  then show ?thesis by (simp add: toks_def line_modules_def kv)
qed

lemma modules_default_law:
  "modules_target modules_default" "clean_line modules_default" "modules_default \<noteq> []"
  "ensure_modules_in_array_line modules_default = Inr modules_default"
  "line_modules modules_default = vfio_modules"
  by code_simp+

interpretation mkinit: token_editor modules_target ensure_modules_in_array_line "\<lambda>_. True"
  modules_default line_modules vfio_modules
proof unfold_locales
  fix l l'
  assume t: "modules_target l" and u: "ensure_modules_in_array_line l = Inr l'"
  show "clean_line l \<Longrightarrow> modules_target l' \<and> True \<and> clean_line l' \<and> l' \<noteq> [] \<and>
      ensure_modules_in_array_line l' = Inr l'"
    using modules_update_law(1)[OF t _ u] by simp
next
  show "modules_target modules_default \<and> clean_line modules_default \<and> modules_default \<noteq> [] \<and>
      ensure_modules_in_array_line modules_default = Inr modules_default"
    by (simp add: modules_default_law)
next
  fix l l'
  assume t: "modules_target l" and u: "ensure_modules_in_array_line l = Inr l'"
  then show "line_modules l' = foldl push_new (line_modules l) vfio_modules"
    by (rule modules_update_tokens)
qed (simp add: modules_default_law)

section \<open>The contract of the update-initramfs writer\<close>

lemma str_lines_Nil_iff [simp]: "str_lines s = [] \<longleftrightarrow> s = []"
proof (induction s)
  case (Cons c cs)
  have "str_lines (c # cs) \<noteq> []" if "cs = [] \<or> str_lines cs \<noteq> []"
    using that by (cases cs; cases "str_lines cs") (simp_all add: str_lines.simps(2)[of c])
  then show ?case using Cons by blast
qed simp

lemma str_lines_append_LF: "s = [] \<or> ends_with [LF] s \<Longrightarrow> str_lines (s @ r) = str_lines s @ str_lines r"
proof (induction s)
  case (Cons c cs)
  show ?case
  proof (cases cs)
    case Nil
    then have "c = LF" using Cons.prems by (simp add: ends_with_def)
    then show ?thesis using Nil by (simp add: str_lines.simps(2)[of LF])
  next
    case (Cons d ds)
    have "ends_with [LF] cs" using Cons Cons.prems by (cases "rev ds") (simp_all add: ends_with_def)
    then have IH: "str_lines (cs @ r) = str_lines cs @ str_lines r" using Cons.IH by simp
    obtain l ls where l: "str_lines cs = l # ls" using Cons by (cases "str_lines cs") auto
    then have "str_lines (cs @ r) = l # ls @ str_lines r" using IH by simp
    then show ?thesis using l IH
      using str_lines.simps(2)[of c "d # ds"] str_lines.simps(2)[of c "d # ds @ r"]
      by (auto simp: Cons simp del: str_lines_LF)
  qed
qed simp

lemma str_lines_last:
  "LF \<notin> set b \<Longrightarrow> b \<noteq> [] \<Longrightarrow> str_lines b = [b] \<and>
     str_lines (b @ [LF]) = [if last b = CR then butlast b else b]"
proof (induction b)
  case (Cons c cs)
  show ?case
  proof (cases cs)
    case Nil
    then show ?thesis using Cons.prems by (auto simp: str_lines.simps(2))
  next
    case (Cons d ds)
    then have "str_lines cs = [cs]" "str_lines (cs @ [LF]) = [if last cs = CR then butlast cs else cs]"
      using Cons.IH Cons.prems by simp_all
    moreover have "c \<noteq> LF" "d \<noteq> LF" using Cons.prems Cons by auto
    ultimately show ?thesis using Cons by (simp add: str_lines.simps(2)[of c])
  qed
qed simp

lemma split_last_line:
  "\<exists>a b. s = a @ b \<and> (a = [] \<or> ends_with [LF] a) \<and> LF \<notin> set b"
proof (induction s rule: rev_induct)
  case (snoc c s)
  then obtain a b where ab: "s = a @ b" "a = [] \<or> ends_with [LF] a" "LF \<notin> set b" by blast
  show ?case
  proof (cases "c = LF")
    case True
    then show ?thesis by (intro exI[of _ "s @ [c]"] exI[of _ "[]"]) simp
  next
    case False
    then show ?thesis using ab by (intro exI[of _ a] exI[of _ "b @ [c]"]) simp
  qed
qed simp

lemma trim_append_ws: "is_ws c \<Longrightarrow> trim (s @ [c]) = trim s"
proof (cases "\<forall>x \<in> set s. is_ws x")
  case True
  moreover assume "is_ws c"
  ultimately have "trim_start (s @ [c]) = []" "trim_start s = []" by (simp_all add: trim_start_def)
  then show ?thesis by (simp add: trim_def)
next
  case False
  moreover assume "is_ws c"
  ultimately show ?thesis
    using trim_start_append[of s "[c]"] by (auto simp: trim_def trim_end_def)
qed

lemma existing_modules_append:
  "s = [] \<or> ends_with [LF] s \<Longrightarrow> existing_modules (s @ r) = existing_modules s @ existing_modules r"
  by (simp add: existing_modules_def str_lines_append_LF map_filter_def)

lemma existing_modules_LF: "existing_modules (s @ [LF]) = existing_modules s"
  if ne: "s \<noteq> []" "\<not> ends_with [LF] s"
proof -
  obtain a b where ab: "s = a @ b" "a = [] \<or> ends_with [LF] a" "LF \<notin> set b"
    using split_last_line by blast
  then have b: "b \<noteq> []" using ne by auto
  have "initramfs_module (butlast b) = initramfs_module b" if cr: "last b = CR"
  proof -
    have "b = butlast b @ [CR]" using b cr append_butlast_last_id by metis
    then have "trim b = trim (butlast b)" using trim_append_ws[of CR "butlast b"] by simp
    then show ?thesis by (simp add: initramfs_module_def)
  qed
  then have "existing_modules (b @ [LF]) = existing_modules b"
    using str_lines_last[OF ab(3) b] by (simp add: existing_modules_def map_filter_def)
  then show ?thesis
    using existing_modules_append[OF ab(2)] by (simp add: ab(1))
qed

lemma existing_modules_block:
  "\<forall>m \<in> set ms. m \<in> set vfio_modules \<Longrightarrow> existing_modules (concat (map (\<lambda>m. m @ [LF]) ms)) = ms"
proof (induction ms)
  case Nil
  show ?case by (simp add: existing_modules_def map_filter_def)
next
  case (Cons m ms)
  have one: "\<forall>m \<in> set vfio_modules. existing_modules (m @ [LF]) = [m]" by code_simp
  have "ends_with [LF] (m @ [LF])" by simp
  then have "existing_modules ((m @ [LF]) @ concat (map (\<lambda>m. m @ [LF]) ms)) =
      existing_modules (m @ [LF]) @ existing_modules (concat (map (\<lambda>m. m @ [LF]) ms))"
    by (intro existing_modules_append) simp
  then show ?case using Cons one by simp
qed

lemma initramfs_modules_start:
  "\<exists>ui. rewrite_initramfs_modules [] = Inr ui \<and> existing_modules ui = vfio_modules"
proof -
  have "rewrite_initramfs_modules [] =
      Inr (section_header @ [LF] @ concat (map (\<lambda>m. m @ [LF]) vfio_modules))"
    "existing_modules (section_header @ [LF] @ concat (map (\<lambda>m. m @ [LF]) vfio_modules)) = vfio_modules"
    by code_simp+
  then show ?thesis by blast
qed

section \<open>Properties\<close>

text \<open>The modules that an \<open>mkinitcpio.conf\<close> names: the tokens of its \<open>MODULES=\<close> lines.\<close>

definition mkinitcpio_modules :: "string \<Rightarrow> string list" where
  "mkinitcpio_modules conf = concat (map line_modules (filter modules_target (str_lines conf)))"

text \<open>The mkinitcpio editor appends the VFIO modules that \<open>MODULES=\<close> lacks, after the ones it
  has, keeps every other line of the file in its place, and changes nothing when run again.\<close>

theorem mkinitcpio_rewrite_refines:
  assumes run: "rewrite_mkinitcpio_conf conf = Inr output"
    and fok: "CR \<notin> set conf" "\<not> ends_with [LF, LF] conf"
  shows "mkinitcpio_modules output =
       (if filter modules_target (str_lines conf) = [] then vfio_modules
        else foldl push_new (mkinitcpio_modules conf) vfio_modules) \<and>
     filter (\<lambda>l. \<not> modules_target l) (str_lines output) =
       filter (\<lambda>l. \<not> modules_target l) (str_lines conf) \<and>
     rewrite_mkinitcpio_conf output = Inr output"
proof -
  have rf: "rewrite_file modules_target ensure_modules_in_array_line
      ''duplicate MODULES= assignment'' modules_default conf = Inr output"
    using run by (simp add: rewrite_mkinitcpio_conf_def)
  have ok: "\<forall>l \<in> set (str_lines conf). modules_target l \<longrightarrow> True" True by simp_all
  note ok = fok ok
  show ?thesis
    using mkinit.rewrite_tokens[OF rf ok] mkinit.rewrite_keeps_lines[OF rf ok]
      mkinit.rewrite_idempotent[OF rf ok]
    unfolding mkinitcpio_modules_def rewrite_mkinitcpio_conf_def by blast
qed

definition sample_mkinitcpio :: string where
  "sample_mkinitcpio = ''MODULES=(nvidia vfio)'' @ [LF] @ ''HOOKS=(base udev)'' @ [LF]"

theorem mkinitcpio_rewrite_refines_witness:
  "\<exists>output. rewrite_mkinitcpio_conf sample_mkinitcpio = Inr output \<and>
     mkinitcpio_modules output = [''nvidia'', ''vfio'', ''vfio_pci'', ''vfio_iommu_type1'']"
proof -
  define rewritten where
    "rewritten = ''MODULES=(nvidia vfio vfio_pci vfio_iommu_type1)'' @ [LF] @ ''HOOKS=(base udev)'' @ [LF]"
  have run: "rewrite_mkinitcpio_conf sample_mkinitcpio = Inr rewritten"
    unfolding rewritten_def by code_simp
  have fok: "CR \<notin> set sample_mkinitcpio" "\<not> ends_with [LF, LF] sample_mkinitcpio" by code_simp+
  have "filter modules_target (str_lines sample_mkinitcpio) \<noteq> []" by code_simp
  moreover have "foldl push_new (mkinitcpio_modules sample_mkinitcpio) vfio_modules =
      [''nvidia'', ''vfio'', ''vfio_pci'', ''vfio_iommu_type1'']" by code_simp
  ultimately show ?thesis using run mkinitcpio_rewrite_refines[OF run fok] by auto
qed

text \<open>The update-initramfs writer never fails; it only appends to the file, the modules the
  file lists afterwards are the ones it listed followed by the missing VFIO modules, so that all of
  them are listed, and running it again changes nothing. This holds for every file, with any line
  endings.\<close>

theorem initramfs_modules_appended:
  "\<exists>added. rewrite_initramfs_modules conf = Inr (conf @ added) \<and>
     existing_modules (conf @ added) =
       existing_modules conf @ filter (\<lambda>m. m \<notin> set (existing_modules conf)) vfio_modules \<and>
     set vfio_modules \<subseteq> set (existing_modules (conf @ added)) \<and>
     rewrite_initramfs_modules (conf @ added) = Inr (conf @ added)"
proof -
  define ended where "ended = (if conf \<noteq> [] \<and> \<not> ends_with [LF] conf then conf @ [LF] else conf)"
  define missing where "missing = filter (\<lambda>m. m \<notin> set (existing_modules conf)) vfio_modules"
  have ended: "ended = [] \<or> ends_with [LF] ended" by (simp add: ended_def)
  have ex: "existing_modules ended = existing_modules conf"
    using existing_modules_LF[of conf] by (simp add: ended_def)
  have prefix: "\<exists>a. ended = conf @ a" by (simp add: ended_def)
  define header where
    "header = (if \<not> contains_str section_header ended then section_header @ [LF] else [])"
  define written where
    "written = (if missing = [] then ended else ended @ header @ concat (map (\<lambda>m. m @ [LF]) missing))"
  have run: "rewrite_initramfs_modules conf = Inr written"
    unfolding rewrite_initramfs_modules_def Let_def missing_def[symmetric] ended_def[symmetric]
    by (simp add: written_def header_def)
  have header: "header = [] \<or> ends_with [LF] header" "existing_modules header = []"
  proof -
    have "existing_modules (section_header @ [LF]) = []" "existing_modules [] = []" by code_simp+
    then show "existing_modules header = []" by (simp add: header_def)
    show "header = [] \<or> ends_with [LF] header" by (simp add: header_def)
  qed
  have list: "existing_modules written = existing_modules conf @ missing"
  proof (cases "missing = []")
    case False
    have "existing_modules (concat (map (\<lambda>m. m @ [LF]) missing)) = missing"
      by (rule existing_modules_block) (simp add: missing_def)
    then show ?thesis
      using False by (simp add: written_def existing_modules_append[OF ended] ex header(2)
          existing_modules_append[OF header(1)])
  qed (simp add: written_def ex)
  have all: "set vfio_modules \<subseteq> set (existing_modules written)"
    by (auto simp: list missing_def)
  have "missing \<noteq> [] \<Longrightarrow> ends_with [LF] (concat (map (\<lambda>m. m @ [LF]) missing))"
    by (cases missing rule: rev_cases) (simp_all add: append_assoc[symmetric] del: append_assoc)
  then have "written = [] \<or> ends_with [LF] written"
    using ended by (auto simp: written_def ends_with_iff)
  moreover have "filter (\<lambda>m. m \<notin> set (existing_modules written)) vfio_modules = []"
    using all by (auto simp: filter_empty_conv)
  ultimately have again: "rewrite_initramfs_modules written = Inr written"
    by (auto simp: rewrite_initramfs_modules_def Let_def)
  obtain a where "ended = conf @ a" using prefix by blast
  then have "written = conf @ (if missing = [] then a
      else a @ header @ concat (map (\<lambda>m. m @ [LF]) missing))"
    by (simp add: written_def)
  then obtain added where "written = conf @ added" by blast
  then show ?thesis using run list all again by (auto simp: missing_def)
qed

text \<open>The three writers add the same modules, and all of the VFIO modules: the token list
  that mkinitcpio and update-initramfs write on a file without modules is the one that the dracut
  file has between its quotes.\<close>

theorem initramfs_writers_agree:
  "\<exists>mk ui dr before after.
     rewrite_mkinitcpio_conf [] = Inr mk \<and> mkinitcpio_modules mk = vfio_modules \<and>
     rewrite_initramfs_modules [] = Inr ui \<and> existing_modules ui = vfio_modules \<and>
     generate_dracut_conf = Inr dr \<and>
     dr = before @ ''add_drivers+='' @ [DQ] @ after @ [DQ, LF] \<and> split_ws after = vfio_modules"
proof -
  have "mkinitcpio_modules modules_default = vfio_modules"
    "rewrite_mkinitcpio_conf [] = Inr modules_default" by code_simp+
  moreover obtain ui where "rewrite_initramfs_modules [] = Inr ui" "existing_modules ui = vfio_modules"
    using initramfs_modules_start by blast
  moreover have "split_ws ([SP] @ str_join [SP] vfio_modules @ [SP]) = vfio_modules" by code_simp
  moreover have "generate_dracut_conf = Inr ((file_banner @ [LF]) @ ''add_drivers+='' @ [DQ] @
      ([SP] @ str_join [SP] vfio_modules @ [SP]) @ [DQ, LF])"
    by (simp add: generate_dracut_conf_def)
  ultimately show ?thesis by blast
qed

end
