(* ===== verification/Vfio_Modprobe.thy ===== *)
theory Vfio_Modprobe
  imports Initramfs Rust_Paths
begin

text \<open>
  \<open>config/writers/vfio_modprobe.rs\<close>: the generated \<open>/etc/modprobe.d/virtu-vfio.conf\<close>, and a reader
  of modprobe.d files to state what the generated text says to the kernel.
\<close>

definition softdeps :: "string list" where
  "softdeps = [''nvidia'', ''nvidia_drm'', ''nouveau'', ''amdgpu'', ''radeon'', ''i915'']"

definition is_vendor_device_id :: "string \<Rightarrow> bool" where
  "is_vendor_device_id s \<longleftrightarrow>
     length s = 9 \<and> s ! 4 = CHR '':'' \<and> (\<forall>i < 9. i = 4 \<or> ascii_hexdigit (s ! i))"

fun first_bad_id :: "nat \<Rightarrow> string list \<Rightarrow> (nat \<times> string) option" where
  "first_bad_id i [] = None"
| "first_bad_id i (x # xs) = (if is_vendor_device_id x then first_bad_id (i + 1) xs else Some (i, x))"

definition generate_vfio_modprobe_conf :: "string list \<Rightarrow> writer_error + string" where
  "generate_vfio_modprobe_conf pci_ids =
     (if pci_ids = [] then Inl EmptyParams
      else (case first_bad_id 0 pci_ids of
        Some (i, x) \<Rightarrow> Inl (MalformedInput (i + 1)
          (''`'' @ x @ ''` is not a `vendor:device` PCI id''))
      | None \<Rightarrow> Inr (file_banner @ [LF] @
          ''options vfio-pci ids='' @ str_join '','' pci_ids @ [LF] @
          ''options vfio-pci disable_vga=1'' @ [LF, LF] @
          concat (map (\<lambda>d. ''softdep '' @ d @ '' pre: vfio-pci'' @ [LF]) softdeps))))"

section \<open>What the file says\<close>

text \<open>A modprobe.d file: the parameters that \<open>options vfio-pci\<close> sets, split at the commas after
  \<open>ids=\<close>, and the modules with a soft dependency on \<open>vfio-pci\<close>.\<close>

definition line_ids :: "string \<Rightarrow> string list" where
  "line_ids line =
     (case split_ws line of
        [a, b, v] \<Rightarrow> if a = ''options'' \<and> b = ''vfio-pci'' \<and> starts_with ''ids='' v
          then split_char (CHR '','') (drop 4 v) else []
      | _ \<Rightarrow> [])"

definition claimed_ids :: "string \<Rightarrow> string list" where
  "claimed_ids conf = concat (map line_ids (str_lines conf))"

definition line_softdep :: "string \<Rightarrow> string list" where
  "line_softdep line =
     (case split_ws line of
        [a, d, p, m] \<Rightarrow> if a = ''softdep'' \<and> p = ''pre:'' \<and> m = ''vfio-pci'' then [d] else []
      | _ \<Rightarrow> [])"

definition loaded_after_vfio :: "string \<Rightarrow> string list" where
  "loaded_after_vfio conf = concat (map line_softdep (str_lines conf))"

lemma first_bad_id_None: "first_bad_id i xs = None \<longleftrightarrow> (\<forall>x \<in> set xs. is_vendor_device_id x)"
  by (induction xs arbitrary: i) auto

lemma first_bad_id_Some:
  "first_bad_id i xs = Some (n, x) \<Longrightarrow>
     i \<le> n \<and> n - i < length xs \<and> x = xs ! (n - i) \<and> \<not> is_vendor_device_id x \<and>
     (\<forall>y \<in> set (take (n - i) xs). is_vendor_device_id y)"
proof (induction xs arbitrary: i)
  case (Cons y ys)
  show ?case
  proof (cases "is_vendor_device_id y")
    case True
    then have "i + 1 \<le> n \<and> n - (i + 1) < length ys \<and> x = ys ! (n - (i + 1)) \<and>
        \<not> is_vendor_device_id x \<and> (\<forall>y \<in> set (take (n - (i + 1)) ys). is_vendor_device_id y)"
      using Cons by simp
    moreover from this obtain m where "n - i = Suc m" "n - (i + 1) = m"
      by (metis Suc_diff_le Suc_eq_plus1 diff_Suc_Suc)
    ultimately show ?thesis using True by auto
  qed (use Cons.prems in simp)
qed simp

lemma id_chars:
  assumes "is_vendor_device_id x" "c \<in> set x"
  shows "ascii_hexdigit c \<or> c = CHR '':''"
  using assms by (auto simp: is_vendor_device_id_def in_set_conv_nth)

section \<open>Properties\<close>

text \<open>The lines of the generated file.\<close>

definition modprobe_lines :: "string list \<Rightarrow> string list" where
  "modprobe_lines pci_ids =
     [''# Managed by Virtu (https://github.com/H-Sami/Virtu).'',
      ''# Edit through `virtu` so the snapshot manifest stays consistent.'', [],
      ''options vfio-pci ids='' @ str_join '','' pci_ids, ''options vfio-pci disable_vga=1'', []] @
     map (\<lambda>d. ''softdep '' @ d @ '' pre: vfio-pci'') softdeps"

lemma joined_id_chars:
  assumes ids: "\<forall>x \<in> set ids. is_vendor_device_id x" and c: "c \<in> set (str_join '','' ids)"
  shows "\<not> is_ws c \<and> c \<noteq> LF \<and> c \<noteq> CR"
proof -
  have sep: "\<not> is_ws (CHR '','')" "\<not> is_ws (CHR '':'')" by code_simp+
  have "ascii_hexdigit c \<or> c = CHR '':'' \<or> c = CHR '',''"
    using set_str_joinD[OF c] id_chars ids by fastforce
  then have "\<not> is_ws c" using sep hexdigit_not_ws by blast
  then show ?thesis by auto
qed

lemma generated_lines:
  assumes ids: "\<forall>x \<in> set ids. is_vendor_device_id x" and run: "generate_vfio_modprobe_conf ids = Inr conf"
  shows "str_lines conf = modprobe_lines ids"
proof -
  have none: "first_bad_id 0 ids = None" using ids by (simp add: first_bad_id_None)
  have conf: "conf = str_join [LF] (modprobe_lines ids) @ [LF]"
    using run none
    by (auto simp: generate_vfio_modprobe_conf_def modprobe_lines_def file_banner_def softdeps_def
        split: if_splits)
  have "clean_line (str_join '','' ids)"
    using joined_id_chars[OF ids] by (auto simp: clean_line_def)
  moreover have "\<forall>l \<in> set (modprobe_lines []). clean_line l" "clean_line ''options vfio-pci ids=''"
    by code_simp+
  ultimately have "\<forall>l \<in> set (modprobe_lines ids). clean_line l"
    by (auto simp: modprobe_lines_def)
  then show ?thesis unfolding conf by (rule str_lines_join_LF) (simp add: modprobe_lines_def)
qed

text \<open>C34: the generated modprobe file tells the kernel what was asked: \<open>vfio-pci\<close> claims exactly
  the given ids, in order, and every known GPU driver loads only after it.\<close>

theorem vfio_modprobe_claims:
  assumes run: "generate_vfio_modprobe_conf ids = Inr conf"
  shows "claimed_ids conf = ids \<and> loaded_after_vfio conf = softdeps \<and>
     (\<forall>x \<in> set ids. is_vendor_device_id x)"
proof -
  have ne: "ids \<noteq> []" and ids: "\<forall>x \<in> set ids. is_vendor_device_id x"
    using run by (auto simp: generate_vfio_modprobe_conf_def first_bad_id_None[of 0, symmetric]
        split: if_splits option.splits)
  note lines = generated_lines[OF ids run]
  let ?v = "''ids='' @ str_join '','' ids"
  have "is_token ?v"
    using joined_id_chars[OF ids] by (auto simp: is_token_def) code_simp+
  moreover have "is_token ''options''" "is_token ''vfio-pci''" by code_simp+
  ultimately have "split_ws (str_join [SP] [''options'', ''vfio-pci'', ?v]) = [''options'', ''vfio-pci'', ?v]"
    by (intro split_ws_join) simp
  then have ws: "split_ws (''options vfio-pci ids='' @ str_join '','' ids) = [''options'', ''vfio-pci'', ?v]"
    by simp
  have nc: "\<forall>x \<in> set ids. CHR '','' \<notin> set x"
  proof -
    have "\<not> ascii_hexdigit (CHR '','')" by code_simp
    then show ?thesis using id_chars ids by fastforce
  qed
  have "line_ids (''options vfio-pci ids='' @ str_join '','' ids) = ids"
    unfolding line_ids_def ws by (simp add: split_char_join[OF ne nc])
  moreover have "line_softdep (''options vfio-pci ids='' @ str_join '','' ids) = []"
    unfolding line_softdep_def ws by simp
  moreover have "concat (map line_ids (drop 4 (modprobe_lines []))) = []"
    "concat (map line_ids (take 3 (modprobe_lines []))) = []"
    "concat (map line_softdep (drop 4 (modprobe_lines []))) = softdeps"
    "concat (map line_softdep (take 3 (modprobe_lines []))) = []"
    by code_simp+
  ultimately show ?thesis
    using ids by (simp add: claimed_ids_def loaded_after_vfio_def lines modprobe_lines_def)
qed

theorem vfio_modprobe_claims_witness:
  "\<exists>conf. generate_vfio_modprobe_conf [''10de:2684'', ''10DE:22ba''] = Inr conf \<and>
     claimed_ids conf = [''10de:2684'', ''10DE:22ba'']"
proof -
  define conf where "conf = str_join [LF] (modprobe_lines [''10de:2684'', ''10DE:22ba'']) @ [LF]"
  have "generate_vfio_modprobe_conf [''10de:2684'', ''10DE:22ba''] = Inr conf"
    unfolding conf_def by code_simp
  from this vfio_modprobe_claims[OF this] show ?thesis by blast
qed

text \<open>The modprobe writer refuses an empty list, refuses the first id that is not four
  hexadecimal digits, a colon and four hexadecimal digits, under its one-based position, and
  refuses nothing else.\<close>

theorem vfio_modprobe_errors:
  "case generate_vfio_modprobe_conf ids of
     Inr conf \<Rightarrow> ids \<noteq> [] \<and> list_all is_vendor_device_id ids
   | Inl EmptyParams \<Rightarrow> ids = []
   | Inl (MalformedInput n d) \<Rightarrow> 0 < n \<and> n \<le> length ids \<and> \<not> is_vendor_device_id (ids ! (n - 1)) \<and>
       list_all is_vendor_device_id (take (n - 1) ids) \<and>
       d = ''`'' @ ids ! (n - 1) @ ''` is not a `vendor:device` PCI id''"
proof (cases "ids = []")
  case False
  show ?thesis
  proof (cases "first_bad_id 0 ids")
    case None
    then show ?thesis
      using False first_bad_id_None[of 0 ids] by (simp add: generate_vfio_modprobe_conf_def list_all_iff)
  next
    case (Some bad)
    then obtain i x where bad: "first_bad_id 0 ids = Some (i, x)" by (cases bad) auto
    then have "generate_vfio_modprobe_conf ids =
        Inl (MalformedInput (i + 1) (''`'' @ x @ ''` is not a `vendor:device` PCI id''))"
      using False by (simp add: generate_vfio_modprobe_conf_def)
    then show ?thesis using first_bad_id_Some[OF bad] by (auto simp: list_all_iff)
  qed
qed (simp add: generate_vfio_modprobe_conf_def)

end
