(* ===== verification/Hooks.thy ===== *)
theory Hooks
  imports Rust_Lines Passthrough_Config
begin

text \<open>
  \<open>config/writers/hooks.rs\<close>: the generators of the libvirt hook scripts for single-GPU passthrough.
  A \<open>writeln!\<close> with embedded newlines is written as one \<open>writeln\<close> per line. \<open>fmt::Error\<close> cannot
  occur when writing to a \<open>String\<close>, so the error \<open>Format\<close> has no branch.
\<close>

datatype hook_script_error = UnknownDisplayManager | NoDisplayManager | InvalidPciId string

definition hook_error_display :: "hook_script_error \<Rightarrow> string" where
  "hook_error_display e = (case e of
     UnknownDisplayManager \<Rightarrow>
       ''cannot generate single-GPU hooks: display manager is Unknown. Detection did not find a service Virtu can stop and restart, which means the begin script would never release the GPU.''
   | NoDisplayManager \<Rightarrow>
       ''cannot generate single-GPU hooks: display manager is `None` (TTY only). Single-GPU passthrough hooks require a managed display manager service.''
   | InvalidPciId i \<Rightarrow> ''invalid PCI id `'' @ i @ ''`: expected vendor:device hex pair'')"

record hook_context =
  hook_vm_name :: string
  hook_display_manager :: display_manager
  hook_gpu_vendor :: gpu_vendor
  hook_vfio_pci_ids :: "string list"

section \<open>Helpers\<close>

definition display_manager_service :: "display_manager \<Rightarrow> hook_script_error + string" where
  "display_manager_service dm = (case dm of
     Gdm \<Rightarrow> Inr ''gdm'' | Sddm \<Rightarrow> Inr ''sddm'' | LightDm \<Rightarrow> Inr ''lightdm'' | Greetd \<Rightarrow> Inr ''greetd''
   | Ly \<Rightarrow> Inr ''ly'' | Lxdm \<Rightarrow> Inr ''lxdm''
   | NoDm \<Rightarrow> Inl NoDisplayManager | UnknownDm \<Rightarrow> Inl UnknownDisplayManager)"

definition hex_quad :: "string \<Rightarrow> bool" where
  "hex_quad s \<longleftrightarrow> length s = 4 \<and> (\<forall>c \<in> set s. ascii_hexdigit c)"

definition pci_id_split :: "string \<Rightarrow> hook_script_error + (string \<times> string)" where
  "pci_id_split i =
     (case split_once (CHR '':'') i of
        None \<Rightarrow> Inl (InvalidPciId i)
      | Some (vendor, device) \<Rightarrow>
          if \<not> hex_quad vendor \<or> \<not> hex_quad device then Inl (InvalidPciId i)
          else Inr (vendor, device))"

fun validate_pci_ids :: "string list \<Rightarrow> hook_script_error + unit" where
  "validate_pci_ids [] = Inr ()"
| "validate_pci_ids (i # is) = res_then (pci_id_split i) (\<lambda>_. validate_pci_ids is)"

definition write_header :: "string \<Rightarrow> string \<Rightarrow> string \<Rightarrow> string" where
  "write_header vm stage summary =
     writeln ''#!/usr/bin/env bash''
     @ writeln (''# Virtu single-GPU hook for VM `'' @ vm @ ''`'')
     @ writeln (''# Stage: '' @ stage)
     @ writeln (''# Purpose: '' @ summary)
     @ writeln ''# Generated by Virtu. Do not edit by hand: rerun `virtu apply` to refresh.''
     @ writeln ''set -eu''
     @ writeln ''''"

definition write_recovery_trap :: "string \<Rightarrow> string \<Rightarrow> string" where
  "write_recovery_trap dm_service headline =
     writeln ''_virtu_recovery() {''
     @ writeln ''  echo 'Virtu hook failed at:' >&2''
     @ writeln ''  echo \"  ${BASH_SOURCE[0]}:${LINENO}\" >&2''
     @ writeln (''  echo '' @ [SQ, SQ] @ '' >&2'')
     @ writeln (''  echo '' @ [SQ] @ headline @ [SQ] @ '' >&2'')
     @ writeln (''  echo '' @ [SQ] @ ''  systemctl start '' @ dm_service @ [SQ] @ '' >&2'')
     @ writeln (''  echo '' @ [SQ, SQ] @ '' >&2'')
     @ writeln ''  echo 'Then re-bind the host GPU driver if needed:' >&2''
     @ writeln ''  echo '  modprobe -r vfio_pci' >&2''
     @ writeln ''}''
     @ writeln ''trap _virtu_recovery ERR''
     @ writeln ''''"

definition write_unbind_drivers :: "gpu_vendor \<Rightarrow> string" where
  "write_unbind_drivers v = (case v of
     Nvidia \<Rightarrow>
       writeln ''systemctl stop nvidia-persistenced.service 2>/dev/null || true''
       @ writeln ''modprobe -r nvidia_drm || true''
       @ writeln ''modprobe -r nvidia_modeset || true''
       @ writeln ''modprobe -r nvidia_uvm || true''
       @ writeln ''modprobe -r nvidia || true''
   | Amd \<Rightarrow> writeln ''modprobe -r amdgpu || true'' @ writeln ''modprobe -r radeon || true''
   | Intel \<Rightarrow> writeln ''modprobe -r i915 || true''
   | UnknownVendor _ \<Rightarrow>
       writeln ''echo 'Virtu: GPU vendor is unknown; skipping driver unbind. The host driver may still hold the GPU when the VM starts.' >&2'')"

definition write_rebind_drivers :: "gpu_vendor \<Rightarrow> string" where
  "write_rebind_drivers v = (case v of
     Nvidia \<Rightarrow>
       writeln ''modprobe nvidia''
       @ writeln ''modprobe nvidia_modeset''
       @ writeln ''modprobe nvidia_uvm''
       @ writeln ''modprobe nvidia_drm''
       @ writeln ''systemctl start nvidia-persistenced.service 2>/dev/null || true''
   | Amd \<Rightarrow> writeln ''modprobe amdgpu''
   | Intel \<Rightarrow> writeln ''modprobe i915''
   | UnknownVendor _ \<Rightarrow>
       writeln ''echo 'Virtu: GPU vendor unknown; the host driver was not unbound, so nothing to rebind.' >&2'')"

text \<open>One line per PCI id: \<open>echo 'V D' > target suffix\<close>.\<close>

fun write_ids :: "string \<Rightarrow> string list \<Rightarrow> hook_script_error + string" where
  "write_ids tail_text [] = Inr []"
| "write_ids tail_text (i # is) =
     res_then (pci_id_split i) (\<lambda>(vendor, device).
     res_then (write_ids tail_text is) (\<lambda>rest.
       Inr (writeln (''echo '' @ [SQ] @ vendor @ [SP] @ device @ [SQ] @ tail_text) @ rest)))"

section \<open>The scripts\<close>

definition dispatcher_script :: "string \<Rightarrow> hook_script_error + string" where
  "dispatcher_script vm =
     Inr (write_header vm ''dispatcher'' ''route libvirt hook events to per-stage helpers''
       @ writeln (''# Hook dir layout: /etc/libvirt/hooks/qemu.d/'' @ vm @ ''.d/'')
       @ writeln (''HOOK_DIR='' @ [DQ] @ ''/etc/libvirt/hooks/qemu.d/'' @ vm @ ''.d'' @ [DQ])
       @ writeln ''''
       @ writeln ''vm=\"$1\"''
       @ writeln ''op=\"${2:-}\"''
       @ writeln ''sub=\"${3:-}\"''
       @ writeln ''''
       @ writeln (''if [ \"$vm\" != '' @ [SQ] @ vm @ [SQ] @ '' ]; then'')
       @ writeln ''  # libvirt calls every hook with the domain name as $1; ignore other domains.''
       @ writeln ''  exit 0''
       @ writeln ''fi''
       @ writeln ''''
       @ writeln ''case \"$op/$sub\" in''
       @ writeln ''  prepare/begin)''
       @ writeln ''    exec \"$HOOK_DIR/release\" \"$@\"''
       @ writeln ''    ;;''
       @ writeln ''  release/end)''
       @ writeln ''    exec \"$HOOK_DIR/reattach\" \"$@\"''
       @ writeln ''    ;;''
       @ writeln ''  *)''
       @ writeln ''    # No-op for any other libvirt event. Exit 0 so libvirt does not abort the VM.''
       @ writeln ''    exit 0''
       @ writeln ''    ;;''
       @ writeln ''esac'')"

definition release_script :: "hook_context \<Rightarrow> hook_script_error + string" where
  "release_script ctx =
     res_then (display_manager_service (hook_display_manager ctx)) (\<lambda>dm_service.
     res_then (validate_pci_ids (hook_vfio_pci_ids ctx)) (\<lambda>_.
     res_then (write_ids '' > /sys/bus/pci/drivers/vfio-pci/new_id'' (hook_vfio_pci_ids ctx)) (\<lambda>ids.
       Inr (write_header (hook_vm_name ctx) ''release helper (prepare/begin)'' ''release the GPU from the host''
         @ write_recovery_trap dm_service
             ''If you are reading this, the GPU release failed. Recover by switching to a TTY (Ctrl+Alt+F2), logging in, and running:''
         @ writeln (''echo '' @ [SQ] @ ''Virtu: stopping display manager '' @ dm_service @ [SQ])
         @ writeln (''systemctl stop '' @ dm_service)
         @ writeln ''''
         @ writeln (''echo '' @ [SQ] @ ''Virtu: unbinding host GPU drivers'' @ [SQ])
         @ write_unbind_drivers (hook_gpu_vendor ctx)
         @ writeln ''''
         @ writeln (''echo '' @ [SQ] @ ''Virtu: loading vfio-pci'' @ [SQ])
         @ writeln ''modprobe vfio-pci''
         @ writeln ''''
         @ writeln (''echo '' @ [SQ] @ ''Virtu: binding GPU + companion audio to vfio-pci'' @ [SQ])
         @ ids
         @ writeln ''''
         @ writeln (''echo '' @ [SQ] @ ''Virtu: GPU ready for VM `'' @ hook_vm_name ctx @ ''`'' @ [SQ])))))"

definition reattach_script :: "hook_context \<Rightarrow> hook_script_error + string" where
  "reattach_script ctx =
     res_then (display_manager_service (hook_display_manager ctx)) (\<lambda>dm_service.
     res_then (validate_pci_ids (hook_vfio_pci_ids ctx)) (\<lambda>_.
     res_then (write_ids '' > /sys/bus/pci/drivers/vfio-pci/remove_id || true'' (hook_vfio_pci_ids ctx)) (\<lambda>ids.
       Inr (write_header (hook_vm_name ctx) ''reattach helper (release/end)'' ''re-attach the GPU to the host''
         @ write_recovery_trap dm_service
             ''If you are reading this, the GPU re-attach failed. Recover by switching to a TTY (Ctrl+Alt+F2), logging in, and running:''
         @ writeln (''echo '' @ [SQ] @ ''Virtu: removing GPU + companion audio from vfio-pci binding table'' @ [SQ])
         @ ids
         @ writeln ''''
         @ writeln (''echo '' @ [SQ] @ ''Virtu: reloading host GPU driver'' @ [SQ])
         @ write_rebind_drivers (hook_gpu_vendor ctx)
         @ writeln ''''
         @ writeln (''echo '' @ [SQ] @ ''Virtu: starting display manager '' @ dm_service @ [SQ])
         @ writeln (''systemctl start '' @ dm_service)
         @ writeln ''''
         @ writeln (''echo '' @ [SQ] @ ''Virtu: host GPU available again'' @ [SQ])))))"

section \<open>What the scripts do\<close>

text \<open>
  The part of a host that the scripts act on, and the effect of a script line on it: the commands
  \<open>systemctl start/stop\<close>, \<open>modprobe\<close>, \<open>modprobe -r\<close> and writes to the id table of \<open>vfio-pci\<close>. Other
  lines (comments, messages, the error trap) have no effect on this state.
\<close>

record gpu_host =
  running :: "string set"
  modules :: "string set"
  vfio_table :: "(string \<times> string) set"

definition vfio_sysfs :: "string \<Rightarrow> string" where
  "vfio_sysfs name = ''/sys/bus/pci/drivers/vfio-pci/'' @ name"

definition sh_line :: "string \<Rightarrow> gpu_host \<Rightarrow> gpu_host" where
  "sh_line line h = (case split_ws line of
     [a, m] \<Rightarrow> if a = ''modprobe'' then h\<lparr>modules := insert m (modules h)\<rparr> else h
   | a # b # c # rest \<Rightarrow>
       if a = ''systemctl'' \<and> b = ''stop'' then h\<lparr>running := running h - {c}\<rparr>
       else if a = ''systemctl'' \<and> b = ''start'' then h\<lparr>running := insert c (running h)\<rparr>
       else if a = ''modprobe'' \<and> b = ''-r'' then h\<lparr>modules := modules h - {c}\<rparr>
       else if a = ''echo'' \<and> take 2 rest = [''>'', vfio_sysfs ''new_id'']
         then h\<lparr>vfio_table := insert (tl b, butlast c) (vfio_table h)\<rparr>
       else if a = ''echo'' \<and> take 2 rest = [''>'', vfio_sysfs ''remove_id'']
         then h\<lparr>vfio_table := vfio_table h - {(tl b, butlast c)}\<rparr>
       else h
   | _ \<Rightarrow> h)"

definition run_script :: "string \<Rightarrow> gpu_host \<Rightarrow> gpu_host" where
  "run_script script h = fold sh_line (str_lines script) h"

definition id_pairs :: "string list \<Rightarrow> (string \<times> string) set" where
  "id_pairs is = {(v, d). \<exists>i \<in> set is. pci_id_split i = Inr (v, d)}"

definition unbound_drivers :: "gpu_vendor \<Rightarrow> string set" where
  "unbound_drivers v = (case v of
     Nvidia \<Rightarrow> {''nvidia_drm'', ''nvidia_modeset'', ''nvidia_uvm'', ''nvidia''}
   | Amd \<Rightarrow> {''amdgpu'', ''radeon''} | Intel \<Rightarrow> {''i915''} | UnknownVendor _ \<Rightarrow> {})"

definition reloaded_drivers :: "gpu_vendor \<Rightarrow> string set" where
  "reloaded_drivers v = (case v of
     Nvidia \<Rightarrow> {''nvidia_drm'', ''nvidia_modeset'', ''nvidia_uvm'', ''nvidia''}
   | Amd \<Rightarrow> {''amdgpu''} | Intel \<Rightarrow> {''i915''} | UnknownVendor _ \<Rightarrow> {})"

definition vendor_services :: "gpu_vendor \<Rightarrow> string set" where
  "vendor_services v = (if v = Nvidia then {''nvidia-persistenced.service''} else {})"

lemma run_script_Nil: "run_script [] h = h"
  by (simp add: run_script_def)

lemma run_lines:
  "\<forall>l \<in> set ls. clean_line l \<Longrightarrow>
   run_script (concat (map writeln ls) @ r) h = run_script r (fold sh_line ls h)"
  by (induction ls arbitrary: h) (simp_all add: run_script_def writeln_def str_lines_line_LF)

text \<open>A line without effect.\<close>

definition inert :: "string \<Rightarrow> bool" where
  "inert l \<longleftrightarrow> (\<forall>h. sh_line l h = h)"

lemma run_inert:
  assumes "\<forall>l \<in> set ls. clean_line l" "\<forall>l \<in> set ls. inert l"
  shows "run_script (concat (map writeln ls) @ r) h = run_script r h"
proof -
  have "fold sh_line ls h = h" using assms(2) by (induction ls) (simp_all add: inert_def)
  then show ?thesis by (simp add: run_lines[OF assms(1)])
qed

text \<open>Inertness of a literal line can be computed on its words.\<close>

fun inert_words :: "string list \<Rightarrow> bool" where
  "inert_words (a # b # c # d # _) \<longleftrightarrow>
     a \<notin> {''systemctl'', ''modprobe'', ''echo''} \<or> a = ''echo'' \<and> d \<noteq> ''>''"
| "inert_words (a # _) \<longleftrightarrow> a \<notin> {''systemctl'', ''modprobe''}"
| "inert_words [] \<longleftrightarrow> True"

lemma inert_by_words: "inert_words (split_ws l) \<Longrightarrow> inert l"
  by (cases "split_ws l" rule: inert_words.cases) (auto simp: inert_def sh_line_def)

lemma split_ws_word: "is_token w \<Longrightarrow> split_ws (w @ SP # r) = w # split_ws r"
  by (simp add: split_ws_token_then split_ws_Cons_ws)

lemma inert_comment: "inert (''# '' @ r)"
proof (rule inert_by_words)
  have "is_token ''#''" by code_simp
  then have "split_ws (''# '' @ r) = ''#'' # split_ws r" using split_ws_word[of "''#''" r] by simp
  then show "inert_words (split_ws (''# '' @ r))"
    by (cases "split_ws r" rule: inert_words.cases) simp_all
qed

lemma inert_echo:
  assumes "is_token u" "is_token v" "is_token w" "w \<noteq> ''>''"
  shows "inert (''echo '' @ u @ SP # v @ SP # w @ SP # r)"
proof (rule inert_by_words)
  have "is_token ''echo''" by code_simp
  from split_ws_word[OF this] have e: "split_ws (''echo '' @ x) = ''echo'' # split_ws x" for x by simp
  show "inert_words (split_ws (''echo '' @ u @ SP # v @ SP # w @ SP # r))"
    unfolding e split_ws_word[OF assms(1)] split_ws_word[OF assms(2)] split_ws_word[OF assms(3)]
    using assms(4) by simp
qed

lemma run_header:
  assumes "clean_line vm" "clean_line stage" "clean_line summary"
  shows "run_script (write_header vm stage summary @ r) h = run_script r h"
proof -
  let ?ls = "[''#!/usr/bin/env bash'', ''# Virtu single-GPU hook for VM `'' @ vm @ ''`'', ''# Stage: '' @ stage,
    ''# Purpose: '' @ summary, ''# Generated by Virtu. Do not edit by hand: rerun `virtu apply` to refresh.'',
    ''set -eu'', []]"
  have "inert_words (split_ws ''#!/usr/bin/env bash'')" "inert_words (split_ws ''set -eu'')"
    "inert_words (split_ws [])" by code_simp+
  then have "\<forall>l \<in> set ?ls. inert l"
    using inert_comment[of "''Virtu single-GPU hook for VM `'' @ vm @ ''`''"]
      inert_comment[of "''Stage: '' @ stage"] inert_comment[of "''Purpose: '' @ summary"]
      inert_comment[of "''Generated by Virtu. Do not edit by hand: rerun `virtu apply` to refresh.''"]
    by (simp add: inert_by_words)
  moreover have "\<forall>l \<in> set ?ls. clean_line l" using assms by simp
  moreover have "write_header vm stage summary = concat (map writeln ?ls)"
    by (simp add: write_header_def)
  ultimately show ?thesis by (simp only: run_inert)
qed

definition release_headline :: string where
  "release_headline = ''If you are reading this, the GPU release failed. Recover by switching to a TTY (Ctrl+Alt+F2), logging in, and running:''"

definition reattach_headline :: string where
  "reattach_headline = ''If you are reading this, the GPU re-attach failed. Recover by switching to a TTY (Ctrl+Alt+F2), logging in, and running:''"

definition trap_lines :: "string \<Rightarrow> string \<Rightarrow> string list" where
  "trap_lines dm_service headline =
     [''_virtu_recovery() {'', ''  echo 'Virtu hook failed at:' >&2'',
      ''  echo \"  ${BASH_SOURCE[0]}:${LINENO}\" >&2'', ''  echo '' @ [SQ, SQ] @ '' >&2'',
      ''  echo '' @ [SQ] @ headline @ [SQ] @ '' >&2'',
      ''  echo '' @ [SQ] @ ''  systemctl start '' @ dm_service @ [SQ] @ '' >&2'',
      ''  echo '' @ [SQ, SQ] @ '' >&2'', ''  echo 'Then re-bind the host GPU driver if needed:' >&2'',
      ''  echo '  modprobe -r vfio_pci' >&2'', ''}'', ''trap _virtu_recovery ERR'', []]"

lemma trap_lines: "write_recovery_trap dm headline = concat (map writeln (trap_lines dm headline))"
  by (simp add: write_recovery_trap_def trap_lines_def)

definition dm_services :: "string list" where
  "dm_services = [''gdm'', ''sddm'', ''lightdm'', ''greetd'', ''ly'', ''lxdm'']"

lemma service_known: "display_manager_service dm = Inr s \<Longrightarrow> s \<in> set dm_services"
  by (cases dm) (simp_all add: display_manager_service_def dm_services_def)

lemma service_ok: "s \<in> set dm_services \<Longrightarrow> is_token s \<and> clean_line s \<and> s \<noteq> ''nvidia-persistenced.service''"
proof -
  have "list_all (\<lambda>s. is_token s \<and> clean_line s \<and> s \<noteq> ''nvidia-persistenced.service'') dm_services"
    by code_simp
  then show "s \<in> set dm_services \<Longrightarrow> is_token s \<and> clean_line s \<and> s \<noteq> ''nvidia-persistenced.service''"
    by (auto simp: list_all_iff)
qed

lemma run_trap:
  assumes "dm \<in> set dm_services" "headline = release_headline \<or> headline = reattach_headline"
  shows "run_script (write_recovery_trap dm headline @ r) h = run_script r h"
proof -
  have "list_all (\<lambda>s. list_all (\<lambda>l. clean_line l \<and> inert_words (split_ws l)) (trap_lines s release_headline))
      dm_services"
    "list_all (\<lambda>s. list_all (\<lambda>l. clean_line l \<and> inert_words (split_ws l)) (trap_lines s reattach_headline))
      dm_services"
    by code_simp+
  then have "\<forall>l \<in> set (trap_lines dm headline). clean_line l \<and> inert_words (split_ws l)"
    using assms by (auto simp: list_all_iff)
  then show ?thesis unfolding trap_lines by (intro run_inert) (auto intro: inert_by_words)
qed

lemma sh_systemctl:
  assumes "is_token s"
  shows "sh_line (''systemctl stop '' @ s) h = h\<lparr>running := running h - {s}\<rparr>"
    "sh_line (''systemctl start '' @ s) h = h\<lparr>running := insert s (running h)\<rparr>"
proof -
  have t: "is_token ''systemctl''" "is_token ''stop''" "is_token ''start''" by code_simp+
  have "split_ws (''systemctl stop '' @ s) = [''systemctl'', ''stop'', s]"
    "split_ws (''systemctl start '' @ s) = [''systemctl'', ''start'', s]"
    using split_ws_word[OF t(1), of "''stop'' @ SP # s"] split_ws_word[OF t(1), of "''start'' @ SP # s"]
      split_ws_word[OF t(2), of s] split_ws_word[OF t(3), of s] split_ws_token[OF assms] by simp_all
  then show "sh_line (''systemctl stop '' @ s) h = h\<lparr>running := running h - {s}\<rparr>"
    "sh_line (''systemctl start '' @ s) h = h\<lparr>running := insert s (running h)\<rparr>"
    by (simp_all add: sh_line_def)
qed

definition unbind_lines :: "gpu_vendor \<Rightarrow> string list" where
  "unbind_lines v = (case v of
     Nvidia \<Rightarrow> [''systemctl stop nvidia-persistenced.service 2>/dev/null || true'',
       ''modprobe -r nvidia_drm || true'', ''modprobe -r nvidia_modeset || true'',
       ''modprobe -r nvidia_uvm || true'', ''modprobe -r nvidia || true'']
   | Amd \<Rightarrow> [''modprobe -r amdgpu || true'', ''modprobe -r radeon || true'']
   | Intel \<Rightarrow> [''modprobe -r i915 || true'']
   | UnknownVendor _ \<Rightarrow>
       [''echo 'Virtu: GPU vendor is unknown; skipping driver unbind. The host driver may still hold the GPU when the VM starts.' >&2''])"

definition rebind_lines :: "gpu_vendor \<Rightarrow> string list" where
  "rebind_lines v = (case v of
     Nvidia \<Rightarrow> [''modprobe nvidia'', ''modprobe nvidia_modeset'', ''modprobe nvidia_uvm'',
       ''modprobe nvidia_drm'', ''systemctl start nvidia-persistenced.service 2>/dev/null || true'']
   | Amd \<Rightarrow> [''modprobe amdgpu''] | Intel \<Rightarrow> [''modprobe i915'']
   | UnknownVendor _ \<Rightarrow>
       [''echo 'Virtu: GPU vendor unknown; the host driver was not unbound, so nothing to rebind.' >&2''])"

lemma driver_lines:
  "write_unbind_drivers v = concat (map writeln (unbind_lines v))"
  "write_rebind_drivers v = concat (map writeln (rebind_lines v))"
  by (cases v; simp add: write_unbind_drivers_def write_rebind_drivers_def unbind_lines_def
      rebind_lines_def)+

lemma driver_words:
  "split_ws ''systemctl stop nvidia-persistenced.service 2>/dev/null || true'' =
     [''systemctl'', ''stop'', ''nvidia-persistenced.service'', ''2>/dev/null'', ''||'', ''true'']"
  "split_ws ''systemctl start nvidia-persistenced.service 2>/dev/null || true'' =
     [''systemctl'', ''start'', ''nvidia-persistenced.service'', ''2>/dev/null'', ''||'', ''true'']"
  "split_ws ''modprobe -r nvidia_drm || true'' = [''modprobe'', ''-r'', ''nvidia_drm'', ''||'', ''true'']"
  "split_ws ''modprobe -r nvidia_modeset || true'' = [''modprobe'', ''-r'', ''nvidia_modeset'', ''||'', ''true'']"
  "split_ws ''modprobe -r nvidia_uvm || true'' = [''modprobe'', ''-r'', ''nvidia_uvm'', ''||'', ''true'']"
  "split_ws ''modprobe -r nvidia || true'' = [''modprobe'', ''-r'', ''nvidia'', ''||'', ''true'']"
  "split_ws ''modprobe -r amdgpu || true'' = [''modprobe'', ''-r'', ''amdgpu'', ''||'', ''true'']"
  "split_ws ''modprobe -r radeon || true'' = [''modprobe'', ''-r'', ''radeon'', ''||'', ''true'']"
  "split_ws ''modprobe -r i915 || true'' = [''modprobe'', ''-r'', ''i915'', ''||'', ''true'']"
  "split_ws ''modprobe nvidia'' = [''modprobe'', ''nvidia'']"
  "split_ws ''modprobe nvidia_modeset'' = [''modprobe'', ''nvidia_modeset'']"
  "split_ws ''modprobe nvidia_uvm'' = [''modprobe'', ''nvidia_uvm'']"
  "split_ws ''modprobe nvidia_drm'' = [''modprobe'', ''nvidia_drm'']"
  "split_ws ''modprobe amdgpu'' = [''modprobe'', ''amdgpu'']"
  "split_ws ''modprobe i915'' = [''modprobe'', ''i915'']"
  "split_ws ''modprobe vfio-pci'' = [''modprobe'', ''vfio-pci'']"
  by code_simp+

lemma driver_clean: "\<forall>l \<in> set (unbind_lines v). clean_line l" "\<forall>l \<in> set (rebind_lines v). clean_line l"
  by (cases v; simp add: unbind_lines_def rebind_lines_def)+

lemma unknown_vendor_inert:
  "inert ''echo 'Virtu: GPU vendor is unknown; skipping driver unbind. The host driver may still hold the GPU when the VM starts.' >&2''"
  "inert ''echo 'Virtu: GPU vendor unknown; the host driver was not unbound, so nothing to rebind.' >&2''"
  by (rule inert_by_words, code_simp)+

lemma driver_steps:
  "sh_line ''systemctl stop nvidia-persistenced.service 2>/dev/null || true'' h =
     h\<lparr>running := running h - {''nvidia-persistenced.service''}\<rparr>"
  "sh_line ''systemctl start nvidia-persistenced.service 2>/dev/null || true'' h =
     h\<lparr>running := insert ''nvidia-persistenced.service'' (running h)\<rparr>"
  "sh_line ''modprobe -r nvidia_drm || true'' h = h\<lparr>modules := modules h - {''nvidia_drm''}\<rparr>"
  "sh_line ''modprobe -r nvidia_modeset || true'' h = h\<lparr>modules := modules h - {''nvidia_modeset''}\<rparr>"
  "sh_line ''modprobe -r nvidia_uvm || true'' h = h\<lparr>modules := modules h - {''nvidia_uvm''}\<rparr>"
  "sh_line ''modprobe -r nvidia || true'' h = h\<lparr>modules := modules h - {''nvidia''}\<rparr>"
  "sh_line ''modprobe -r amdgpu || true'' h = h\<lparr>modules := modules h - {''amdgpu''}\<rparr>"
  "sh_line ''modprobe -r radeon || true'' h = h\<lparr>modules := modules h - {''radeon''}\<rparr>"
  "sh_line ''modprobe -r i915 || true'' h = h\<lparr>modules := modules h - {''i915''}\<rparr>"
  "sh_line ''modprobe nvidia'' h = h\<lparr>modules := insert ''nvidia'' (modules h)\<rparr>"
  "sh_line ''modprobe nvidia_modeset'' h = h\<lparr>modules := insert ''nvidia_modeset'' (modules h)\<rparr>"
  "sh_line ''modprobe nvidia_uvm'' h = h\<lparr>modules := insert ''nvidia_uvm'' (modules h)\<rparr>"
  "sh_line ''modprobe nvidia_drm'' h = h\<lparr>modules := insert ''nvidia_drm'' (modules h)\<rparr>"
  "sh_line ''modprobe amdgpu'' h = h\<lparr>modules := insert ''amdgpu'' (modules h)\<rparr>"
  "sh_line ''modprobe i915'' h = h\<lparr>modules := insert ''i915'' (modules h)\<rparr>"
  "sh_line ''modprobe vfio-pci'' h = h\<lparr>modules := insert ''vfio-pci'' (modules h)\<rparr>"
  by (simp_all add: sh_line_def driver_words)

lemma run_unbind:
  "run_script (write_unbind_drivers v @ r) h =
     run_script r (h\<lparr>running := running h - vendor_services v, modules := modules h - unbound_drivers v\<rparr>)"
proof -
  have "fold sh_line (unbind_lines v) h =
      h\<lparr>running := running h - vendor_services v, modules := modules h - unbound_drivers v\<rparr>"
    by (cases v)
      (simp_all add: unbind_lines_def driver_steps vendor_services_def unbound_drivers_def
        unknown_vendor_inert[unfolded inert_def] Diff_insert[symmetric] insert_commute)
  then show ?thesis by (simp add: driver_lines run_lines[OF driver_clean(1)])
qed

lemma run_rebind:
  "run_script (write_rebind_drivers v @ r) h =
     run_script r (h\<lparr>running := running h \<union> vendor_services v, modules := modules h \<union> reloaded_drivers v\<rparr>)"
proof -
  have "fold sh_line (rebind_lines v) h =
      h\<lparr>running := running h \<union> vendor_services v, modules := modules h \<union> reloaded_drivers v\<rparr>"
    by (cases v; rule gpu_host.equality)
      (auto simp: rebind_lines_def driver_steps vendor_services_def reloaded_drivers_def
        unknown_vendor_inert[unfolded inert_def])
  then show ?thesis by (simp add: driver_lines run_lines[OF driver_clean(2)])
qed

lemma pci_id_splitD:
  "pci_id_split i = Inr (v, d) \<Longrightarrow> i = v @ CHR '':'' # d \<and> hex_quad v \<and> hex_quad d"
  by (auto simp: pci_id_split_def split: option.splits if_splits dest: split_once_SomeD)

lemma hex_quad_token: "hex_quad v \<Longrightarrow> is_token v \<and> clean_line v \<and> SQ \<notin> set v"
proof -
  have "\<not> ascii_hexdigit SQ" "\<not> ascii_hexdigit LF" "\<not> ascii_hexdigit CR" by code_simp+
  then show "hex_quad v \<Longrightarrow> is_token v \<and> clean_line v \<and> SQ \<notin> set v"
    using hexdigit_not_ws by (auto simp: hex_quad_def is_token_def clean_line_def)
qed

lemma sh_id_line:
  assumes "hex_quad v" "hex_quad d"
  shows "sh_line (''echo '' @ [SQ] @ v @ [SP] @ d @ [SQ] @ '' > /sys/bus/pci/drivers/vfio-pci/new_id'') h =
      h\<lparr>vfio_table := insert (v, d) (vfio_table h)\<rparr>"
    "sh_line (''echo '' @ [SQ] @ v @ [SP] @ d @ [SQ] @ '' > /sys/bus/pci/drivers/vfio-pci/remove_id || true'') h =
      h\<lparr>vfio_table := vfio_table h - {(v, d)}\<rparr>"
    "clean_line (''echo '' @ [SQ] @ v @ [SP] @ d @ [SQ] @ '' > /sys/bus/pci/drivers/vfio-pci/new_id'')"
    "clean_line (''echo '' @ [SQ] @ v @ [SP] @ d @ [SQ] @ '' > /sys/bus/pci/drivers/vfio-pci/remove_id || true'')"
proof -
  have sq: "\<not> is_ws SQ" by code_simp
  have t: "is_token ''echo''" "is_token (SQ # v)" "is_token (d @ [SQ])"
    using hex_quad_token[OF assms(1)] hex_quad_token[OF assms(2)] sq
    by (code_simp, auto simp: is_token_def)
  have w: "split_ws (''echo '' @ [SQ] @ v @ [SP] @ d @ [SQ] @ SP # r) =
      ''echo'' # (SQ # v) # (d @ [SQ]) # split_ws r" for r
    using split_ws_word[OF t(1), of "(SQ # v) @ SP # (d @ [SQ]) @ SP # r"]
      split_ws_word[OF t(2), of "(d @ [SQ]) @ SP # r"] split_ws_word[OF t(3), of r] by simp
  have r: "split_ws ''> /sys/bus/pci/drivers/vfio-pci/new_id'' = [''>'', vfio_sysfs ''new_id'']"
    "split_ws ''> /sys/bus/pci/drivers/vfio-pci/remove_id || true'' =
      [''>'', vfio_sysfs ''remove_id'', ''||'', ''true'']"
    "vfio_sysfs ''new_id'' \<noteq> vfio_sysfs ''remove_id''"
    by code_simp+
  show "sh_line (''echo '' @ [SQ] @ v @ [SP] @ d @ [SQ] @ '' > /sys/bus/pci/drivers/vfio-pci/new_id'') h =
      h\<lparr>vfio_table := insert (v, d) (vfio_table h)\<rparr>"
    using w[of "''> /sys/bus/pci/drivers/vfio-pci/new_id''"] r by (simp add: sh_line_def)
  show "sh_line (''echo '' @ [SQ] @ v @ [SP] @ d @ [SQ] @ '' > /sys/bus/pci/drivers/vfio-pci/remove_id || true'') h =
      h\<lparr>vfio_table := vfio_table h - {(v, d)}\<rparr>"
    using w[of "''> /sys/bus/pci/drivers/vfio-pci/remove_id || true''"] r by (simp add: sh_line_def)
  have "clean_line v" "clean_line d" using hex_quad_token assms by blast+
  then show "clean_line (''echo '' @ [SQ] @ v @ [SP] @ d @ [SQ] @ '' > /sys/bus/pci/drivers/vfio-pci/new_id'')"
    "clean_line (''echo '' @ [SQ] @ v @ [SP] @ d @ [SQ] @ '' > /sys/bus/pci/drivers/vfio-pci/remove_id || true'')"
    by simp_all
qed

lemma run_single: "clean_line l \<Longrightarrow> run_script (writeln l @ r) h = run_script r (sh_line l h)"
  using run_lines[of "[l]" r h] by simp

lemma write_ids_Cons:
  "write_ids t (i # is) = Inr s \<longleftrightarrow> (\<exists>v d u. pci_id_split i = Inr (v, d) \<and> write_ids t is = Inr u \<and>
     s = writeln (''echo '' @ [SQ] @ v @ [SP] @ d @ [SQ] @ t) @ u)"
  by (auto simp: res_then_Inr_iff)

lemma id_pairs_Cons: "pci_id_split i = Inr (v, d) \<Longrightarrow> id_pairs (i # is) = insert (v, d) (id_pairs is)"
  by (auto simp: id_pairs_def)

lemma run_add_ids:
  "write_ids '' > /sys/bus/pci/drivers/vfio-pci/new_id'' is = Inr s \<Longrightarrow>
     run_script (s @ r) h = run_script r (h\<lparr>vfio_table := vfio_table h \<union> id_pairs is\<rparr>)"
proof (induction "is" arbitrary: s h)
  case Nil
  then show ?case by (simp add: id_pairs_def)
next
  case (Cons i "is")
  from Cons.prems[unfolded write_ids_Cons] obtain v d u where i: "pci_id_split i = Inr (v, d)"
      and u: "write_ids '' > /sys/bus/pci/drivers/vfio-pci/new_id'' is = Inr u"
      and s: "s = writeln (''echo '' @ [SQ] @ v @ [SP] @ d @ [SQ] @ '' > /sys/bus/pci/drivers/vfio-pci/new_id'') @ u"
    by (elim exE conjE)
  have q: "hex_quad v" "hex_quad d" using pci_id_splitD[OF i] by simp_all
  have "insert (v, d) (vfio_table h) \<union> id_pairs is = vfio_table h \<union> id_pairs (i # is)"
    by (auto simp: id_pairs_Cons[OF i])
  then show ?case
    unfolding s append_assoc run_single[OF sh_id_line(3)[OF q]] sh_id_line(1)[OF q] Cons.IH[OF u]
    by simp
qed

lemma run_remove_ids:
  "write_ids '' > /sys/bus/pci/drivers/vfio-pci/remove_id || true'' is = Inr s \<Longrightarrow>
     run_script (s @ r) h = run_script r (h\<lparr>vfio_table := vfio_table h - id_pairs is\<rparr>)"
proof (induction "is" arbitrary: s h)
  case Nil
  then show ?case by (simp add: id_pairs_def)
next
  case (Cons i "is")
  from Cons.prems[unfolded write_ids_Cons] obtain v d u where i: "pci_id_split i = Inr (v, d)"
      and u: "write_ids '' > /sys/bus/pci/drivers/vfio-pci/remove_id || true'' is = Inr u"
      and s: "s = writeln (''echo '' @ [SQ] @ v @ [SP] @ d @ [SQ] @ '' > /sys/bus/pci/drivers/vfio-pci/remove_id || true'') @ u"
    by (elim exE conjE)
  have q: "hex_quad v" "hex_quad d" using pci_id_splitD[OF i] by simp_all
  have "vfio_table h - {(v, d)} - id_pairs is = vfio_table h - id_pairs (i # is)"
    by (auto simp: id_pairs_Cons[OF i])
  then show ?case
    unfolding s append_assoc run_single[OF sh_id_line(4)[OF q]] sh_id_line(2)[OF q] Cons.IH[OF u]
    by simp
qed

lemma valid_name_clean: "is_valid_vm_name n \<Longrightarrow> clean_line n"
proof -
  have "\<not> (ascii_alphanumeric c \<or> c = CHR ''_'' \<or> c = CHR ''.'' \<or> c = CHR ''+'' \<or> c = CHR ''-'')"
    if "c = LF \<or> c = CR" for c
    using that by (elim disjE; hypsubst; code_simp)
  then show "is_valid_vm_name n \<Longrightarrow> clean_line n" by (auto simp: is_valid_vm_name_def clean_line_def)
qed

text \<open>The messages around the commands, for each display manager.\<close>

definition release_messages :: "string \<Rightarrow> string list" where
  "release_messages dm_service =
     [''echo '' @ [SQ] @ ''Virtu: stopping display manager '' @ dm_service @ [SQ], [],
      ''echo '' @ [SQ] @ ''Virtu: unbinding host GPU drivers'' @ [SQ],
      ''echo '' @ [SQ] @ ''Virtu: loading vfio-pci'' @ [SQ],
      ''echo '' @ [SQ] @ ''Virtu: binding GPU + companion audio to vfio-pci'' @ [SQ],
      ''echo '' @ [SQ] @ ''Virtu: removing GPU + companion audio from vfio-pci binding table'' @ [SQ],
      ''echo '' @ [SQ] @ ''Virtu: reloading host GPU driver'' @ [SQ],
      ''echo '' @ [SQ] @ ''Virtu: starting display manager '' @ dm_service @ [SQ],
      ''echo '' @ [SQ] @ ''Virtu: host GPU available again'' @ [SQ]]"

lemma messages_inert:
  assumes "dm \<in> set dm_services" "m \<in> set (release_messages dm)"
  shows "run_script (writeln m @ r) h = run_script r h"
proof -
  have "list_all (\<lambda>s. list_all (\<lambda>l. clean_line l \<and> inert_words (split_ws l)) (release_messages s)) dm_services"
    by code_simp
  then have "clean_line m \<and> inert_words (split_ws m)" using assms by (auto simp: list_all_iff)
  then show ?thesis by (simp add: run_single inert_by_words inert_def[symmetric]) (simp add: inert_by_words[unfolded inert_def])
qed

lemma ready_inert:
  assumes "clean_line vm"
  shows "run_script (writeln (''echo '' @ [SQ] @ ''Virtu: GPU ready for VM `'' @ vm @ ''`'' @ [SQ])) h = h"
proof -
  let ?m = "''echo '' @ [SQ] @ ''Virtu: GPU ready for VM `'' @ vm @ ''`'' @ [SQ]"
  have "is_token (SQ # ''Virtu:'')" "is_token ''GPU''" "is_token ''ready''" "''ready'' \<noteq> ''>''" by code_simp+
  from inert_echo[OF this, of "''for VM `'' @ vm @ ''`'' @ [SQ]"] have "inert ?m" by simp
  moreover have "clean_line ?m" using assms by simp
  ultimately show ?thesis using run_single[of ?m "[]" h] by (simp add: inert_def run_script_Nil)
qed

lemma run_systemctl:
  assumes "dm \<in> set dm_services"
  shows "run_script (writeln (''systemctl stop '' @ dm) @ r) h = run_script r (h\<lparr>running := running h - {dm}\<rparr>)"
    "run_script (writeln (''systemctl start '' @ dm) @ r) h = run_script r (h\<lparr>running := insert dm (running h)\<rparr>)"
proof -
  have s: "is_token dm" "clean_line dm" using service_ok[OF assms] by simp_all
  have "clean_line (''systemctl stop '' @ dm)" "clean_line (''systemctl start '' @ dm)" using s(2) by simp_all
  then show "run_script (writeln (''systemctl stop '' @ dm) @ r) h = run_script r (h\<lparr>running := running h - {dm}\<rparr>)"
    "run_script (writeln (''systemctl start '' @ dm) @ r) h = run_script r (h\<lparr>running := insert dm (running h)\<rparr>)"
    by (simp_all only: run_single sh_systemctl[OF s(1)])
qed

lemma run_vfio: "run_script (writeln ''modprobe vfio-pci'' @ r) h =
    run_script r (h\<lparr>modules := insert ''vfio-pci'' (modules h)\<rparr>)"
proof -
  have "clean_line ''modprobe vfio-pci''" by code_simp
  then show ?thesis by (simp only: run_single driver_steps)
qed

lemma release_effect:
  assumes dm: "display_manager_service (hook_display_manager ctx) = Inr dm"
    and name: "clean_line (hook_vm_name ctx)" and run: "release_script ctx = Inr s"
  shows "run_script s h =
     h\<lparr>running := running h - {dm} - vendor_services (hook_gpu_vendor ctx),
       modules := insert ''vfio-pci'' (modules h - unbound_drivers (hook_gpu_vendor ctx)),
       vfio_table := vfio_table h \<union> id_pairs (hook_vfio_pci_ids ctx)\<rparr>"
proof -
  let ?vm = "hook_vm_name ctx" and ?msg = "release_messages dm"
  have d: "dm \<in> set dm_services" by (rule service_known[OF dm])
  obtain ids where ids: "write_ids '' > /sys/bus/pci/drivers/vfio-pci/new_id'' (hook_vfio_pci_ids ctx) = Inr ids"
    using run dm by (auto simp: release_script_def res_then_Inr_iff)
  have s: "s = write_header ?vm ''release helper (prepare/begin)'' ''release the GPU from the host''
      @ write_recovery_trap dm release_headline @ writeln (?msg ! 0) @ writeln (''systemctl stop '' @ dm)
      @ writeln (?msg ! 1) @ writeln (?msg ! 2) @ write_unbind_drivers (hook_gpu_vendor ctx)
      @ writeln (?msg ! 1) @ writeln (?msg ! 3) @ writeln ''modprobe vfio-pci'' @ writeln (?msg ! 1)
      @ writeln (?msg ! 4) @ ids @ writeln (?msg ! 1)
      @ writeln (''echo '' @ [SQ] @ ''Virtu: GPU ready for VM `'' @ ?vm @ ''`'' @ [SQ])"
    using run by (simp add: release_script_def dm ids res_then_Inr_iff release_messages_def release_headline_def)
  have m: "?msg ! n \<in> set ?msg" if "n < 9" for n
    using that by (intro nth_mem) (simp add: release_messages_def)
  have msg: "run_script (writeln (?msg ! n) @ r) h = run_script r h" if "n < 9" for n r h
    by (rule messages_inert[OF d m[OF that]])
  have stage: "clean_line ''release helper (prepare/begin)''" "clean_line ''release the GPU from the host''"
    by code_simp+
  show ?thesis
    unfolding s run_header[OF name stage] run_trap[OF d disjI1[OF refl]]
    by (simp only: msg run_systemctl[OF d] run_unbind run_vfio run_add_ids[OF ids] ready_inert[OF name]
        numeral_less_iff semiring_norm zero_less_numeral one_less_numeral_iff) simp
qed

lemma reattach_effect:
  assumes dm: "display_manager_service (hook_display_manager ctx) = Inr dm"
    and name: "clean_line (hook_vm_name ctx)" and run: "reattach_script ctx = Inr s"
  shows "run_script s h =
     h\<lparr>running := insert dm (running h \<union> vendor_services (hook_gpu_vendor ctx)),
       modules := modules h \<union> reloaded_drivers (hook_gpu_vendor ctx),
       vfio_table := vfio_table h - id_pairs (hook_vfio_pci_ids ctx)\<rparr>"
proof -
  let ?vm = "hook_vm_name ctx" and ?msg = "release_messages dm"
  have d: "dm \<in> set dm_services" by (rule service_known[OF dm])
  obtain ids where ids: "write_ids '' > /sys/bus/pci/drivers/vfio-pci/remove_id || true'' (hook_vfio_pci_ids ctx) = Inr ids"
    using run dm by (auto simp: reattach_script_def res_then_Inr_iff)
  have s: "s = write_header ?vm ''reattach helper (release/end)'' ''re-attach the GPU to the host''
      @ write_recovery_trap dm reattach_headline @ writeln (?msg ! 5) @ ids
      @ writeln (?msg ! 1) @ writeln (?msg ! 6) @ write_rebind_drivers (hook_gpu_vendor ctx)
      @ writeln (?msg ! 1) @ writeln (?msg ! 7) @ writeln (''systemctl start '' @ dm)
      @ writeln (?msg ! 1) @ writeln (?msg ! 8) @ []"
    using run by (simp add: reattach_script_def dm ids res_then_Inr_iff release_messages_def reattach_headline_def)
  have m: "?msg ! n \<in> set ?msg" if "n < 9" for n
    using that by (intro nth_mem) (simp add: release_messages_def)
  have msg: "run_script (writeln (?msg ! n) @ r) h = run_script r h" if "n < 9" for n r h
    by (rule messages_inert[OF d m[OF that]])
  have stage: "clean_line ''reattach helper (release/end)''" "clean_line ''re-attach the GPU to the host''"
    by code_simp+
  show ?thesis
    unfolding s run_header[OF name stage] run_trap[OF d disjI2[OF refl]]
    by (simp only: msg run_systemctl[OF d] run_rebind run_remove_ids[OF ids] run_script_Nil
        numeral_less_iff semiring_norm zero_less_numeral one_less_numeral_iff) simp
qed

section \<open>Properties\<close>


definition sample_hook_context :: hook_context where
  "sample_hook_context = \<lparr>hook_vm_name = ''win11'', hook_display_manager = Gdm, hook_gpu_vendor = Nvidia,
     hook_vfio_pci_ids = [''10de:2684'', ''10de:22ba'']\<rparr>"


text \<open>The two scripts are generated for the same contexts: a display manager that is a known
  service, and ids that are all four hexadecimal digits, a colon and four hexadecimal digits; the
  dispatcher is generated for every name.\<close>

theorem hooks_generated_iff:
  "(is_ok (release_script ctx) \<longleftrightarrow> hook_display_manager ctx \<notin> {NoDm, UnknownDm} \<and>
     list_all (\<lambda>i. is_ok (pci_id_split i)) (hook_vfio_pci_ids ctx)) \<and>
   (is_ok (reattach_script ctx) \<longleftrightarrow> is_ok (release_script ctx)) \<and>
   (release_script ctx = Inl UnknownDisplayManager \<longleftrightarrow> hook_display_manager ctx = UnknownDm) \<and>
   (release_script ctx = Inl NoDisplayManager \<longleftrightarrow> hook_display_manager ctx = NoDm) \<and>
   is_ok (dispatcher_script vm)"
proof -
  let ?all = "list_all (\<lambda>i. is_ok (pci_id_split i))"
  have split: "pci_id_split i = Inl e \<Longrightarrow> e = InvalidPciId i" for i e
    by (auto simp: pci_id_split_def split: option.splits if_splits)
  have v: "is_ok (validate_pci_ids is) \<longleftrightarrow> ?all is" for "is"
    by (induction "is") (auto simp: res_then_def split: sum.splits)
  have w: "is_ok (write_ids t is) \<longleftrightarrow> ?all is" for t "is"
    by (induction "is") (auto simp: res_then_def is_ok_iff split: sum.splits)
  have e: "validate_pci_ids is = Inl e \<Longrightarrow> \<exists>i. e = InvalidPciId i"
    "write_ids t is = Inl e \<Longrightarrow> \<exists>i. e = InvalidPciId i" for "is" e t
    by (induction "is" arbitrary: e) (auto simp: res_then_def dest: split split: sum.splits)
  have dm: "is_ok (display_manager_service d) \<longleftrightarrow> d \<notin> {NoDm, UnknownDm}" for d
    by (cases d) (simp_all add: display_manager_service_def)
  have then_ok: "is_ok (res_then r f) \<longleftrightarrow> (\<exists>a. r = Inr a \<and> is_ok (f a))" for r :: "'a + 'b" and f :: "'b \<Rightarrow> 'a + 'c"
    by (cases r) auto
  have ok: "is_ok (release_script ctx) \<longleftrightarrow> hook_display_manager ctx \<notin> {NoDm, UnknownDm} \<and>
      ?all (hook_vfio_pci_ids ctx)"
    using dm[of "hook_display_manager ctx"] v[of "hook_vfio_pci_ids ctx"]
      w[of "'' > /sys/bus/pci/drivers/vfio-pci/new_id''" "hook_vfio_pci_ids ctx"]
    unfolding release_script_def then_ok by (simp add: is_ok_iff)
  moreover have "is_ok (reattach_script ctx) \<longleftrightarrow> hook_display_manager ctx \<notin> {NoDm, UnknownDm} \<and>
      ?all (hook_vfio_pci_ids ctx)"
    using dm[of "hook_display_manager ctx"] v[of "hook_vfio_pci_ids ctx"]
      w[of "'' > /sys/bus/pci/drivers/vfio-pci/remove_id || true''" "hook_vfio_pci_ids ctx"]
    unfolding reattach_script_def then_ok by (simp add: is_ok_iff)
  moreover have "release_script ctx = Inl (if hook_display_manager ctx = NoDm then NoDisplayManager
      else UnknownDisplayManager)" if "hook_display_manager ctx \<in> {NoDm, UnknownDm}"
    using that by (auto simp: release_script_def display_manager_service_def)
  moreover have "\<exists>i. x = InvalidPciId i"
    if "release_script ctx = Inl x" "hook_display_manager ctx \<notin> {NoDm, UnknownDm}" for x
  proof -
    from that(2) obtain d where d: "display_manager_service (hook_display_manager ctx) = Inr d"
      using dm by (auto simp: is_ok_iff)
    then show ?thesis using that(1)
      by (auto simp: release_script_def res_then_def split: sum.splits dest: e)
  qed
  ultimately show ?thesis
    by (cases "hook_display_manager ctx \<in> {NoDm, UnknownDm}")
      (auto simp: dispatcher_script_def)
qed

text \<open>On an AMD card driven by \<open>radeon\<close> the hand-back is not complete: the release script unloads
  \<open>radeon\<close>, the reattach script loads \<open>amdgpu\<close> only, so after both \<open>radeon\<close> is not loaded whatever
  the host had before.\<close>

theorem radeon_not_reloaded:
  assumes "is_valid_vm_name (hook_vm_name ctx)" "hook_gpu_vendor ctx = Amd"
    and "display_manager_service (hook_display_manager ctx) = Inr dm"
    and "release_script ctx = Inr s" and "reattach_script ctx = Inr t"
  shows "''radeon'' \<notin> modules (run_script t (run_script s h))"
proof -
  have name: "clean_line (hook_vm_name ctx)" using assms(1) by (rule valid_name_clean)
  show ?thesis
    unfolding release_effect[OF assms(3) name assms(4)] reattach_effect[OF assms(3) name assms(5)]
    by (simp add: assms(2) unbound_drivers_def reloaded_drivers_def)
qed

theorem radeon_not_reloaded_witness:
  "\<exists>s t. release_script (sample_hook_context\<lparr>hook_gpu_vendor := Amd\<rparr>) = Inr s \<and>
     reattach_script (sample_hook_context\<lparr>hook_gpu_vendor := Amd\<rparr>) = Inr t \<and>
     ''radeon'' \<notin> modules (run_script t (run_script s
        \<lparr>running = {''gdm''}, modules = {''radeon''}, vfio_table = {}\<rparr>))"
proof -
  let ?c = "sample_hook_context\<lparr>hook_gpu_vendor := Amd\<rparr>"
  have "is_ok (release_script ?c)" "is_ok (reattach_script ?c)" by code_simp+
  then obtain s t where st: "release_script ?c = Inr s" "reattach_script ?c = Inr t"
    by (auto simp: is_ok_iff)
  have a: "is_valid_vm_name (hook_vm_name ?c)" "hook_gpu_vendor ?c = Amd"
      "display_manager_service (hook_display_manager ?c) = Inr ''gdm''" by code_simp+
  show ?thesis using radeon_not_reloaded[OF a st] st by blast
qed

end
