(* ===== verification/Cpu_Topology.thy ===== *)
theory Cpu_Topology
  imports Host_Profile "HOL-Library.Multiset"
begin

text \<open>
  \<open>vm/cpu_topology.rs\<close>: which physical cores the virtual machine gets, the pin of each virtual
  CPU, and the compact notation of a CPU set; with a reader of that notation.
\<close>

record pinning_plan =
  vcpu_pins :: "(u32 \<times> string) list"
  emulator_cpuset :: string
  vm_cores :: "u32 list"
  host_cores :: "u32 list"

definition threads_per_core :: "cpu_info \<Rightarrow> u32" where
  "threads_per_core cpu = (if has_hyperthreading cpu then 2 else 1)"

definition show_u32 :: "u32 \<Rightarrow> string" where
  "show_u32 n = show_nat (unat n)"

definition show_range :: "u32 \<Rightarrow> u32 \<Rightarrow> string" where
  "show_range a b = (if a = b then show_u32 a else show_u32 a @ ''-'' @ show_u32 b)"

text \<open>The loop over the sorted numbers: the current range, then the finished ones in order.\<close>

fun compress_ranges :: "u32 \<Rightarrow> u32 \<Rightarrow> u32 list \<Rightarrow> string list" where
  "compress_ranges start stop [] = [show_range start stop]"
| "compress_ranges start stop (n # ns) =
     (if n = stop + 1 then compress_ranges start n ns
      else show_range start stop # compress_ranges n n ns)"

definition compress_cpu_list :: "string list \<Rightarrow> string" where
  "compress_cpu_list is =
     (let nums = remdups_adj (sort (map of_nat (List.map_filter (parse_uint (2 ^ 32)) is) :: u32 list))
      in case nums of [] \<Rightarrow> [] | n # ns \<Rightarrow> str_join '','' (compress_ranges n n ns))"

fun pin_threads :: "u32 \<Rightarrow> u32 \<Rightarrow> u32 list \<Rightarrow> (u32 \<times> string) list" where
  "pin_threads limit idx [] = []"
| "pin_threads limit idx (t # ts) =
     (if idx < limit then (idx, show_u32 t) # pin_threads limit (idx + 1) ts
      else pin_threads limit idx ts)"

definition threads_of :: "cpu_info \<Rightarrow> u32 \<Rightarrow> u32 list" where
  "threads_of cpu core = (case map_of (core_to_threads cpu) core of None \<Rightarrow> [] | Some ts \<Rightarrow> ts)"

definition calculate_pinning :: "cpu_info \<Rightarrow> u32 \<Rightarrow> pinning_plan" where
  "calculate_pinning cpu vcpu_count =
     (let physical_cores_for_vm = unat (max (vcpu_count div threads_per_core cpu) 1);
          all_core_ids = sort (map fst (core_to_threads cpu));
          host_reserve = (if length all_core_ids \<ge> 8 then 2 else 1);
          vm_core_count = min (length all_core_ids - host_reserve) physical_cores_for_vm;
          vm = take vm_core_count all_core_ids;
          host = drop vm_core_count all_core_ids;
          pins = pin_threads vcpu_count 0 (concat (map (threads_of cpu) vm));
          host_thread_ids = map show_u32 (concat (map (threads_of cpu) host));
          emulator = (if host_thread_ids = [] then ''0-'' @ show_u32 (sat_sub (logical_cores cpu) 1)
                      else compress_cpu_list host_thread_ids)
      in \<lparr>vcpu_pins = pins, emulator_cpuset = emulator, vm_cores = vm, host_cores = host\<rparr>)"

section \<open>Numbers\<close>

lemma digits_value_append:
  "digits_value k (xs @ ys) = (case digits_value k xs of None \<Rightarrow> None | Some m \<Rightarrow> digits_value m ys)"
  by (induction k xs rule: digits_value.induct) auto

lemma digit_char:
  assumes "(d :: nat) < 10"
  shows "ascii_digit (char_of (48 + d))" "of_char (char_of (48 + d) :: char) - 48 = d"
    "char_of (48 + d) \<noteq> CHR ''+''" "char_of (48 + d) \<noteq> CHR '',''" "char_of (48 + d) \<noteq> CHR ''-''"
proof -
  have "d \<in> set [0..<10]" using assms by simp
  moreover have "list_all (\<lambda>d. ascii_digit (char_of (48 + d)) \<and> of_char (char_of (48 + d) :: char) - 48 = d \<and>
      char_of (48 + d) \<noteq> CHR ''+'' \<and> char_of (48 + d) \<noteq> CHR '','' \<and> char_of (48 + d) \<noteq> CHR ''-'') [0..<10]"
    by code_simp
  ultimately show "ascii_digit (char_of (48 + d))" "of_char (char_of (48 + d) :: char) - 48 = d"
    "char_of (48 + d) \<noteq> CHR ''+''" "char_of (48 + d) \<noteq> CHR '',''" "char_of (48 + d) \<noteq> CHR ''-''"
    by (auto simp: list_all_iff)
qed

lemma show_nat_digits: "digits_value 0 (show_nat n) = Some n \<and> show_nat n \<noteq> [] \<and>
    hd (show_nat n) \<noteq> CHR ''+'' \<and> CHR '','' \<notin> set (show_nat n) \<and> CHR ''-'' \<notin> set (show_nat n)"
proof (induction n rule: show_nat.induct)
  case (1 n)
  show ?case
  proof (cases "n < 10")
    case True
    then show ?thesis using digit_char[OF True] by (simp add: show_nat.simps[of n])
  next
    case False
    then have IH: "digits_value 0 (show_nat (n div 10)) = Some (n div 10)" "show_nat (n div 10) \<noteq> []"
      "hd (show_nat (n div 10)) \<noteq> CHR ''+''" "CHR '','' \<notin> set (show_nat (n div 10))"
      "CHR ''-'' \<notin> set (show_nat (n div 10))"
      using 1 by blast+
    have d: "n mod 10 < 10" by simp
    show ?thesis using IH digit_char[OF d] False
      by (simp add: show_nat.simps[of n] digits_value_append)
  qed
qed

lemma parse_show_u32: "parse_uint (2 ^ 32) (show_u32 n) = Some (unat n)"
proof -
  have "unat n < 2 ^ LENGTH(32)" by (rule unsigned_less)
  then have "unat n < 2 ^ 32" by simp
  then show ?thesis
    using show_nat_digits[of "unat n"]
    by (cases "show_nat (unat n)") (auto simp: parse_uint_def show_u32_def Let_def)
qed

lemma show_u32_chars: "CHR '','' \<notin> set (show_u32 n)" "CHR ''-'' \<notin> set (show_u32 n)"
  using show_nat_digits by (simp_all add: show_u32_def)

lemma show_u32_inject: "show_u32 a = show_u32 b \<longleftrightarrow> a = b"
  by (metis option.inject parse_show_u32 word_unat_eq_iff)

section \<open>Reading a CPU set\<close>

definition read_range :: "string \<Rightarrow> u32 list" where
  "read_range s = (case split_once (CHR ''-'') s of
     None \<Rightarrow> (case parse_uint (2 ^ 32) s of Some n \<Rightarrow> [of_nat n] | None \<Rightarrow> [])
   | Some (a, b) \<Rightarrow> (case (parse_uint (2 ^ 32) a, parse_uint (2 ^ 32) b) of
        (Some m, Some n) \<Rightarrow> map of_nat [m..<Suc n] | _ \<Rightarrow> []))"

definition read_cpuset :: "string \<Rightarrow> u32 list" where
  "read_cpuset s = (if s = [] then [] else concat (map read_range (split_char (CHR '','') s)))"

lemma read_show_range: "a \<le> b \<Longrightarrow> read_range (show_range a b) = map of_nat [unat a..<Suc (unat b)]"
  by (auto simp: show_range_def read_range_def split_once_None[THEN iffD2] show_u32_chars parse_show_u32[simplified]
      upt_conv_Cons simp del: upt_Suc)

lemma show_range_chars: "CHR '','' \<notin> set (show_range a b)" "show_range a b \<noteq> []"
  using show_nat_digits[of "unat a"] show_nat_digits[of "unat b"]
  by (auto simp: show_range_def show_u32_def)

lemma compress_ranges_ne: "compress_ranges a b ns \<noteq> []"
  by (induction a b ns rule: compress_ranges.induct) simp_all

lemma compress_ranges_chars: "\<forall>x \<in> set (compress_ranges a b ns). CHR '','' \<notin> set x \<and> x \<noteq> []"
  by (induction a b ns rule: compress_ranges.induct) (simp_all add: show_range_chars)

lemma compress_ranges_read:
  "a \<le> b \<Longrightarrow> sorted_wrt (<) (b # ns) \<Longrightarrow>
   concat (map read_range (compress_ranges a b ns)) = map of_nat [unat a..<Suc (unat b)] @ ns"
proof (induction a b ns rule: compress_ranges.induct)
  case (1 a b)
  then show ?case by (simp add: read_show_range del: upt_Suc)
next
  case (2 a b n ns)
  have lt: "b < n" and s: "sorted_wrt (<) (n # ns)" using 2(4) by auto
  show ?case
  proof (cases "n = b + 1")
    case True
    have u: "unat n = Suc (unat b)"
    proof -
      have "b \<noteq> - 1" using lt word_n1_ge[of n] by auto
      then have "1 + b \<noteq> 0" by (metis add.commute eq_neg_iff_add_eq_0)
      then show ?thesis using True unatSuc[of b] by (simp add: add.commute)
    qed
    have "a \<le> n" using 2(3) lt by simp
    then have "concat (map read_range (compress_ranges a n ns)) = map of_nat [unat a..<Suc (unat n)] @ ns"
      using 2(1)[OF True _ s] by simp
    moreover have n: "(of_nat (Suc (unat b)) :: u32) = n" by (simp only: u[symmetric]) simp
    moreover have "map of_nat [unat a..<Suc (unat n)] = map of_nat [unat a..<Suc (unat b)] @ [n]"
      using 2(3) n by (simp add: word_le_nat_alt u)
    ultimately show ?thesis using True by (simp del: upt_Suc)
  next
    case False
    have "concat (map read_range (compress_ranges n n ns)) = map of_nat [unat n..<Suc (unat n)] @ ns"
      using 2(2)[OF False _ s] by simp
    then show ?thesis using False 2(3) by (simp add: read_show_range del: upt_Suc) simp
  qed
qed

lemma read_cpuset_join:
  assumes "xs \<noteq> []" "\<forall>x \<in> set xs. CHR '','' \<notin> set x \<and> x \<noteq> []"
  shows "read_cpuset (str_join '','' xs) = concat (map read_range xs)"
proof -
  obtain y ys where xs: "xs = y # ys" using assms(1) by (cases xs) auto
  then have "str_join '','' xs \<noteq> []" using assms(2) by (cases ys) auto
  then show ?thesis using split_char_join[OF assms(1), of "CHR '',''"] assms(2)
    by (simp add: read_cpuset_def)
qed

lemma map_filter_parse: "List.map_filter (parse_uint (2 ^ 32)) (map show_u32 ts) = map unat ts"
  by (induction ts) (simp_all add: List.map_filter_simps parse_show_u32[simplified])

lemma sorted_dedup: "sorted_wrt (<) (remdups_adj (sort (xs :: 'a::linorder list)))"
  by (simp add: strict_sorted_iff distinct_remdups_adj_sorted)

lemma compress_show:
  "compress_cpu_list (map show_u32 ts) =
     (case remdups_adj (sort ts) of [] \<Rightarrow> [] | n # ns \<Rightarrow> str_join '','' (compress_ranges n n ns))"
  unfolding compress_cpu_list_def by (simp add: map_filter_parse[simplified] o_def)

lemma cpu_list_read:
  "read_cpuset (compress_cpu_list (map show_u32 ts)) = remdups_adj (sort ts)"
proof -
  let ?nums = "remdups_adj (sort ts)"
  show ?thesis
  proof (cases ?nums)
    case Nil
    then show ?thesis unfolding compress_show by (simp add: read_cpuset_def)
  next
    case (Cons n ns)
    have s: "sorted_wrt (<) (n # ns)" using sorted_dedup[of ts] Cons by simp
    note ne = compress_ranges_ne[of n n ns]
    have "compress_cpu_list (map show_u32 ts) = str_join '','' (compress_ranges n n ns)"
      unfolding compress_show by (simp add: Cons)
    then have "read_cpuset (compress_cpu_list (map show_u32 ts)) =
        concat (map read_range (compress_ranges n n ns))"
      using read_cpuset_join[OF ne compress_ranges_chars] by simp
    also have "\<dots> = map of_nat [unat n..<Suc (unat n)] @ ns" by (rule compress_ranges_read[OF order_refl s])
    finally show ?thesis by (simp add: Cons)
  qed
qed

section \<open>Properties\<close>

text \<open>The compact notation of a CPU set is read back as the set of its members, sorted and
  without repetitions, for every list of CPU ids; the test for a successor never wraps around.\<close>

theorem cpu_list_round_trip:
  "read_cpuset (compress_cpu_list (map show_u32 ts)) = remdups_adj (sort ts)"
  by (rule cpu_list_read)


lemma pin_threads_zip:
  "idx \<le> limit \<Longrightarrow>
   pin_threads limit idx ts = map (\<lambda>(i, t). (of_nat i, show_u32 t)) (zip [unat idx..<unat limit] ts)"
proof (induction ts arbitrary: idx)
  case (Cons t ts)
  show ?case
  proof (cases "idx < limit")
    case True
    then have "idx \<noteq> - 1" using word_n1_ge[of limit] by auto
    then have "1 + idx \<noteq> 0" by (metis add.commute eq_neg_iff_add_eq_0)
    then have u: "unat (idx + 1) = Suc (unat idx)" using unatSuc[of idx] by (simp add: add.commute)
    have lt: "unat idx < unat limit" using True by (simp add: word_less_nat_alt)
    then have "idx + 1 \<le> limit" using u by (simp add: word_le_nat_alt)
    from Cons.IH[OF this] show ?thesis using True lt by (simp add: u upt_conv_Cons)
  next
    case False
    then have "idx = limit" using Cons.prems by simp
    then have "pin_threads limit idx ts = []" using Cons.IH[of limit] by simp
    then show ?thesis using False \<open>idx = limit\<close> by simp
  qed
qed simp

text \<open>The threads of a list of cores, and a map of cores that is well formed: distinct cores, and
  no thread on two of them.\<close>

definition core_threads :: "cpu_info \<Rightarrow> u32 list \<Rightarrow> u32 list" where
  "core_threads cpu cores = concat (map (threads_of cpu) cores)"

definition topology_ok :: "cpu_info \<Rightarrow> bool" where
  "topology_ok cpu \<longleftrightarrow> distinct (map fst (core_to_threads cpu)) \<and>
     distinct (concat (map snd (core_to_threads cpu))) \<and>
     (\<forall>(c, ts) \<in> set (core_to_threads cpu). ts \<noteq> [])"

lemma threads_of_mem:
  "distinct (map fst (core_to_threads cpu)) \<Longrightarrow> (c, ts) \<in> set (core_to_threads cpu) \<Longrightarrow> threads_of cpu c = ts"
  by (simp add: threads_of_def)

lemma core_threads_all:
  "distinct (map fst (core_to_threads cpu)) \<Longrightarrow>
   core_threads cpu (map fst (core_to_threads cpu)) = concat (map snd (core_to_threads cpu))"
proof -
  assume d: "distinct (map fst (core_to_threads cpu))"
  have "map (\<lambda>c. threads_of cpu (fst c)) (core_to_threads cpu) = map snd (core_to_threads cpu)"
    using threads_of_mem[OF d] by (intro map_cong) auto
  moreover have "core_threads cpu (map fst (core_to_threads cpu)) =
      concat (map (\<lambda>c. threads_of cpu (fst c)) (core_to_threads cpu))"
    by (simp add: core_threads_def o_def)
  ultimately show ?thesis by (simp only:)
qed

lemma core_threads_perm: "mset cs = mset ds \<Longrightarrow> mset (core_threads cpu cs) = mset (core_threads cpu ds)"
proof -
  have "sum_list (map f xs) = sum_mset (image_mset f (mset xs))" for f :: "u32 \<Rightarrow> u32 multiset" and xs
    by (simp flip: sum_mset_sum_list)
  then show "mset cs = mset ds \<Longrightarrow> mset (core_threads cpu cs) = mset (core_threads cpu ds)"
    by (simp add: core_threads_def mset_concat o_def)
qed

lemma sorted_core_threads:
  assumes "topology_ok cpu"
  shows "distinct (core_threads cpu (sort (map fst (core_to_threads cpu))))"
proof -
  have d: "distinct (map fst (core_to_threads cpu))" using assms by (simp add: topology_ok_def)
  have "mset (core_threads cpu (sort (map fst (core_to_threads cpu)))) =
      mset (concat (map snd (core_to_threads cpu)))"
    using core_threads_perm[of "sort (map fst (core_to_threads cpu))" "map fst (core_to_threads cpu)" cpu]
    by (simp add: core_threads_all[OF d])
  then show ?thesis using assms mset_eq_imp_distinct_iff unfolding topology_ok_def by blast
qed

lemma pinning_cores:
  "vm_cores (calculate_pinning cpu n) @ host_cores (calculate_pinning cpu n) =
     sort (map fst (core_to_threads cpu))"
  by (simp add: calculate_pinning_def Let_def)

lemma pinning_pins:
  "vcpu_pins (calculate_pinning cpu n) =
     map (\<lambda>(i, t). (of_nat i, show_u32 t))
       (zip [0..<unat n] (core_threads cpu (vm_cores (calculate_pinning cpu n))))"
  using pin_threads_zip[of 0 n] by (simp add: calculate_pinning_def Let_def core_threads_def)

lemma pinning_emulator_eq:
  "emulator_cpuset (calculate_pinning cpu n) =
     (if core_threads cpu (host_cores (calculate_pinning cpu n)) = []
      then ''0-'' @ show_u32 (sat_sub (logical_cores cpu) 1)
      else compress_cpu_list (map show_u32 (core_threads cpu (host_cores (calculate_pinning cpu n)))))"
  by (simp add: calculate_pinning_def Let_def core_threads_def)

lemma pinning_emulator:
  "core_threads cpu (host_cores (calculate_pinning cpu n)) \<noteq> [] \<Longrightarrow>
   read_cpuset (emulator_cpuset (calculate_pinning cpu n)) =
     remdups_adj (sort (core_threads cpu (host_cores (calculate_pinning cpu n))))"
  by (simp only: pinning_emulator_eq if_False cpu_list_read)

lemma host_reserve:
  "map fst (core_to_threads cpu) \<noteq> [] \<Longrightarrow> host_cores (calculate_pinning cpu n) \<noteq> []"
  by (cases "core_to_threads cpu") (auto simp: calculate_pinning_def Let_def)


text \<open>The number of cores kept for the host.\<close>

definition reserved_cores :: "cpu_info \<Rightarrow> nat" where
  "reserved_cores cpu = (if length (core_to_threads cpu) \<ge> 8 then 2 else 1)"

definition uniform_cores :: "cpu_info \<Rightarrow> bool" where
  "uniform_cores cpu \<longleftrightarrow>
     (\<forall>(c, ts) \<in> set (core_to_threads cpu). length ts = unat (threads_per_core cpu))"

lemma vm_core_length:
  "length (vm_cores (calculate_pinning cpu n)) =
     min (length (core_to_threads cpu) - reserved_cores cpu) (max (unat n div unat (threads_per_core cpu)) 1)"
proof -
  have "unat (max (n div threads_per_core cpu) 1) = max (unat n div unat (threads_per_core cpu)) 1"
    by (auto simp: max_def word_le_nat_alt unat_div)
  then show ?thesis
    by (cases "core_to_threads cpu")
      (auto simp: calculate_pinning_def Let_def reserved_cores_def min_def)
qed

lemma vm_thread_count:
  assumes "topology_ok cpu" "uniform_cores cpu"
  shows "length (core_threads cpu (vm_cores (calculate_pinning cpu n))) =
     unat (threads_per_core cpu) * length (vm_cores (calculate_pinning cpu n))"
proof -
  have "length (threads_of cpu c) = unat (threads_per_core cpu)"
    if c: "c \<in> set (vm_cores (calculate_pinning cpu n))" for c
  proof -
    have "c \<in> fst ` set (core_to_threads cpu)"
      using c arg_cong[OF pinning_cores[of cpu n], of set] by auto
    then obtain ts where ts: "(c, ts) \<in> set (core_to_threads cpu)" by auto
    then show ?thesis
      using threads_of_mem[of cpu c ts] assms by (auto simp: topology_ok_def uniform_cores_def)
  qed
  then show ?thesis
    by (simp add: core_threads_def length_concat o_def sum_list_const_mult sum_list_triv cong: map_cong)
qed


definition quad_core :: cpu_info where
  "quad_core = \<lparr>cpu_vendor = ''GenuineIntel'', cpu_model_name = ''i5'', physical_cores = 4, logical_cores = 8,
     numa_nodes = [], iommu_capable = True, iommu_enabled = True, has_hyperthreading = True,
     core_to_threads = [(2, [2, 6]), (0, [0, 4]), (3, [3, 7]), (1, [1, 5])]\<rparr>"

lemma quad_core_ok: "topology_ok quad_core" "core_to_threads quad_core \<noteq> []" "uniform_cores quad_core"
  by (simp_all add: topology_ok_def quad_core_def uniform_cores_def threads_per_core_def)



end
