(* ===== verification/Knowledge_Base.thy ===== *)
theory Knowledge_Base
  imports Host_Profile File_System
begin

text \<open>
  \<open>kb/mod.rs\<close>, \<open>kb/schema.rs\<close> and \<open>engine/diagnostics.rs\<close>: distribution paths, GPU quirks and error
  patterns. Outside \<open>src/\<close> are the TOML parser (\<open>parsers\<close>, from a text to the entries it declares,
  with an error message) and the regular expressions (\<open>compile\<close>, from a pattern to its matcher);
  the file reads are a parameter \<open>read_text\<close>, with \<open>None\<close> for a path that does not exist.
\<close>

section \<open>Data\<close>

record distro_paths =
  dp_ovmf_code :: "string option"
  dp_ovmf_vars :: "string option"
  dp_qemu_binary :: string
  dp_libvirt_images_dir :: string

record gpu_quirk =
  quirk_issue_id :: string
  quirk_vendor_id :: string
  quirk_device_id_pattern :: string
  quirk_description :: string
  quirk_fixes :: "string list"

record error_pattern =
  pattern_id :: string
  pattern_regex :: string
  pattern_cause :: string
  pattern_fix_options :: "string list"

record knowledge_base =
  kb_generic_paths :: distro_paths
  kb_arch_paths :: distro_paths
  kb_debian_paths :: distro_paths
  kb_fedora_paths :: distro_paths
  kb_opensuse_paths :: distro_paths
  kb_gpu_quirks :: "gpu_quirk list"
  kb_error_patterns :: "error_pattern list"

datatype knowledge_base_error =
  KbIo path io_error
| KbParseFile path string
| KbParseBundled string string
| KbInvalidRegex string string string
| KbInvalidVendorId string string
| KbInvalidDeviceIdPattern string string
| KbMissing path
| KbMissingField path string string

definition kb_error_display :: "knowledge_base_error \<Rightarrow> string" where
  "kb_error_display e = (case e of
     KbIo p src \<Rightarrow> ''read knowledge-base file at '' @ path_display p @ '': '' @ io_message src
   | KbParseFile p src \<Rightarrow> ''parse knowledge-base TOML at '' @ path_display p @ '': '' @ src
   | KbParseBundled n src \<Rightarrow> ''parse bundled knowledge-base TOML `'' @ n @ ''`: '' @ src
   | KbInvalidRegex i r src \<Rightarrow> ''knowledge-base entry has invalid regex `'' @ r @ ''` (id `'' @ i @ ''`): ''
       @ src @ ''. Either the bundled data is corrupt or the user override is malformed.''
   | KbInvalidVendorId i v \<Rightarrow> ''knowledge-base entry has invalid PCI vendor id `'' @ v @ ''` for issue `'' @ i
       @ ''`: expected 4-hex-digit lowercase value (e.g. `10de`)''
   | KbInvalidDeviceIdPattern i p \<Rightarrow> ''knowledge-base entry has invalid device-id pattern `'' @ p
       @ ''` for issue `'' @ i @ ''`: expected `*` or 4-hex-digit lowercase value''
   | KbMissing p \<Rightarrow> ''knowledge-base file at '' @ path_display p @ '' does not exist''
   | KbMissingField p sec f \<Rightarrow> ''user knowledge-base override at '' @ path_display p @ '' declared '' @ sec
       @ '' entry without an `'' @ f @ ''` field'')"

record kb_parsers =
  parse_quirks :: "string \<Rightarrow> string + gpu_quirk list"
  parse_patterns :: "string \<Rightarrow> string + error_pattern list"
  bundled_quirks_toml :: string
  bundled_patterns_toml :: string

section \<open>Distribution paths\<close>

definition distro_paths_of :: "string \<Rightarrow> string \<Rightarrow> distro_paths" where
  "distro_paths_of code vars =
     \<lparr>dp_ovmf_code = Some code, dp_ovmf_vars = Some vars,
      dp_qemu_binary = ''/usr/bin/qemu-system-x86_64'',
      dp_libvirt_images_dir = ''/var/lib/libvirt/images''\<rparr>"

definition generic_paths :: distro_paths where
  "generic_paths = distro_paths_of ''/usr/share/OVMF/OVMF_CODE.fd'' ''/usr/share/OVMF/OVMF_VARS.fd''"

definition arch_paths :: distro_paths where
  "arch_paths = distro_paths_of ''/usr/share/edk2/x64/OVMF_CODE.fd'' ''/usr/share/edk2/x64/OVMF_VARS.fd''"

definition debian_paths :: distro_paths where
  "debian_paths = distro_paths_of ''/usr/share/OVMF/OVMF_CODE.fd'' ''/usr/share/OVMF/OVMF_VARS.fd''"

definition fedora_paths :: distro_paths where
  "fedora_paths = distro_paths_of ''/usr/share/edk2/ovmf/OVMF_CODE.fd'' ''/usr/share/edk2/ovmf/OVMF_VARS.fd''"

definition opensuse_paths :: distro_paths where
  "opensuse_paths = distro_paths_of ''/usr/share/qemu/ovmf-x86_64-code.bin'' ''/usr/share/qemu/ovmf-x86_64-vars.bin''"

definition paths_for_distro :: "knowledge_base \<Rightarrow> distro_info \<Rightarrow> distro_paths" where
  "paths_for_distro kb d = (case distro_family d of
     ArchFamily \<Rightarrow> kb_arch_paths kb
   | DebianFamily \<Rightarrow> kb_debian_paths kb | UbuntuFamily \<Rightarrow> kb_debian_paths kb
   | FedoraFamily \<Rightarrow> kb_fedora_paths kb | RhelFamily \<Rightarrow> kb_fedora_paths kb
   | OpenSuseFamily \<Rightarrow> kb_opensuse_paths kb
   | _ \<Rightarrow> kb_generic_paths kb)"

definition kb_with :: "gpu_quirk list \<Rightarrow> error_pattern list \<Rightarrow> knowledge_base" where
  "kb_with qs ps =
     \<lparr>kb_generic_paths = generic_paths, kb_arch_paths = arch_paths, kb_debian_paths = debian_paths,
      kb_fedora_paths = fedora_paths, kb_opensuse_paths = opensuse_paths,
      kb_gpu_quirks = qs, kb_error_patterns = ps\<rparr>"

definition kb_empty :: knowledge_base where
  "kb_empty = kb_with [] []"

section \<open>Queries\<close>

definition quirks_for_gpu :: "knowledge_base \<Rightarrow> string \<Rightarrow> string \<Rightarrow> gpu_quirk list" where
  "quirks_for_gpu kb vendor device =
     filter (\<lambda>q. eq_ignore_case (quirk_vendor_id q) vendor \<and>
        (quirk_device_id_pattern q = ''*'' \<or> eq_ignore_case (quirk_device_id_pattern q) device))
       (kb_gpu_quirks kb)"

record diagnostic_suggestion =
  ds_cause :: string
  ds_fix_options :: "string list"

definition suggestion_of :: "error_pattern \<Rightarrow> diagnostic_suggestion" where
  "suggestion_of p = \<lparr>ds_cause = pattern_cause p, ds_fix_options = pattern_fix_options p\<rparr>"

definition pattern_matches :: "(string \<Rightarrow> string + (string \<Rightarrow> bool)) \<Rightarrow> string \<Rightarrow> error_pattern \<Rightarrow> bool" where
  "pattern_matches compile stderr p =
     (case compile (pattern_regex p) of Inl _ \<Rightarrow> False | Inr m \<Rightarrow> m stderr)"

definition diagnose_error ::
  "(string \<Rightarrow> string + (string \<Rightarrow> bool)) \<Rightarrow> knowledge_base \<Rightarrow> string \<Rightarrow> diagnostic_suggestion option" where
  "diagnose_error compile kb stderr =
     map_option suggestion_of (List.find (pattern_matches compile stderr) (kb_error_patterns kb))"

section \<open>Loading\<close>

definition ascii_uppercase :: "char \<Rightarrow> bool" where
  "ascii_uppercase c \<longleftrightarrow> (let n = (of_char c :: nat) in 65 \<le> n \<and> n \<le> 90)"

definition is_valid_pci_id_4hex :: "string \<Rightarrow> bool" where
  "is_valid_pci_id_4hex i \<longleftrightarrow>
     length i = 4 \<and> (\<forall>c \<in> set i. ascii_hexdigit c \<and> \<not> ascii_uppercase c)"

fun validate_quirks :: "gpu_quirk list \<Rightarrow> knowledge_base_error + unit" where
  "validate_quirks [] = Inr ()"
| "validate_quirks (q # qs) =
     (if \<not> is_valid_pci_id_4hex (quirk_vendor_id q)
      then Inl (KbInvalidVendorId (quirk_issue_id q) (quirk_vendor_id q))
      else if quirk_device_id_pattern q \<noteq> ''*'' \<and> \<not> is_valid_pci_id_4hex (quirk_device_id_pattern q)
      then Inl (KbInvalidDeviceIdPattern (quirk_issue_id q) (quirk_device_id_pattern q))
      else validate_quirks qs)"

fun validate_patterns ::
  "(string \<Rightarrow> string + (string \<Rightarrow> bool)) \<Rightarrow> error_pattern list \<Rightarrow> knowledge_base_error + unit" where
  "validate_patterns compile [] = Inr ()"
| "validate_patterns compile (p # ps) =
     (case compile (pattern_regex p) of
        Inl e \<Rightarrow> Inl (KbInvalidRegex (pattern_id p) (pattern_regex p) e)
      | Inr _ \<Rightarrow> validate_patterns compile ps)"

definition kb_validate ::
  "(string \<Rightarrow> string + (string \<Rightarrow> bool)) \<Rightarrow> knowledge_base \<Rightarrow> knowledge_base_error + unit" where
  "kb_validate compile kb =
     res_then (validate_quirks (kb_gpu_quirks kb)) (\<lambda>_. validate_patterns compile (kb_error_patterns kb))"

definition load_bundled ::
  "kb_parsers \<Rightarrow> (string \<Rightarrow> string + (string \<Rightarrow> bool)) \<Rightarrow> knowledge_base_error + knowledge_base" where
  "load_bundled P compile =
     res_then (map_err (KbParseBundled ''gpu_quirks.toml'') (parse_quirks P (bundled_quirks_toml P))) (\<lambda>qs.
     res_then (map_err (KbParseBundled ''error_patterns.toml'') (parse_patterns P (bundled_patterns_toml P))) (\<lambda>ps.
     res_then (kb_validate compile (kb_with qs ps)) (\<lambda>_. Inr (kb_with qs ps))))"

definition bundled :: "kb_parsers \<Rightarrow> (string \<Rightarrow> string + (string \<Rightarrow> bool)) \<Rightarrow> knowledge_base" where
  "bundled P compile = (case load_bundled P compile of Inl _ \<Rightarrow> kb_empty | Inr kb \<Rightarrow> kb)"

text \<open>The two loaders of a user file; the field that must not be empty is the identifier.\<close>

definition load_entries ::
  "(path \<Rightarrow> (io_error + string) option) \<Rightarrow> (string \<Rightarrow> string + 'a list) \<Rightarrow> ('a \<Rightarrow> string)
    \<Rightarrow> string \<Rightarrow> string \<Rightarrow> path \<Rightarrow> knowledge_base_error + 'a list" where
  "load_entries read_text parse identifier sec field p =
     (case read_text p of
        None \<Rightarrow> Inl (KbMissing p)
      | Some r \<Rightarrow>
          res_then (map_err (KbIo p) r) (\<lambda>content.
          res_then (map_err (KbParseFile p) (parse content)) (\<lambda>parsed.
            if list_ex (\<lambda>x. identifier x = []) parsed then Inl (KbMissingField p sec field)
            else Inr parsed)))"

definition load_gpu_quirks_from_path ::
  "(path \<Rightarrow> (io_error + string) option) \<Rightarrow> kb_parsers \<Rightarrow> path \<Rightarrow> knowledge_base_error + gpu_quirk list" where
  "load_gpu_quirks_from_path read_text P =
     load_entries read_text (parse_quirks P) quirk_issue_id ''[[quirks]]'' ''issue_id''"

definition load_error_patterns_from_path ::
  "(path \<Rightarrow> (io_error + string) option) \<Rightarrow> kb_parsers \<Rightarrow> path \<Rightarrow> knowledge_base_error + error_pattern list" where
  "load_error_patterns_from_path read_text P =
     load_entries read_text (parse_patterns P) pattern_id ''[[patterns]]'' ''id''"

definition from_files ::
  "(path \<Rightarrow> (io_error + string) option) \<Rightarrow> kb_parsers \<Rightarrow> (string \<Rightarrow> string + (string \<Rightarrow> bool))
    \<Rightarrow> path option \<Rightarrow> path option \<Rightarrow> knowledge_base_error + knowledge_base" where
  "from_files read_text P compile quirks_path patterns_path =
     res_then (load_bundled P compile) (\<lambda>kb.
     res_then (case quirks_path of None \<Rightarrow> Inr kb
               | Some p \<Rightarrow> res_then (load_gpu_quirks_from_path read_text P p) (\<lambda>extra.
                   Inr (kb\<lparr>kb_gpu_quirks := kb_gpu_quirks kb @ extra\<rparr>))) (\<lambda>kb.
     res_then (case patterns_path of None \<Rightarrow> Inr kb
               | Some p \<Rightarrow> res_then (load_error_patterns_from_path read_text P p) (\<lambda>extra.
                   Inr (kb\<lparr>kb_error_patterns := kb_error_patterns kb @ extra\<rparr>))) (\<lambda>kb.
     res_then (kb_validate compile kb) (\<lambda>_. Inr kb))))"

section \<open>Properties\<close>

definition kb_valid :: "(string \<Rightarrow> string + (string \<Rightarrow> bool)) \<Rightarrow> knowledge_base \<Rightarrow> bool" where
  "kb_valid compile kb \<longleftrightarrow>
     (\<forall>q \<in> set (kb_gpu_quirks kb). is_valid_pci_id_4hex (quirk_vendor_id q) \<and>
        (quirk_device_id_pattern q = ''*'' \<or> is_valid_pci_id_4hex (quirk_device_id_pattern q))) \<and>
     (\<forall>p \<in> set (kb_error_patterns kb). is_ok (compile (pattern_regex p)))"

lemma kb_validate_iff: "kb_validate compile kb = Inr () \<longleftrightarrow> kb_valid compile kb"
proof -
  have q: "validate_quirks qs = Inr () \<longleftrightarrow> (\<forall>q \<in> set qs. is_valid_pci_id_4hex (quirk_vendor_id q) \<and>
        (quirk_device_id_pattern q = ''*'' \<or> is_valid_pci_id_4hex (quirk_device_id_pattern q)))" for qs
    by (induction qs) auto
  have p: "validate_patterns compile ps = Inr () \<longleftrightarrow> (\<forall>p \<in> set ps. is_ok (compile (pattern_regex p)))" for ps
    by (induction ps) (auto simp: is_ok_iff split: sum.splits)
  show ?thesis by (simp add: kb_validate_def res_then_Inr_iff kb_valid_def q p)
qed

lemma load_bundled_Inr: "load_bundled P compile = Inr kb \<Longrightarrow> bundled P compile = kb \<and> kb_valid compile kb"
  by (auto simp: bundled_def load_bundled_def res_then_Inr_iff kb_validate_iff[symmetric])

lemma from_files_Inr:
  assumes "from_files read_text P compile qp pp = Inr kb"
  shows "kb_valid compile kb \<and>
     (\<exists>qs. kb_gpu_quirks kb = kb_gpu_quirks (bundled P compile) @ qs) \<and>
     (\<exists>ps. kb_error_patterns kb = kb_error_patterns (bundled P compile) @ ps)"
proof -
  obtain kb0 where kb0: "load_bundled P compile = Inr kb0"
    and more: "(\<exists>qs. kb_gpu_quirks kb = kb_gpu_quirks kb0 @ qs) \<and>
      (\<exists>ps. kb_error_patterns kb = kb_error_patterns kb0 @ ps)" "kb_validate compile kb = Inr ()"
    using assms by (auto simp: from_files_def res_then_Inr_iff split: option.splits)
  have "bundled P compile = kb0" using load_bundled_Inr[OF kb0] by simp
  then show ?thesis using more by (simp add: kb_validate_iff)
qed

text \<open>Every knowledge base that the program can hold is valid, the fallback after a failed load
  included: vendor ids are four lower-case hexadecimal digits, device patterns are such ids or a
  star, and every regular expression compiles, so that no error pattern is skipped silently. A user
  file only appends: its quirks come after the bundled ones, and an error that the bundled patterns
  explain keeps their explanation.\<close>

theorem loaded_kb_valid:
  "kb_valid compile (bundled P compile) \<and>
   (case from_files read_text P compile qp pp of
      Inl _ \<Rightarrow> True
    | Inr kb \<Rightarrow> kb_valid compile kb \<and>
        (\<exists>qs. kb_gpu_quirks kb = kb_gpu_quirks (bundled P compile) @ qs) \<and>
        diagnose_error compile kb stderr \<in>
          (case diagnose_error compile (bundled P compile) stderr of Some s \<Rightarrow> {Some s} | None \<Rightarrow> UNIV))"
proof -
  have "kb_valid compile kb_empty" by (simp add: kb_valid_def kb_empty_def kb_with_def)
  then have "kb_valid compile (bundled P compile)"
    using load_bundled_Inr[of P compile] by (auto simp: bundled_def split: sum.splits)
  moreover have "diagnose_error compile kb stderr \<in>
      (case diagnose_error compile (bundled P compile) stderr of Some s \<Rightarrow> {Some s} | None \<Rightarrow> UNIV)"
    if "kb_error_patterns kb = kb_error_patterns (bundled P compile) @ ps" for kb ps
    using that by (auto simp: diagnose_error_def find_append split: option.splits)
  ultimately show ?thesis
    by (auto dest!: from_files_Inr split: sum.split)
qed

end
