(* ===== verification/Vm_View.thy ===== *)
theory Vm_View
  imports Sample_Host
begin

text \<open>
  \<open>vm/profile.rs\<close>: the view of a host and a configuration from which the domain XML is rendered.
\<close>

datatype vm_view_error =
  ExpectedOnePassthroughGpu nat
| ExpectedHostGpu gpu_mode
| MissingPassthroughMode
| MultiGpuPassthroughUnsupported

definition vm_view_error_display :: "vm_view_error \<Rightarrow> string" where
  "vm_view_error_display e = (case e of
     ExpectedOnePassthroughGpu n \<Rightarrow>
       ''expected exactly one passthrough GPU for VM XML generation, found '' @ show_nat n
   | ExpectedHostGpu m \<Rightarrow> ''expected one host GPU for '' @ gpu_mode_display m @ '' VM XML generation''
   | MissingPassthroughMode \<Rightarrow> ''cannot derive VM XML view without a passthrough mode''
   | MultiGpuPassthroughUnsupported \<Rightarrow> ''multi-GPU passthrough XML generation is not implemented yet'')"

record vm_disk_view =
  vd_path :: path
  vd_size_gb :: "u64 option"
  vd_format :: disk_format
  vd_create :: bool

definition disk_format_from_path :: "path \<Rightarrow> disk_format" where
  "disk_format_from_path p =
     (case path_extension p of
        Some e \<Rightarrow> if eq_ignore_case e ''qcow2'' then Qcow2 else Raw
      | None \<Rightarrow> Raw)"

definition disk_view_from_choice :: "disk_choice \<Rightarrow> vm_disk_view" where
  "disk_view_from_choice d = (case d of
     ExistingDisk p \<Rightarrow> \<lparr>vd_path = p, vd_size_gb = None, vd_format = disk_format_from_path p, vd_create = False\<rparr>
   | CreateDisk p gb f \<Rightarrow> \<lparr>vd_path = p, vd_size_gb = Some gb, vd_format = f, vd_create = True\<rparr>)"

record vm_view =
  vv_name :: string
  vv_guest_os :: guest_os
  vv_ram_mb :: u64
  vv_vcpu_count :: u32
  vv_disk :: vm_disk_view
  vv_gpu :: gpu_info
  vv_host_gpu :: "gpu_info option"
  vv_mode :: gpu_mode
  vv_iso_path :: "path option"
  vv_vm_monitor :: "monitor_info option"
  vv_host_monitor :: "monitor_info option"
  vv_input :: input_choice
  vv_use_hugepages :: bool
  vv_use_cpu_pinning :: bool
  vv_use_iothreads :: bool
  vv_enable_tpm :: bool
  vv_enable_hyperv :: bool
  vv_enable_secure_boot :: bool
  vv_audio :: audio_choice
  vv_network :: network_choice

definition monitor_by_connector :: "system_profile \<Rightarrow> string \<Rightarrow> monitor_info option" where
  "monitor_by_connector p c = List.find (\<lambda>m. connector_name m = c) (sp_monitors p)"

text \<open>\<open>VmInputView\<close> borrows the three fields of the input choice; it is the input choice here.\<close>

definition build_vm_view :: "system_profile \<Rightarrow> passthrough_config \<Rightarrow> vm_view_error + vm_view" where
  "build_vm_view p c =
     (case derived_mode c p of
        None \<Rightarrow> Inl MissingPassthroughMode
      | Some mode \<Rightarrow>
          if mode = MultiGpu then Inl MultiGpuPassthroughUnsupported
          else
            (let gpus = passthrough_gpus c p in
             case gpus of
               [] \<Rightarrow> Inl (ExpectedOnePassthroughGpu 0)
             | gpu # _ \<Rightarrow>
                 if length gpus \<noteq> 1 then Inl (ExpectedOnePassthroughGpu (length gpus))
                 else if mode \<noteq> SingleGpu \<and> host_gpu c p = None then Inl (ExpectedHostGpu mode)
                 else Inr \<lparr>
                   vv_name = vm_name c, vv_guest_os = cfg_guest_os c,
                   vv_ram_mb = ram_mb (resources c), vv_vcpu_count = vcpu_count (resources c),
                   vv_disk = disk_view_from_choice (res_disk (resources c)),
                   vv_gpu = gpu, vv_host_gpu = host_gpu c p, vv_mode = mode, vv_iso_path = iso_path c,
                   vv_vm_monitor = (case cfg_monitor_plan c of
                      TwoMonitors _ v \<Rightarrow> monitor_by_connector p v | OneMonitor _ \<Rightarrow> None),
                   vv_host_monitor = (case cfg_monitor_plan c of
                      TwoMonitors h _ \<Rightarrow> monitor_by_connector p h | OneMonitor _ \<Rightarrow> None),
                   vv_input = cfg_input c,
                   vv_use_hugepages = False, vv_use_cpu_pinning = True, vv_use_iothreads = True,
                   vv_enable_tpm = requires_tpm (cfg_guest_os c),
                   vv_enable_hyperv = benefits_from_hyperv (cfg_guest_os c),
                   vv_enable_secure_boot = enables_secure_boot (cfg_guest_os c),
                   vv_audio = cfg_audio c, vv_network = cfg_network c\<rparr>))"

section \<open>Accepted choices and the view\<close>

lemma host_gpu_unique:
  assumes "roles_ok p c" "roles_with Host c = [a]"
  shows "\<exists>g. find_gpu p (role_pci_slot a) = Some g \<and> host_gpu c p = Some g"
proof -
  have "a \<in> set (gpu_roles c)" using assms(2) by (auto simp: roles_with_def filter_eq_Cons_iff)
  then have "role_pci_slot a \<in> set (map gpu_pci_slot (sp_gpus p))"
    using assms(1) by (auto simp: roles_ok_def)
  then obtain g where "find_gpu p (role_pci_slot a) = Some g"
    using find_gpu_known by blast
  then show ?thesis using assms(2) by (simp add: host_gpu_def)
qed

lemma view_of_choices:
  assumes "choices_ok ex p c"
  shows "case build_vm_view p c of
      Inl e \<Rightarrow> e = MissingPassthroughMode \<and> 2 \<le> length (roles_with Host c)
    | Inr v \<Rightarrow> length (roles_with Host c) \<le> 1 \<and> passthrough_gpus c p = [vv_gpu v] \<and>
        iommu_isolated (vv_gpu v) \<and> vv_mode v = cfg_gpu_mode c \<and>
        vv_host_gpu v = host_gpu c p \<and> (vv_mode v = SingleGpu \<longleftrightarrow> vv_host_gpu v = None) \<and>
        vv_mode v \<noteq> MultiGpu"
proof -
  from assms have roles: "roles_ok p c" by (simp add: choices_ok_def)
  then obtain a g where ag: "roles_with Passthrough c = [a]" "find_gpu p (role_pci_slot a) = Some g"
      "iommu_isolated g" and mode: "\<And>m. derived_mode c p = Some m \<Longrightarrow> cfg_gpu_mode c = m"
    by (auto simp: roles_ok_def)
  from ag have pass: "passthrough_gpus c p = [g]"
    by (simp add: passthrough_gpus_def List.map_filter_simps)
  consider "roles_with Host c = []" | h where "roles_with Host c = [h]"
    | h h' t where "roles_with Host c = h # h' # t"
    by (cases "roles_with Host c"; cases "tl (roles_with Host c)") auto
  then show ?thesis
  proof cases
    case 1
    then have "derived_mode c p = Some SingleGpu" "host_gpu c p = None"
      using ag(1) by (simp_all add: derived_mode_alt host_gpu_def)
    with pass ag(3) mode 1 show ?thesis by (simp add: build_vm_view_def)
  next
    case 2
    from host_gpu_unique[OF roles 2] obtain k where k: "host_gpu c p = Some k" by blast
    then have "derived_mode c p = Some (if gpu_type k = Integrated then IgpuHost else DualGpu)"
      using ag(1) 2 by (simp add: derived_mode_alt)
    with pass ag(3) mode 2 k show ?thesis by (simp add: build_vm_view_def)
  next
    case 3
    then have "derived_mode c p = None"
      using ag(1) by (simp add: derived_mode_alt host_gpu_def)
    with 3 show ?thesis by (simp add: build_vm_view_def)
  qed
qed

text \<open>From accepted choices the view is built, and it is about the one isolated GPU that the user
  passes through, in the mode the user chose, with the host GPU the roles name; the only
  accepted choices without a view are those that leave two or more GPUs to the host.\<close>

theorem vm_view_of_choices:
  assumes "choices_ok ex p c"
  shows "case build_vm_view p c of
      Inl e \<Rightarrow> e = MissingPassthroughMode \<and> 2 \<le> length (roles_with Host c)
    | Inr v \<Rightarrow> length (roles_with Host c) \<le> 1 \<and> passthrough_gpus c p = [vv_gpu v] \<and>
        iommu_isolated (vv_gpu v) \<and> vv_mode v = cfg_gpu_mode c \<and>
        vv_host_gpu v = host_gpu c p \<and> (vv_mode v = SingleGpu \<longleftrightarrow> vv_host_gpu v = None) \<and>
        vv_mode v \<noteq> MultiGpu"
  using assms by (rule view_of_choices)

lemma vm_view_exists:
  "choices_ok ex p c \<Longrightarrow> length (roles_with Host c) \<le> 1 \<Longrightarrow> \<exists>v. build_vm_view p c = Inr v"
  using view_of_choices[of ex p c] by (auto split: sum.splits)

lemma vm_view_of_sample: "\<exists>v. build_vm_view sample_profile sample_config = Inr v"
  using vm_view_exists[OF sample_choices_ok] by (simp add: sample_roles)

theorem vm_view_of_choices_witness:
  "\<exists>v. build_vm_view sample_profile sample_config = Inr v \<and> iommu_isolated (vv_gpu v) \<and>
     vv_mode v = IgpuHost \<and> vv_host_gpu v = Some sample_igpu"
proof -
  have "host_gpu sample_config sample_profile = Some sample_igpu"
    by (simp add: host_gpu_def sample_roles sample_find)
  moreover have "cfg_gpu_mode sample_config = IgpuHost" by (simp add: sample_config_def)
  ultimately show ?thesis
    using vm_view_of_choices[OF sample_choices_ok]
    by (auto simp: sample_roles split: sum.splits)
qed

text \<open>A third card, left to the host beside the integrated GPU.\<close>

definition third_gpu :: gpu_info where
  "third_gpu = sample_gpu ''0000:02:00.0'' Discrete ''1002'' ''73bf'' False None"

definition two_host_profile :: system_profile where
  "two_host_profile = sample_profile\<lparr>sp_gpus := [sample_igpu, sample_dgpu, third_gpu]\<rparr>"

definition two_host_config :: passthrough_config where
  "two_host_config = sample_config\<lparr>gpu_roles :=
     [\<lparr>role_pci_slot = ''0000:00:02.0'', role_role = Host\<rparr>,
      \<lparr>role_pci_slot = ''0000:01:00.0'', role_role = Passthrough\<rparr>,
      \<lparr>role_pci_slot = ''0000:02:00.0'', role_role = Host\<rparr>]\<rparr>"

lemma two_host_roles:
  "roles_with Passthrough two_host_config = [\<lparr>role_pci_slot = ''0000:01:00.0'', role_role = Passthrough\<rparr>]"
  "roles_with Host two_host_config = [\<lparr>role_pci_slot = ''0000:00:02.0'', role_role = Host\<rparr>,
     \<lparr>role_pci_slot = ''0000:02:00.0'', role_role = Host\<rparr>]"
  by (simp_all add: roles_with_def two_host_config_def)

lemma two_host_find:
  "find_gpu two_host_profile ''0000:01:00.0'' = Some sample_dgpu"
  "find_gpu two_host_profile ''0000:00:02.0'' = Some sample_igpu"
  "find_gpu two_host_profile ''0000:02:00.0'' = Some third_gpu"
  by (simp_all add: find_gpu_def two_host_profile_def third_gpu_def sample_gpu_defs)

lemma two_host_mode: "derived_mode two_host_config two_host_profile = None"
  by (simp add: derived_mode_alt two_host_roles host_gpu_def)

lemma two_host_supported: "host_supported two_host_profile"
  by (simp add: host_supported_def two_host_profile_def sample_profile_def iommu_active_def
      sample_gpu_defs ovmf_available_def)

lemma two_host_choices: "choices_ok sample_exists two_host_profile two_host_config"
  unfolding choices_ok_def
  by (intro conjI)
    (simp_all add: name_ok_def roles_ok_def monitors_ok_def looking_glass_ok_def resources_ok_def
      two_host_roles two_host_find two_host_mode,
     simp_all add: two_host_config_def two_host_profile_def third_gpu_def sample_config_def
      sample_profile_def sample_gpu_defs is_valid_vm_name_def domain_names_def
      ascii_alphanumeric_def sample_exists_def host_ram_mb_def host_threads_def
      available_gb_def all_evdev_paths_def)

text \<open>Two GPUs left to the host are accepted by validation and the planner makes a plan, but the
  domain XML of that plan can never be rendered: the second phase, after the host has been
  rebooted into the new configuration, fails with a missing mode.\<close>

theorem two_host_gpus_planned_not_rendered:
  "(\<exists>pl. make_plan sample_exists sample_env two_host_profile
      (build_compatibility_report two_host_profile) two_host_config = Inr pl \<and>
      VmXmlGenerate \<in> set (map step_kind (plan_steps pl))) \<and>
   build_vm_view two_host_profile two_host_config = Inl MissingPassthroughMode"
proof -
  obtain pl where pl: "make_plan sample_exists sample_env two_host_profile
      (build_compatibility_report two_host_profile) two_host_config = Inr pl"
    using make_plan_ok_iff[of sample_exists sample_env two_host_profile two_host_config]
    by (auto simp: two_host_supported two_host_choices is_ok_iff)
  then have "plan_steps pl = build_steps sample_env two_host_profile two_host_config"
    by (simp add: make_plan_choices)
  then have "VmXmlGenerate \<in> set (map step_kind (plan_steps pl))"
    by (simp add: build_steps_kinds)
  with pl show ?thesis by (auto simp: build_vm_view_def two_host_mode)
qed

end
