(* ===== verification/Vm_Xml.thy ===== *)
theory Vm_Xml
  imports Vm_View Cpu_Topology Knowledge_Base Rust_Lines
begin

text \<open>
  \<open>vm/xml/mod.rs\<close>, \<open>vm/xml/devices/*.rs\<close> and \<open>engine/vm_xml.rs\<close>: the renderer of the libvirt domain
  XML. The random UUID and the user id of the process are arguments. Writing to a \<open>String\<close> cannot
  fail, so the renderers return the text; the one error is that of the view.
\<close>

definition guest_os_name :: "guest_os \<Rightarrow> string" where
  "guest_os_name g = (case g of
     Windows7 \<Rightarrow> ''Windows 7'' | Windows10 \<Rightarrow> ''Windows 10'' | Windows11 \<Rightarrow> ''Windows 11''
   | LinuxGuest \<Rightarrow> ''Linux'' | OtherGuest \<Rightarrow> ''Other'')"

definition libvirt_audio_type :: "audio_system \<Rightarrow> string" where
  "libvirt_audio_type a = (case a of PipeWire \<Rightarrow> ''pipewire'' | PulseAudio \<Rightarrow> ''pulseaudio'' | _ \<Rightarrow> ''none'')"

text \<open>The em dash of the title, in UTF-8.\<close>

definition em_dash :: string where
  "em_dash = [CHR 0xE2, CHR 0x80, CHR 0x94]"

text \<open>A whole line of the document and a sequence of lines; \<open>attr v\<close> is a quoted attribute value.\<close>

definition xml_lines :: "string list \<Rightarrow> string" where
  "xml_lines ls = concat (map writeln ls)"

definition attr :: "string \<Rightarrow> string" where
  "attr v = SQ # v @ [SQ]"

section \<open>Memory and processor\<close>

definition render_memory :: "vm_view \<Rightarrow> string" where
  "render_memory v =
     (let ram_kb = show_nat (unat (vv_ram_mb v * 1024))
      in xml_lines
        [''  <memory unit='KiB'>'' @ ram_kb @ ''</memory>'',
         ''  <currentMemory unit='KiB'>'' @ ram_kb @ ''</currentMemory>'']
       @ (if vv_use_hugepages v then xml_lines
           [''  <memoryBacking>'',
            ''    <hugepages/>'',
            ''    <nosharepages/>'',
            ''    <locked/>'',
            ''    <source type='memfd'/>'',
            ''    <access mode='shared'/>'',
            ''  </memoryBacking>'']
          else []))"

definition write_cpu_tune :: "vm_view \<Rightarrow> system_profile \<Rightarrow> string" where
  "write_cpu_tune v sys =
     (if \<not> vv_use_cpu_pinning v then []
      else
        (let pinning = calculate_pinning (sp_cpu sys) (vv_vcpu_count v)
         in xml_lines [''  <cputune>'']
          @ xml_lines (map (\<lambda>(vcpu, cpuset). ''    <vcpupin vcpu='' @ attr (show_u32 vcpu) @ '' cpuset=''
              @ attr cpuset @ ''/>'') (vcpu_pins pinning))
          @ xml_lines [''    <emulatorpin cpuset='' @ attr (emulator_cpuset pinning) @ ''/>'']
          @ (if vv_use_iothreads v
             then xml_lines [''    <iothreadpin iothread='1' cpuset='' @ attr (emulator_cpuset pinning) @ ''/>'']
             else [])
          @ xml_lines [''  </cputune>'']))"

definition render_resources :: "vm_view \<Rightarrow> system_profile \<Rightarrow> string" where
  "render_resources v sys =
     xml_lines [''  <vcpu placement='static'>'' @ show_u32 (vv_vcpu_count v) @ ''</vcpu>'']
     @ (if vv_use_cpu_pinning v \<and> vv_use_iothreads v then xml_lines [''  <iothreads>1</iothreads>''] else [])
     @ write_cpu_tune v sys"

text \<open>The cores of the guest: \<open>vcpu_count / threads_per_core\<close>, at least one.\<close>

definition topology_cores :: "u32 \<Rightarrow> cpu_info \<Rightarrow> u32" where
  "topology_cores vcpus cpu = max (vcpus div threads_per_core cpu) 1"

definition write_cpu :: "vm_view \<Rightarrow> system_profile \<Rightarrow> string" where
  "write_cpu v sys =
     xml_lines
      [''  <cpu mode='host-passthrough' check='none' migratable='off'>'',
       ''    <topology sockets='' @ attr (show_u32 1) @ '' dies='1' cores=''
          @ attr (show_u32 (topology_cores (vv_vcpu_count v) (sp_cpu sys)))
          @ '' threads='' @ attr (show_u32 (threads_per_core (sp_cpu sys))) @ ''/>'',
       ''    <cache mode='passthrough'/>'']
     @ (if contains_str ''AMD'' (cpu_vendor (sp_cpu sys))
        then xml_lines [''    <feature policy='require' name='topoext'/>''] else [])
     @ (if gpu_vendor (vv_gpu v) = Nvidia \<and> vv_enable_hyperv v
        then xml_lines [''    <vendor_id state='on' value='AuthenticAMD'/>''] else [])
     @ xml_lines [''  </cpu>'']"

definition write_clock :: "vm_view \<Rightarrow> string" where
  "write_clock v =
     xml_lines
      [''  <clock offset='' @ attr (if benefits_from_hyperv (vv_guest_os v) then ''localtime'' else ''utc'')
          @ ''>'',
       ''    <timer name='rtc' tickpolicy='catchup'/>'',
       ''    <timer name='pit' tickpolicy='delay'/>'',
       ''    <timer name='hpet' present='no'/>'']
     @ (if vv_enable_hyperv v then xml_lines [''    <timer name='hypervclock' present='yes'/>''] else [])
     @ xml_lines [''  </clock>'']"

definition render_processor :: "vm_view \<Rightarrow> system_profile \<Rightarrow> string" where
  "render_processor v sys = write_cpu v sys @ write_clock v"

section \<open>Firmware and features\<close>

definition render_firmware :: "vm_view \<Rightarrow> system_profile \<Rightarrow> knowledge_base \<Rightarrow> string" where
  "render_firmware v sys kb =
     (let ovmf = paths_for_distro kb (sp_distro sys);
          ovmf_code = (case dp_ovmf_code ovmf of Some c \<Rightarrow> c | None \<Rightarrow> ''/usr/share/OVMF/OVMF_CODE.fd'');
          ovmf_vars = (case dp_ovmf_vars ovmf of Some c \<Rightarrow> c | None \<Rightarrow> ''/usr/share/OVMF/OVMF_VARS.fd'')
      in xml_lines
          [''  <os firmware='efi'>'',
           ''    <type arch='x86_64' machine='q35'>hvm</type>'',
           ''    <loader readonly='yes' type='pflash'>'' @ ovmf_code @ ''</loader>'',
           ''    <nvram>'' @ ovmf_vars @ ''</nvram>'',
           ''    <bootmenu enable='yes' timeout='3000'/>'']
        @ (if vv_iso_path v \<noteq> None then xml_lines [''    <boot dev='cdrom'/>''] else [])
        @ xml_lines
          [''    <boot dev='hd'/>'',
           ''  </os>''])"

definition render_features :: "vm_view \<Rightarrow> string" where
  "render_features v =
     xml_lines
      [''  <features>'',
       ''    <acpi/>'',
       ''    <apic/>'']
     @ (if vv_enable_secure_boot v then xml_lines [''    <smm state='on'/>''] else [])
     @ (if vv_enable_hyperv v then xml_lines
         [''    <hyperv mode='custom'>'',
          ''      <relaxed state='on'/>'',
          ''      <vapic state='on'/>'',
          ''      <spinlocks state='on' retries='8191'/>'',
          ''      <vpindex state='on'/>'',
          ''      <synic state='on'/>'',
          ''      <stimer state='on'>'',
          ''        <direct state='on'/>'',
          ''      </stimer>'',
          ''      <reset state='on'/>'',
          ''      <frequencies state='on'/>'',
          ''      <reenlightenment state='on'/>'',
          ''      <tlbflush state='on'/>'',
          ''      <ipi state='on'/>'',
          ''    </hyperv>'',
          ''    <ioapic driver='kvm'/>'']
        else [])
     @ (if gpu_vendor (vv_gpu v) = Nvidia then xml_lines
         [''    <kvm>'',
          ''      <hidden state='on'/>'',
          ''    </kvm>'']
        else [])
     @ xml_lines [''  </features>'']"

section \<open>Devices\<close>

definition write_primary_disk :: "vm_view \<Rightarrow> string" where
  "write_primary_disk v =
     xml_lines
      [''    <disk type='file' device='disk'>'',
       ''      <driver name='qemu' type='' @ attr (disk_extension (vd_format (vv_disk v)))
          @ '' cache='none' io='native' discard='' @ attr ''unmap''
          @ (if vv_use_iothreads v then '' iothread='' @ attr ''1'' else []) @ ''/>'',
       ''      <source file='' @ attr (path_display (vd_path (vv_disk v))) @ ''/>'',
       ''      <target dev='sda' bus='scsi'/>'',
       ''      <boot order='1'/>'',
       ''    </disk>'']"

definition write_iso_disk :: "vm_view \<Rightarrow> string" where
  "write_iso_disk v = (case vv_iso_path v of
     None \<Rightarrow> []
   | Some iso_file \<Rightarrow> xml_lines
      [''    <disk type='file' device='cdrom'>'',
       ''      <driver name='qemu' type='raw'/>'',
       ''      <source file='' @ attr (path_display iso_file) @ ''/>'',
       ''      <target dev='sdb' bus='scsi'/>'',
       ''      <readonly/>'',
       ''    </disk>''])"

definition write_scsi_controller :: "vm_view \<Rightarrow> string" where
  "write_scsi_controller v =
     xml_lines [''    <controller type='scsi' index='0' model='virtio-scsi'>'']
     @ (if vv_use_iothreads v then xml_lines [''      <driver iothread='1'/>''] else [])
     @ xml_lines [''    </controller>'']"

definition render_disk :: "vm_view \<Rightarrow> string" where
  "render_disk v = write_primary_disk v @ write_iso_disk v @ write_scsi_controller v"

definition render_network :: "vm_view \<Rightarrow> string" where
  "render_network v =
     (let queues = min (vv_vcpu_count v) 8;
          driver = ''      <driver name='vhost' queues='' @ attr (show_u32 queues) @ ''/>''
      in case vv_network v of
           NatNetwork \<Rightarrow> xml_lines
             [''    <interface type='network'>'',
              ''      <source network='default'/>'',
              ''      <model type='virtio'/>'',
              driver,
              ''    </interface>'']
         | BridgeNetwork i \<Rightarrow> xml_lines
             [''    <interface type='bridge'>'',
              ''      <source bridge='' @ attr i @ ''/>'',
              ''      <model type='virtio'/>'',
              driver,
              ''    </interface>'']
         | NoNetwork \<Rightarrow> [])"

text \<open>\<open>u32::from_str_radix(s, 16)\<close>: an optional plus sign, then at least one digit, no overflow.\<close>

definition hex_digit_value :: "char \<Rightarrow> nat" where
  "hex_digit_value c =
     (let n = of_char c in if n \<le> 57 then n - 48 else if n \<le> 70 then n - 55 else n - 87)"

fun hex_value :: "nat \<Rightarrow> string \<Rightarrow> nat option" where
  "hex_value n [] = Some n"
| "hex_value n (c # cs) =
     (if ascii_hexdigit c then hex_value (16 * n + hex_digit_value c) cs else None)"

definition parse_hex32 :: "string \<Rightarrow> nat option" where
  "parse_hex32 s =
     (let ds = (case s of c # cs \<Rightarrow> if c = CHR ''+'' then cs else s | [] \<Rightarrow> s)
      in if ds = [] then None
         else (case hex_value 0 ds of None \<Rightarrow> None | Some n \<Rightarrow> if n < 2 ^ 32 then Some n else None))"

text \<open>\<open>format!("{n:0w$x}")\<close>.\<close>

definition hex_digit :: "nat \<Rightarrow> char" where
  "hex_digit d = char_of (if d < 10 then 48 + d else 87 + d)"

fun show_hex :: "nat \<Rightarrow> string" where
  "show_hex n = (if n < 16 then [hex_digit n] else show_hex (n div 16) @ [hex_digit (n mod 16)])"

declare show_hex.simps [simp del]

definition hex_padded :: "nat \<Rightarrow> nat \<Rightarrow> string" where
  "hex_padded w n = (let s = show_hex n in replicate (w - length s) (CHR ''0'') @ s)"

definition parse_pci_slot :: "string \<Rightarrow> (nat \<times> nat \<times> nat \<times> nat) option" where
  "parse_pci_slot slot =
     (let parts = split_char (CHR '':'') slot
      in if length parts < 3 then None
         else Option.bind (parse_hex32 (parts ! 0)) (\<lambda>domain.
              Option.bind (parse_hex32 (parts ! 1)) (\<lambda>bus.
                let dev_fn = split_char (CHR ''.'') (parts ! 2)
                in Option.bind (case dev_fn of [] \<Rightarrow> None | d # _ \<Rightarrow> parse_hex32 d) (\<lambda>device.
                   Option.bind (case dev_fn of _ # f # _ \<Rightarrow> parse_hex32 f | _ \<Rightarrow> None) (\<lambda>function.
                     Some (domain, bus, device, function))))))"

definition pci_address :: "nat \<times> nat \<times> nat \<times> nat \<Rightarrow> string" where
  "pci_address a = (case a of (domain, bus, slot, function) \<Rightarrow>
     ''        <address domain='' @ attr (''0x'' @ hex_padded 4 domain) @ '' bus='' @ attr (''0x'' @ hex_padded 2 bus)
       @ '' slot='' @ attr (''0x'' @ hex_padded 2 slot) @ '' function='' @ attr (''0x'' @ hex_padded 1 function)
       @ ''/>'')"

definition rom_path :: "gpu_info \<Rightarrow> string" where
  "rom_path g = ''/var/lib/libvirt/vbios/''
     @ map (\<lambda>c. if c = CHR '':'' \<or> c = CHR ''.'' then CHR ''_'' else c) (gpu_pci_slot g) @ ''.rom''"

definition slot_address :: "nat \<times> nat \<times> nat \<times> nat \<Rightarrow> string \<Rightarrow> nat \<times> nat \<times> nat \<times> nat" where
  "slot_address fallback slot = (case parse_pci_slot slot of Some a \<Rightarrow> a | None \<Rightarrow> fallback)"

definition render_gpu_hostdev :: "vm_view \<Rightarrow> string" where
  "render_gpu_hostdev v =
     (let gpu = vv_gpu v
      in xml_lines
          [''    <!-- GPU: '' @ gpu_model_name gpu @ '' -->'',
           ''    <hostdev mode='subsystem' type='pci' managed='yes'>'',
           ''      <source>'',
           pci_address (slot_address (0, 1, 0, 0) (gpu_pci_slot gpu)),
           ''      </source>'']
        @ (if rom_accessible gpu then xml_lines [''      <rom file='' @ attr (rom_path gpu) @ ''/>''] else [])
        @ xml_lines [''    </hostdev>'']
        @ (case companion_audio gpu of
             None \<Rightarrow> []
           | Some audio \<Rightarrow> xml_lines
              [''    <!-- GPU Audio companion -->'',
               ''    <hostdev mode='subsystem' type='pci' managed='yes'>'',
               ''      <source>'',
               pci_address (slot_address (0, 1, 0, 1) (comp_pci_slot audio)),
               ''      </source>'',
               ''    </hostdev>'']))"

definition evdev_input :: "path \<Rightarrow> string" where
  "evdev_input q = xml_lines
     [''    <input type='evdev'>'',
      ''      <source dev='' @ attr (path_display q) @ ''/>'',
      ''    </input>'']"

definition render_input :: "vm_view \<Rightarrow> string" where
  "render_input v =
     xml_lines [''    <controller type='usb' model='qemu-xhci' ports='15'/>'']
     @ (case keyboard_evdev (vv_input v) of
          None \<Rightarrow> []
        | Some q \<Rightarrow> xml_lines
           [''    <input type='evdev'>'',
            ''      <source dev='' @ attr (path_display q) @ '' grab='all' grabToggle='ctrl-ctrl' repeat='on'/>'',
            ''    </input>''])
     @ (case mouse_evdev (vv_input v) of None \<Rightarrow> [] | Some q \<Rightarrow> evdev_input q)
     @ concat (map evdev_input (additional_evdev (vv_input v)))
     @ (if keyboard_evdev (vv_input v) = None
        then xml_lines [''    <input type='tablet' bus='usb'/>''] else [])"

definition render_tpm :: "vm_view \<Rightarrow> string" where
  "render_tpm v =
     (if vv_enable_tpm v then xml_lines
        [''    <tpm model='tpm-crb'>'',
         ''      <backend type='emulator' version='2.0'/>'',
         ''    </tpm>'']
      else [])"

definition write_audio :: "nat \<Rightarrow> vm_view \<Rightarrow> system_profile \<Rightarrow> string" where
  "write_audio uid v sys =
     (case vv_audio v of
        HostAudio \<Rightarrow> xml_lines
          [''    <sound model='ich9'>'',
           ''      <audio id='1'/>'',
           ''    </sound>'',
           ''    <audio id='1' type='' @ attr (libvirt_audio_type (sp_audio sys))
             @ '' runtimeDir='' @ attr (''/run/user/'' @ show_nat uid) @ ''/>'']
      | Scream \<Rightarrow> xml_lines
          [''    <sound model='ich9'/>'',
           ''    <!-- Scream: install Scream in Windows guest for audio -->'']
      | NoAudio \<Rightarrow> [])"

section \<open>The domain\<close>

definition write_identity :: "string \<Rightarrow> vm_view \<Rightarrow> string" where
  "write_identity uuid v =
     xml_lines
      [''  <name>'' @ vv_name v @ ''</name>'',
       ''  <uuid>'' @ uuid @ ''</uuid>'',
       ''  <title>Virtu VM '' @ em_dash @ '' '' @ guest_os_name (vv_guest_os v) @ ''</title>'',
       ''  <description>Created by Virtu GPU Passthrough Tool</description>'']"

definition render_devices :: "nat \<Rightarrow> vm_view \<Rightarrow> system_profile \<Rightarrow> knowledge_base \<Rightarrow> string" where
  "render_devices uid v sys kb =
     xml_lines
      [''  <devices>'',
       ''    <emulator>'' @ dp_qemu_binary (paths_for_distro kb (sp_distro sys)) @ ''</emulator>'']
     @ render_disk v
     @ render_network v
     @ render_gpu_hostdev v
     @ render_input v
     @ write_audio uid v sys
     @ render_tpm v
     @ xml_lines
      [''    <serial type='pty'><target type='isa-serial' port='0'/></serial>'',
       ''    <graphics type='vnc' port='-1' autoport='yes' listen='127.0.0.1'>'',
       ''      <listen type='address' address='127.0.0.1'/>'',
       ''    </graphics>'',
       ''  </devices>'']"

definition write_qemu_commandline :: "vm_view \<Rightarrow> knowledge_base \<Rightarrow> string" where
  "write_qemu_commandline v kb =
     (let gpu = vv_gpu v;
          has_reset_bug = list_ex (\<lambda>q. quirk_issue_id q = ''reset-bug'')
            (quirks_for_gpu kb (gpu_vendor_id gpu) (gpu_device_id gpu))
      in if has_reset_bug then xml_lines
          [''  <qemu:commandline>'',
           ''    <!-- AMD reset bug mitigation -->'',
           ''    <qemu:arg value='-global'/>'',
           ''    <qemu:arg value='PIIX4_PM.disable_s3=1'/>'',
           ''    <qemu:arg value='-global'/>'',
           ''    <qemu:arg value='PIIX4_PM.disable_s4=1'/>'',
           ''  </qemu:commandline>'']
         else [])"

definition build_xml :: "string \<Rightarrow> nat \<Rightarrow> vm_view \<Rightarrow> system_profile \<Rightarrow> knowledge_base \<Rightarrow> string" where
  "build_xml uuid uid v sys kb =
     xml_lines [''<domain type='kvm' xmlns:qemu='http://libvirt.org/schemas/domain/qemu/1.0'>'']
     @ write_identity uuid v
     @ render_memory v
     @ render_resources v sys
     @ render_firmware v sys kb
     @ render_features v
     @ render_processor v sys
     @ render_devices uid v sys kb
     @ write_qemu_commandline v kb
     @ xml_lines [''</domain>'']"

definition generate_vm_xml ::
  "knowledge_base \<Rightarrow> string \<Rightarrow> nat \<Rightarrow> system_profile \<Rightarrow> passthrough_config \<Rightarrow> vm_view_error + string" where
  "generate_vm_xml kb uuid uid p c =
     res_then (build_vm_view p c) (\<lambda>v. Inr (build_xml uuid uid v p kb))"

definition xml_error_display :: "vm_view_error \<Rightarrow> string" where
  "xml_error_display e = ''failed to derive VM XML view: '' @ vm_view_error_display e"

end
