(* ===== verification/Xml_Text.thy ===== *)
theory Xml_Text
  imports Rust_Lines
begin

text \<open>
  A reader of XML text: a state machine over the characters with the stack of open elements. It
  accepts elements with single-quoted attributes, character data without \<open>&\<close>, and comments; the
  renderer of the domain uses nothing else. A text that the reader accepts is well-formed.
\<close>

datatype xml_mode =
  Content | Lt | OpenName string | InTag string | AttrValue string | SelfClose string
| CloseName string | Bang | CommentOpen | XmlComment nat | Broken

definition name_char :: "char \<Rightarrow> bool" where
  "name_char c \<longleftrightarrow> ascii_alphanumeric c \<or> c = CHR '':'' \<or> c = CHR ''_'' \<or> c = CHR ''-'' \<or> c = CHR ''.''"

type_synonym xml_state = "xml_mode \<times> string list"

fun xml_step :: "char \<Rightarrow> xml_state \<Rightarrow> xml_state" where
  "xml_step c (Content, st) =
     (if c = CHR ''<'' then (Lt, st) else if c = CHR ''&'' then (Broken, st) else (Content, st))"
| "xml_step c (Lt, st) =
     (if c = CHR ''/'' then (CloseName [], st)
      else if c = CHR ''!'' then (Bang, st)
      else if name_char c then (OpenName [c], st) else (Broken, st))"
| "xml_step c (OpenName n, st) =
     (if c = SP then (InTag n, st)
      else if c = CHR ''>'' then (Content, n # st)
      else if c = CHR ''/'' then (SelfClose n, st)
      else if name_char c then (OpenName (n @ [c]), st) else (Broken, st))"
| "xml_step c (InTag n, st) =
     (if c = SQ then (AttrValue n, st)
      else if c = CHR ''>'' then (Content, n # st)
      else if c = CHR ''/'' then (SelfClose n, st)
      else if c = SP \<or> c = CHR ''='' \<or> name_char c then (InTag n, st) else (Broken, st))"
| "xml_step c (AttrValue n, st) =
     (if c = SQ then (InTag n, st)
      else if c = CHR ''<'' \<or> c = CHR ''&'' then (Broken, st) else (AttrValue n, st))"
| "xml_step c (SelfClose n, st) = (if c = CHR ''>'' then (Content, st) else (Broken, st))"
| "xml_step c (CloseName n, st) =
     (if c = CHR ''>'' then (case st of e # st' \<Rightarrow> if e = n then (Content, st') else (Broken, st)
                                    | [] \<Rightarrow> (Broken, st))
      else if name_char c then (CloseName (n @ [c]), st) else (Broken, st))"
| "xml_step c (Bang, st) = (if c = CHR ''-'' then (CommentOpen, st) else (Broken, st))"
| "xml_step c (CommentOpen, st) = (if c = CHR ''-'' then (XmlComment 0, st) else (Broken, st))"
| "xml_step c (XmlComment k, st) =
     (if 2 \<le> k then (if c = CHR ''>'' then (Content, st) else (Broken, st))
      else if c = CHR ''-'' then (XmlComment (Suc k), st) else (XmlComment 0, st))"
| "xml_step c (Broken, st) = (Broken, st)"

fun xml_scan :: "string \<Rightarrow> xml_state \<Rightarrow> xml_state" where
  "xml_scan [] x = x"
| "xml_scan (c # cs) x = xml_scan cs (xml_step c x)"

text \<open>Text that takes the reader from one stack of open elements to another.\<close>

definition xml_effect :: "string \<Rightarrow> string list \<Rightarrow> string list \<Rightarrow> bool" where
  "xml_effect s a b \<longleftrightarrow> xml_scan s (Content, a) = (Content, b)"

abbreviation balanced :: "string \<Rightarrow> bool" where
  "balanced s \<equiv> xml_effect s [] []"

text \<open>Values that need no escape in character data and in single-quoted attributes.\<close>

definition markup_free :: "string \<Rightarrow> bool" where
  "markup_free s \<longleftrightarrow> CHR ''<'' \<notin> set s \<and> CHR ''&'' \<notin> set s \<and> SQ \<notin> set s"

lemma xml_scan_append: "xml_scan (s @ t) x = xml_scan t (xml_scan s x)"
  by (induction s arbitrary: x) simp_all

lemma xml_scan_broken [simp]: "xml_scan s (Broken, st) = (Broken, st)"
  by (induction s) simp_all

lemma xml_step_frame:
  "xml_step c (m, a) = (m', b) \<Longrightarrow> m' \<noteq> Broken \<Longrightarrow> xml_step c (m, a @ st) = (m', b @ st)"
  by (cases m) (auto split: if_splits list.splits)

lemma xml_scan_frame:
  "xml_scan s (m, a) = (m', b) \<Longrightarrow> m' \<noteq> Broken \<Longrightarrow> xml_scan s (m, a @ st) = (m', b @ st)"
proof (induction s arbitrary: m a)
  case (Cons c s)
  obtain m1 a1 where s1: "xml_step c (m, a) = (m1, a1)" by fastforce
  with Cons.prems have rest: "xml_scan s (m1, a1) = (m', b)" by simp
  have "m1 \<noteq> Broken" using rest Cons.prems(2) by auto
  with s1 have "xml_step c (m, a @ st) = (m1, a1 @ st)" by (rule xml_step_frame)
  with Cons.IH[OF rest Cons.prems(2)] show ?case by simp
qed simp

lemma xml_effect_frame: "xml_effect s a b \<Longrightarrow> xml_effect s (a @ st) (b @ st)"
  unfolding xml_effect_def by (rule xml_scan_frame) simp_all

lemma xml_effect_Nil [simp]: "xml_effect [] a a"
  by (simp add: xml_effect_def)

lemma xml_effect_append: "xml_effect s a b \<Longrightarrow> xml_effect t b c \<Longrightarrow> xml_effect (s @ t) a c"
  by (simp add: xml_effect_def xml_scan_append)

lemma balanced_frame: "balanced s \<Longrightarrow> xml_effect s a a"
  using xml_effect_frame[of s "[]" "[]" a] by simp

lemma balanced_append: "balanced s \<Longrightarrow> xml_effect t a b \<Longrightarrow> xml_effect (s @ t) a b"
  by (rule xml_effect_append[OF balanced_frame])

lemma balanced_concat: "(\<And>x. x \<in> set xs \<Longrightarrow> balanced (f x)) \<Longrightarrow> balanced (concat (map f xs))"
  by (induction xs) (simp_all add: balanced_append)

lemma balanced_if: "(b \<Longrightarrow> balanced s) \<Longrightarrow> (\<not> b \<Longrightarrow> balanced t) \<Longrightarrow> balanced (if b then s else t)"
  by simp

text \<open>An element whose content is balanced.\<close>

lemma balanced_element:
  "xml_effect s [] [n] \<Longrightarrow> balanced b \<Longrightarrow> xml_effect t [n] [] \<Longrightarrow> balanced (s @ b @ t)"
  using xml_effect_append[of s "[]" "[n]"] xml_effect_append[of b "[n]" "[n]" t "[]"] balanced_frame[of b "[n]"]
  by blast

section \<open>Values inside the text\<close>

lemma scan_text: "markup_free s \<Longrightarrow> xml_scan s (Content, st) = (Content, st)"
  by (induction s) (auto simp: markup_free_def)

lemma scan_value: "markup_free s \<Longrightarrow> xml_scan s (AttrValue n, st) = (AttrValue n, st)"
  by (induction s) (auto simp: markup_free_def)

fun dashes_ok :: "nat \<Rightarrow> string \<Rightarrow> bool" where
  "dashes_ok k [] = True"
| "dashes_ok k (c # cs) = (if c = CHR ''-'' then k = 0 \<and> dashes_ok 1 cs else dashes_ok 0 cs)"

text \<open>Text without two dashes in a row.\<close>

abbreviation comment_text :: "string \<Rightarrow> bool" where
  "comment_text \<equiv> dashes_ok 0"

lemma scan_comment:
  "dashes_ok k s \<Longrightarrow> k \<le> 1 \<Longrightarrow> \<exists>j \<le> 1. \<forall>st. xml_scan s (XmlComment k, st) = (XmlComment j, st)"
proof (induction s arbitrary: k)
  case (Cons c s)
  then show ?case
    using Cons.IH[of 0] Cons.IH[of 1] by (cases "c = CHR ''-''") auto
qed auto

end
