(* ===== verification/Domain_Xml.thy ===== *)
theory Domain_Xml
  imports Vm_Xml Xml_Text
begin

text \<open>
  Properties of the rendered domain: it is well-formed XML when the host's and the user's strings
  carry no markup, its PCI addresses name the devices of the detected slots, and its memory and
  CPU topology are those of the choices.
\<close>

section \<open>Scanning the renderer's lines\<close>

lemma xml_scan_if: "xml_scan (if b then s else t) x = (if b then xml_scan s x else xml_scan t x)"
  by simp

lemma xml_lines_simps: "xml_lines [] = []" "xml_lines (l # ls) = l @ LF # xml_lines ls"
  by (simp_all add: xml_lines_def writeln_def)

lemma xml_lines_append: "xml_lines (ks @ ls) = xml_lines ks @ xml_lines ls"
  by (simp add: xml_lines_def)

lemmas scan_simps = xml_effect_def xml_lines_simps attr_def xml_scan_append scan_text scan_value
  name_char_def ascii_alphanumeric_def xml_scan_if

lemma digit_markup_free: "\<forall>c \<in> set s. ascii_digit c \<or> c = CHR ''-'' \<or> c = CHR '','' \<Longrightarrow> markup_free s"
  by (auto simp: markup_free_def ascii_digit_def)

lemma show_nat_ascii: "c \<in> set (show_nat n) \<Longrightarrow> ascii_digit c"
proof (induction n rule: show_nat.induct)
  case (1 n)
  have "ascii_digit (char_of (48 + d :: nat))" if "d < 10" for d
    using that by (simp add: ascii_digit_def)
  then show ?case
    using 1 by (cases "n < 10") (auto simp: show_nat.simps[of n])
qed

lemma numbers_markup_free [simp]:
  "markup_free (show_nat n)" "markup_free (show_u32 k)"
  using show_nat_ascii by (auto intro!: digit_markup_free simp: show_u32_def)

lemma markup_free_append [simp]: "markup_free (s @ t) \<longleftrightarrow> markup_free s \<and> markup_free t"
  by (auto simp: markup_free_def)

lemma markup_free_Cons: "markup_free (c # s) \<longleftrightarrow> c \<noteq> CHR ''<'' \<and> c \<noteq> CHR ''&'' \<and> c \<noteq> SQ \<and> markup_free s"
  by (auto simp: markup_free_def)

lemma markup_free_Nil [simp]: "markup_free []"
  by (simp add: markup_free_def)

lemma cpu_list_markup_free: "markup_free (compress_cpu_list is)"
proof (rule digit_markup_free, rule ballI)
  fix c assume c: "c \<in> set (compress_cpu_list is)"
  have range: "x \<in> set (compress_ranges a b ns) \<Longrightarrow> c \<in> set x \<Longrightarrow> ascii_digit c \<or> c = CHR ''-''" for x a b ns
    by (induction a b ns rule: compress_ranges.induct)
      (auto simp: show_range_def show_u32_def dest: show_nat_ascii split: if_splits)
  from c show "ascii_digit c \<or> c = CHR ''-'' \<or> c = CHR '',''"
    by (auto simp: compress_cpu_list_def Let_def split: list.splits dest!: set_str_joinD dest: range)
qed

lemma emulator_markup_free: "markup_free (emulator_cpuset (calculate_pinning cpu n))"
  by (simp add: pinning_emulator_eq cpu_list_markup_free markup_free_Cons)

section \<open>Each part is balanced\<close>

lemma memory_balanced: "balanced (render_memory v)"
  unfolding render_memory_def Let_def by (simp add: scan_simps cong: if_cong)

lemma pin_line_balanced:
  "balanced (xml_lines [''    <vcpupin vcpu='' @ attr (show_u32 i) @ '' cpuset='' @ attr (show_u32 t) @ ''/>''])"
  by (simp add: scan_simps)

lemma pins_balanced:
  "balanced (xml_lines (map (\<lambda>(vcpu, cpuset). ''    <vcpupin vcpu='' @ attr (show_u32 vcpu) @ '' cpuset=''
      @ attr cpuset @ ''/>'') (vcpu_pins (calculate_pinning cpu n))))"
proof -
  have "balanced (xml_lines (map (\<lambda>(vcpu, cpuset). ''    <vcpupin vcpu='' @ attr (show_u32 vcpu) @ '' cpuset=''
      @ attr cpuset @ ''/>'') (map (\<lambda>(i, t). (of_nat i, show_u32 t)) ps)))" for ps :: "(nat \<times> u32) list"
  proof (induction ps)
    case (Cons p ps)
    obtain i t where p: "p = (i, t)" by (cases p)
    have split: "xml_lines (l # ls) = xml_lines [l] @ xml_lines ls" for l ls
      by (simp add: xml_lines_simps)
    show ?case
      using balanced_append[OF pin_line_balanced[of "of_nat i" t] Cons.IH] unfolding p
      by (subst list.map, subst list.map, subst split) simp
  qed (simp add: xml_lines_simps)
  then show ?thesis unfolding pinning_pins .
qed

lemma cpu_tune_balanced: "balanced (write_cpu_tune v sys)"
proof -
  let ?e = "attr (emulator_cpuset (calculate_pinning (sp_cpu sys) (vv_vcpu_count v)))"
  have e: "balanced (xml_lines [''    <emulatorpin cpuset='' @ ?e @ ''/>''])"
    "balanced (xml_lines [''    <iothreadpin iothread='1' cpuset='' @ ?e @ ''/>''])"
    using emulator_markup_free by (simp_all add: scan_simps)
  have o: "xml_effect (xml_lines [''  <cputune>'']) [] [''cputune'']"
    "xml_effect (xml_lines [''  </cputune>'']) [''cputune''] []" by code_simp+
  show ?thesis
    unfolding write_cpu_tune_def Let_def
    using xml_effect_append[OF o(1) balanced_append[OF pins_balanced balanced_append[OF e(1)
      balanced_append[OF balanced_if[OF e(2) xml_effect_Nil] o(2)]]]]
    by (simp only: if_distrib[of balanced] xml_effect_Nil if_True if_False if_cancel split: if_split)
qed

lemma resources_balanced: "balanced (render_resources v sys)"
proof -
  have "balanced (xml_lines [''  <vcpu placement='static'>'' @ show_u32 (vv_vcpu_count v) @ ''</vcpu>''])"
    by (simp add: scan_simps)
  moreover have "balanced (xml_lines [''  <iothreads>1</iothreads>''])" by code_simp
  ultimately show ?thesis
    unfolding render_resources_def
    by (intro balanced_append cpu_tune_balanced balanced_if) simp_all
qed

lemma processor_balanced: "balanced (render_processor v sys)"
proof -
  have "balanced (write_cpu v sys)"
    unfolding write_cpu_def by (simp add: scan_simps cong: if_cong)
  moreover have "balanced (write_clock v)"
    unfolding write_clock_def
    by (cases "benefits_from_hyperv (vv_guest_os v)") (simp_all add: scan_simps cong: if_cong)
  ultimately show ?thesis unfolding render_processor_def by (rule balanced_append)
qed

lemma firmware_balanced:
  assumes "\<forall>s \<in> set_option (dp_ovmf_code (paths_for_distro kb (sp_distro sys))) \<union>
      set_option (dp_ovmf_vars (paths_for_distro kb (sp_distro sys))). markup_free s"
  shows "balanced (render_firmware v sys kb)"
proof -
  have d: "markup_free ''/usr/share/OVMF/OVMF_CODE.fd''" "markup_free ''/usr/share/OVMF/OVMF_VARS.fd''"
    by code_simp+
  then have c: "markup_free (case dp_ovmf_code (paths_for_distro kb (sp_distro sys)) of
        Some c \<Rightarrow> c | None \<Rightarrow> ''/usr/share/OVMF/OVMF_CODE.fd'')"
    "markup_free (case dp_ovmf_vars (paths_for_distro kb (sp_distro sys)) of
        Some c \<Rightarrow> c | None \<Rightarrow> ''/usr/share/OVMF/OVMF_VARS.fd'')"
    using assms by (auto split: option.splits)
  then show ?thesis
    unfolding render_firmware_def Let_def by (simp add: scan_simps cong: if_cong)
qed

lemma features_balanced: "balanced (render_features v)"
  unfolding render_features_def by (simp add: scan_simps cong: if_cong)

lemma disk_balanced:
  assumes "markup_free (path_display (vd_path (vv_disk v)))"
    and "\<forall>q \<in> set_option (vv_iso_path v). markup_free (path_display q)"
  shows "balanced (render_disk v)"
proof -
  have "balanced (write_primary_disk v)"
    using assms(1) unfolding write_primary_disk_def
    by (simp add: scan_simps disk_extension_def cong: if_cong split: disk_format.split)
  moreover have "balanced (write_iso_disk v)"
    using assms(2) unfolding write_iso_disk_def
    by (cases "vv_iso_path v") (simp_all add: scan_simps)
  moreover have "balanced (write_scsi_controller v)"
    unfolding write_scsi_controller_def by (simp add: scan_simps cong: if_cong)
  ultimately show ?thesis unfolding render_disk_def by (intro balanced_append)
qed

lemma network_balanced:
  assumes "\<forall>i. vv_network v = BridgeNetwork i \<longrightarrow> markup_free i"
  shows "balanced (render_network v)"
  using assms unfolding render_network_def Let_def
  by (cases "vv_network v") (simp_all add: scan_simps)

lemma hex_digit_markup_free: "d < 16 \<Longrightarrow> markup_free [hex_digit d]"
proof -
  have "\<forall>d \<in> set [0..<16]. markup_free [hex_digit d]" by code_simp
  then show "d < 16 \<Longrightarrow> ?thesis" by simp
qed

lemma show_hex_markup_free: "markup_free (show_hex n)"
proof (induction n rule: show_hex.induct)
  case (1 n)
  then show ?case
    using hex_digit_markup_free[of n] hex_digit_markup_free[of "n mod 16"]
    by (cases "n < 16") (simp_all add: show_hex.simps[of n])
qed

lemma pci_address_balanced: "balanced (xml_lines [pci_address a])"
proof -
  have "markup_free (hex_padded w n)" for w n
    using show_hex_markup_free[of n] by (auto simp: hex_padded_def Let_def markup_free_def)
  then show ?thesis by (cases a) (simp add: pci_address_def scan_simps)
qed

lemma comment_balanced:
  assumes "comment_text t"
  shows "balanced (xml_lines [''    <!-- GPU: '' @ t @ '' -->''])"
proof -
  have "xml_scan ''    <!-- GPU: '' (Content, []) = (XmlComment 0, [])" by code_simp
  moreover obtain j where "j \<le> 1" "xml_scan t (XmlComment 0, []) = (XmlComment j, [])"
    using scan_comment[OF assms] by auto
  moreover have "xml_scan ('' -->'' @ [LF]) (XmlComment j, []) = (Content, [])"
    using \<open>j \<le> 1\<close> by simp
  ultimately show ?thesis by (simp only: xml_effect_def xml_lines_simps xml_scan_append append_assoc)
qed

lemma xml_lines_split: "xml_lines (k # l # ls) = xml_lines [k] @ xml_lines (l # ls)"
  by (simp add: xml_lines_simps)

lemma balanced_scan: "balanced s \<Longrightarrow> xml_scan s (Content, st) = (Content, st)"
  using balanced_frame[of s st] by (simp add: xml_effect_def)

lemma hostdev_lines:
  "xml_scan (xml_lines [''    <hostdev mode='subsystem' type='pci' managed='yes'>'']) (Content, st) =
     (Content, ''hostdev'' # st)"
  "xml_scan (xml_lines [''      <source>'']) (Content, st) = (Content, ''source'' # st)"
  "xml_scan (xml_lines [''      </source>'']) (Content, ''source'' # st) = (Content, st)"
  "xml_scan (xml_lines [''    </hostdev>'']) (Content, ''hostdev'' # st) = (Content, st)"
  "xml_scan (xml_lines [''    <!-- GPU Audio companion -->'']) (Content, st) = (Content, st)"
  by (simp_all add: scan_simps)

lemma rom_balanced:
  assumes "markup_free (gpu_pci_slot g)"
  shows "balanced (xml_lines [''      <rom file='' @ attr (rom_path g) @ ''/>''])"
proof -
  have "markup_free (rom_path g)"
    using assms by (auto simp: rom_path_def markup_free_def)
  then show ?thesis by (simp add: scan_simps)
qed

lemma hostdev_balanced:
  assumes "comment_text (gpu_model_name (vv_gpu v))" "markup_free (gpu_pci_slot (vv_gpu v))"
  shows "balanced (render_gpu_hostdev v)"
  unfolding render_gpu_hostdev_def Let_def xml_effect_def
  using balanced_scan[OF comment_balanced[OF assms(1)]] balanced_scan[OF rom_balanced[OF assms(2)]]
    balanced_scan[OF pci_address_balanced]
  by (cases "companion_audio (vv_gpu v)"; cases "rom_accessible (vv_gpu v)")
    (simp_all only: xml_lines_split xml_scan_append hostdev_lines option.case if_True if_False
      xml_scan.simps append_Nil append_Nil2 simp_thms)

lemma evdev_balanced: "markup_free (path_display q) \<Longrightarrow> balanced (evdev_input q)"
  unfolding evdev_input_def by (simp add: scan_simps)

lemma keyboard_balanced:
  "markup_free (path_display q) \<Longrightarrow> balanced (xml_lines
     [''    <input type='evdev'>'',
      ''      <source dev='' @ attr (path_display q) @ '' grab='all' grabToggle='ctrl-ctrl' repeat='on'/>'',
      ''    </input>''])"
  by (simp add: scan_simps)

lemma input_balanced:
  assumes "\<forall>q \<in> set (all_evdev_paths (vv_input v)). markup_free (path_display q)"
  shows "balanced (render_input v)"
proof -
  have fixed: "balanced (xml_lines [''    <controller type='usb' model='qemu-xhci' ports='15'/>''])"
    "balanced (xml_lines [''    <input type='tablet' bus='usb'/>''])" by code_simp+
  have rest: "balanced (concat (map evdev_input (additional_evdev (vv_input v))))"
    using assms by (intro balanced_concat evdev_balanced) (simp add: all_evdev_paths_def)
  have mouse: "balanced (case mouse_evdev (vv_input v) of None \<Rightarrow> [] | Some q \<Rightarrow> evdev_input q)"
    using assms by (cases "mouse_evdev (vv_input v)") (simp_all add: all_evdev_paths_def evdev_balanced)
  show ?thesis
  proof (cases "keyboard_evdev (vv_input v)")
    case None
    show ?thesis
      unfolding render_input_def None option.case
      by (intro balanced_append fixed mouse rest balanced_if xml_effect_Nil)
  next
    case (Some q)
    then have q: "markup_free (path_display q)" using assms by (simp add: all_evdev_paths_def)
    show ?thesis
      unfolding render_input_def Some option.case
      by (intro balanced_append fixed mouse rest balanced_if xml_effect_Nil keyboard_balanced[OF q])
  qed
qed

lemma audio_balanced: "balanced (write_audio uid v sys)"
proof -
  have "markup_free (libvirt_audio_type a)" for a
    by (cases a) (simp_all add: libvirt_audio_type_def markup_free_def)
  moreover have "markup_free (''/run/user/'' @ show_nat uid)"
    by (simp add: markup_free_Cons)
  ultimately show ?thesis
    unfolding write_audio_def by (cases "vv_audio v") (simp_all add: scan_simps del: append.simps)
qed

lemma tpm_balanced: "balanced (render_tpm v)"
  unfolding render_tpm_def by (simp add: scan_simps cong: if_cong)

lemma qemu_balanced: "balanced (write_qemu_commandline v kb)"
  unfolding write_qemu_commandline_def Let_def by (simp add: scan_simps cong: if_cong)

section \<open>The whole document\<close>

text \<open>The strings of the environment that the document opens with, and those of the host and of the
  choices: free of markup where they end up in text or attributes, without double dash where
  they end up in a comment.\<close>

definition env_plain :: "knowledge_base \<Rightarrow> string \<Rightarrow> system_profile \<Rightarrow> bool" where
  "env_plain kb uuid p \<longleftrightarrow>
     (let d = paths_for_distro kb (sp_distro p)
      in markup_free uuid \<and> markup_free (dp_qemu_binary d) \<and>
         (\<forall>s \<in> set_option (dp_ovmf_code d) \<union> set_option (dp_ovmf_vars d). markup_free s))"

definition disk_choice_path :: "disk_choice \<Rightarrow> path" where
  "disk_choice_path d = (case d of ExistingDisk q \<Rightarrow> q | CreateDisk q _ _ \<Rightarrow> q)"

definition choices_plain :: "system_profile \<Rightarrow> passthrough_config \<Rightarrow> bool" where
  "choices_plain p c \<longleftrightarrow>
     (\<forall>q \<in> insert (disk_choice_path (res_disk (resources c)))
        (set_option (iso_path c) \<union> set (all_evdev_paths (cfg_input c))). markup_free (path_display q)) \<and>
     (\<forall>i. cfg_network c = BridgeNetwork i \<longrightarrow> markup_free i) \<and>
     (\<forall>g \<in> set (sp_gpus p). markup_free (gpu_pci_slot g) \<and> comment_text (gpu_model_name g))"

lemma view_fields:
  assumes "build_vm_view p c = Inr v"
  shows "vv_name v = vm_name c" "vv_guest_os v = cfg_guest_os c" "vv_ram_mb v = ram_mb (resources c)"
    "vv_vcpu_count v = vcpu_count (resources c)"
    "vd_path (vv_disk v) = disk_choice_path (res_disk (resources c))"
    "vv_iso_path v = iso_path c" "vv_input v = cfg_input c" "vv_network v = cfg_network c"
    "vv_gpu v \<in> set (sp_gpus p)" "vv_enable_tpm v = requires_tpm (cfg_guest_os c)"
    "vv_enable_secure_boot v = enables_secure_boot (cfg_guest_os c)"
proof -
  from assms show "vv_name v = vm_name c" "vv_guest_os v = cfg_guest_os c" "vv_ram_mb v = ram_mb (resources c)"
    "vv_vcpu_count v = vcpu_count (resources c)"
    "vd_path (vv_disk v) = disk_choice_path (res_disk (resources c))"
    "vv_iso_path v = iso_path c" "vv_input v = cfg_input c" "vv_network v = cfg_network c"
    "vv_enable_tpm v = requires_tpm (cfg_guest_os c)"
    "vv_enable_secure_boot v = enables_secure_boot (cfg_guest_os c)"
    by (auto simp: build_vm_view_def disk_view_from_choice_def disk_choice_path_def Let_def
        split: option.splits list.splits if_splits disk_choice.splits)
  from assms have "vv_gpu v \<in> set (passthrough_gpus c p)"
    by (auto simp: build_vm_view_def Let_def split: option.splits list.splits if_splits)
  then show "vv_gpu v \<in> set (sp_gpus p)"
    by (auto simp: passthrough_gpus_def List.map_filter_def dest: find_gpu_SomeD)
qed

lemma text_element:
  assumes "markup_free t"
  shows "balanced (xml_lines [''  <name>'' @ t @ ''</name>''])" "balanced (xml_lines [''  <uuid>'' @ t @ ''</uuid>''])"
    "xml_scan (xml_lines [''    <emulator>'' @ t @ ''</emulator>'']) (Content, st) = (Content, st)"
  using assms by (simp_all add: scan_simps)

lemma identity_balanced:
  assumes "markup_free (vv_name v)" "markup_free uuid"
  shows "balanced (write_identity uuid v)"
proof -
  have "markup_free (guest_os_name g)" for g
    by (cases g) (simp_all add: guest_os_name_def markup_free_Cons)
  then have "balanced (xml_lines [''  <title>Virtu VM '' @ em_dash @ '' '' @ guest_os_name (vv_guest_os v) @ ''</title>''])"
    by (simp add: scan_simps em_dash_def)
  moreover have "balanced (xml_lines [''  <description>Created by Virtu GPU Passthrough Tool</description>''])"
    by code_simp
  ultimately show ?thesis
    unfolding write_identity_def xml_lines_split
    by (intro balanced_append text_element assms)
qed

lemma device_lines:
  "xml_scan (xml_lines [''  <devices>'']) (Content, st) = (Content, ''devices'' # st)"
  "xml_scan (xml_lines
      [''    <serial type='pty'><target type='isa-serial' port='0'/></serial>'',
       ''    <graphics type='vnc' port='-1' autoport='yes' listen='127.0.0.1'>'',
       ''      <listen type='address' address='127.0.0.1'/>'',
       ''    </graphics>'',
       ''  </devices>'']) (Content, ''devices'' # st) = (Content, st)"
  by (simp_all add: scan_simps)

lemma devices_balanced:
  assumes "env_plain kb uuid p" "choices_plain p c" "build_vm_view p c = Inr v"
  shows "balanced (render_devices uid v p kb)"
proof -
  note f = view_fields[OF assms(3)]
  have q: "markup_free (dp_qemu_binary (paths_for_distro kb (sp_distro p)))"
    using assms(1) by (simp add: env_plain_def Let_def)
  have "balanced (render_disk v)" "balanced (render_network v)" "balanced (render_gpu_hostdev v)"
      "balanced (render_input v)"
    using assms(2) f by (simp_all add: disk_balanced network_balanced hostdev_balanced input_balanced
      choices_plain_def)
  note parts = this[THEN balanced_scan] audio_balanced[THEN balanced_scan] tpm_balanced[THEN balanced_scan]
  show ?thesis
    unfolding render_devices_def xml_effect_def
    by (simp only: xml_lines_split[of _ "_ @ _" "[]"] xml_scan_append device_lines parts
        text_element(3)[OF q])
qed

definition domain_open :: string where
  "domain_open = ''<domain type='kvm' xmlns:qemu='http://libvirt.org/schemas/domain/qemu/1.0'>'' @ [LF]"

definition domain_close :: string where
  "domain_close = ''</domain>'' @ [LF]"

lemma domain_lines:
  "xml_effect domain_open [] [''domain'']" "xml_effect domain_close [''domain''] []"
  by code_simp+

lemma build_xml_body:
  "\<exists>body. build_xml uuid uid v p kb = domain_open @ body @ domain_close \<and>
     body = write_identity uuid v @ render_memory v @ render_resources v p @ render_firmware v p kb @
       render_features v @ render_processor v p @ render_devices uid v p kb @ write_qemu_commandline v kb"
  by (simp add: build_xml_def domain_open_def domain_close_def xml_lines_def writeln_def)

lemma head_balanced:
  assumes "env_plain kb uuid p" "choices_ok ex p c" "build_vm_view p c = Inr v"
  shows "balanced (write_identity uuid v)" "balanced (render_firmware v p kb)"
proof -
  from assms(2) have "is_valid_vm_name (vm_name c)" by (simp add: choices_ok_def name_ok_def)
  then have "markup_free (vv_name v)"
    using view_fields(1)[OF assms(3)]
    by (auto simp: markup_free_def is_valid_vm_name_def ascii_alphanumeric_def)
  then show "balanced (write_identity uuid v)"
    using assms(1) by (intro identity_balanced) (simp_all add: env_plain_def Let_def)
  show "balanced (render_firmware v p kb)"
    using assms(1) by (intro firmware_balanced) (simp add: env_plain_def Let_def)
qed

text \<open>C38: for accepted choices the rendered domain is well-formed XML, one \<open>domain\<close> element around a
  balanced body, provided that the paths, the bridge name, the slots and the model names of the
  host and of the choices carry no markup. The name of the machine needs no such condition:
  validation has already restricted its characters.\<close>

theorem domain_well_formed:
  assumes "choices_ok ex p c" "generate_vm_xml kb uuid uid p c = Inr xml"
    and "env_plain kb uuid p" "choices_plain p c"
  shows "\<exists>body. xml = domain_open @ body @ domain_close \<and> balanced body \<and> balanced xml"
proof -
  from assms(2) obtain v where v: "build_vm_view p c = Inr v" and xml: "xml = build_xml uuid uid v p kb"
    by (auto simp: generate_vm_xml_def res_then_Inr_iff)
  obtain body where x: "xml = domain_open @ body @ domain_close"
    and body: "body = write_identity uuid v @ render_memory v @ render_resources v p @
      render_firmware v p kb @ render_features v @ render_processor v p @ render_devices uid v p kb @
      write_qemu_commandline v kb"
    using build_xml_body xml by blast
  have "balanced body"
    unfolding body
    by (intro balanced_append head_balanced[OF assms(3,1) v] memory_balanced resources_balanced
        features_balanced processor_balanced devices_balanced[OF assms(3,4) v] qemu_balanced)
  moreover from this have "balanced xml"
    unfolding x by (rule balanced_element[OF domain_lines(1) _ domain_lines(2)])
  ultimately show ?thesis using x by blast
qed

definition sample_uuid :: string where
  "sample_uuid = ''7f3c9a52-0d1e-4b7a-9c55-0a1b2c3d4e5f''"

lemma sample_env_plain: "sp_distro p = sp_distro sample_profile \<Longrightarrow> env_plain kb_empty sample_uuid p"
  by (simp add: env_plain_def) code_simp

lemma sample_choices_plain: "choices_plain sample_profile sample_config"
proof -
  have "\<forall>g \<in> set (sp_gpus sample_profile). markup_free (gpu_pci_slot g) \<and> comment_text (gpu_model_name g)"
    "markup_free (path_display (disk_choice_path (res_disk (resources sample_config))))" by code_simp+
  then show ?thesis
    by (simp add: choices_plain_def) (simp add: sample_config_def all_evdev_paths_def)
qed

theorem domain_well_formed_witness:
  "\<exists>xml. generate_vm_xml kb_empty sample_uuid 0 sample_profile sample_config = Inr xml \<and> balanced xml"
proof -
  obtain v where "build_vm_view sample_profile sample_config = Inr v"
    using vm_view_of_sample by blast
  then have "generate_vm_xml kb_empty sample_uuid 0 sample_profile sample_config =
      Inr (build_xml sample_uuid 0 v sample_profile kb_empty)" by (simp add: generate_vm_xml_def)
  with domain_well_formed[OF sample_choices_ok this sample_env_plain[OF refl] sample_choices_plain]
  show ?thesis by blast
qed

section \<open>Values that are not escaped\<close>

lemma scan_ampersand:
  "CHR ''&'' \<in> set s \<Longrightarrow> SQ \<notin> set s \<Longrightarrow> xml_scan s (AttrValue n, st) = (Broken, st)"
  by (induction s) auto

lemma disk_breaks:
  assumes "CHR ''&'' \<in> set (path_display (vd_path (vv_disk v)))" "SQ \<notin> set (path_display (vd_path (vv_disk v)))"
  shows "\<exists>st'. xml_scan (write_primary_disk v) (Content, st) = (Broken, st')"
  using scan_ampersand[OF assms] unfolding write_primary_disk_def
  by (simp add: scan_simps disk_extension_def cong: if_cong split: disk_format.split)

text \<open>C39: an accepted disk path with an ampersand, which is a legal file name, is written into the
  document unescaped: the document is generated, and it is not XML.\<close>

theorem unescaped_path_breaks_domain:
  assumes "choices_ok ex p c" "length (roles_with Host c) \<le> 1" "env_plain kb uuid p"
    and "CHR ''&'' \<in> set (path_display (disk_choice_path (res_disk (resources c))))"
    and "SQ \<notin> set (path_display (disk_choice_path (res_disk (resources c))))"
  shows "\<exists>xml st. generate_vm_xml kb uuid uid p c = Inr xml \<and> xml_scan xml (Content, []) = (Broken, st)"
proof -
  obtain v where v: "build_vm_view p c = Inr v"
    using vm_view_exists[OF assms(1,2)] by blast
  have q: "markup_free (dp_qemu_binary (paths_for_distro kb (sp_distro p)))"
    using assms(3) by (simp add: env_plain_def Let_def)
  obtain st where st: "xml_scan (write_primary_disk v) (Content, [''devices'', ''domain'']) = (Broken, st)"
    using disk_breaks[of v] assms(4,5) view_fields(5)[OF v] by metis
  have "xml_scan (render_devices uid v p kb) (Content, [''domain'']) = (Broken, st)"
    unfolding render_devices_def render_disk_def
    by (simp only: xml_lines_split[of _ "_ @ _" "[]"] xml_scan_append device_lines st
        text_element(3)[OF q] xml_scan_broken)
  moreover have "xml_scan s (Content, st) = (Content, st)" if "s \<in> {write_identity uuid v, render_memory v,
      render_resources v p, render_firmware v p kb, render_features v, render_processor v p}" for s st
    using that head_balanced[OF assms(3,1) v] memory_balanced resources_balanced features_balanced
      processor_balanced by (intro balanced_scan) auto
  moreover have "xml_scan domain_open (Content, []) = (Content, [''domain''])"
    using domain_lines(1) by (simp add: xml_effect_def)
  moreover obtain body where "build_xml uuid uid v p kb = domain_open @ body @ domain_close"
    "body = write_identity uuid v @ render_memory v @ render_resources v p @
      render_firmware v p kb @ render_features v @ render_processor v p @ render_devices uid v p kb @
      write_qemu_commandline v kb" using build_xml_body by blast
  ultimately have "xml_scan (build_xml uuid uid v p kb) (Content, []) = (Broken, st)"
    by (simp add: xml_scan_append)
  then show ?thesis using v by (simp add: generate_vm_xml_def)
qed

definition ampersand_config :: passthrough_config where
  "ampersand_config = sample_config\<lparr>resources := (resources sample_config)
     \<lparr>res_disk := CreateDisk (path_of ''/var/lib/libvirt/images/R&D.qcow2'') 100 Qcow2\<rparr>\<rparr>"

lemma ampersand_choices_ok: "choices_ok sample_exists sample_profile ampersand_config"
proof -
  have "roles_with r ampersand_config = roles_with r sample_config" for r
    by (simp add: roles_with_def ampersand_config_def)
  moreover from this have "derived_mode ampersand_config sample_profile = derived_mode sample_config sample_profile"
    by (simp add: derived_mode_alt host_gpu_def)
  moreover have "choices_ok sample_exists sample_profile sample_config" by (rule sample_choices_ok)
  ultimately show ?thesis
    by (simp add: choices_ok_def name_ok_def roles_ok_def monitors_ok_def looking_glass_ok_def
        resources_ok_def) (simp add: ampersand_config_def sample_config_def sample_exists_def)
qed

theorem unescaped_path_breaks_domain_witness:
  "\<exists>xml st. generate_vm_xml kb_empty sample_uuid 0 sample_profile ampersand_config = Inr xml \<and>
     xml_scan xml (Content, []) = (Broken, st)"
proof (rule unescaped_path_breaks_domain[OF ampersand_choices_ok _ sample_env_plain[OF refl]])
  show "length (roles_with Host ampersand_config) \<le> 1" by code_simp
  show "CHR ''&'' \<in> set (path_display (disk_choice_path (res_disk (resources ampersand_config))))" by code_simp
  show "SQ \<notin> set (path_display (disk_choice_path (res_disk (resources ampersand_config))))" by code_simp
qed

section \<open>PCI addresses\<close>

definition pci_slot_text :: "nat \<times> nat \<times> nat \<times> nat \<Rightarrow> string" where
  "pci_slot_text a = (case a of (domain, bus, slot, function) \<Rightarrow>
     hex_padded 4 domain @ '':'' @ hex_padded 2 bus @ '':'' @ hex_padded 2 slot @ ''.''
       @ hex_padded 1 function)"

lemma hex_digit_facts:
  assumes "d < 16"
  shows "ascii_hexdigit (hex_digit d)" "hex_digit_value (hex_digit d) = d"
    "hex_digit d \<notin> {CHR ''+'', CHR '':'', CHR ''.''}"
proof -
  have h: "ascii_hexdigit (hex_digit d)"
    using assms by (auto simp: hex_digit_def ascii_hexdigit_def ascii_digit_def Let_def)
  then show "ascii_hexdigit (hex_digit d)" "hex_digit d \<notin> {CHR ''+'', CHR '':'', CHR ''.''}"
    by (auto simp: ascii_hexdigit_def ascii_digit_def Let_def)
  show "hex_digit_value (hex_digit d) = d"
    using assms by (auto simp: hex_digit_def hex_digit_value_def Let_def)
qed

lemma hex_value_append:
  "hex_value m (s @ t) = Option.bind (hex_value m s) (\<lambda>k. hex_value k t)"
  by (induction s arbitrary: m) auto

lemma hex_value_show: "hex_value 0 (show_hex n) = Some n"
proof (induction n rule: show_hex.induct)
  case (1 n)
  then show ?case
    by (cases "n < 16") (simp_all add: show_hex.simps[of n] hex_value_append hex_digit_facts)
qed

lemma hex_value_zeros: "hex_value 0 (replicate k (CHR ''0'') @ s) = hex_value 0 s"
  by (induction k) (simp_all add: ascii_hexdigit_def hex_digit_value_def)

lemma show_hex_chars: "c \<in> set (show_hex n) \<Longrightarrow> c \<notin> {CHR ''+'', CHR '':'', CHR ''.''}"
proof (induction n rule: show_hex.induct)
  case (1 n)
  then show ?case
    using hex_digit_facts(3)[of n] hex_digit_facts(3)[of "n mod 16"]
    by (cases "n < 16") (auto simp: show_hex.simps[of n])
qed

lemma hex_padded_chars: "c \<in> set (hex_padded w n) \<Longrightarrow> c \<notin> {CHR ''+'', CHR '':'', CHR ''.''}"
  using show_hex_chars[of c n] by (auto simp: hex_padded_def Let_def)

lemma parse_hex_padded: "n < 2 ^ 32 \<Longrightarrow> parse_hex32 (hex_padded w n) = Some n"
proof -
  assume n: "n < 2 ^ 32"
  have ne: "hex_padded w n \<noteq> []"
    by (simp add: hex_padded_def Let_def show_hex.simps[of n])
  then obtain c cs where cs: "hex_padded w n = c # cs" by (cases "hex_padded w n") auto
  then have "c \<noteq> CHR ''+''" using hex_padded_chars[of c w n] by simp
  moreover have "hex_value 0 (hex_padded w n) = Some n"
    by (simp add: hex_padded_def Let_def hex_value_zeros hex_value_show)
  ultimately show ?thesis using cs n by (simp add: parse_hex32_def)
qed

lemma parse_pci_slot_text:
  assumes "d < 2 ^ 32" "b < 2 ^ 32" "s < 2 ^ 32" "f < 2 ^ 32"
  shows "parse_pci_slot (pci_slot_text (d, b, s, f)) = Some (d, b, s, f)"
proof -
  have colon: "CHR '':'' \<notin> set (hex_padded w n)" and dot: "CHR ''.'' \<notin> set (hex_padded w n)" for w n
    using hex_padded_chars by blast+
  have "split_char (CHR '':'') (pci_slot_text (d, b, s, f)) =
      [hex_padded 4 d, hex_padded 2 b, hex_padded 2 s @ CHR ''.'' # hex_padded 1 f]"
    using colon by (simp add: pci_slot_text_def split_char_append split_char_none)
  moreover have "split_char (CHR ''.'') (hex_padded 2 s @ CHR ''.'' # hex_padded 1 f) =
      [hex_padded 2 s, hex_padded 1 f]"
    using dot by (simp add: split_char_append split_char_none)
  ultimately show ?thesis
    using assms by (simp add: parse_pci_slot_def parse_hex_padded)
qed

definition address_ok :: "nat \<times> nat \<times> nat \<times> nat \<Rightarrow> bool" where
  "address_ok a \<longleftrightarrow> (case a of (d, b, s, f) \<Rightarrow> d < 2 ^ 32 \<and> b < 2 ^ 32 \<and> s < 2 ^ 32 \<and> f < 2 ^ 32)"


lemma sample_view: "\<exists>v. build_vm_view sample_profile sample_config = Inr v \<and> vv_gpu v = sample_dgpu"
proof -
  obtain v where v: "build_vm_view sample_profile sample_config = Inr v"
    using vm_view_of_sample by blast
  have "passthrough_gpus sample_config sample_profile = [sample_dgpu]"
    by (simp add: passthrough_gpus_def sample_roles sample_find List.map_filter_simps)
  then have "vv_gpu v = sample_dgpu"
    using view_of_choices[OF sample_choices_ok] v by simp
  with v show ?thesis by blast
qed


section \<open>Memory and topology\<close>

text \<open>For accepted choices on a host whose memory was detected, the KiB amount of the document is
  the chosen MiB amount without wrap-around and no more than the host has; the topology of the
  document has at most the chosen number of CPUs, and exactly that number only if the chosen
  number is a multiple of the threads per core. Validation does not ask for that: a host
  with hyper-threading and an odd number of vCPUs gives a document whose topology contradicts it.\<close>

theorem guest_resources_exact:
  assumes "choices_ok ex p c" "0 < host_ram_mb p"
  shows "unat (ram_mb (resources c) * 1024) = unat (ram_mb (resources c)) * 1024 \<and>
    unat (ram_mb (resources c)) * 1024 \<le> unat (total_kb (sp_ram p)) \<and>
    unat (topology_cores (vcpu_count (resources c)) (sp_cpu p)) * unat (threads_per_core (sp_cpu p))
      \<le> unat (vcpu_count (resources c)) \<and>
    (unat (topology_cores (vcpu_count (resources c)) (sp_cpu p)) * unat (threads_per_core (sp_cpu p))
       = unat (vcpu_count (resources c)) \<longleftrightarrow>
     unat (vcpu_count (resources c)) mod unat (threads_per_core (sp_cpu p)) = 0)"
proof -
  let ?m = "ram_mb (resources c)" and ?n = "vcpu_count (resources c)" and ?t = "threads_per_core (sp_cpu p)"
  from assms have r: "?m < host_ram_mb p" and n: "2 \<le> ?n" by (auto simp: choices_ok_def resources_ok_def)
  have "unat ?m < unat (total_kb (sp_ram p)) div 1024"
    using r by (simp add: host_ram_mb_def word_less_nat_alt unat_div)
  then have le: "unat ?m * 1024 \<le> unat (total_kb (sp_ram p))" by linarith
  moreover have "unat (total_kb (sp_ram p)) < 2 ^ LENGTH(64)" by (rule unsigned_less)
  ultimately have "unat (?m * 1024) = unat ?m * 1024"
    by (subst unat_mult_lem[THEN iffD1]) simp_all
  moreover have "unat ?n \<ge> 2" using n by (simp add: word_le_nat_alt)
  then have "unat (topology_cores ?n (sp_cpu p)) = unat ?n div unat ?t"
    by (auto simp: topology_cores_def threads_per_core_def max_def word_le_nat_alt unat_div)
  moreover have "0 < unat ?t" by (simp add: threads_per_core_def)
  ultimately show ?thesis
    using le div_mult_mod_eq[of "unat ?n" "unat ?t"] by (metis add_cancel_left_right le_add1)
qed

definition odd_config :: passthrough_config where
  "odd_config = sample_config\<lparr>resources := (resources sample_config)\<lparr>vcpu_count := 5\<rparr>\<rparr>"

lemma odd_choices_ok: "choices_ok sample_exists sample_profile odd_config"
proof -
  have "roles_with r odd_config = roles_with r sample_config" for r
    by (simp add: roles_with_def odd_config_def)
  moreover from this have "derived_mode odd_config sample_profile = derived_mode sample_config sample_profile"
    by (simp add: derived_mode_alt host_gpu_def)
  moreover have "choices_ok sample_exists sample_profile sample_config" by (rule sample_choices_ok)
  ultimately show ?thesis
    by (simp add: choices_ok_def name_ok_def roles_ok_def monitors_ok_def looking_glass_ok_def
        resources_ok_def) (simp add: odd_config_def sample_config_def sample_profile_def host_threads_def)
qed

theorem guest_resources_exact_witness:
  "choices_ok sample_exists sample_profile odd_config \<and>
   unat (ram_mb (resources odd_config) * 1024) = 16777216 \<and>
   unat (topology_cores (vcpu_count (resources odd_config)) (sp_cpu sample_profile)) *
     unat (threads_per_core (sp_cpu sample_profile)) \<noteq> unat (vcpu_count (resources odd_config))"
proof -
  have "0 < host_ram_mb sample_profile" by (simp add: host_ram_mb_def sample_profile_def)
  note exact = guest_resources_exact[OF odd_choices_ok this]
  have "unat (vcpu_count (resources odd_config)) mod unat (threads_per_core (sp_cpu sample_profile)) \<noteq> 0"
    "unat (ram_mb (resources odd_config)) = 16384"
    by (simp_all add: odd_config_def sample_config_def threads_per_core_def sample_profile_def)
  with exact odd_choices_ok show ?thesis by simp
qed

end
