(* ===== verification/Commands.thy ===== *)
theory Commands
  imports File_System Rust_Lines Passthrough_Config
begin

text \<open>
  \<open>config/writers/commands.rs\<close>: the wrappers around host commands. The PATH lookup, the process and
  the temporary files belong to the operating system: they are operations of \<open>host_ops\<close>, on the
  same state as the file system, because a command may change files.
\<close>

record process_output =
  exit_code :: "int option"
  process_stderr :: string

text \<open>A process succeeds when it exits with 0; it has no exit code when a signal ended it.\<close>

definition exit_success :: "process_output \<Rightarrow> bool" where
  "exit_success o' \<longleftrightarrow> exit_code o' = Some 0"

record 'fs host_ops =
  which :: "string \<Rightarrow> 'fs \<Rightarrow> bool"
  spawn :: "string \<Rightarrow> string list \<Rightarrow> ('fs, io_error, process_output) io"
  temp_create :: "string \<Rightarrow> string \<Rightarrow> ('fs, io_error, path) io"
  temp_write_all :: "path \<Rightarrow> string \<Rightarrow> ('fs, io_error, unit) io"
  temp_flush :: "path \<Rightarrow> ('fs, io_error, unit) io"
  temp_sync_all :: "path \<Rightarrow> ('fs, io_error, unit) io"
  temp_drop :: "path \<Rightarrow> 'fs \<Rightarrow> 'fs"

datatype command_error =
  CmdNotFound string
| NonZeroExit string string int string
| SpawnFailed string io_error
| TempFileIo string string io_error
| InvalidArgument string string

definition show_int :: "int \<Rightarrow> string" where
  "show_int i = (if i < 0 then ''-'' @ show_nat (nat (- i)) else show_nat (nat i))"

definition command_error_display :: "command_error \<Rightarrow> string" where
  "command_error_display e = (case e of
     CmdNotFound p \<Rightarrow> ''`'' @ p @ ''` is not on PATH''
   | NonZeroExit p args status stderr \<Rightarrow> ''`'' @ p @ '' '' @ args @ ''` exited with status ''
       @ show_int status @ [LF] @ ''stderr tail:'' @ [LF] @ stderr
   | SpawnFailed p src \<Rightarrow> ''failed to spawn `'' @ p @ ''`: '' @ io_message src
   | TempFileIo p q src \<Rightarrow> ''failed to stage XML for `'' @ p @ ''` at `'' @ q @ ''`: '' @ io_message src
   | InvalidArgument p d \<Rightarrow> ''argument for `'' @ p @ ''` is unrepresentable as a process argument: '' @ d)"

text \<open>The last twenty lines of the error output.\<close>

definition stderr_tail :: "string \<Rightarrow> string" where
  "stderr_tail stderr = str_join [LF] (rev (take 20 (rev (str_lines (from_utf8_lossy stderr)))))"

definition run_command :: "'fs host_ops \<Rightarrow> string \<Rightarrow> string list \<Rightarrow> ('fs, command_error, unit) io" where
  "run_command O' program args =
     io_then (io_gets (which O' program)) (\<lambda>found.
     if \<not> found then io_err (CmdNotFound program)
     else io_then (io_map_err (SpawnFailed program) (spawn O' program args)) (\<lambda>out.
       if exit_success out then io_ok ()
       else io_err (NonZeroExit program (str_join '' '' args)
              (case exit_code out of Some c \<Rightarrow> c | None \<Rightarrow> -1) (stderr_tail (process_stderr out)))))"

text \<open>The wrappers that look for the binary before anything else.\<close>

definition when_available :: "'fs host_ops \<Rightarrow> string \<Rightarrow> ('fs, command_error, unit) io \<Rightarrow> ('fs, command_error, unit) io"
  where
  "when_available O' program m =
     io_then (io_gets (which O' program)) (\<lambda>found. if \<not> found then io_err (CmdNotFound program) else m)"

definition run_grub_mkconfig :: "'fs host_ops \<Rightarrow> ('fs, command_error, unit) io" where
  "run_grub_mkconfig O' =
     when_available O' ''grub-mkconfig'' (run_command O' ''grub-mkconfig'' [''-o'', ''/boot/grub/grub.cfg''])"

definition run_bootctl_update :: "'fs host_ops \<Rightarrow> ('fs, command_error, unit) io" where
  "run_bootctl_update O' = run_command O' ''bootctl'' [''update'']"

definition run_mkinitcpio_all :: "'fs host_ops \<Rightarrow> ('fs, command_error, unit) io" where
  "run_mkinitcpio_all O' = run_command O' ''mkinitcpio'' [''-P'']"

definition run_dracut_force_all :: "'fs host_ops \<Rightarrow> ('fs, command_error, unit) io" where
  "run_dracut_force_all O' = run_command O' ''dracut'' [''--force'', ''--regenerate-all'']"

definition run_update_initramfs_all :: "'fs host_ops \<Rightarrow> ('fs, command_error, unit) io" where
  "run_update_initramfs_all O' = run_command O' ''update-initramfs'' [''-u'', ''-k'', ''all'']"

section \<open>Temporary files\<close>

text \<open>The handle deletes its file when it is dropped: on an early return of the writing as well as at
  the end of the scope of the caller.\<close>

definition io_finally :: "('s \<Rightarrow> 's) \<Rightarrow> ('s, 'e, 'a) io \<Rightarrow> ('s, 'e, 'a) io" where
  "io_finally f m s = (case m s of (r, s') \<Rightarrow> (r, f s'))"

definition write_content_to_tempfile ::
  "'fs host_ops \<Rightarrow> string \<Rightarrow> string \<Rightarrow> path \<Rightarrow> ('fs, command_error, unit) io" where
  "write_content_to_tempfile O' program content q =
     (let err = TempFileIo program (path_display q)
      in io_then (io_map_err err (temp_write_all O' q content)) (\<lambda>_.
         io_then (io_map_err err (temp_flush O' q)) (\<lambda>_.
           io_map_err err (temp_sync_all O' q))))"

definition with_tempfile ::
  "'fs host_ops \<Rightarrow> string \<Rightarrow> string \<Rightarrow> string \<Rightarrow> string \<Rightarrow> (path \<Rightarrow> ('fs, command_error, 'a) io)
    \<Rightarrow> ('fs, command_error, 'a) io" where
  "with_tempfile O' program content prefix suffix body =
     io_then (io_map_err (TempFileIo program ''<tempfile>'') (temp_create O' prefix suffix)) (\<lambda>q.
       io_finally (temp_drop O' q)
         (io_then (write_content_to_tempfile O' program content q) (\<lambda>_. body q)))"

definition validate_xml :: "'fs host_ops \<Rightarrow> string \<Rightarrow> ('fs, command_error, unit) io" where
  "validate_xml O' content =
     when_available O' ''virt-xml-validate''
       (with_tempfile O' ''virt-xml-validate'' content ''virtu-vm-'' ''.xml'' (\<lambda>q.
          run_command O' ''virt-xml-validate'' [from_utf8_lossy (path_display q)]))"

definition validate_bash_script :: "'fs host_ops \<Rightarrow> string \<Rightarrow> ('fs, command_error, unit) io" where
  "validate_bash_script O' content =
     when_available O' ''bash''
       (with_tempfile O' ''bash'' content ''virtu-hook-'' ''.sh'' (\<lambda>q.
          run_command O' ''bash'' [''-n'', from_utf8_lossy (path_display q)]))"

section \<open>Disks and domains\<close>

definition run_qemu_img_create :: "'fs host_ops \<Rightarrow> path \<Rightarrow> u64 \<Rightarrow> disk_format \<Rightarrow> ('fs, command_error, unit) io" where
  "run_qemu_img_create O' q size_gb fmt =
     when_available O' ''qemu-img''
       (if \<not> valid_utf8 (path_display q)
        then io_err (InvalidArgument ''qemu-img''
               (''disk path is not valid UTF-8: '' @ from_utf8_lossy (path_display q)))
        else run_command O' ''qemu-img''
               [''create'', ''-f'', disk_extension fmt, path_display q, show_nat (unat size_gb) @ ''G''])"

definition run_virsh_define :: "'fs host_ops \<Rightarrow> path \<Rightarrow> ('fs, command_error, unit) io" where
  "run_virsh_define O' q =
     when_available O' ''virsh''
       (if \<not> valid_utf8 (path_display q)
        then io_err (InvalidArgument ''virsh''
               (''XML path is not valid UTF-8: '' @ from_utf8_lossy (path_display q)))
        else run_command O' ''virsh'' [''define'', path_display q])"

definition run_virsh_undefine :: "'fs host_ops \<Rightarrow> string \<Rightarrow> ('fs, command_error, unit) io" where
  "run_virsh_undefine O' domain =
     (if domain = [] then io_err (InvalidArgument ''virsh'' ''empty domain name'')
      else when_available O' ''virsh'' (run_command O' ''virsh'' [''undefine'', domain]))"

section \<open>What a command may touch\<close>

text \<open>
  The host's side of the contract: whatever the commands and the temporary files do, they leave the
  files of \<open>P\<close> alone (the theorems take Virtu's own snapshot directory for it).
\<close>

locale host_leaves_alone =
  fixes content :: "'fs \<Rightarrow> path \<Rightarrow> string option"
    and O' :: "'fs host_ops" and P :: "path \<Rightarrow> bool"
  assumes spawn_keeps: "spawn O' prog args s = (r, s') \<Longrightarrow> P p \<Longrightarrow> content s' p = content s p"
    and create_keeps: "temp_create O' pre suf s = (r1, s') \<Longrightarrow> P p \<Longrightarrow> content s' p = content s p"
    and create_elsewhere: "temp_create O' pre suf s = (Inr q, s') \<Longrightarrow> \<not> P q"
    and write_keeps: "temp_write_all O' q c s = (r2, s') \<Longrightarrow> \<not> P q \<Longrightarrow> P p \<Longrightarrow> content s' p = content s p"
    and flush_keeps: "temp_flush O' q s = (r3, s') \<Longrightarrow> \<not> P q \<Longrightarrow> P p \<Longrightarrow> content s' p = content s p"
    and sync_keeps: "temp_sync_all O' q s = (r4, s') \<Longrightarrow> \<not> P q \<Longrightarrow> P p \<Longrightarrow> content s' p = content s p"
    and drop_keeps: "\<not> P q \<Longrightarrow> P p \<Longrightarrow> content (temp_drop O' q s) p = content s p"
begin

definition keeps :: "('fs, 'e, 'a) io \<Rightarrow> bool" where
  "keeps m \<longleftrightarrow> (\<forall>s r s'. m s = (r, s') \<longrightarrow> (\<forall>p. P p \<longrightarrow> content s' p = content s p))"

lemma keepsD: "keeps m \<Longrightarrow> m s = (r, s') \<Longrightarrow> P p \<Longrightarrow> content s' p = content s p"
  unfolding keeps_def by blast

lemma keeps_simple: "keeps (io_ok a)" "keeps (io_err e)" "keeps (io_gets f)" "keeps (io_query g)" "keeps (io_lift x)"
  by (simp_all add: keeps_def)

lemma keeps_then:
  assumes "keeps m" "\<And>a s s'. m s = (Inr a, s') \<Longrightarrow> keeps (f a)"
  shows "keeps (io_then m f)"
  unfolding keeps_def
proof (intro allI impI)
  fix s r s' p assume run: "io_then m f s = (r, s')" and p: "P p"
  obtain r1 s1 where m: "m s = (r1, s1)" by fastforce
  show "content s' p = content s p"
    using run m keepsD[OF assms(1) m p] keepsD[OF assms(2) _ p]
    by (cases r1) (fastforce simp: io_then_def)+
qed

lemma keeps_map_err: "keeps m \<Longrightarrow> keeps (io_map_err g m)"
  by (fastforce simp: keeps_def io_map_err_def split: prod.splits)

lemma keeps_finally: "\<not> P q \<Longrightarrow> keeps m \<Longrightarrow> keeps (io_finally (temp_drop O' q) m)"
  by (fastforce simp: keeps_def io_finally_def drop_keeps split: prod.splits)

lemma keeps_if: "keeps m \<Longrightarrow> keeps n \<Longrightarrow> keeps (if b then m else n)"
  by simp

lemma keeps_run: "keeps (run_command O' program args)"
proof -
  have "keeps (spawn O' program args)" by (auto simp: keeps_def dest: spawn_keeps)
  then show ?thesis
    unfolding run_command_def by (intro keeps_then keeps_simple keeps_if keeps_map_err)
qed

lemma keeps_available: "keeps m \<Longrightarrow> keeps (when_available O' program m)"
  unfolding when_available_def by (intro keeps_then keeps_simple keeps_if)

lemma keeps_tempfile: "(\<And>q. keeps (body q)) \<Longrightarrow> keeps (with_tempfile O' program c pre suf body)"
proof -
  assume b: "\<And>q. keeps (body q)"
  have create: "keeps (temp_create O' pre suf)"
    by (auto simp: keeps_def dest: create_keeps)
  have rest: "keeps (temp_write_all O' q c)" "keeps (temp_flush O' q)" "keeps (temp_sync_all O' q)"
    if "\<not> P q" for q
    using that by (auto simp: keeps_def dest: write_keeps flush_keeps sync_keeps)
  show ?thesis
    unfolding with_tempfile_def write_content_to_tempfile_def Let_def
    by (intro keeps_then keeps_map_err keeps_finally create rest b)
      (auto simp: io_map_err_def dest: create_elsewhere split: prod.splits)
qed

lemma keeps_wrappers:
  "keeps (run_grub_mkconfig O')" "keeps (run_bootctl_update O')" "keeps (run_mkinitcpio_all O')"
  "keeps (run_dracut_force_all O')" "keeps (run_update_initramfs_all O')" "keeps (validate_xml O' c)"
  "keeps (validate_bash_script O' c)" "keeps (run_qemu_img_create O' q n f)" "keeps (run_virsh_define O' q)"
  "keeps (run_virsh_undefine O' name)"
  unfolding run_grub_mkconfig_def run_bootctl_update_def run_mkinitcpio_all_def run_dracut_force_all_def
    run_update_initramfs_all_def validate_xml_def validate_bash_script_def run_qemu_img_create_def
    run_virsh_define_def run_virsh_undefine_def
  by (intro keeps_available keeps_run keeps_tempfile keeps_if keeps_simple)+

end

text \<open>
  A host on the in-memory file system: every tool is installed and succeeds without touching a file,
  and temporary files lie under \<open>/tmp\<close>.
\<close>

definition quiet_host :: "mem_fs host_ops" where
  "quiet_host =
     \<lparr>which = (\<lambda>_ _. True),
      spawn = (\<lambda>_ _ s. (Inr \<lparr>exit_code = Some 0, process_stderr = []\<rparr>, s)),
      temp_create = (\<lambda>pre suf s. (Inr (Path True [''tmp'', pre @ suf]), s)),
      temp_write_all = (\<lambda>q c s. (Inr (), s\<lparr>mem_files := (mem_files s)(q \<mapsto> c)\<rparr>)),
      temp_flush = (\<lambda>_ s. (Inr (), s)), temp_sync_all = (\<lambda>_ s. (Inr (), s)),
      temp_drop = (\<lambda>q s. s\<lparr>mem_files := (mem_files s)(q := None)\<rparr>)\<rparr>"

definition outside_tmp :: "path \<Rightarrow> bool" where
  "outside_tmp p \<longleftrightarrow> \<not> path_under (Path True [''tmp'']) p"

interpretation quiet: host_leaves_alone mem_files quiet_host outside_tmp
  by unfold_locales (auto simp: quiet_host_def outside_tmp_def path_under_def)

section \<open>Errors of a command\<close>

text \<open>A command that is reported as successful was found on the path, was started and exited with
  0. A command that ran and failed is reported with its name, its arguments, its exit code (-1 if
  a signal ended it) and at most the last twenty lines of its error output; the state is
  the one the process left.\<close>

theorem command_reports:
  "case run_command O' program args s of
     (Inr _, s') \<Rightarrow> which O' program s \<and> (\<exists>out. spawn O' program args s = (Inr out, s') \<and> exit_code out = Some 0)
   | (Inl (NonZeroExit p a status stderr), s') \<Rightarrow> p = program \<and> a = str_join '' '' args \<and>
       (\<exists>out keep. spawn O' program args s = (Inr out, s') \<and> exit_code out \<noteq> Some 0 \<and>
          status = (case exit_code out of Some c \<Rightarrow> c | None \<Rightarrow> -1) \<and> length keep \<le> 20 \<and> stderr = str_join [LF] keep \<and>
          (\<exists>earlier. str_lines (from_utf8_lossy (process_stderr out)) = earlier @ keep))
   | (Inl (SpawnFailed p e), s') \<Rightarrow> p = program \<and> spawn O' program args s = (Inl e, s')
   | (Inl e, s') \<Rightarrow> e = CmdNotFound program \<and> \<not> which O' program s \<and> s' = s"
proof -
  have tail: "\<exists>earlier. ls = earlier @ rev (take 20 (rev ls))" for ls :: "string list"
    by (metis append_take_drop_id rev_append rev_rev_ident)
  have last: "\<exists>keep. length keep \<le> 20 \<and> stderr_tail err = str_join [LF] keep \<and>
      (\<exists>earlier. str_lines (from_utf8_lossy err) = earlier @ keep)" for err
    unfolding stderr_tail_def
    by (rule exI[of _ "rev (take 20 (rev (str_lines (from_utf8_lossy err))))"])
      (simp add: tail del: rev_take)
  show ?thesis
  proof (cases "which O' program s")
    case False
    then show ?thesis by (simp add: run_command_def io_then_def)
  next
    case True
    obtain r s' where sp: "spawn O' program args s = (r, s')" by fastforce
    show ?thesis
    proof (cases r)
      case (Inl e)
      then show ?thesis using True sp by (simp add: run_command_def io_then_def io_map_err_def)
    next
      case (Inr out)
      show ?thesis
      proof (cases "exit_success out")
        case True
        then show ?thesis using \<open>which O' program s\<close> sp Inr
          by (simp add: run_command_def io_then_def io_map_err_def exit_success_def)
      next
        case False
        then show ?thesis using \<open>which O' program s\<close> sp Inr last[of "process_stderr out"]
          by (simp add: run_command_def io_then_def io_map_err_def exit_success_def)
      qed
    qed
  qed
qed

end
