(* ===== verification/Pending.thy ===== *)
theory Pending
  imports Manifest
begin

text \<open>
  \<open>snapshot/pending.rs\<close>: the record that Phase A leaves for Phase B, with the fingerprint of the host
  and the partition of a plan into its two phases.
\<close>

definition pending_filename :: string where "pending_filename = ''pending.toml''"

definition state_subdir :: string where "state_subdir = ''state''"

record host_fingerprint =
  fp_distro_id :: string
  fp_kernel_version :: string
  fp_bootloader :: bootloader_kind
  fp_initramfs :: initramfs_system
  fp_pci_ids :: "string list"
  fp_cmdline_pre_apply :: string

record pending_plan =
  pp_virtu_version :: string
  pp_created_at :: nat
  pp_snapshot_id :: string
  pp_fingerprint :: host_fingerprint
  pp_plan_summary :: plan_summary
  pp_remaining :: "planned_step list"
  pp_config :: passthrough_config

definition fingerprint_capture :: "system_profile \<Rightarrow> string list \<Rightarrow> host_fingerprint" where
  "fingerprint_capture p ids =
     \<lparr>fp_distro_id = distro_id (sp_distro p), fp_kernel_version = kernel_version (sp_readiness p),
      fp_bootloader = bootloader_kind (sp_bootloader p), fp_initramfs = sp_initramfs_system p,
      fp_pci_ids = remdups_adj (sort ids), fp_cmdline_pre_apply = sp_kernel_cmdline p\<rparr>"

definition new_pending ::
  "nat \<Rightarrow> string \<Rightarrow> host_fingerprint \<Rightarrow> plan \<Rightarrow> planned_step list \<Rightarrow> passthrough_config \<Rightarrow> pending_plan" where
  "new_pending now sid fp pl remaining c =
     \<lparr>pp_virtu_version = virtu_version, pp_created_at = now, pp_snapshot_id = sid, pp_fingerprint = fp,
      pp_plan_summary = plan_summary pl, pp_remaining = remaining, pp_config = c\<rparr>"

definition phase_a_kind :: "step_kind \<Rightarrow> bool" where
  "phase_a_kind k \<longleftrightarrow> k = SnapshotStep \<or> k = BootloaderWrite \<or> k = VfioConfig \<or> k = InitramfsWrite"

definition phase_a_steps :: "plan \<Rightarrow> planned_step list" where
  "phase_a_steps pl = filter (\<lambda>s. phase_a_kind (step_kind s)) (plan_steps pl)"

definition phase_b_steps :: "plan \<Rightarrow> planned_step list" where
  "phase_b_steps pl = filter (\<lambda>s. \<not> phase_a_kind (step_kind s)) (plan_steps pl)"

text \<open>The planner's plans are already in phase order: Phase A is a prefix.\<close>

lemma phases_of_plan:
  assumes "make_plan ex e p r c = Inr pl"
  shows "plan_steps pl = phase_a_steps pl @ phase_b_steps pl"
    "plan_steps pl = snapshot_step e # tl (plan_steps pl)"
proof -
  have st: "plan_steps pl = build_steps e p c" using assms by (simp add: make_plan_choices)
  have kinds: "bootloader_step p c = Some b \<Longrightarrow> step_kind b = BootloaderWrite"
    "vfio_step p c = Some v \<Longrightarrow> step_kind v = VfioConfig"
    "initramfs_step p = Some i \<Longrightarrow> step_kind i = InitramfsWrite" for b v i
    using bootloader_step_kind vfio_step_kind initramfs_step_kind by blast+
  let ?A = "[snapshot_step e] @ opt_list (bootloader_step p c) @ opt_list (vfio_step p c) @ opt_list (initramfs_step p)"
  let ?B = "(if derived_mode c p = Some SingleGpu \<or> single_gpu_hook_handoff c
        then [single_gpu_hook_step p c] else [])
     @ (case looking_glass c of LgEnabled im _ \<Rightarrow> [looking_glass_step im] | LgDisabled \<Rightarrow> [])
     @ [vm_xml_step e c, vm_register_step c, verify_step]"
  have ab: "plan_steps pl = ?A @ ?B" by (simp add: st build_steps_def)
  have A: "list_all (\<lambda>s. phase_a_kind (step_kind s)) ?A"
    using kinds by (auto simp: list_all_iff phase_a_kind_def snapshot_step_def opt_list_def split: option.splits)
  have B: "list_all (\<lambda>s. \<not> phase_a_kind (step_kind s)) ?B"
    by (auto simp: list_all_iff phase_a_kind_def single_gpu_hook_step_def looking_glass_step_def
        vm_xml_step_def vm_register_step_def verify_step_def Let_def case_prod_beta
        split: looking_glass_choice.splits)
  have "filter P (xs @ ys) = xs" "filter (\<lambda>s. \<not> P s) (xs @ ys) = ys"
    if "list_all P xs" "list_all (\<lambda>s. \<not> P s) ys" for P and xs ys :: "planned_step list"
    using that by (auto simp: list_all_iff filter_empty_conv)
  from this[OF A B] show "plan_steps pl = phase_a_steps pl @ phase_b_steps pl"
    unfolding phase_a_steps_def phase_b_steps_def ab by simp
  show "plan_steps pl = snapshot_step e # tl (plan_steps pl)" by (simp add: ab)
qed

end
