(* ===== verification/Resume.thy ===== *)
theory Resume
  imports Pending Snapshot
begin

text \<open>
  \<open>engine/resume.rs\<close>: the pure verifier that decides after the reboot whether Phase A landed, and the
  check of the installed hook scripts.
\<close>

datatype divergence =
  IommuNotActive
| VfioPciNotBoundTo string "string option"
| KernelCmdlineMissing string
| VfioModuleNotLoaded
| HookScriptMissing string string
| HookScriptDivergent string string string string
| HookScriptNotExecutable string string

datatype host_mismatch =
  DistroChanged string string
| BootloaderChanged string string
| InitramfsSystemChanged string string

datatype resume_readiness =
  ResumeReady | NotReady "divergence list" | WrongHost "host_mismatch list"

definition is_ready :: "resume_readiness \<Rightarrow> bool" where
  "is_ready r \<longleftrightarrow> r = ResumeReady"

text \<open>The ellipsis of the messages, in UTF-8.\<close>

definition ellipsis :: string where
  "ellipsis = [CHR 0xE2, CHR 0x80, CHR 0xA6]"

definition divergence_summary :: "divergence \<Rightarrow> string" where
  "divergence_summary d = (case d of
     IommuNotActive \<Rightarrow> ''IOMMU is not active. The bootloader edit likely did not take effect.''
   | VfioPciNotBoundTo i (Some driver) \<Rightarrow>
       ''vfio-pci has not claimed '' @ i @ ''; it is currently bound to '' @ driver @ ''.''
   | VfioPciNotBoundTo i None \<Rightarrow> ''vfio-pci has not claimed '' @ i @ ''; the device is unbound.''
   | KernelCmdlineMissing q \<Rightarrow> ''Kernel cmdline is missing `'' @ q @ ''`.''
   | VfioModuleNotLoaded \<Rightarrow>
       ''vfio_pci is not in the loaded module list. Initramfs rebuild may not have applied.''
   | HookScriptMissing vm q \<Rightarrow> ''Single-GPU hook script for `'' @ vm @ ''` is missing at `'' @ q
       @ ''`. The host display manager won't release the GPU when the VM starts.''
   | HookScriptDivergent vm q ex ac \<Rightarrow> ''Single-GPU hook script for `'' @ vm @ ''` at `'' @ q
       @ ''` has been modified since Phase B installed it (expected sha256 '' @ take (min (length ex) 8) ex
       @ ellipsis @ '', found '' @ take (min (length ac) 8) ac @ ellipsis
       @ ''). Re-run `virtu apply` to regenerate, or roll back.''
   | HookScriptNotExecutable vm q \<Rightarrow> ''Single-GPU hook script for `'' @ vm @ ''` at `'' @ q
       @ ''` is not executable. libvirt will refuse to run it. Re-run `virtu apply` or `chmod +x` it manually.'')"

definition mismatch_summary :: "host_mismatch \<Rightarrow> string" where
  "mismatch_summary m = (case m of
     DistroChanged ex ac \<Rightarrow> ''Distro id changed: was `'' @ ex @ ''`, now `'' @ ac @ ''`.''
   | BootloaderChanged ex ac \<Rightarrow> ''Bootloader changed: was `'' @ ex @ ''`, now `'' @ ac @ ''`.''
   | InitramfsSystemChanged ex ac \<Rightarrow> ''Initramfs system changed: was `'' @ ex @ ''`, now `'' @ ac @ ''`.'')"

section \<open>The verifier\<close>

definition required_cmdline_params :: "string \<Rightarrow> string list \<Rightarrow> string list" where
  "required_cmdline_params cpu_param ids =
     [cpu_param, ''iommu=pt''] @ (if ids \<noteq> [] then [''vfio-pci.ids='' @ str_join '','' ids] else [])"

definition cmdline_has_param :: "string \<Rightarrow> string \<Rightarrow> bool" where
  "cmdline_has_param cmdline param \<longleftrightarrow>
     (if starts_with ''vfio-pci.ids='' param then contains_str param cmdline
      else list_ex (\<lambda>tok. tok = param) (split_ws cmdline))"

text \<open>The driver of the first GPU with this id: \<open>None\<close> when no GPU has it.\<close>

definition find_gpu_by_id :: "system_profile \<Rightarrow> string \<Rightarrow> string option option" where
  "find_gpu_by_id p pci_id =
     (case split_once (CHR '':'') pci_id of
        None \<Rightarrow> None
      | Some (vendor, device) \<Rightarrow>
          map_option gpu_current_driver
            (List.find (\<lambda>g. eq_ignore_case (gpu_vendor_id g) vendor \<and> eq_ignore_case (gpu_device_id g) device)
               (sp_gpus p)))"

definition host_identity_changes :: "system_profile \<Rightarrow> host_fingerprint \<Rightarrow> host_mismatch list" where
  "host_identity_changes p fp =
     (if distro_id (sp_distro p) \<noteq> fp_distro_id fp
      then [DistroChanged (fp_distro_id fp) (distro_id (sp_distro p))] else [])
     @ (if bootloader_kind (sp_bootloader p) \<noteq> fp_bootloader fp
        then [BootloaderChanged (bootloader_display (fp_bootloader fp))
                (bootloader_display (bootloader_kind (sp_bootloader p)))] else [])
     @ (if sp_initramfs_system p \<noteq> fp_initramfs fp
        then [InitramfsSystemChanged (initramfs_name (fp_initramfs fp))
                (initramfs_name (sp_initramfs_system p))] else [])"

definition phase_a_divergences :: "system_profile \<Rightarrow> host_fingerprint \<Rightarrow> divergence list" where
  "phase_a_divergences p fp =
     (let cpu_param = (if contains_str ''amd'' (to_lower (cpu_vendor (sp_cpu p))) then ''amd_iommu=on''
                       else ''intel_iommu=on'')
      in (if \<not> iommu_active p then [IommuNotActive] else [])
         @ map KernelCmdlineMissing
             (filter (\<lambda>q. \<not> cmdline_has_param (sp_kernel_cmdline p) q)
                (required_cmdline_params cpu_param (fp_pci_ids fp)))
         @ (if \<not> list_ex (\<lambda>m. m = ''vfio_pci'') (loaded_modules (sp_readiness p))
            then [VfioModuleNotLoaded] else [])
         @ concat (map (\<lambda>i. case find_gpu_by_id p i of
               Some driver \<Rightarrow> if driver = Some ''vfio-pci'' then [] else [VfioPciNotBoundTo i driver]
             | None \<Rightarrow> []) (fp_pci_ids fp)))"

definition verify_phase_a_landed :: "system_profile \<Rightarrow> pending_plan \<Rightarrow> resume_readiness" where
  "verify_phase_a_landed p pending =
     (let mismatches = host_identity_changes p (pp_fingerprint pending)
      in if mismatches \<noteq> [] then WrongHost mismatches
         else (let ds = phase_a_divergences p (pp_fingerprint pending)
           in if ds = [] then ResumeReady else NotReady ds))"

section \<open>The hook scripts\<close>

definition hook_entry_divergences ::
  "'fs file_system \<Rightarrow> (string \<Rightarrow> string) \<Rightarrow> string \<Rightarrow> 'fs \<Rightarrow> snapshot_entry \<Rightarrow> divergence list" where
  "hook_entry_divergences F H vm s e =
     (let q = original_path e; text = path_display q
      in if entry_produced_by e \<noteq> HookInstall then []
         else if \<not> fs_exists F q s then [HookScriptMissing vm text]
         else (case (post_edit_sha256 e, fs_read F q s) of
             (Some expected, Inr bytes) \<Rightarrow>
               if H bytes \<noteq> expected then [HookScriptDivergent vm text expected (H bytes)]
               else if \<not> fs_is_executable F q s then [HookScriptNotExecutable vm text] else []
           | (None, _) \<Rightarrow> [HookScriptDivergent vm text ''(not recorded)'' ''(unknown)'']
           | (Some _, Inl _) \<Rightarrow> [HookScriptMissing vm text]))"

definition verify_hook_install ::
  "snapshot_manifest \<Rightarrow> 'fs file_system \<Rightarrow> (string \<Rightarrow> string) \<Rightarrow> string \<Rightarrow> 'fs \<Rightarrow> divergence list" where
  "verify_hook_install m F H vm s = concat (map (hook_entry_divergences F H vm s) (entries m))"

end
