(* ===== verification/Executor_A.thy ===== *)
theory Executor_A
  imports Pending Commands Snapshot Grub Systemd_Boot Initramfs Vfio_Modprobe
begin

text \<open>
  \<open>engine/executor.rs\<close>, Phase A: the snapshot, the bootloader, VFIO and initramfs writers, the
  regenerate commands, and the pending record. \<open>platform\<close> bundles what lies outside \<open>src/\<close>: the
  file system behind its trait, the host, SHA-256, the TOML library for the two persisted
  records, and the format of the clock.
\<close>

record 'fs platform =
  pf_fs :: "'fs file_system"
  pf_host :: "'fs host_ops"
  pf_sha256 :: "string \<Rightarrow> string"
  pf_manifest_codec :: "snapshot_manifest codec"
  pf_pending_codec :: "pending_plan codec"
  pf_stamp :: "nat \<Rightarrow> string"

datatype phase_a_error =
  PaSnapshot snapshot_error
| PaWriter step_kind writer_error
| PaPlan step_kind string
| PaPendingPersist io_error
| PaRegenerate step_kind command_error

text \<open>The derived \<open>Debug\<close> of \<open>StepKind\<close>.\<close>

definition step_debug :: "step_kind \<Rightarrow> string" where
  "step_debug k = (case k of
     SnapshotStep \<Rightarrow> ''Snapshot'' | BootloaderWrite \<Rightarrow> ''BootloaderWrite'' | VfioConfig \<Rightarrow> ''VfioConfig''
   | InitramfsWrite \<Rightarrow> ''InitramfsWrite'' | HookInstall \<Rightarrow> ''HookInstall''
   | VmXmlGenerate \<Rightarrow> ''VmXmlGenerate'' | VmRegister \<Rightarrow> ''VmRegister''
   | LookingGlassInstall \<Rightarrow> ''LookingGlassInstall'' | Verify \<Rightarrow> ''Verify'')"

definition phase_a_error_display :: "phase_a_error \<Rightarrow> string" where
  "phase_a_error_display e = (case e of
     PaSnapshot src \<Rightarrow> ''snapshot step failed: '' @ snapshot_error_display src
   | PaWriter k src \<Rightarrow> ''writer rejected input for '' @ step_debug k @ '': '' @ writer_error_display src
   | PaPlan k d \<Rightarrow> ''step '' @ step_debug k @ '': '' @ d
   | PaPendingPersist src \<Rightarrow> ''pending-plan persistence failed: '' @ io_message src
   | PaRegenerate k src \<Rightarrow>
       ''regenerate command for '' @ step_debug k @ '' failed: '' @ command_error_display src)"

datatype regenerate_mode = SkipRegenerate | RunRegenerate

record phase_a_outcome =
  pa_snapshot_id :: string
  pa_pending_path :: path
  pa_completed :: "step_kind list"
  pa_message :: string

section \<open>The snapshot step\<close>

definition manifest_path :: "path \<Rightarrow> string \<Rightarrow> path" where
  "manifest_path root sid = path_push (path_push root sid) manifest_filename"

definition execute_snapshot_step ::
  "'fs platform \<Rightarrow> nat \<Rightarrow> nat \<Rightarrow> plan \<Rightarrow> system_profile \<Rightarrow> path
    \<Rightarrow> ('fs, snapshot_error, string \<times> snapshot_manifest) io" where
  "execute_snapshot_step W now now' pl host root =
     (if \<not> (case plan_steps pl of [] \<Rightarrow> False | s # _ \<Rightarrow> step_kind s = SnapshotStep) then
        io_err (SnapIo root (IoError InvalidInput
          ''execute_snapshot_step: plan does not start with StepKind::Snapshot''))
      else
        io_then (capture (pf_fs W) (pf_sha256 W) (pf_manifest_codec W) (pf_stamp W) now now' pl host root) (\<lambda>sid.
        let mp = manifest_path root sid in
        io_then (io_map_err (SnapIo mp) (io_query (fs_read (pf_fs W) mp))) (\<lambda>bytes.
        case from_utf8 bytes of
          None \<Rightarrow> io_err (SnapIo mp (IoError InvalidData ''invalid utf-8''))
        | Some text \<Rightarrow>
            io_then (io_lift (map_err (ManifestParse sid) (from_toml (pf_manifest_codec W) text))) (\<lambda>m.
              io_ok (sid, m)))))"

section \<open>Kernel parameters and device ids\<close>

definition phase_a_pci_ids :: "system_profile \<Rightarrow> passthrough_config \<Rightarrow> string list" where
  "phase_a_pci_ids p c = foldl (\<lambda>ids a. foldl push_new ids (assignment_ids p a)) [] (gpu_roles c)"

definition sorted_ids :: "system_profile \<Rightarrow> passthrough_config \<Rightarrow> string list" where
  "sorted_ids p c = remdups_adj (sort (phase_a_pci_ids p c))"

definition required_kernel_params :: "system_profile \<Rightarrow> passthrough_config \<Rightarrow> string list" where
  "required_kernel_params p c =
     (let cpu_param = (if contains_str ''amd'' (to_lower (cpu_vendor (sp_cpu p))) then ''amd_iommu=on''
                       else ''intel_iommu=on'');
          ids = sorted_ids p c
      in [cpu_param, ''iommu=pt''] @ (if ids \<noteq> [] then [''vfio-pci.ids='' @ str_join '','' ids] else []))"

text \<open>\<open>config/bootloader.rs\<close> has a second computation of the IOMMU parameters, which nothing calls. It
  matches the vendor exactly; on the two vendor names that occur it gives the same parameters.\<close>

record kernel_param_plan =
  kp_params :: "string list"
  kp_target :: "string option"

definition plan_iommu_params :: "bootloader_info \<Rightarrow> string \<Rightarrow> kernel_param_plan" where
  "plan_iommu_params b vendor =
     \<lparr>kp_params = [if contains_str ''AMD'' vendor \<or> vendor = ''AuthenticAMD'' then ''amd_iommu=on''
        else ''intel_iommu=on'', ''iommu=pt''],
      kp_target = map_option path_display (bootloader_config_path b)\<rparr>"

lemma iommu_params_agree:
  assumes "cpu_vendor (sp_cpu p) \<in> {''AuthenticAMD'', ''GenuineIntel''}"
  shows "kp_params (plan_iommu_params b (cpu_vendor (sp_cpu p))) = take 2 (required_kernel_params p c)"
proof -
  have "contains_str ''amd'' (to_lower ''AuthenticAMD'')" "\<not> contains_str ''amd'' (to_lower ''GenuineIntel'')"
    "\<not> contains_str ''AMD'' ''GenuineIntel''" by code_simp+
  moreover have "cpu_vendor (sp_cpu p) = ''AuthenticAMD'' \<or> cpu_vendor (sp_cpu p) = ''GenuineIntel''"
    using assms by blast
  ultimately show ?thesis
    by (elim disjE) (simp_all add: plan_iommu_params_def required_kernel_params_def Let_def del: append_Cons)
qed

section \<open>The three writers\<close>

text \<open>Read the target, with the error of the snapshot engine.\<close>

definition read_target :: "'fs platform \<Rightarrow> path \<Rightarrow> ('fs, phase_a_error, string) io" where
  "read_target W target =
     io_then (io_map_err (\<lambda>e. PaSnapshot (SnapIo target e)) (io_query (fs_read (pf_fs W) target)))
       (\<lambda>bytes. io_ok (from_utf8_lossy bytes))"

definition write_target ::
  "'fs platform \<Rightarrow> snapshot_manifest \<Rightarrow> path \<Rightarrow> string \<Rightarrow> ('fs, phase_a_error, snapshot_manifest) io" where
  "write_target W m target content =
     io_map_err PaSnapshot (snapshot_then_write (pf_fs W) (pf_sha256 W) m target content)"

definition run_bootloader_step ::
  "'fs platform \<Rightarrow> planned_step \<Rightarrow> system_profile \<Rightarrow> passthrough_config \<Rightarrow> snapshot_manifest
    \<Rightarrow> ('fs, phase_a_error, snapshot_manifest) io" where
  "run_bootloader_step W step host c m =
     (case step_touches step of
        [] \<Rightarrow> io_err (PaPlan BootloaderWrite ''bootloader step has no touched path'')
      | target # _ \<Rightarrow>
          (let params = required_kernel_params host c; kind = bootloader_kind (sp_bootloader host) in
           io_then (read_target W target) (\<lambda>current.
           io_then
             (case kind of
                Grub2 \<Rightarrow> io_lift (map_err (PaWriter BootloaderWrite) (rewrite_grub_default current params))
              | SystemdBoot \<Rightarrow>
                  io_lift (map_err (PaWriter BootloaderWrite) (rewrite_systemd_boot_entry current params))
              | UnknownBootloader \<Rightarrow> io_err (PaPlan BootloaderWrite
                  ''bootloader is Unknown; planner should have refused this plan'')
              | _ \<Rightarrow> io_err (PaPlan BootloaderWrite (''bootloader '' @ bootloader_display kind
                  @ '' writer is not implemented yet (Milestone 6 Phase B+)'')))
             (\<lambda>content. write_target W m target content))))"

definition run_vfio_step ::
  "'fs platform \<Rightarrow> planned_step \<Rightarrow> system_profile \<Rightarrow> passthrough_config \<Rightarrow> snapshot_manifest
    \<Rightarrow> ('fs, phase_a_error, snapshot_manifest) io" where
  "run_vfio_step W step host c m =
     (case step_touches step of
        [] \<Rightarrow> io_err (PaPlan VfioConfig ''vfio step has no touched path'')
      | target # _ \<Rightarrow>
          io_then (io_lift (map_err (PaWriter VfioConfig) (generate_vfio_modprobe_conf (sorted_ids host c)))) (\<lambda>content.
            write_target W (declare_created_entry target (backup_relative_path target) VfioConfig m)
              target content))"

definition run_initramfs_step ::
  "'fs platform \<Rightarrow> planned_step \<Rightarrow> system_profile \<Rightarrow> snapshot_manifest
    \<Rightarrow> ('fs, phase_a_error, snapshot_manifest) io" where
  "run_initramfs_step W step host m =
     (case step_touches step of
        [] \<Rightarrow> io_err (PaPlan InitramfsWrite ''initramfs step has no touched path'')
      | target # _ \<Rightarrow>
          (let kind = sp_initramfs_system host; wrote = (\<lambda>r. io_lift (map_err (PaWriter InitramfsWrite) r)) in
           io_then
             (case kind of
                Mkinitcpio \<Rightarrow> io_then (read_target W target) (\<lambda>current. wrote (rewrite_mkinitcpio_conf current))
              | Dracut \<Rightarrow> wrote generate_dracut_conf
              | UpdateInitramfs \<Rightarrow>
                  io_then (io_gets (\<lambda>s. case fs_read (pf_fs W) target s of Inr b \<Rightarrow> b | Inl _ \<Rightarrow> [])) (\<lambda>bytes.
                    wrote (rewrite_initramfs_modules (from_utf8_lossy bytes)))
              | UnknownInitramfs \<Rightarrow> io_err (PaPlan InitramfsWrite
                  ''initramfs system Unknown; planner should have refused this plan''))
             (\<lambda>content. write_target W
                (if kind = Dracut
                 then declare_created_entry target (backup_relative_path target) InitramfsWrite m else m)
                target content)))"

section \<open>Regenerate commands\<close>

text \<open>A failure of \<open>bootctl update\<close> is only logged.\<close>

definition run_regenerate_commands ::
  "'fs platform \<Rightarrow> system_profile \<Rightarrow> step_kind list \<Rightarrow> ('fs, phase_a_error, unit) io" where
  "run_regenerate_commands W host completed =
     (let O' = pf_host W; required = (\<lambda>k m. io_map_err (PaRegenerate k) m) in
      io_then
        (if BootloaderWrite \<in> set completed then
           (case bootloader_kind (sp_bootloader host) of
              Grub2 \<Rightarrow> required BootloaderWrite (run_grub_mkconfig O')
            | SystemdBoot \<Rightarrow> (\<lambda>s. (Inr (), snd (run_bootctl_update O' s)))
            | _ \<Rightarrow> io_ok ())
         else io_ok ()) (\<lambda>_.
      if InitramfsWrite \<in> set completed then
        (case sp_initramfs_system host of
           Mkinitcpio \<Rightarrow> required InitramfsWrite (run_mkinitcpio_all O')
         | Dracut \<Rightarrow> required InitramfsWrite (run_dracut_force_all O')
         | UpdateInitramfs \<Rightarrow> required InitramfsWrite (run_update_initramfs_all O')
         | UnknownInitramfs \<Rightarrow> io_ok ())
      else io_ok ()))"

section \<open>The phase\<close>

definition persist_manifest ::
  "'fs platform \<Rightarrow> path \<Rightarrow> string \<Rightarrow> snapshot_manifest \<Rightarrow> ('fs, phase_a_error, unit) io" where
  "persist_manifest W root sid m =
     io_then (io_lift (map_err (\<lambda>e. PaPlan SnapshotStep (''serializing manifest: '' @ e))
                (to_toml (pf_manifest_codec W) m))) (\<lambda>serialized.
       io_map_err (\<lambda>e. PaSnapshot (SnapIo (manifest_path root sid) e))
         (fs_write_atomic (pf_fs W) (manifest_path root sid) serialized))"

definition build_pending_plan ::
  "nat \<Rightarrow> plan \<Rightarrow> system_profile \<Rightarrow> passthrough_config \<Rightarrow> string \<Rightarrow> pending_plan" where
  "build_pending_plan now pl host c sid =
     new_pending now sid (fingerprint_capture host (phase_a_pci_ids host c)) pl (phase_b_steps pl) c"

text \<open>One turn of the loop over the steps: the manifest and the completed kinds are threaded.\<close>

definition phase_a_step ::
  "'fs platform \<Rightarrow> system_profile \<Rightarrow> passthrough_config \<Rightarrow> snapshot_manifest \<times> step_kind list
    \<Rightarrow> planned_step \<Rightarrow> ('fs, phase_a_error, snapshot_manifest \<times> step_kind list) io" where
  "phase_a_step W host c acc step =
     (case acc of (m, completed) \<Rightarrow>
        (case step_kind step of
           BootloaderWrite \<Rightarrow> io_then (run_bootloader_step W step host c m) (\<lambda>m'.
             io_ok (m', completed @ [BootloaderWrite]))
         | VfioConfig \<Rightarrow> io_then (run_vfio_step W step host c m) (\<lambda>m'. io_ok (m', completed @ [VfioConfig]))
         | InitramfsWrite \<Rightarrow> io_then (run_initramfs_step W step host m) (\<lambda>m'.
             io_ok (m', completed @ [InitramfsWrite]))
         | _ \<Rightarrow> io_ok (m, completed)))"

definition next_step_message :: "string \<Rightarrow> string" where
  "next_step_message sid =
     ''Phase A complete. Snapshot id: '' @ sid @ [LF]
     @ ''Reboot the host, then run `virtu resume` to finish setup.'' @ [LF]
     @ ''If anything is wrong after the reboot, run `virtu rollback --to '' @ sid @ ''`.''"

definition pending_path :: "path \<Rightarrow> path" where
  "pending_path state_root = path_push state_root pending_filename"

text \<open>The tail of the phase: the manifest with the post-edit hashes, then the pending record.\<close>

definition finish_phase_a ::
  "'fs platform \<Rightarrow> nat \<Rightarrow> plan \<Rightarrow> system_profile \<Rightarrow> passthrough_config \<Rightarrow> path \<Rightarrow> path \<Rightarrow> string
    \<Rightarrow> snapshot_manifest \<times> step_kind list \<Rightarrow> ('fs, phase_a_error, phase_a_outcome) io" where
  "finish_phase_a W now pl host c root state_root sid acc =
     (case acc of (m, completed) \<Rightarrow>
      io_then (persist_manifest W root sid m) (\<lambda>_.
      let pending = build_pending_plan now pl host c sid in
      io_then (io_map_err PaPendingPersist (fs_create_dir_all (pf_fs W) state_root)) (\<lambda>_.
      io_then (io_lift (map_err (\<lambda>e. PaPlan SnapshotStep (''serializing PendingPlan: '' @ e))
                 (to_toml (pf_pending_codec W) pending))) (\<lambda>serialized.
      io_then (io_map_err PaPendingPersist
                 (fs_write_atomic (pf_fs W) (pending_path state_root) serialized)) (\<lambda>_.
        io_ok \<lparr>pa_snapshot_id = sid, pa_pending_path = pending_path state_root,
               pa_completed = completed, pa_message = next_step_message sid\<rparr>)))))"

definition execute_phase_a ::
  "'fs platform \<Rightarrow> nat \<times> nat \<times> nat \<Rightarrow> plan \<Rightarrow> system_profile \<Rightarrow> passthrough_config \<Rightarrow> path \<Rightarrow> path
    \<Rightarrow> regenerate_mode \<Rightarrow> ('fs, phase_a_error, phase_a_outcome) io" where
  "execute_phase_a W clock pl host c root state_root mode =
     (case clock of (t1, t2, t3) \<Rightarrow>
      io_then (io_map_err PaSnapshot (execute_snapshot_step W t1 t2 pl host root)) (\<lambda>(sid, m0).
      io_then (io_fold (phase_a_step W host c) (m0, [SnapshotStep]) (plan_steps pl)) (\<lambda>acc.
      io_then (if mode = RunRegenerate then run_regenerate_commands W host (snd acc) else io_ok ()) (\<lambda>_.
        finish_phase_a W t3 pl host c root state_root sid acc))))"

text \<open>\<open>execute_plan\<close>: the lines it prints.\<close>

definition execute_plan :: "planned_step list \<Rightarrow> string + string list" where
  "execute_plan steps =
     (if length (filter (\<lambda>s. step_kind s = SnapshotStep) steps) = 0
      then Inl ''Plan has no snapshot step; refusing to execute any other step.''
      else Inr (map (\<lambda>s. ''pending: '' @ step_title s) steps))"

end
