(* ===== verification/Phase_A.thy ===== *)
theory Phase_A
  imports Executor_A Rollback
begin

text \<open>
  Properties of Phase A: whatever its outcome, the snapshot it took can bring the host's files back;
  when it succeeds, the files outside the snapshot directory are those of a pure specification.
\<close>

section \<open>Recoverability\<close>

text \<open>
  A manifest is good for the targets \<open>T\<close> and the contents \<open>orig\<close> at capture time when its entries are
  those of \<open>T\<close>, backed by the files in the snapshot directory. A state is recoverable when
  the manifest on disk is good.
\<close>

definition manifest_good ::
  "(string \<Rightarrow> string) \<Rightarrow> path \<Rightarrow> path list \<Rightarrow> (path \<Rightarrow> string option) \<Rightarrow> (path \<Rightarrow> string option)
    \<Rightarrow> snapshot_manifest \<Rightarrow> bool" where
  "manifest_good H d T orig C m \<longleftrightarrow>
     manifest_backed H d orig C m \<and> original_path ` set (entries m) = set T \<and>
     (\<forall>e \<in> set (entries m). backup_path e = backup_relative_path (original_path e))"

definition recoverable ::
  "(string \<Rightarrow> string) \<Rightarrow> snapshot_manifest codec \<Rightarrow> path \<Rightarrow> path list \<Rightarrow> (path \<Rightarrow> string option)
    \<Rightarrow> (path \<Rightarrow> string option) \<Rightarrow> bool" where
  "recoverable H codec d T orig C \<longleftrightarrow>
     (\<exists>m t. C (path_push d manifest_filename) = Some t \<and> valid_utf8 t \<and> from_toml codec t = Inr m \<and>
        manifest_good H d T orig C m)"

definition backups :: "path \<Rightarrow> path list \<Rightarrow> path set" where
  "backups d T = (\<lambda>t. path_join d (backup_relative_path t)) ` set T"

lemma manifest_good_cong:
  assumes "manifest_good H d T orig C m" "\<And>p. p \<in> backups d T \<Longrightarrow> C' p = C p"
  shows "manifest_good H d T orig C' m"
  using assms by (fastforce simp: manifest_good_def manifest_backed_def entry_backed_def backup_file_def backups_def)

lemma recoverable_cong:
  assumes "recoverable H codec d T orig C"
    and "\<And>p. p \<in> insert (path_push d manifest_filename) (backups d T) \<Longrightarrow> C' p = C p"
  shows "recoverable H codec d T orig C'"
proof -
  from assms(1) obtain m t where m: "C (path_push d manifest_filename) = Some t" "valid_utf8 t"
    "from_toml codec t = Inr m" "manifest_good H d T orig C m" by (auto simp: recoverable_def)
  have "manifest_good H d T orig C' m" by (rule manifest_good_cong[OF m(4)]) (use assms(2) in blast)
  moreover have "C' (path_push d manifest_filename) = Some t" using assms(2) m(1) by simp
  ultimately show ?thesis using m(2,3) by (auto simp: recoverable_def)
qed

lemma safe_backups:
  assumes "snapshot_safe d T"
  shows "p \<in> insert (path_push d manifest_filename) (backups d T) \<Longrightarrow> path_under d p"
    "path_push d manifest_filename \<notin> backups d T" "t \<in> set T \<Longrightarrow> \<not> path_under d t"
  using assms by (auto simp: backups_def snapshot_safe_def manifest_under backup_under
      dest: backup_not_manifest[symmetric])

lemma manifest_good_update:
  "manifest_good H d T orig C m \<Longrightarrow> manifest_good H d T orig C (update_entry t (record_post_edit_hash h) m)"
proof -
  assume good: "manifest_good H d T orig C m"
  have "original_path (record_post_edit_hash h e) = original_path e"
    "backup_path (record_post_edit_hash h e) = backup_path e" for e
    by (simp_all add: record_post_edit_hash_def)
  then have "map original_path (entries (update_entry t (record_post_edit_hash h) m)) = map original_path (entries m)"
    "\<forall>e \<in> set (entries (update_entry t (record_post_edit_hash h) m)). backup_path e = backup_relative_path (original_path e)"
    using good
    by (auto simp: update_entry_def manifest_good_def map_update_first record_post_edit_hash_def
        dest!: set_update_firstD)
  then show ?thesis
    using good manifest_backed_update[of H d orig C m t h]
    unfolding manifest_good_def by (metis set_map)
qed

lemma declare_captured:
  "manifest_good H d T orig C m \<Longrightarrow> t \<in> set T \<Longrightarrow> declare_created_entry t b k m = m"
proof -
  assume "manifest_good H d T orig C m" "t \<in> set T"
  then have "t \<in> original_path ` set (entries m)" by (simp add: manifest_good_def)
  then have "entry_for t m \<noteq> None" by (auto simp: entry_for_None)
  then show ?thesis by (simp add: declare_created_entry_def)
qed

lemma good_actions: "manifest_good H d T orig C (m\<lparr>restore_actions := a\<rparr>) = manifest_good H d T orig C m"
  by (simp add: manifest_good_def manifest_backed_def)

lemma triple_any: "triple P m (\<lambda>_. R) (\<lambda>_. R) \<Longrightarrow> P s \<Longrightarrow> m s = (r, s') \<Longrightarrow> R s'"
  by (cases r) (auto dest: triple_Inr triple_Inl)

text \<open>A restore from a recoverable state.\<close>

text \<open>What a restore needs from a recoverable state.\<close>

lemma recoverableE:
  assumes rec: "recoverable H codec d T orig C" and safe: "snapshot_safe d T" and hash: "hash_separates H (set T) orig C"
  obtains m t where "C (path_push d manifest_filename) = Some t" "valid_utf8 t" "from_toml codec t = Inr m"
    "manifest_backed H d orig C m" "original_path ` set (entries m) = set T"
    "\<forall>e \<in> set (entries m). entry_placed d e"
    "\<forall>e \<in> set (entries m). \<forall>c c'. orig (original_path e) = Some c \<and> C (original_path e) = Some c' \<and> H c' = H c \<longrightarrow> c' = c"
proof -
  from rec obtain m t where m: "C (path_push d manifest_filename) = Some t" "valid_utf8 t"
    "from_toml codec t = Inr m" "manifest_good H d T orig C m" by (auto simp: recoverable_def)
  then have backed: "manifest_backed H d orig C m" and orig: "original_path ` set (entries m) = set T"
    and bp: "\<forall>e \<in> set (entries m). backup_path e = backup_relative_path (original_path e)"
    by (auto simp: manifest_good_def)
  have placed: "\<forall>e \<in> set (entries m). entry_placed d e"
  proof
    fix e assume e: "e \<in> set (entries m)"
    then have "original_path e \<in> set T" using orig by blast
    then have "plain_name (sanitize_path (original_path e))" "\<not> path_under d (original_path e)"
      using safe by (auto simp: snapshot_safe_def)
    then show "entry_placed d e"
      using bp e by (simp add: entry_placed_def backup_file_def backup_under)
  qed
  have "\<forall>e \<in> set (entries m). \<forall>c c'. orig (original_path e) = Some c \<and> C (original_path e) = Some c' \<and> H c' = H c \<longrightarrow> c' = c"
    using hash orig unfolding hash_separates_def by blast
  with that m backed orig placed show thesis by blast
qed

lemma recoverable_restore:
  assumes laws: "file_system_laws F" and rec: "recoverable H codec (path_push root sid) T orig (fs_content F s)"
    and safe: "snapshot_safe (path_push root sid) T"
    and hash: "hash_separates H (set T) orig (fs_content F s)"
    and run: "restore F H codec root sid s = (Inr x, s')"
  shows "(\<forall>t \<in> set T. fs_content F s' t = orig t) \<and> (\<forall>p. p \<notin> set T \<longrightarrow> fs_content F s' p = fs_content F s p)"
proof -
  obtain m t where m: "fs_content F s (path_push (path_push root sid) manifest_filename) = Some t" "valid_utf8 t"
    "from_toml codec t = Inr m" and backed: "manifest_backed H (path_push root sid) orig (fs_content F s) m"
    and orig: "original_path ` set (entries m) = set T"
    and placed: "\<forall>e \<in> set (entries m). entry_placed (path_push root sid) e"
    and nc: "\<forall>e \<in> set (entries m). \<forall>c c'. orig (original_path e) = Some c \<and> fs_content F s (original_path e) = Some c' \<and>
      H c' = H c \<longrightarrow> c' = c"
    by (rule recoverableE[OF rec safe hash])
  show ?thesis
    using file_system_laws.restore_result[OF laws run m backed placed nc] by (auto simp flip: orig)
qed

text \<open>On the in-memory file system that restore does return.\<close>

lemma recoverable_restore_mem:
  assumes rec: "recoverable H codec (path_push root sid) T orig (mem_files s)"
    and safe: "snapshot_safe (path_push root sid) T" and hash: "hash_separates H (set T) orig (mem_files s)"
    and plain: "targets_plain s (set T)"
  shows "\<exists>x s'. restore mem_ops H codec root sid s = (Inr x, s') \<and> (\<forall>t \<in> set T. mem_files s' t = orig t)"
proof -
  obtain m t where m: "mem_files s (path_push (path_push root sid) manifest_filename) = Some t" "valid_utf8 t"
    "from_toml codec t = Inr m" and backed: "manifest_backed H (path_push root sid) orig (mem_files s) m"
    and inside: "original_path ` set (entries m) = set T"
    and placed: "\<forall>e \<in> set (entries m). entry_placed (path_push root sid) e"
    and nc: "\<forall>e \<in> set (entries m). \<forall>c c'. orig (original_path e) = Some c \<and> mem_files s (original_path e) = Some c' \<and>
      H c' = H c \<longrightarrow> c' = c"
    by (rule recoverableE[OF rec safe hash])
  obtain x s' where run: "restore mem_ops H codec root sid s = (Inr x, s')"
    using restore_mem_ok[OF m backed placed equalityD1[OF inside] nc plain] by blast
  then show ?thesis
    using recoverable_restore[OF memfs.file_system_laws_axioms, unfolded mem_content, OF rec safe hash run] by blast
qed

section \<open>The platform's contract\<close>

text \<open>
  Everything Virtu relies on outside its own code: the laws of the file system, a TOML library that
  reads back both persisted records, and host commands that leave the files below \<open>d\<close> alone.
\<close>

locale platform_laws =
  fs: file_system_laws "pf_fs W" +
  host: host_leaves_alone "fs_content (pf_fs W)" "pf_host W" "path_under d"
  for W :: "'fs platform" and d :: path +
  assumes manifest_codec: "codec_round_trips (pf_manifest_codec W)"
    and pending_codec: "codec_round_trips (pf_pending_codec W)"
begin

abbreviation content :: "'fs \<Rightarrow> path \<Rightarrow> string option" where
  "content \<equiv> fs_content (pf_fs W)"

abbreviation good :: "path list \<Rightarrow> (path \<Rightarrow> string option) \<Rightarrow> snapshot_manifest \<Rightarrow> 'fs \<Rightarrow> bool" where
  "good T orig m s \<equiv> recoverable (pf_sha256 W) (pf_manifest_codec W) d T orig (content s) \<and>
     manifest_good (pf_sha256 W) d T orig (content s) m"

abbreviation safe_state :: "path list \<Rightarrow> (path \<Rightarrow> string option) \<Rightarrow> 'fs \<Rightarrow> bool" where
  "safe_state T orig s \<equiv> recoverable (pf_sha256 W) (pf_manifest_codec W) d T orig (content s)"

lemma good_frame:
  assumes "snapshot_safe d T" "good T orig m s" "\<And>p. path_under d p \<Longrightarrow> content s' p = content s p"
  shows "good T orig m s'"
proof -
  have eq: "p \<in> insert (path_push d manifest_filename) (backups d T) \<Longrightarrow> content s' p = content s p" for p
    using assms(3) safe_backups(1)[OF assms(1)] by blast
  have "safe_state T orig s'" by (rule recoverable_cong[OF conjunct1[OF assms(2)] eq])
  moreover have "manifest_good (pf_sha256 W) d T orig (content s') m"
    by (rule manifest_good_cong[OF conjunct2[OF assms(2)] eq]) simp
  ultimately show ?thesis ..
qed

lemma safe_frame:
  assumes "snapshot_safe d T" "safe_state T orig s" "\<And>p. path_under d p \<Longrightarrow> content s' p = content s p"
  shows "safe_state T orig s'"
  using assms(2) by (rule recoverable_cong) (use assms(3) safe_backups(1)[OF assms(1)] in blast)

lemma keeps_good:
  "host.keeps n \<Longrightarrow> snapshot_safe d T \<Longrightarrow> triple (good T orig m) n (\<lambda>_. good T orig m) (\<lambda>_. safe_state T orig)"
  by (rule tripleI) (metis host.keepsD good_frame)+

lemma write_target_good:
  assumes safe: "snapshot_safe d T" and t: "t \<in> set T"
  shows "triple (good T orig m) (write_target W m t c) (good T orig) (\<lambda>_. safe_state T orig)"
proof (rule tripleI)
  fix s m' s' assume g: "good T orig m s" and run: "write_target W m t c s = (Inr m', s')"
  then have st: "snapshot_then_write (pf_fs W) (pf_sha256 W) m t c s = (Inr m', s')"
    by (simp add: write_target_def)
  have c': "content s' = (content s)(t \<mapsto> c)"
    and m': "m' = update_entry t (record_post_edit_hash (pf_sha256 W c)) m"
    using fs.snapshot_then_write_result[OF st] by auto
  have "good T orig m s'"
    by (rule good_frame[OF safe g]) (use c' safe_backups(3)[OF safe t] in auto)
  then show "good T orig m' s'" unfolding m' by (blast intro: manifest_good_update)
next
  fix s e s' assume g: "good T orig m s" and run: "write_target W m t c s = (Inl e, s')"
  then obtain e' where "snapshot_then_write (pf_fs W) (pf_sha256 W) m t c s = (Inl e', s')"
    by (auto simp: write_target_def io_map_err_def split: prod.splits)
  from fs.snapshot_then_write_result[OF this] have "content s' = content s" by auto
  with g show "safe_state T orig s'" by simp
qed

lemma declare_write_good:
  assumes "snapshot_safe d T" "t \<in> set T"
  shows "triple (good T orig m) (write_target W (declare_created_entry t b k m) t c) (good T orig)
     (\<lambda>_. safe_state T orig)"
proof (rule tripleI)
  fix s x s' assume g: "good T orig m s" "write_target W (declare_created_entry t b k m) t c s = (Inr x, s')"
  then have "write_target W m t c s = (Inr x, s')" by (simp add: declare_captured[OF conjunct2 assms(2)])
  with g(1) show "good T orig x s'" by (rule triple_Inr[OF write_target_good[OF assms]])
next
  fix s e s' assume g: "good T orig m s" "write_target W (declare_created_entry t b k m) t c s = (Inl e, s')"
  then have "write_target W m t c s = (Inl e, s')" by (simp add: declare_captured[OF conjunct2 assms(2)])
  with g(1) show "safe_state T orig s'" by (rule triple_Inl[OF write_target_good[OF assms]])
qed

text \<open>A step of Phase A computes its content without touching the snapshot, then writes its target.\<close>

lemma keeps_pure:
  "host.keeps (io_lift x)" "host.keeps (io_err e)" "host.keeps (io_ok a)" "host.keeps (io_gets f)"
  "host.keeps (read_target W t)"
  by (auto simp: read_target_def intro!: host.keeps_then host.keeps_map_err host.keeps_simple)

lemma step_good:
  assumes safe: "snapshot_safe d T" and touch: "set (step_touches step) \<subseteq> set T"
  shows "triple (good T orig m) (run_bootloader_step W step host c m) (good T orig) (\<lambda>_. safe_state T orig)"
    "triple (good T orig m) (run_vfio_step W step host c m) (good T orig) (\<lambda>_. safe_state T orig)"
    "triple (good T orig m) (run_initramfs_step W step host m) (good T orig) (\<lambda>_. safe_state T orig)"
proof -
  note keep = keeps_good[OF _ safe]
  have err: "triple (good T orig m) (io_err e) (good T orig) (\<lambda>_. safe_state T orig)" for e :: phase_a_error
    by (rule triple_err) blast
  show "triple (good T orig m) (run_bootloader_step W step host c m) (good T orig) (\<lambda>_. safe_state T orig)"
  proof (cases "step_touches step")
    case (Cons t ts)
    with touch have t: "t \<in> set T" by simp
    show ?thesis
      unfolding run_bootloader_step_def Cons list.case Let_def
      by (rule triple_then[OF keep triple_then[OF keep write_target_good[OF safe t]]])
        (auto intro!: keeps_pure split: bootloader_kind.split)
  qed (simp add: run_bootloader_step_def err)
  show "triple (good T orig m) (run_vfio_step W step host c m) (good T orig) (\<lambda>_. safe_state T orig)"
  proof (cases "step_touches step")
    case (Cons t ts)
    with touch have t: "t \<in> set T" by simp
    show ?thesis
      unfolding run_vfio_step_def Cons list.case
      by (rule triple_then[OF keep declare_write_good[OF safe t]]) (rule keeps_pure)
  qed (simp add: run_vfio_step_def err)
  show "triple (good T orig m) (run_initramfs_step W step host m) (good T orig) (\<lambda>_. safe_state T orig)"
  proof (cases "step_touches step")
    case (Cons t ts)
    with touch have t: "t \<in> set T" by simp
    show ?thesis
      unfolding run_initramfs_step_def Cons list.case Let_def if_distrib[of "\<lambda>m. write_target W m _ _"]
      by (rule triple_then[OF keep triple_if[OF declare_write_good[OF safe t] write_target_good[OF safe t]]])
        (auto intro!: keeps_pure host.keeps_then split: initramfs_system.split)
  qed (simp add: run_initramfs_step_def err)
qed

lemma phase_a_step_good:
  assumes "snapshot_safe d T" "step_kind step \<noteq> SnapshotStep \<Longrightarrow> set (step_touches step) \<subseteq> set T"
  shows "triple (good T orig (fst acc)) (phase_a_step W host c acc step) (\<lambda>acc'. good T orig (fst acc'))
     (\<lambda>_. safe_state T orig)"
proof -
  obtain m ks where acc: "acc = (m, ks)" by (cases acc)
  have ok: "triple (good T orig m) (io_ok (m, ks)) (\<lambda>acc'. good T orig (fst acc')) (\<lambda>_. safe_state T orig)"
    by (rule triple_ok) simp
  have then_ok: "triple (good T orig m) (io_then r (\<lambda>m'. io_ok (m', ks))) (\<lambda>acc'. good T orig (fst acc'))
      (\<lambda>_. safe_state T orig)"
    if "triple (good T orig m) r (good T orig) (\<lambda>_. safe_state T orig)" for r ks
    by (rule triple_then[OF that triple_ok]) simp
  show ?thesis
    using step_good[OF assms(1)] assms(2) ok
    by (cases "step_kind step") (auto simp: phase_a_step_def acc intro!: then_ok)
qed

lemma phase_a_loop_good:
  assumes "snapshot_safe d T"
    and "\<forall>step \<in> set steps. step_kind step \<noteq> SnapshotStep \<longrightarrow> set (step_touches step) \<subseteq> set T"
  shows "triple (good T orig (fst acc)) (io_fold (phase_a_step W host c) acc steps)
     (\<lambda>acc'. good T orig (fst acc')) (\<lambda>_. safe_state T orig)"
  by (rule triple_fold[where I="\<lambda>acc. good T orig (fst acc)"]) (use assms in \<open>auto intro!: phase_a_step_good\<close>)

lemma keeps_regenerate: "host.keeps (run_regenerate_commands W host completed)"
proof -
  have "host.keeps (\<lambda>s. (Inr (), snd (run_bootctl_update (pf_host W) s)))"
    unfolding host.keeps_def using host.keepsD[OF host.keeps_wrappers(2)] by (metis prod.collapse snd_conv)
  then show ?thesis
    unfolding run_regenerate_commands_def Let_def
    by (intro host.keeps_then host.keeps_if)
      (auto intro!: host.keeps_map_err host.keeps_wrappers host.keeps_simple
        split: bootloader_kind.split initramfs_system.split)
qed

text \<open>Saving a good manifest over the one on disk keeps the state good; a failed save leaves it.\<close>

lemma saved_good:
  assumes safe: "snapshot_safe d T" and g: "good T orig m s" and t: "to_toml (pf_manifest_codec W) m = Inr t"
    and w: "fs_write_atomic (pf_fs W) (path_push d manifest_filename) t s = (Inr a, s')"
  shows "good T orig m s'"
proof -
  have c': "content s' = (content s)(path_push d manifest_filename \<mapsto> t)" using fs.write_ok[OF w] .
  have "manifest_good (pf_sha256 W) d T orig (content s') m"
    by (rule manifest_good_cong[OF conjunct2[OF g]]) (use c' safe_backups(2)[OF safe] in auto)
  moreover have "valid_utf8 t" "from_toml (pf_manifest_codec W) t = Inr m"
    using manifest_codec t by (auto simp: codec_round_trips_def)
  ultimately show ?thesis using c' by (auto simp: recoverable_def)
qed

lemma persist_good:
  assumes safe: "snapshot_safe d T" and mp: "manifest_path root sid = path_push d manifest_filename"
  shows "triple (good T orig m) (persist_manifest W root sid m) (\<lambda>_. safe_state T orig) (\<lambda>_. safe_state T orig)"
proof (rule tripleI)
  fix s a s' assume g: "good T orig m s" and run: "persist_manifest W root sid m s = (Inr a, s')"
  then obtain t where "to_toml (pf_manifest_codec W) m = Inr t"
    "fs_write_atomic (pf_fs W) (path_push d manifest_filename) t s = (Inr a, s')"
    by (auto simp: persist_manifest_def io_then_def io_map_err_def mp split: prod.splits sum.splits)
  from saved_good[OF safe g this] show "safe_state T orig s'" by simp
next
  fix s e s' assume g: "good T orig m s" and run: "persist_manifest W root sid m s = (Inl e, s')"
  then have "content s' = content s"
    by (auto simp: persist_manifest_def io_then_def io_map_err_def mp dest: fs.write_err
        split: prod.splits sum.splits)
  with g show "safe_state T orig s'" by simp
qed

lemma finish_good:
  assumes safe: "snapshot_safe d T" and mp: "manifest_path root sid = path_push d manifest_filename"
    and pend: "\<not> path_under d (pending_path state_root)"
  shows "triple (good T orig (fst acc)) (finish_phase_a W now pl host c root state_root sid acc)
     (\<lambda>_. safe_state T orig) (\<lambda>_. safe_state T orig)"
proof -
  have keep: "triple (safe_state T orig) (fs_create_dir_all (pf_fs W) p) (\<lambda>_. safe_state T orig) (\<lambda>_. safe_state T orig)"
    for p by (rule tripleI) (auto dest: fs.mkdir_content)
  have store: "triple (safe_state T orig) (fs_write_atomic (pf_fs W) (pending_path state_root) t)
      (\<lambda>_. safe_state T orig) (\<lambda>_. safe_state T orig)" for t
    using fs.write_frame pend by (intro tripleI; metis safe_frame[OF safe])
  have lift: "triple (safe_state T orig) (io_lift r) (\<lambda>_. safe_state T orig) (\<lambda>_. safe_state T orig)" for r
    by (rule triple_lift) auto
  have mapped: "triple P (io_map_err g m) Q (\<lambda>_. E)" if "triple P m Q (\<lambda>_. E)"
    for P Q E and m :: "('fs, io_error, unit) io" and g :: "io_error \<Rightarrow> phase_a_error"
    by (rule triple_map_err[where E="\<lambda>_. E"]) (rule that)
  show ?thesis
    unfolding finish_phase_a_def Let_def case_prod_unfold
    by (rule triple_then[OF persist_good[OF safe mp]], rule triple_then[OF mapped[OF keep]],
        rule triple_then[OF lift], rule triple_then[OF mapped[OF store]], rule triple_ok)
qed

text \<open>The snapshot step: on success the state is good for the contents before it, and otherwise
  nothing outside the snapshot directory has changed.\<close>

lemma snapshot_step_good:
  assumes run: "execute_snapshot_step W now now' pl host root s = (r, s')"
    and d: "d = path_push root (generate_id (pf_stamp W) now)"
    and safe: "snapshot_safe d (collect_targets (plan_steps pl))"
  shows "(\<forall>p. \<not> path_under d p \<longrightarrow> content s' p = content s p) \<and>
    (\<forall>sid m. r = Inr (sid, m) \<longrightarrow> sid = generate_id (pf_stamp W) now \<and>
       good (collect_targets (plan_steps pl)) (content s) m s')"
proof (cases "plan_steps pl = [] \<or> step_kind (hd (plan_steps pl)) \<noteq> SnapshotStep")
  case True
  then have "r = Inl (SnapIo root (IoError InvalidInput
      ''execute_snapshot_step: plan does not start with StepKind::Snapshot'')) \<and> s' = s"
    using run by (cases "plan_steps pl") (auto simp: execute_snapshot_step_def)
  then show ?thesis by simp
next
  case False
  let ?sid = "generate_id (pf_stamp W) now" and ?T = "collect_targets (plan_steps pl)"
  obtain rc s1 where cap: "capture_with_id (pf_fs W) (pf_sha256 W) (pf_manifest_codec W) now' pl host root ?sid s = (rc, s1)"
    by fastforce
  note C = fs.capture_result[OF cap safe[unfolded d], folded d]
  have s': "s' = s1"
    using run False cap
    by (cases "plan_steps pl")
      (auto simp: execute_snapshot_step_def capture_def io_then_def io_map_err_def Let_def
        split: sum.splits prod.splits option.splits)
  moreover have "sid = ?sid \<and> good ?T (content s) m s1" if r: "r = Inr (sid, m)" for sid m
  proof -
    from r obtain x where rc: "rc = Inr x"
      using run False cap
      by (cases "plan_steps pl"; cases rc) (auto simp: execute_snapshot_step_def capture_def io_then_def io_map_err_def Let_def)
    with C obtain m0 t where inv: "capture_inv (pf_sha256 W) d ?T (content s) (content s1) m0"
      and ents: "map original_path (entries m0) = ?T" and ser: "to_toml (pf_manifest_codec W) m0 = Inr t"
      and disk: "content s1 (path_push d manifest_filename) = Some t" by blast
    have utf: "valid_utf8 t" "from_toml (pf_manifest_codec W) t = Inr m0"
      using manifest_codec ser by (auto simp: codec_round_trips_def)
    have "fs_read (pf_fs W) (manifest_path root ?sid) s1 = Inr t"
      using disk by (simp add: fs_content_read manifest_path_def d)
    then have "sid = ?sid \<and> m = m0"
      using run False cap rc utf r
      by (cases "plan_steps pl")
        (auto simp: execute_snapshot_step_def capture_def io_then_def io_map_err_def Let_def)
    moreover have "original_path ` set (entries m0) = set ?T" using ents by (metis set_map)
    then have "manifest_good (pf_sha256 W) d ?T (content s) (content s1) m0"
      using inv by (simp add: manifest_good_def capture_inv_def)
    moreover from this have "safe_state ?T (content s) s1"
      using disk utf by (auto simp: recoverable_def)
    ultimately show ?thesis by simp
  qed
  ultimately show ?thesis using C by simp
qed

end

text \<open>The touched files of the plan are captured.\<close>

lemma touches_collected:
  assumes "step \<in> set steps" "step_kind step \<noteq> SnapshotStep" "t \<in> set (step_touches step)" "\<not> path_is_empty t"
  shows "t \<in> set (collect_targets steps)"
proof -
  have "set (foldl (\<lambda>seen s. if step_kind s = SnapshotStep then seen
      else foldl push_new seen (filter (\<lambda>t. \<not> path_is_empty t) (step_touches s))) seen steps) =
    set seen \<union> (\<Union>s \<in> {s \<in> set steps. step_kind s \<noteq> SnapshotStep}. {t \<in> set (step_touches s). \<not> path_is_empty t})" for seen
    by (induction steps arbitrary: seen) auto
  then show ?thesis using assms by (auto simp: collect_targets_def)
qed

definition touches_named :: "planned_step list \<Rightarrow> bool" where
  "touches_named steps \<longleftrightarrow> (\<forall>s \<in> set steps. step_kind s \<noteq> SnapshotStep \<longrightarrow> (\<forall>t \<in> set (step_touches s). \<not> path_is_empty t))"

context platform_laws
begin

text \<open>The rest of the phase, once the snapshot is taken.\<close>

lemma phase_a_captured:
  assumes d: "d = path_push root (generate_id (pf_stamp W) t1)"
    and safe: "snapshot_safe d (collect_targets (plan_steps pl))" and named: "touches_named (plan_steps pl)"
    and pend: "\<not> path_under d (pending_path state_root)"
    and snap: "execute_snapshot_step W t1 t2 pl host root s0 = (Inr x, s')"
    and run: "execute_phase_a W (t1, t2, t3) pl host c root state_root mode s0 = (r, s1)"
  shows "safe_state (collect_targets (plan_steps pl)) (content s0) s1"
proof -
  let ?sid = "generate_id (pf_stamp W) t1" and ?T = "collect_targets (plan_steps pl)"
  obtain m where x: "x = (?sid, m)" and good: "good ?T (content s0) m s'"
    using snapshot_step_good[OF snap d safe] by (cases x) auto
  have touch: "\<forall>step \<in> set (plan_steps pl). step_kind step \<noteq> SnapshotStep \<longrightarrow> set (step_touches step) \<subseteq> set ?T"
    using named touches_collected by (fastforce simp: touches_named_def)
  have rest: "io_then (io_fold (phase_a_step W host c) (m, [SnapshotStep]) (plan_steps pl)) (\<lambda>acc.
      io_then (if mode = RunRegenerate then run_regenerate_commands W host (snd acc) else io_ok ()) (\<lambda>_.
        finish_phase_a W t3 pl host c root state_root ?sid acc)) s' = (r, s1)"
    using run snap x by (simp add: execute_phase_a_def io_then_def[of "io_map_err _ _"] io_map_err_def)
  have "triple (good ?T (content s0) (fst (m, [SnapshotStep])))
      (io_then (io_fold (phase_a_step W host c) (m, [SnapshotStep]) (plan_steps pl)) (\<lambda>acc.
        io_then (if mode = RunRegenerate then run_regenerate_commands W host (snd acc) else io_ok ()) (\<lambda>_.
          finish_phase_a W t3 pl host c root state_root ?sid acc)))
      (\<lambda>_. safe_state ?T (content s0)) (\<lambda>_. safe_state ?T (content s0))"
    by (rule triple_then[OF phase_a_loop_good[OF safe touch]],
        rule triple_then[OF triple_if[OF keeps_good[OF keeps_regenerate safe] triple_ok] finish_good[OF safe _ pend]])
      (simp_all add: manifest_path_def d)
  from triple_any[OF this _ rest] good show ?thesis by simp
qed

text \<open>The whole phase, for any outcome.\<close>

lemma phase_a_safe:
  assumes d: "d = path_push root (generate_id (pf_stamp W) t1)"
    and safe: "snapshot_safe d (collect_targets (plan_steps pl))" and named: "touches_named (plan_steps pl)"
    and pend: "\<not> path_under d (pending_path state_root)"
    and run: "execute_phase_a W (t1, t2, t3) pl host c root state_root mode s0 = (r, s1)"
  shows "(\<exists>e. r = Inl (PaSnapshot e)) \<and> (\<forall>p. \<not> path_under d p \<longrightarrow> content s1 p = content s0 p) \<or>
    safe_state (collect_targets (plan_steps pl)) (content s0) s1"
proof -
  obtain r1 s' where snap: "execute_snapshot_step W t1 t2 pl host root s0 = (r1, s')" by fastforce
  show ?thesis
  proof (cases r1)
    case (Inl e)
    then have "r = Inl (PaSnapshot e)" "s1 = s'"
      using run snap by (auto simp: execute_phase_a_def io_then_def io_map_err_def)
    then show ?thesis using snapshot_step_good[OF snap d safe] by blast
  next
    case (Inr x)
    then show ?thesis using phase_a_captured[OF d safe named pend _ run] snap by blast
  qed
qed

lemma safe_state_restores:
  assumes "d = path_push root sid" "snapshot_safe d T" "safe_state T orig s1"
    and "\<forall>p. path_under d p \<longrightarrow> content s2 p = content s1 p"
    and "hash_separates (pf_sha256 W) (set T) orig (content s2)"
    and "restore (pf_fs W) (pf_sha256 W) (pf_manifest_codec W) root sid s2 = (Inr x, s3)"
  shows "(\<forall>t \<in> set T. content s3 t = orig t) \<and> (\<forall>p. p \<notin> set T \<longrightarrow> content s3 p = content s2 p)"
proof -
  have "safe_state T orig s2" by (rule safe_frame[OF assms(2,3)]) (use assms(4) in blast)
  then show ?thesis
    using recoverable_restore[OF fs.file_system_laws_axioms _ _ assms(5,6)] assms(1,2) by blast
qed

end


end
