(* ===== verification/Phase_A_Spec.thy ===== *)
theory Phase_A_Spec
  imports Phase_A Resume
begin

text \<open>
  What Phase A computes, as a function on file contents: each step replaces one file by a text that
  depends on the host, the choices and the old text alone. The executor refines this function,
  and the record it leaves is the one that the verifier of the next boot reads.
\<close>

section \<open>The specification\<close>

definition step_text :: "system_profile \<Rightarrow> passthrough_config \<Rightarrow> step_kind \<Rightarrow> string option \<Rightarrow> writer_error + string" where
  "step_text host c k old =
     (let current = from_utf8_lossy (case old of Some b \<Rightarrow> b | None \<Rightarrow> []);
          params = required_kernel_params host c in
      case k of
        BootloaderWrite \<Rightarrow>
          (if bootloader_kind (sp_bootloader host) = Grub2 then rewrite_grub_default current params
           else rewrite_systemd_boot_entry current params)
      | VfioConfig \<Rightarrow> generate_vfio_modprobe_conf (sorted_ids host c)
      | _ \<Rightarrow>
          (case sp_initramfs_system host of
             Mkinitcpio \<Rightarrow> rewrite_mkinitcpio_conf current
           | Dracut \<Rightarrow> generate_dracut_conf
           | _ \<Rightarrow> rewrite_initramfs_modules current))"

definition edits :: "step_kind \<Rightarrow> bool" where
  "edits k \<longleftrightarrow> k = BootloaderWrite \<or> k = VfioConfig \<or> k = InitramfsWrite"

definition step_effect ::
  "system_profile \<Rightarrow> passthrough_config \<Rightarrow> (path \<Rightarrow> string option) \<Rightarrow> planned_step \<Rightarrow> (path \<Rightarrow> string option)" where
  "step_effect host c C step =
     (if edits (step_kind step) then
        (case step_touches step of
           t # _ \<Rightarrow> C(t := (case step_text host c (step_kind step) (C t) of Inr x \<Rightarrow> Some x | Inl _ \<Rightarrow> C t))
         | [] \<Rightarrow> C)
      else C)"

section \<open>One step\<close>

context file_system_laws
begin

lemma write_step_effect:
  assumes "snapshot_then_write F H m t c s = (Inr m', s')"
  shows "fs_content F s' = (fs_content F s)(t \<mapsto> c)"
  using snapshot_then_write_result[OF assms] by auto

end

lemma run_step_effect:
  assumes laws: "file_system_laws (pf_fs W)"
    and run: "phase_a_step W host c (m, ks) step s = (Inr (m', ks'), s')"
  shows "fs_content (pf_fs W) s' = step_effect host c (fs_content (pf_fs W) s) step \<and>
     ks' = ks @ (if edits (step_kind step) then [step_kind step] else [])"
proof -
  note wrote = file_system_laws.write_step_effect[OF laws]
  let ?C = "fs_content (pf_fs W) s"
  note defs = io_then_Inr_iff read_target_def write_target_def step_effect_def step_text_def edits_def
    fs_content_def Let_def
  have boot: "fs_content (pf_fs W) s' = step_effect host c ?C step"
    if "run_bootloader_step W step host c m s = (Inr m', s')" "step_kind step = BootloaderWrite"
    using that by (cases "bootloader_kind (sp_bootloader host)")
      (auto simp: run_bootloader_step_def defs dest!: wrote split: list.splits)
  have vfio: "fs_content (pf_fs W) s' = step_effect host c ?C step"
    if "run_vfio_step W step host c m s = (Inr m', s')" "step_kind step = VfioConfig"
    using that by (auto simp: run_vfio_step_def defs dest!: wrote split: list.splits)
  have initramfs: "fs_content (pf_fs W) s' = step_effect host c ?C step"
    if "run_initramfs_step W step host m s = (Inr m', s')" "step_kind step = InitramfsWrite"
    using that by (auto simp: run_initramfs_step_def generate_dracut_conf_def defs dest!: wrote
        split: list.splits initramfs_system.splits sum.splits)
  show ?thesis
    using run boot vfio initramfs
    by (cases "step_kind step") (auto simp: phase_a_step_def io_then_Inr_iff edits_def step_effect_def)
qed

lemma run_steps_effect:
  assumes laws: "file_system_laws (pf_fs W)"
    and "io_fold (phase_a_step W host c) (m, ks) steps s = (Inr (m', ks'), s')"
  shows "fs_content (pf_fs W) s' = foldl (step_effect host c) (fs_content (pf_fs W) s) steps \<and>
     ks' = ks @ filter edits (map step_kind steps)"
  using assms(2)
proof (induction steps arbitrary: m ks s)
  case Nil
  then show ?case by simp
next
  case (Cons step steps)
  then obtain m1 ks1 s1 where one: "phase_a_step W host c (m, ks) step s = (Inr (m1, ks1), s1)"
    and rest: "io_fold (phase_a_step W host c) (m1, ks1) steps s1 = (Inr (m', ks'), s')"
    by (auto simp: io_then_Inr_iff)
  show ?case using run_step_effect[OF laws one] Cons.IH[OF rest] by simp
qed

text \<open>The specification reads and writes the targets only.\<close>

lemma effect_cong:
  assumes "\<forall>step \<in> set steps. edits (step_kind step) \<longrightarrow> (\<forall>t \<in> set (step_touches step). Q t)"
    and "\<forall>p. Q p \<longrightarrow> C p = C' p"
  shows "\<forall>p. Q p \<longrightarrow> foldl (step_effect host c) C steps p = foldl (step_effect host c) C' steps p"
  using assms
proof (induction steps arbitrary: C C')
  case (Cons step steps)
  have "\<forall>p. Q p \<longrightarrow> step_effect host c C step p = step_effect host c C' step p"
    using Cons.prems by (auto simp: step_effect_def split: list.splits sum.splits)
  then show ?case using Cons.IH Cons.prems(1) by simp
qed simp

section \<open>The whole phase\<close>

text \<open>The tail of the phase writes the manifest and the record of the remaining steps.\<close>

lemma finish_effect:
  assumes laws: "platform_laws W d" and mp: "path_under d (manifest_path root sid)"
    and run: "finish_phase_a W now pl host c root state_root sid (m, ks) s = (Inr out, s')"
  shows "(\<forall>p. \<not> path_under d p \<and> p \<noteq> pending_path state_root \<longrightarrow> fs_content (pf_fs W) s' p = fs_content (pf_fs W) s p) \<and>
     pa_completed out = ks \<and>
     (\<exists>t. fs_content (pf_fs W) s' (pending_path state_root) = Some t \<and> valid_utf8 t \<and>
        from_toml (pf_pending_codec W) t = Inr (build_pending_plan now pl host c sid))"
proof -
  note fs = platform_laws.axioms(1)[OF laws]
  obtain t0 s1 s2 t u v w where ser: "to_toml (pf_pending_codec W) (build_pending_plan now pl host c sid) = Inr t"
    and "fs_write_atomic (pf_fs W) (manifest_path root sid) t0 s = (Inr u, s1)"
    and "fs_create_dir_all (pf_fs W) state_root s1 = (Inr v, s2)"
    and "fs_write_atomic (pf_fs W) (pending_path state_root) t s2 = (Inr w, s')" and out: "pa_completed out = ks"
    using run by (auto simp: finish_phase_a_def persist_manifest_def io_then_Inr_iff Let_def)
  then have c: "fs_content (pf_fs W) s' =
      ((fs_content (pf_fs W) s)(manifest_path root sid \<mapsto> t0))(pending_path state_root \<mapsto> t)"
    by (auto dest!: file_system_laws.write_ok[OF fs] file_system_laws.mkdir_content[OF fs])
  have "valid_utf8 t \<and> from_toml (pf_pending_codec W) t = Inr (build_pending_plan now pl host c sid)"
    using platform_laws.pending_codec[OF laws] ser by (auto simp: codec_round_trips_def)
  then show ?thesis using c out mp by auto
qed

text \<open>C4: Phase A refines its specification. When the run succeeds (without the regenerate commands, which
  belong to the host) every file outside the snapshot directory and the record of the remaining steps
  is what the specification computes from the contents before the run; the completed
  kinds are the snapshot and the edits of the plan in order; and the record on disk parses back to the pending
  plan built from the plan, the host and the choices.\<close>

theorem phase_a_refines:
  assumes laws: "platform_laws W (path_push root (generate_id (pf_stamp W) t1))"
    and safe: "snapshot_safe (path_push root (generate_id (pf_stamp W) t1)) (collect_targets (plan_steps pl))"
    and named: "touches_named (plan_steps pl)"
    and run: "execute_phase_a W (t1, t2, t3) pl host c root state_root SkipRegenerate s0 = (Inr out, s1)"
  shows "(\<forall>p. \<not> path_under (path_push root (generate_id (pf_stamp W) t1)) p \<and> p \<noteq> pending_path state_root \<longrightarrow>
       fs_content (pf_fs W) s1 p = foldl (step_effect host c) (fs_content (pf_fs W) s0) (plan_steps pl) p) \<and>
    pa_completed out = SnapshotStep # filter edits (map step_kind (plan_steps pl)) \<and>
    (\<exists>t. fs_content (pf_fs W) s1 (pending_path state_root) = Some t \<and> valid_utf8 t \<and>
       from_toml (pf_pending_codec W) t =
         Inr (build_pending_plan t3 pl host c (generate_id (pf_stamp W) t1)))"
proof -
  let ?sid = "generate_id (pf_stamp W) t1"
  let ?d = "path_push root ?sid" and ?C = "fs_content (pf_fs W)"
  have mp: "path_under ?d (manifest_path root ?sid)" by (simp add: manifest_path_def manifest_under)
  obtain sid m s' acc s2 where snap: "execute_snapshot_step W t1 t2 pl host root s0 = (Inr (sid, m), s')"
    and loop: "io_fold (phase_a_step W host c) (m, [SnapshotStep]) (plan_steps pl) s' = (Inr acc, s2)"
    and fin: "finish_phase_a W t3 pl host c root state_root sid acc s2 = (Inr out, s1)"
    using run by (auto simp: execute_phase_a_def io_then_Inr_iff)
  obtain m2 ks where acc: "acc = (m2, ks)" by fastforce
  have outside: "\<forall>p. \<not> path_under ?d p \<longrightarrow> ?C s' p = ?C s0 p" and sid: "sid = ?sid"
    using platform_laws.snapshot_step_good[OF laws snap refl safe] by auto
  note L = run_steps_effect[OF platform_laws.axioms(1)[OF laws] loop[unfolded acc]]
  note F = finish_effect[OF laws mp fin[unfolded acc sid]]
  have "\<forall>step \<in> set (plan_steps pl). edits (step_kind step) \<longrightarrow> (\<forall>t \<in> set (step_touches step). \<not> path_under ?d t)"
    using touches_collected[of _ "plan_steps pl"] named safe_backups(3)[OF safe]
    by (fastforce simp: touches_named_def edits_def)
  from effect_cong[OF this outside] show ?thesis
    using L F by simp
qed

end
