(* ===== verification/Executor_B.thy ===== *)
theory Executor_B
  imports Executor_A Hooks Vm_Xml
begin

text \<open>
  \<open>engine/executor.rs\<close>, Phase B: after the reboot the rest of the plan runs from the pending record.
  The three writing steps thread the manifest of the snapshot and save it before they go on, so that
  a rollback knows every file they made.
\<close>

text \<open>What the generator of the domain XML takes from outside: the bundled knowledge base (its tables
  are data of the repository), a fresh UUID and the numeric id of the user.\<close>

record vm_env =
  ve_kb :: knowledge_base
  ve_uuid :: string
  ve_uid :: nat

datatype phase_b_error =
  PbRefused string
| PbIo path io_error
| PbStep step_kind string
| PbXmlGenerate step_kind vm_view_error
| PbXmlValidate step_kind command_error
| PbPersist step_kind snapshot_error
| PbDiskCreate step_kind path command_error
| PbVirshDefine step_kind "path option" command_error
| PbHookGenerate step_kind hook_script_error
| PbHookValidate step_kind string string command_error
| PbHookChmod step_kind path io_error

text \<open>\<open>debug\<close> is the derived \<open>Debug\<close> of an optional path.\<close>

definition phase_b_error_display :: "(path option \<Rightarrow> string) \<Rightarrow> phase_b_error \<Rightarrow> string" where
  "phase_b_error_display debug e = (case e of
     PbRefused d \<Rightarrow> ''phase B refused to run: '' @ d
   | PbIo q src \<Rightarrow> ''phase B I/O at '' @ path_display q @ '': '' @ io_message src
   | PbStep k d \<Rightarrow> ''step '' @ step_debug k @ '': '' @ d
   | PbXmlGenerate k src \<Rightarrow>
       ''step '' @ step_debug k @ '': VM XML generation failed: '' @ xml_error_display src
   | PbXmlValidate k src \<Rightarrow> ''step '' @ step_debug k
       @ '': virt-xml-validate rejected the generated XML: '' @ command_error_display src
   | PbPersist k src \<Rightarrow>
       ''step '' @ step_debug k @ '': snapshot-aware write failed: '' @ snapshot_error_display src
   | PbDiskCreate k q src \<Rightarrow> ''step '' @ step_debug k @ '': qemu-img create failed for '' @ path_display q
       @ ''; rollback already cleaned up the partial image: '' @ command_error_display src
   | PbVirshDefine k d src \<Rightarrow> ''step '' @ step_debug k
       @ '': virsh define failed; the libvirt domain was NOT registered. The disk image at '' @ debug d
       @ '' has been left on disk for inspection: '' @ command_error_display src
   | PbHookGenerate k src \<Rightarrow>
       ''step '' @ step_debug k @ '': hook script generation failed: '' @ hook_error_display src
   | PbHookValidate k vm script src \<Rightarrow> ''step '' @ step_debug k @ '': bash -n rejected the generated ''
       @ [BTICK] @ script @ [BTICK] @ '' hook script for '' @ [BTICK] @ vm @ [BTICK]
       @ ''. Refusing to install: a syntactically broken hook can lock the user out of the host display manager: ''
       @ command_error_display src
   | PbHookChmod k q src \<Rightarrow> ''step '' @ step_debug k @ '': failed to make hook script '' @ [BTICK]
       @ path_display q @ [BTICK] @ '' executable: '' @ io_message src)"

datatype host_command_mode = SkipCommands | RunCommands

record phase_b_outcome =
  pb_snapshot_id :: string
  pb_completed :: "step_kind list"
  pb_deferred :: "step_kind list"
  pb_pending_cleared :: bool

section \<open>The manifest on disk\<close>

definition read_manifest_b :: "'fs platform \<Rightarrow> path \<Rightarrow> string \<Rightarrow> ('fs, phase_b_error, snapshot_manifest) io" where
  "read_manifest_b W root sid =
     (let mp = manifest_path root sid in
      io_then (io_map_err (PbIo mp) (io_query (fs_read (pf_fs W) mp))) (\<lambda>bytes.
      case from_utf8 bytes of
        None \<Rightarrow> io_err (PbIo mp (IoError InvalidData ''invalid utf-8''))
      | Some text \<Rightarrow>
          io_lift (map_err (\<lambda>e. PbStep SnapshotStep
              (''manifest at '' @ path_display mp @ '' is not parseable: '' @ e))
            (from_toml (pf_manifest_codec W) text))))"

definition write_manifest ::
  "'fs platform \<Rightarrow> path \<Rightarrow> string \<Rightarrow> snapshot_manifest \<Rightarrow> ('fs, phase_b_error, unit) io" where
  "write_manifest W root sid m =
     io_then (io_lift (map_err (\<lambda>e. PbStep SnapshotStep (''serializing manifest: '' @ e))
                (to_toml (pf_manifest_codec W) m))) (\<lambda>serialized.
       io_map_err (PbIo (manifest_path root sid))
         (fs_write_atomic (pf_fs W) (manifest_path root sid) serialized))"

section \<open>The steps\<close>

text \<open>\<open>create_dir_all\<close> on the parent, if the path has one.\<close>

definition make_parent :: "'fs platform \<Rightarrow> path \<Rightarrow> ('fs, phase_b_error, unit) io" where
  "make_parent W q =
     (case path_parent q of
        Some parent \<Rightarrow> io_map_err (PbIo parent) (fs_create_dir_all (pf_fs W) parent)
      | None \<Rightarrow> io_ok ())"

definition declare_file :: "step_kind \<Rightarrow> path \<Rightarrow> snapshot_manifest \<Rightarrow> snapshot_manifest" where
  "declare_file k q m = declare_created_entry q (backup_relative_path q) k m"

definition persist_file ::
  "'fs platform \<Rightarrow> step_kind \<Rightarrow> snapshot_manifest \<Rightarrow> path \<Rightarrow> string \<Rightarrow> ('fs, phase_b_error, snapshot_manifest) io" where
  "persist_file W k m q content =
     io_map_err (PbPersist k) (snapshot_then_write (pf_fs W) (pf_sha256 W) m q content)"

definition run_vm_xml_step ::
  "'fs platform \<Rightarrow> vm_env \<Rightarrow> planned_step \<Rightarrow> pending_plan \<Rightarrow> system_profile \<Rightarrow> path \<Rightarrow> snapshot_manifest
    \<Rightarrow> host_command_mode \<Rightarrow> ('fs, phase_b_error, snapshot_manifest) io" where
  "run_vm_xml_step W E step pending p root m mode =
     (case step_touches step of
        [] \<Rightarrow> io_err (PbStep VmXmlGenerate ''vm-xml step has no declared touch path'')
      | xml_path # _ \<Rightarrow>
          io_then (io_lift (map_err (PbXmlGenerate VmXmlGenerate)
            (generate_vm_xml (ve_kb E) (ve_uuid E) (ve_uid E) p (pp_config pending)))) (\<lambda>xml.
          io_then (if mode = RunCommands
                   then io_map_err (PbXmlValidate VmXmlGenerate) (validate_xml (pf_host W) xml)
                   else io_ok ()) (\<lambda>_.
          io_then (make_parent W xml_path) (\<lambda>_.
          io_then (persist_file W VmXmlGenerate (declare_file VmXmlGenerate xml_path m) xml_path xml) (\<lambda>m'.
          io_then (write_manifest W root (pp_snapshot_id pending) m') (\<lambda>_. io_ok m'))))))"

text \<open>\<open>if let Err(e) = m\<close> with a branch that returns.\<close>

definition on_failure :: "('s, 'e, 'a) io \<Rightarrow> ('e \<Rightarrow> ('s, 'f, 'a) io) \<Rightarrow> ('s, 'f, 'a) io" where
  "on_failure m h s = (case m s of (Inl e, s') \<Rightarrow> h e s' | (Inr a, s') \<Rightarrow> (Inr a, s'))"

text \<open>The disk image: declared and saved in the manifest before it is made. The result is the path of
  an image that this step has created.\<close>

definition create_disk ::
  "'fs platform \<Rightarrow> pending_plan \<Rightarrow> path \<Rightarrow> snapshot_manifest \<Rightarrow> host_command_mode
    \<Rightarrow> ('fs, phase_b_error, snapshot_manifest \<times> path option) io" where
  "create_disk W pending root m mode =
     (case res_disk (resources (pp_config pending)) of
        ExistingDisk _ \<Rightarrow> io_ok (m, None)
      | CreateDisk q size_gb fmt \<Rightarrow>
          (let m' = declare_file VmRegister q m in
           io_then (write_manifest W root (pp_snapshot_id pending) m') (\<lambda>_.
           if mode = RunCommands then
             io_then (make_parent W q) (\<lambda>_.
             io_then (io_map_err (PbDiskCreate VmRegister q)
                        (run_qemu_img_create (pf_host W) q size_gb fmt)) (\<lambda>_.
               io_ok (m', Some q)))
           else io_ok (m', None))))"

text \<open>The compensation of a failed \<open>virsh define\<close> is best effort: a failed removal is only logged.\<close>

definition define_domain :: "'fs platform \<Rightarrow> path \<Rightarrow> path option \<Rightarrow> ('fs, phase_b_error, unit) io" where
  "define_domain W xml_path created =
     on_failure (run_virsh_define (pf_host W) xml_path) (\<lambda>source.
       io_then (case created of
                  None \<Rightarrow> io_ok ()
                | Some q \<Rightarrow> on_failure (fs_remove_file (pf_fs W) q) (\<lambda>_. io_ok ())) (\<lambda>_.
         io_err (PbVirshDefine VmRegister created source)))"

definition xml_entry_path :: "snapshot_manifest \<Rightarrow> path option" where
  "xml_entry_path m =
     map_option original_path (List.find (\<lambda>e. entry_produced_by e = VmXmlGenerate) (entries m))"

definition push_action :: "restore_action \<Rightarrow> snapshot_manifest \<Rightarrow> snapshot_manifest" where
  "push_action a m = m\<lparr>restore_actions := restore_actions m @ [a]\<rparr>"

definition existing_disk_guard :: "'fs platform \<Rightarrow> pending_plan \<Rightarrow> ('fs, phase_b_error, unit) io" where
  "existing_disk_guard W pending =
     (case res_disk (resources (pp_config pending)) of
        CreateDisk _ _ _ \<Rightarrow> io_ok ()
      | ExistingDisk q \<Rightarrow>
          io_then (io_gets (fs_exists (pf_fs W) q)) (\<lambda>ex.
            if \<not> ex then io_err (PbStep VmRegister (''configured existing disk image ''
              @ path_display q @ '' does not exist; refusing to register the domain''))
            else io_ok ()))"

definition run_vm_register_step ::
  "'fs platform \<Rightarrow> pending_plan \<Rightarrow> path \<Rightarrow> snapshot_manifest \<Rightarrow> host_command_mode
    \<Rightarrow> ('fs, phase_b_error, snapshot_manifest) io" where
  "run_vm_register_step W pending root m mode =
     io_then (existing_disk_guard W pending) (\<lambda>_.
     case xml_entry_path m of
       None \<Rightarrow> io_err (PbStep VmRegister
         ''manifest has no VmXmlGenerate entry; the prior step must have failed before persisting'')
     | Some xml_path \<Rightarrow>
         io_then (create_disk W pending root m mode) (\<lambda>(m', created).
         if mode = RunCommands then
           io_then (define_domain W xml_path created) (\<lambda>_.
           let m'' = push_action (UndefineLibvirtDomain (vm_name (pp_config pending))) m' in
           io_then (write_manifest W root (pp_snapshot_id pending) m'') (\<lambda>_. io_ok m''))
         else io_ok m'))"

section \<open>The single-GPU hooks\<close>

definition hook_vfio_ids :: "gpu_info \<Rightarrow> string list" where
  "hook_vfio_ids g =
     [gpu_vendor_id g @ '':'' @ gpu_device_id g]
     @ (case companion_audio g of
          Some a \<Rightarrow> [comp_vendor_id a @ '':'' @ comp_device_id a] | None \<Rightarrow> [])"

definition hook_paths :: "string \<Rightarrow> path list" where
  "hook_paths name =
     (let helper_dir = path_push hooks_dir (name @ ''.d'')
      in [path_push hooks_dir name, path_push helper_dir ''release'', path_push helper_dir ''reattach''])"

text \<open>The three scripts, in the order in which they are generated, validated and written.\<close>

definition hook_scripts :: "hook_context \<Rightarrow> hook_script_error + string list" where
  "hook_scripts x =
     res_then (dispatcher_script (hook_vm_name x)) (\<lambda>d.
     res_then (release_script x) (\<lambda>r.
     res_then (reattach_script x) (\<lambda>a. Inr [d, r, a])))"

definition validate_scripts ::
  "'fs platform \<Rightarrow> string \<Rightarrow> string list \<Rightarrow> ('fs, phase_b_error, unit) io" where
  "validate_scripts W name scripts =
     io_fold (\<lambda>_ (label, content).
         io_map_err (PbHookValidate HookInstall name label) (validate_bash_script (pf_host W) content))
       () (zip [''dispatcher'', ''release'', ''reattach''] scripts)"

definition make_dir :: "'fs platform \<Rightarrow> path \<Rightarrow> ('fs, phase_b_error, unit) io" where
  "make_dir W q = io_map_err (PbIo q) (fs_create_dir_all (pf_fs W) q)"

definition install_hooks ::
  "'fs platform \<Rightarrow> pending_plan \<Rightarrow> path \<Rightarrow> hook_context \<Rightarrow> string list \<Rightarrow> snapshot_manifest
    \<Rightarrow> ('fs, phase_b_error, snapshot_manifest) io" where
  "install_hooks W pending root x scripts m =
     (let qs = hook_paths (hook_vm_name x); sid = pp_snapshot_id pending in
      io_then (make_dir W hooks_dir) (\<lambda>_.
      io_then (make_dir W (path_push hooks_dir (hook_vm_name x @ ''.d''))) (\<lambda>_.
      io_then (io_fold (\<lambda>m (q, content). persist_file W HookInstall m q content)
                 (foldl (\<lambda>m q. declare_file HookInstall q m) m qs) (zip qs scripts)) (\<lambda>m'.
      io_then (io_fold (\<lambda>_ q. io_map_err (PbHookChmod HookInstall q) (fs_set_executable (pf_fs W) q))
                 () qs) (\<lambda>_.
      io_then (write_manifest W root sid m') (\<lambda>_.
      let m'' = push_action (RemoveHookScripts (hook_vm_name x)) m' in
      io_then (write_manifest W root sid m'') (\<lambda>_. io_ok m'')))))))"

definition run_hook_install_step ::
  "'fs platform \<Rightarrow> pending_plan \<Rightarrow> system_profile \<Rightarrow> path \<Rightarrow> snapshot_manifest \<Rightarrow> host_command_mode
    \<Rightarrow> ('fs, phase_b_error, snapshot_manifest) io" where
  "run_hook_install_step W pending p root m mode =
     (case primary_passthrough_gpu (pp_config pending) p of
        None \<Rightarrow> io_err (PbStep HookInstall ''single-GPU hook install requires exactly one passthrough GPU; the user-choice config does not point at one'')
      | Some g \<Rightarrow>
          (let x = \<lparr>hook_vm_name = vm_name (pp_config pending), hook_display_manager = sp_display_manager p,
                    hook_gpu_vendor = gpu_vendor g, hook_vfio_pci_ids = hook_vfio_ids g\<rparr> in
           io_then (io_lift (map_err (PbHookGenerate HookInstall) (hook_scripts x))) (\<lambda>scripts.
           io_then (io_gets (which (pf_host W) ''bash'')) (\<lambda>bash.
           io_then (if mode = RunCommands \<or> bash then validate_scripts W (hook_vm_name x) scripts
                    else io_ok ()) (\<lambda>_.
             install_hooks W pending root x scripts m)))))"

section \<open>The verify step\<close>

text \<open>The step reads nothing but its arguments; its effect is the lines it prints.\<close>

definition verify_device_line :: "system_profile \<Rightarrow> string \<Rightarrow> string list" where
  "verify_device_line p pci_id =
     (case split_once (CHR '':'') pci_id of
        None \<Rightarrow> []
      | Some (vendor, device) \<Rightarrow>
          [''Device '' @ pci_id @ '': driver ''
           @ (case Option.bind (List.find (\<lambda>g. eq_ignore_case (gpu_vendor_id g) vendor \<and>
                eq_ignore_case (gpu_device_id g) device) (sp_gpus p)) gpu_current_driver of
                Some d \<Rightarrow> d | None \<Rightarrow> ''(not detected as GPU)'')])"

definition verify_lines :: "system_profile \<Rightarrow> pending_plan \<Rightarrow> string list" where
  "verify_lines p pending =
     [LF # ''=== PHASE B VERIFY ==='',
      ''Snapshot id: '' @ pp_snapshot_id pending @ ''  (''
        @ show_nat (total_steps (pp_plan_summary pending)) @ '' entries to roll back if needed)'',
      ''Kernel:      '' @ kernel_version (sp_readiness p),
      ''IOMMU:       '' @ (if iommu_active p
         then ''active ('' @ show_nat (length (sp_iommu_groups p)) @ '' groups)''
         else ''NOT active (Phase A's bootloader edit may not have applied)''),
      ''vfio_pci:    '' @ (if ''vfio_pci'' \<in> set (loaded_modules (sp_readiness p))
         then ''loaded'' else ''NOT loaded'')]
     @ concat (map (verify_device_line p) (fp_pci_ids (pp_fingerprint pending)))
     @ ['''']"

section \<open>The phase\<close>

text \<open>One turn of the loop. Its state is the manifest, and the completed and deferred kinds of the
  outcome. \<open>run_verify_step\<close> changes nothing: only its kind is recorded.\<close>

definition phase_b_step ::
  "'fs platform \<Rightarrow> vm_env \<Rightarrow> pending_plan \<Rightarrow> system_profile \<Rightarrow> path \<Rightarrow> host_command_mode
    \<Rightarrow> snapshot_manifest \<times> step_kind list \<times> step_kind list \<Rightarrow> planned_step
    \<Rightarrow> ('fs, phase_b_error, snapshot_manifest \<times> step_kind list \<times> step_kind list) io" where
  "phase_b_step W E pending p root mode acc step =
     (case acc of (m, completed, deferred) \<Rightarrow>
        (let done_with = (\<lambda>m'. io_ok (m', completed @ [step_kind step], deferred)) in
         case step_kind step of
           VmXmlGenerate \<Rightarrow> io_then (run_vm_xml_step W E step pending p root m mode) done_with
         | VmRegister \<Rightarrow> io_then (run_vm_register_step W pending root m mode) done_with
         | HookInstall \<Rightarrow> io_then (run_hook_install_step W pending p root m mode) done_with
         | LookingGlassInstall \<Rightarrow> io_ok (m, completed, deferred @ [LookingGlassInstall])
         | Verify \<Rightarrow> done_with m
         | k \<Rightarrow> io_err (PbRefused (''Phase A step '' @ step_debug k
             @ '' appeared in Phase B's pending list. The pending record is corrupt; restore from snapshot ''
             @ pp_snapshot_id pending @ '' and re-run virtu apply.''))))"

definition clear_pending :: "'fs platform \<Rightarrow> path \<Rightarrow> ('fs, phase_b_error, bool) io" where
  "clear_pending W state_root =
     io_then (io_gets (fs_exists (pf_fs W) (pending_path state_root))) (\<lambda>ex.
       if ex then
         io_then (io_map_err (PbIo (pending_path state_root))
                    (fs_remove_file (pf_fs W) (pending_path state_root))) (\<lambda>_. io_ok True)
       else io_ok False)"

definition execute_phase_b ::
  "'fs platform \<Rightarrow> vm_env \<Rightarrow> pending_plan \<Rightarrow> system_profile \<Rightarrow> path \<Rightarrow> path \<Rightarrow> host_command_mode
    \<Rightarrow> ('fs, phase_b_error, phase_b_outcome) io" where
  "execute_phase_b W E pending p root state_root mode =
     io_then (read_manifest_b W root (pp_snapshot_id pending)) (\<lambda>m.
     io_then (io_fold (phase_b_step W E pending p root mode) (m, [], []) (pp_remaining pending)) (\<lambda>acc.
     io_then (clear_pending W state_root) (\<lambda>cleared.
       io_ok \<lparr>pb_snapshot_id = pp_snapshot_id pending, pb_completed = fst (snd acc),
              pb_deferred = snd (snd acc), pb_pending_cleared = cleared\<rparr>)))"

end
