(* ===== verification/Phase_B.thy ===== *)
theory Phase_B
  imports Executor_B Phase_A
begin

text \<open>
  Phase B keeps what Phase A established: at every return of \<open>execute_phase_b\<close>, successful or not, the
  snapshot can restore the files of the plan. Every file of Phase B is a target of the
  plan, so declaring it changes nothing in the manifest, and every write goes through it.
\<close>

lemma triple_mapped_iff [simp]: "triple P (io_map_err g m) Q (\<lambda>_. E) = triple P m Q (\<lambda>_. E)"
  by (auto simp: triple_def io_map_err_def map_err_def split: prod.splits sum.splits)

lemma triple_cong_pre: "(\<And>s. P s \<Longrightarrow> m s = n s) \<Longrightarrow> triple P n Q E \<Longrightarrow> triple P m Q E"
  by (simp add: triple_def)

context platform_laws
begin

section \<open>What leaves the snapshot directory alone\<close>

lemma keeps_files:
  "host.keeps (fs_create_dir_all (pf_fs W) q)" "host.keeps (fs_set_executable (pf_fs W) q)"
  "\<not> path_under d q \<Longrightarrow> host.keeps (fs_remove_file (pf_fs W) q)"
    apply (auto simp: host.keeps_def dest: fs.mkdir_content fs.chmod_content)
  by (metis fs.remove_frame)

lemma keeps_failure:
  assumes "host.keeps m" "\<And>e. host.keeps (h e)"
  shows "host.keeps (on_failure m h)"
  unfolding host.keeps_def
proof (intro allI impI)
  fix s r s' p assume run: "on_failure m h s = (r, s')" and p: "path_under d p"
  obtain r1 s1 where m: "m s = (r1, s1)" by fastforce
  show "content s' p = content s p"
    using run m host.keepsD[OF assms(1) m p] host.keepsD[OF assms(2) _ p]
    by (cases r1) (fastforce simp: on_failure_def)+
qed

lemma keeps_loop: "(\<And>b x. host.keeps (f b x)) \<Longrightarrow> host.keeps (io_fold f b xs)"
  by (induction xs arbitrary: b) (auto intro: host.keeps_simple host.keeps_then)

lemma keeps_const: "host.keeps (Pair r)"
  by (simp add: host.keeps_def)

lemma keeps_phase_b:
  "host.keeps (make_parent W q)" "host.keeps (make_dir W q)" "host.keeps (existing_disk_guard W pending)"
  "host.keeps (validate_scripts W name scripts)"
  "(\<And>q. created = Some q \<Longrightarrow> \<not> path_under d q) \<Longrightarrow> host.keeps (define_domain W x created)"
  unfolding make_parent_def make_dir_def existing_disk_guard_def validate_scripts_def define_domain_def
  by (auto intro!: host.keeps_then host.keeps_map_err host.keeps_simple keeps_files keeps_failure keeps_loop
      keeps_const host.keeps_wrappers split: option.split disk_choice.split)

section \<open>The manifest\<close>

lemma write_manifest_good:
  assumes "snapshot_safe d T" and mp: "manifest_path root sid = path_push d manifest_filename"
  shows "triple (good T orig m) (write_manifest W root sid m) (\<lambda>_. good T orig m) (\<lambda>_. safe_state T orig)"
proof (rule tripleI)
  fix s a s' assume g: "good T orig m s" and "write_manifest W root sid m s = (Inr a, s')"
  then obtain t where "to_toml (pf_manifest_codec W) m = Inr t"
    "fs_write_atomic (pf_fs W) (path_push d manifest_filename) t s = (Inr a, s')"
    by (auto simp: write_manifest_def io_then_def io_map_err_def mp split: prod.splits sum.splits)
  from saved_good[OF assms(1) g this] show "good T orig m s'" .
next
  fix s e s' assume g: "good T orig m s" and "write_manifest W root sid m s = (Inl e, s')"
  then have "content s' = content s"
    by (auto simp: write_manifest_def io_then_def io_map_err_def mp dest: fs.write_err
        split: prod.splits sum.splits)
  with g show "safe_state T orig s'" by simp
qed

lemma persist_file_good:
  assumes "snapshot_safe d T" "t \<in> set T"
  shows "triple (good T orig m) (persist_file W k m t c) (good T orig) (\<lambda>_. safe_state T orig)"
  using write_target_good[OF assms, of orig m c] by (simp add: persist_file_def write_target_def)

lemma declare_file_id: "good T orig m s \<Longrightarrow> t \<in> set T \<Longrightarrow> declare_file k t m = m"
  by (simp add: declare_file_def declare_captured[OF conjunct2])

lemma declare_files_id: "good T orig m s \<Longrightarrow> set ts \<subseteq> set T \<Longrightarrow> foldl (\<lambda>m q. declare_file k q m) m ts = m"
  by (induction ts) (auto simp: declare_file_id)

lemma push_action_good [simp]: "good T orig (push_action a m) s = good T orig m s"
  by (simp add: push_action_def good_actions)

section \<open>The steps\<close>

lemma vm_xml_step_good:
  assumes safe: "snapshot_safe d T" and mp: "manifest_path root (pp_snapshot_id pending) = path_push d manifest_filename"
    and touch: "set (take 1 (step_touches step)) \<subseteq> set T"
  shows "triple (good T orig m) (run_vm_xml_step W E step pending p root m mode) (good T orig) (\<lambda>_. safe_state T orig)"
proof (cases "step_touches step")
  case Nil
  then show ?thesis by (simp add: run_vm_xml_step_def) (rule triple_err, blast)
next
  case (Cons t ts)
  with touch have t: "t \<in> set T" by simp
  note keep = keeps_good[OF _ safe]
  have written: "triple (good T orig m) (persist_file W VmXmlGenerate (declare_file VmXmlGenerate t m) t c)
      (good T orig) (\<lambda>_. safe_state T orig)" for c
    by (rule triple_cong_pre[OF _ persist_file_good[OF safe t]]) (simp add: declare_file_id[OF _ t])
  show ?thesis
    unfolding run_vm_xml_step_def Cons list.case
    by (rule triple_then[OF keep triple_then[OF keep triple_then[OF keep triple_then[OF written
          triple_then[OF write_manifest_good[OF safe mp] triple_ok]]]]])
      (auto intro!: keeps_pure keeps_phase_b host.keeps_map_err host.keeps_wrappers)
qed

lemma create_disk_good:
  assumes safe: "snapshot_safe d T" and mp: "manifest_path root (pp_snapshot_id pending) = path_push d manifest_filename"
    and touch: "\<And>q n f. res_disk (resources (pp_config pending)) = CreateDisk q n f \<Longrightarrow> q \<in> set T"
  shows "triple (good T orig m) (create_disk W pending root m mode)
     (\<lambda>(m', created) s. good T orig m' s \<and> (\<forall>q. created = Some q \<longrightarrow> q \<in> set T)) (\<lambda>_. safe_state T orig)"
proof (cases "res_disk (resources (pp_config pending))")
  case (ExistingDisk q)
  then show ?thesis by (simp add: create_disk_def triple_ok)
next
  case (CreateDisk q n f)
  then have q: "q \<in> set T" by (rule touch)
  note keep = keeps_good[OF _ safe]
  have ok: "triple (good T orig m) (io_ok (m, x)) (\<lambda>(m', created) s. good T orig m' s \<and> (\<forall>q. created = Some q \<longrightarrow> q \<in> set T))
      (\<lambda>_. safe_state T orig)" if "\<And>q. x = Some q \<Longrightarrow> q \<in> set T" for x
    by (rule triple_ok) (use that in auto)
  have "triple (good T orig m)
      (io_then (write_manifest W root (pp_snapshot_id pending) m) (\<lambda>_.
        if mode = RunCommands then io_then (make_parent W q) (\<lambda>_.
             io_then (io_map_err (PbDiskCreate VmRegister q) (run_qemu_img_create (pf_host W) q n f)) (\<lambda>_.
               io_ok (m, Some q)))
        else io_ok (m, None)))
      (\<lambda>(m', created) s. good T orig m' s \<and> (\<forall>q. created = Some q \<longrightarrow> q \<in> set T)) (\<lambda>_. safe_state T orig)"
    by (rule triple_then[OF write_manifest_good[OF safe mp] triple_if[OF triple_then[OF keep
          triple_then[OF keep ok]] ok]])
      (auto intro!: keeps_phase_b host.keeps_map_err host.keeps_wrappers simp: q)
  then show ?thesis
    by (rule triple_cong_pre[rotated]) (simp add: create_disk_def CreateDisk Let_def declare_file_id[OF _ q])
qed

lemma vm_register_step_good:
  assumes safe: "snapshot_safe d T" and mp: "manifest_path root (pp_snapshot_id pending) = path_push d manifest_filename"
    and touch: "\<And>q n f. res_disk (resources (pp_config pending)) = CreateDisk q n f \<Longrightarrow> q \<in> set T"
  shows "triple (good T orig m) (run_vm_register_step W pending root m mode) (good T orig) (\<lambda>_. safe_state T orig)"
proof -
  note keep = keeps_good[OF _ safe]
  have virsh: "triple (\<lambda>s. good T orig m' s \<and> (\<forall>q. created = Some q \<longrightarrow> q \<in> set T))
      (define_domain W x created) (\<lambda>_. good T orig m') (\<lambda>_. safe_state T orig)" for m' x created
  proof (cases "\<forall>q. created = Some q \<longrightarrow> q \<in> set T")
    case True
    then have "host.keeps (define_domain W x created)"
      using safe_backups(3)[OF safe] by (intro keeps_phase_b) auto
    from keep[OF this] show ?thesis by (rule triple_pre) simp
  qed (auto simp: triple_def)
  have finish: "triple (\<lambda>s. (case y of (m', created) \<Rightarrow> \<lambda>s. good T orig m' s \<and> (\<forall>q. created = Some q \<longrightarrow> q \<in> set T)) s)
      (case y of (m', created) \<Rightarrow> if mode = RunCommands then io_then (define_domain W x created) (\<lambda>_.
           let m'' = push_action (UndefineLibvirtDomain (vm_name (pp_config pending))) m' in
           io_then (write_manifest W root (pp_snapshot_id pending) m'') (\<lambda>_. io_ok m''))
         else io_ok m') (good T orig) (\<lambda>_. safe_state T orig)" for y x
  proof (cases y)
    case (Pair m' created)
    have "triple (good T orig m') (io_then (write_manifest W root (pp_snapshot_id pending) (push_action a m'))
        (\<lambda>_. io_ok (push_action a m'))) (good T orig) (\<lambda>_. safe_state T orig)" for a
      by (rule triple_then[where Q="\<lambda>_. good T orig m'"])
        (use write_manifest_good[OF safe mp, of orig "push_action a m'"] in \<open>simp_all add: triple_ok\<close>)
    then show ?thesis unfolding Pair prod.case Let_def
      by (intro triple_if triple_then[OF virsh]) (auto intro: triple_ok)
  qed
  show ?thesis
    unfolding run_vm_register_step_def
    by (rule triple_then[OF keep[OF keeps_phase_b(3)]])
      (auto intro!: triple_err triple_then[OF create_disk_good[OF assms] finish] split: option.split)
qed

lemma install_hooks_good:
  assumes safe: "snapshot_safe d T" and mp: "manifest_path root (pp_snapshot_id pending) = path_push d manifest_filename"
    and touch: "set (hook_paths (hook_vm_name x)) \<subseteq> set T"
  shows "triple (good T orig m) (install_hooks W pending root x scripts m) (good T orig) (\<lambda>_. safe_state T orig)"
proof -
  note keep = keeps_good[OF _ safe]
  let ?qs = "hook_paths (hook_vm_name x)"
  have "triple (good T orig m) (io_fold (\<lambda>m (q, content). persist_file W HookInstall m q content) m (zip ?qs scripts))
      (good T orig) (\<lambda>_. safe_state T orig)"
    by (rule triple_fold) (use touch in \<open>auto intro!: persist_file_good[OF safe] dest: set_zip_leftD\<close>)
  then have writes: "triple (good T orig m) (io_fold (\<lambda>m (q, content). persist_file W HookInstall m q content)
      (foldl (\<lambda>m q. declare_file HookInstall q m) m ?qs) (zip ?qs scripts)) (good T orig) (\<lambda>_. safe_state T orig)"
    by (rule triple_cong_pre[rotated]) (simp add: declare_files_id[OF _ touch])
  have chmod: "host.keeps (io_fold (\<lambda>_ q. io_map_err (PbHookChmod HookInstall q) (fs_set_executable (pf_fs W) q)) () qs)"
    for qs by (intro keeps_loop host.keeps_map_err keeps_files)
  have last: "triple (good T orig m') (io_then (write_manifest W root (pp_snapshot_id pending) (push_action a m'))
        (\<lambda>_. io_ok (push_action a m'))) (good T orig) (\<lambda>_. safe_state T orig)" for a m'
    by (rule triple_then[where Q="\<lambda>_. good T orig m'"])
      (use write_manifest_good[OF safe mp, of orig "push_action a m'"] in \<open>simp_all add: triple_ok\<close>)
  show ?thesis
    unfolding install_hooks_def Let_def
    by (rule triple_then[OF keep[OF keeps_phase_b(2)] triple_then[OF keep[OF keeps_phase_b(2)]
          triple_then[OF writes triple_then[OF keep[OF chmod] triple_then[OF write_manifest_good[OF safe mp] last]]]]])
qed

lemma hook_step_good:
  assumes safe: "snapshot_safe d T" and mp: "manifest_path root (pp_snapshot_id pending) = path_push d manifest_filename"
    and touch: "set (hook_paths (vm_name (pp_config pending))) \<subseteq> set T"
  shows "triple (good T orig m) (run_hook_install_step W pending p root m mode) (good T orig) (\<lambda>_. safe_state T orig)"
proof (cases "primary_passthrough_gpu (pp_config pending) p")
  case None
  then show ?thesis by (simp add: run_hook_install_step_def) (rule triple_err, blast)
next
  case (Some g)
  note keep = keeps_good[OF _ safe]
  show ?thesis
    unfolding run_hook_install_step_def Some option.case Let_def
    by (rule triple_then[OF keep triple_then[OF keep triple_then[OF keep install_hooks_good[OF safe mp]]]])
      (auto intro!: keeps_pure keeps_phase_b host.keeps_if simp: touch)
qed

section \<open>The phase\<close>

text \<open>The files that a step of Phase B writes.\<close>

end

definition step_files :: "pending_plan \<Rightarrow> planned_step \<Rightarrow> path list" where
  "step_files pending step =
     (case step_kind step of
        VmXmlGenerate \<Rightarrow> take 1 (step_touches step)
      | VmRegister \<Rightarrow> (case res_disk (resources (pp_config pending)) of CreateDisk q _ _ \<Rightarrow> [q] | ExistingDisk _ \<Rightarrow> [])
      | HookInstall \<Rightarrow> hook_paths (vm_name (pp_config pending))
      | _ \<Rightarrow> [])"

context platform_laws
begin

lemma phase_b_step_good:
  assumes safe: "snapshot_safe d T" and mp: "manifest_path root (pp_snapshot_id pending) = path_push d manifest_filename"
    and files: "set (step_files pending step) \<subseteq> set T"
  shows "triple (good T orig (fst acc)) (phase_b_step W E pending p root mode acc step)
     (\<lambda>acc'. good T orig (fst acc')) (\<lambda>_. safe_state T orig)"
proof -
  obtain m completed deferred where acc: "acc = (m, completed, deferred)" by (cases acc) auto
  have then_ok: "triple (good T orig m) (io_then r (\<lambda>m'. io_ok (m', ks))) (\<lambda>acc'. good T orig (fst acc'))
      (\<lambda>_. safe_state T orig)"
    if "triple (good T orig m) r (good T orig) (\<lambda>_. safe_state T orig)"
    for r :: "('fs, phase_b_error, snapshot_manifest) io" and ks :: "step_kind list \<times> step_kind list"
    by (rule triple_then[OF that triple_ok]) simp
  have ok: "triple (good T orig m) (Pair (Inr (m, ks))) (\<lambda>acc'. good T orig (fst acc')) (\<lambda>_. safe_state T orig)"
    for ks :: "step_kind list \<times> step_kind list" by (simp add: triple_def)
  have err: "triple (good T orig m) (Pair (Inl e)) (\<lambda>acc'. good T orig (fst acc')) (\<lambda>_. safe_state T orig)"
    for e :: phase_b_error by (simp add: triple_def)
  have register: "triple (good T orig m) (run_vm_register_step W pending root m mode) (good T orig) (\<lambda>_. safe_state T orig)"
    if "step_kind step = VmRegister"
    by (rule vm_register_step_good[OF safe mp]) (use files that in \<open>simp add: step_files_def\<close>)
  show ?thesis
    using files vm_xml_step_good[OF safe mp] register hook_step_good[OF safe mp]
    by (cases "step_kind step")
      (auto simp: phase_b_step_def acc step_files_def Let_def io_ok_def[abs_def] io_err_def[abs_def]
        intro!: then_ok[unfolded io_ok_def[abs_def]] ok err split: disk_choice.splits)
qed

lemma phase_b_safe:
  assumes mp: "d = path_push root (pp_snapshot_id pending)" and safe: "snapshot_safe d T"
    and files: "\<forall>step \<in> set (pp_remaining pending). set (step_files pending step) \<subseteq> set T"
    and pend: "\<not> path_under d (pending_path state_root)"
    and before: "safe_state T orig s0"
    and run: "execute_phase_b W E pending p root state_root mode s0 = (r, s1)"
  shows "safe_state T orig s1"
proof -
  have mp': "manifest_path root (pp_snapshot_id pending) = path_push d manifest_filename"
    by (simp add: manifest_path_def mp)
  obtain m t where m: "content s0 (path_push d manifest_filename) = Some t" "valid_utf8 t"
    "from_toml (pf_manifest_codec W) t = Inr m" "manifest_good (pf_sha256 W) d T orig (content s0) m"
    using before by (auto simp: recoverable_def)
  have "read_manifest_b W root (pp_snapshot_id pending) s0 = (Inr m, s0)"
    using m(1-3) by (simp add: read_manifest_b_def mp' Let_def fs_content_read io_then_def io_map_err_def from_utf8_def)
  then have rest: "io_then (io_fold (phase_b_step W E pending p root mode) (m, [], []) (pp_remaining pending)) (\<lambda>acc.
      io_then (clear_pending W state_root) (\<lambda>cleared.
       io_ok \<lparr>pb_snapshot_id = pp_snapshot_id pending, pb_completed = fst (snd acc),
              pb_deferred = snd (snd acc), pb_pending_cleared = cleared\<rparr>)) s0 = (r, s1)"
    using run by (simp add: execute_phase_b_def io_then_def[of "read_manifest_b _ _ _"])
  have loop: "triple (good T orig (fst acc)) (io_fold (phase_b_step W E pending p root mode) acc (pp_remaining pending))
      (\<lambda>acc. good T orig (fst acc)) (\<lambda>_. safe_state T orig)" for acc
    by (rule triple_fold[where I="\<lambda>acc. good T orig (fst acc)"]) (use files in \<open>auto intro!: phase_b_step_good[OF safe mp']\<close>)
  have clear: "host.keeps (clear_pending W state_root)"
    unfolding clear_pending_def
    by (auto intro!: host.keeps_then host.keeps_if host.keeps_simple host.keeps_map_err keeps_files pend)
  have "triple (good T orig m)
      (io_then (io_fold (phase_b_step W E pending p root mode) (m, [], []) (pp_remaining pending)) (\<lambda>acc.
        io_then (clear_pending W state_root) (\<lambda>cleared.
         io_ok \<lparr>pb_snapshot_id = pp_snapshot_id pending, pb_completed = fst (snd acc),
              pb_deferred = snd (snd acc), pb_pending_cleared = cleared\<rparr>)))
      (\<lambda>_. safe_state T orig) (\<lambda>_. safe_state T orig)"
    by (rule triple_then[OF loop[of "(m, [], [])", unfolded fst_conv]], rule triple_then[OF keeps_good[OF clear safe]],
        rule triple_ok) simp
  from triple_any[OF this _ rest] before m(4) show ?thesis by simp
qed

end

section \<open>The errors of a step\<close>

text \<open>\<open>never bad m\<close>: the computation does not fail with an error of the class.\<close>

definition never :: "('e \<Rightarrow> bool) \<Rightarrow> ('s, 'e, 'a) io \<Rightarrow> bool" where
  "never bad m \<longleftrightarrow> triple (\<lambda>_. True) m (\<lambda>_ _. True) (\<lambda>e _. \<not> bad e)"

lemma neverD: "never bad m \<Longrightarrow> m s = (Inl e, s') \<Longrightarrow> \<not> bad e"
  by (auto simp: never_def dest: triple_Inl)

lemma never_simple:
  "never bad (io_ok a)" "never bad (io_gets f)" "\<not> bad e \<Longrightarrow> never bad (io_err e)"
  "never bad (Pair (Inr a))" "\<not> bad e \<Longrightarrow> never bad (Pair (Inl e))"
  by (simp_all add: never_def triple_def)

lemma never_map: "(\<And>e. \<not> bad (g e)) \<Longrightarrow> never bad (io_map_err g m)"
  unfolding never_def by (rule triple_map_err, rule tripleI) auto

lemma never_lift_map: "(\<And>e. \<not> bad (g e)) \<Longrightarrow> never bad (io_lift (map_err g r))"
  unfolding never_def by (rule triple_lift) auto

lemma never_then: "never bad m \<Longrightarrow> (\<And>a. never bad (f a)) \<Longrightarrow> never bad (io_then m f)"
  unfolding never_def by (rule triple_then)

lemma never_fold: "(\<And>b x. never bad (f b x)) \<Longrightarrow> never bad (io_fold f b xs)"
  unfolding never_def by (rule triple_fold[where I="\<lambda>_ _. True"])

lemma never_failure: "(\<And>e. never bad (h e)) \<Longrightarrow> never bad (on_failure m h)"
  unfolding never_def by (rule tripleI) (auto simp: on_failure_def dest: triple_Inl split: prod.splits sum.splits)

lemmas never_rules = never_simple never_map never_lift_map never_then never_fold never_failure

definition refusal :: "phase_b_error \<Rightarrow> bool" where
  "refusal e \<longleftrightarrow> (case e of PbRefused _ \<Rightarrow> True | _ \<Rightarrow> False)"

lemma steps_never_refuse:
  "never refusal (run_vm_xml_step W E step pending p root m mode)"
  "never refusal (run_vm_register_step W pending root m mode)"
  "never refusal (run_hook_install_step W pending p root m mode)"
  "never refusal (clear_pending W state_root)" "never refusal (read_manifest_b W root sid)"
  unfolding run_vm_xml_step_def run_vm_register_step_def run_hook_install_step_def clear_pending_def
    read_manifest_b_def existing_disk_guard_def create_disk_def define_domain_def install_hooks_def make_dir_def
    make_parent_def persist_file_def write_manifest_def validate_scripts_def Let_def case_prod_unfold
  by (auto intro!: never_rules simp: refusal_def split: list.split option.split disk_choice.split)

lemma phase_b_loop_kinds:
  assumes "list_all (\<lambda>s. \<not> phase_a_kind (step_kind s)) steps"
  shows "case io_fold (phase_b_step W E pending p root mode) (m, finished, later) steps s of
     (Inr acc, s') \<Rightarrow> fst (snd acc) = finished @ filter (\<lambda>k. k \<noteq> LookingGlassInstall) (map step_kind steps) \<and>
        snd (snd acc) = later @ filter (\<lambda>k. k = LookingGlassInstall) (map step_kind steps)
   | (Inl e, s') \<Rightarrow> \<not> refusal e"
  using assms
proof (induction steps arbitrary: m finished later s)
  case Nil
  show ?case by simp
next
  case (Cons x xs)
  let ?later = "if step_kind x = LookingGlassInstall then later @ [LookingGlassInstall] else later"
  let ?finished = "if step_kind x = LookingGlassInstall then finished else finished @ [step_kind x]"
  have one: "case phase_b_step W E pending p root mode (m, finished, later) x s of
      (Inr acc, s') \<Rightarrow> snd acc = (?finished, ?later) | (Inl e, s') \<Rightarrow> \<not> refusal e"
  proof -
    have then_ok: "case io_then r (\<lambda>m'. io_ok (m', ks)) s of (Inr acc, s') \<Rightarrow> snd acc = ks | (Inl e, s') \<Rightarrow> \<not> refusal e"
      if "never refusal r" for r :: "('a, phase_b_error, snapshot_manifest) io" and ks :: "step_kind list \<times> step_kind list"
    proof -
      obtain r1 s1 where "r s = (r1, s1)" by fastforce
      then show ?thesis using neverD[OF that] by (cases r1) (auto simp: io_then_def)
    qed
    show ?thesis
      using Cons.prems then_ok[OF steps_never_refuse(1), where ks="(finished @ [step_kind x], later)"]
        then_ok[OF steps_never_refuse(2), where ks="(finished @ [step_kind x], later)"]
        then_ok[OF steps_never_refuse(3), where ks="(finished @ [step_kind x], later)"]
      by (cases "step_kind x") (simp_all add: phase_b_step_def Let_def phase_a_kind_def)
  qed
  obtain r s1 where r: "phase_b_step W E pending p root mode (m, finished, later) x s = (r, s1)" by fastforce
  show ?case
  proof (cases r)
    case (Inl e)
    then show ?thesis using one r by (simp add: io_then_def)
  next
    case (Inr acc)
    then obtain m' where "acc = (m', ?finished, ?later)" using one r by (cases acc) auto
    then show ?thesis
      using r Inr Cons.prems Cons.IH[where m=m' and finished="?finished" and later="?later" and s=s1]
      by (auto simp: io_then_def split: prod.splits sum.splits)
  qed
qed

text \<open>C6: a pending record that Phase A has built is never refused. When Phase B succeeds it has completed
  every remaining step of the plan in order, except that a Looking Glass step is reported as
  deferred; the snapshot named for a rollback is the one of the record.\<close>

theorem phase_b_outcome_exact:
  "case execute_phase_b W E (build_pending_plan now pl host c sid) p root state_root mode s of
     (Inr out, s') \<Rightarrow> pb_snapshot_id out = sid \<and>
        pb_completed out = filter (\<lambda>k. k \<noteq> LookingGlassInstall) (map step_kind (phase_b_steps pl)) \<and>
        pb_deferred out = filter (\<lambda>k. k = LookingGlassInstall) (map step_kind (phase_b_steps pl))
   | (Inl e, s') \<Rightarrow> \<not> refusal e"
proof -
  let ?P = "build_pending_plan now pl host c sid"
  have rem: "pp_remaining ?P = phase_b_steps pl" "pp_snapshot_id ?P = sid"
    by (simp_all add: build_pending_plan_def new_pending_def)
  have ok: "list_all (\<lambda>s. \<not> phase_a_kind (step_kind s)) (phase_b_steps pl)"
    by (simp add: phase_b_steps_def list_all_iff)
  show ?thesis
  proof -
    obtain r1 s1 where rd: "read_manifest_b W root sid s = (r1, s1)" by fastforce
    show ?thesis
    proof (cases r1)
      case (Inl e)
      with rd steps_never_refuse(5)[of W root sid] show ?thesis
        by (auto simp: execute_phase_b_def rem io_then_def dest: neverD)
    next
      case (Inr m)
      obtain r2 s2 where lp: "io_fold (phase_b_step W E ?P p root mode) (m, [], []) (phase_b_steps pl) s1 = (r2, s2)"
        by fastforce
      note K = phase_b_loop_kinds[OF ok, where W=W and E=E and pending="?P" and p=p and root=root and mode=mode and m=m and finished="[]" and later="[]" and s=s1, unfolded lp prod.case]
      obtain r3 s3 where cl: "clear_pending W state_root s2 = (r3, s3)" by fastforce
      have "\<not> refusal e" if "r3 = Inl e" for e
        by (rule neverD[OF steps_never_refuse(4)]) (use cl that in simp)
      then show ?thesis
        using K by (cases r2; cases r3) (auto simp: execute_phase_b_def rem rd Inr lp cl io_then_def)
    qed
  qed
qed


text \<open>A host without libvirt: no \<open>virsh\<close> on the path.\<close>

definition no_virsh :: "mem_fs platform" where
  "no_virsh = \<lparr>pf_fs = mem_ops, pf_host = quiet_host\<lparr>which := (\<lambda>program _. program \<noteq> ''virsh'')\<rparr>,
     pf_sha256 = (\<lambda>c. c), pf_manifest_codec = \<lparr>to_toml = (\<lambda>_. Inl []), from_toml = (\<lambda>_. Inl [])\<rparr>,
     pf_pending_codec = \<lparr>to_toml = (\<lambda>_. Inl []), from_toml = (\<lambda>_. Inl [])\<rparr>, pf_stamp = (\<lambda>_. [])\<rparr>"


end
