(* ===== verification/Sample_Platform.thy ===== *)
theory Sample_Platform
  imports Phase_A_Spec
begin

text \<open>
  A concrete platform, on which the contract of \<open>platform_laws\<close> holds: the in-memory file system, a
  host whose commands succeed and change nothing, and a TOML library that knows finitely many
  records; and the files of the sample host on it.
\<close>

definition list_codec :: "'m list \<Rightarrow> 'm codec" where
  "list_codec ms =
     \<lparr>to_toml = (\<lambda>m. case List.find (\<lambda>(i, x). x = m) (List.enumerate 1 ms) of
          Some (i, _) \<Rightarrow> Inr (replicate i (CHR ''m'')) | None \<Rightarrow> Inl ''unsupported''),
      from_toml = (\<lambda>t. if t \<noteq> [] \<and> length t \<le> length ms \<and> t = replicate (length t) (CHR ''m'')
          then Inr (ms ! (length t - 1)) else Inl ''unsupported'')\<rparr>"

lemma valid_utf8_replicate: "valid_utf8 (replicate n (CHR ''m''))"
  by (rule valid_utf8_ascii) (auto simp: byte_in_def)

lemma list_codec_round_trips: "codec_round_trips (list_codec ms)"
proof -
  have "valid_utf8 t \<and> from_toml (list_codec ms) t = Inr m" if t: "to_toml (list_codec ms) m = Inr t" for m t
  proof -
    from t obtain i where f: "List.find (\<lambda>(i, x). x = m) (List.enumerate 1 ms) = Some (i, m)"
      and te: "t = replicate i (CHR ''m'')"
      by (auto simp: list_codec_def split: option.splits prod.splits dest: find_SomeD)
    then have "(i, m) \<in> set (List.enumerate 1 ms)" by (auto dest: find_SomeD)
    then have i: "1 \<le> i" "i - 1 < length ms" "ms ! (i - 1) = m"
      by (auto simp: in_set_enumerate_eq)
    then show ?thesis using te by (auto simp: list_codec_def valid_utf8_replicate)
  qed
  then show ?thesis by (simp add: codec_round_trips_def)
qed

definition quiet_platform :: "snapshot_manifest list \<Rightarrow> pending_plan list \<Rightarrow> mem_fs platform" where
  "quiet_platform ms ps =
     \<lparr>pf_fs = mem_ops, pf_host = quiet_host, pf_sha256 = (\<lambda>c. c), pf_manifest_codec = list_codec ms,
      pf_pending_codec = list_codec ps, pf_stamp = (\<lambda>_. ''t'')\<rparr>"

lemma quiet_platform_simps [simp]:
  "pf_fs (quiet_platform ms ps) = mem_ops" "pf_host (quiet_platform ms ps) = quiet_host"
  "pf_sha256 (quiet_platform ms ps) = (\<lambda>c. c)" "pf_manifest_codec (quiet_platform ms ps) = list_codec ms"
  "pf_pending_codec (quiet_platform ms ps) = list_codec ps" "pf_stamp (quiet_platform ms ps) = (\<lambda>_. ''t'')"
  by (simp_all add: quiet_platform_def)

definition sample_sid :: string where "sample_sid = ''t-v0.1.0''"

definition sample_dir :: path where
  "sample_dir = Path True [''home'', ''u'', ''.virtu'', ''snapshots'', ''t-v0.1.0'']"

lemma sample_dir_eq:
  "sample_dir = path_push snap_root sample_sid"
  "generate_id (pf_stamp (quiet_platform ms ps)) n = sample_sid"
proof -
  show "sample_dir = path_push snap_root sample_sid" by code_simp
  have "(''t'' @ ''-v'') @ virtu_version = sample_sid" by code_simp
  then show "generate_id (pf_stamp (quiet_platform ms ps)) n = sample_sid"
    by (simp add: generate_id_def)
qed

interpretation quiet_platform: platform_laws "quiet_platform ms ps" sample_dir for ms ps
proof -
  let ?W = "quiet_platform ms ps"
  have "file_system_laws (pf_fs ?W)" by (simp add: memfs.file_system_laws_axioms)
  moreover have "host_leaves_alone (fs_content (pf_fs ?W)) (pf_host ?W) (path_under sample_dir)"
    by unfold_locales (auto simp: quiet_host_def sample_dir_def path_under_def)
  moreover have "platform_laws_axioms ?W"
    by unfold_locales (simp_all add: list_codec_round_trips)
  ultimately show "platform_laws ?W sample_dir" by (simp add: platform_laws_def)
qed

section \<open>A run of Phase A\<close>

definition xml_file :: path where "xml_file = Path True [''home'', ''u'', ''.virtu'', ''win11.xml'']"

definition state_dir :: path where "state_dir = Path True [''home'', ''u'', ''.virtu'', ''state'']"

definition host_plan :: plan where
  "host_plan = touch_plan [(SnapshotStep, [snap_root]), (BootloaderWrite, [grub_file]),
     (VfioConfig, [conf_file]), (VmXmlGenerate, [xml_file])]"

definition host_fs :: mem_fs where
  "host_fs = snd (mem_create_dir_all (Path True [''etc'', ''modprobe.d''])
     (mem_seed_file grub_file (''GRUB_CMDLINE_LINUX_DEFAULT='' @ [DQ] @ ''quiet'' @ [DQ]) mem_empty))"

text \<open>The manifests and the pending record of the run do not depend on the TOML library: the loops of
  the run are evaluated without it, and the library is then given these records and \<open>ms\<close>.\<close>

definition manifest_file :: path where
  "manifest_file = Path True [''home'', ''u'', ''.virtu'', ''snapshots'', ''t-v0.1.0'', ''manifest.toml'']"

definition the_ok :: "'e + 'a \<Rightarrow> 'a" where
  "the_ok r = (case r of Inr a \<Rightarrow> a)"

definition captured_run :: "(snapshot_error + snapshot_manifest) \<times> mem_fs" where
  "captured_run = io_fold (\<lambda>m t. io_then (capture_one mem_ops (\<lambda>c. c) (plan_steps host_plan) sample_dir t)
       (\<lambda>e. io_ok (push_entry e m)))
     (new_manifest 8 sample_sid (host_summary_from_profile sample_profile) (plan_summary host_plan)
       (derive_restore_actions host_plan sample_profile))
     (collect_targets (plan_steps host_plan))
     (snd (mem_create_dir_all (path_push sample_dir files_subdir) host_fs))"

definition captured_manifest :: snapshot_manifest where
  "captured_manifest = the_ok (fst captured_run)"

definition saved_fs :: mem_fs where
  "saved_fs = (snd captured_run)\<lparr>mem_files := (mem_files (snd captured_run))(manifest_file \<mapsto> ''m'')\<rparr>"

definition written_run :: "(phase_a_error + snapshot_manifest \<times> step_kind list) \<times> mem_fs" where
  "written_run = io_fold (phase_a_step (quiet_platform [] []) sample_profile sample_config)
     (captured_manifest, [SnapshotStep]) (plan_steps host_plan) saved_fs"

definition written_manifest :: snapshot_manifest where
  "written_manifest = fst (the_ok (fst written_run))"

definition sample_pending :: pending_plan where
  "sample_pending = build_pending_plan 9 host_plan sample_profile sample_config sample_sid"

definition sample_platform :: "snapshot_manifest list \<Rightarrow> mem_fs platform" where
  "sample_platform ms = quiet_platform ([captured_manifest, written_manifest] @ ms) [sample_pending]"

definition sample_run :: "snapshot_manifest list \<Rightarrow> (phase_a_error + phase_a_outcome) \<times> mem_fs" where
  "sample_run ms = execute_phase_a (sample_platform ms) (7, 8, 9) host_plan sample_profile sample_config
     snap_root state_dir SkipRegenerate host_fs"

lemma sample_platform_simps [simp]:
  "pf_fs (sample_platform ms) = mem_ops" "pf_host (sample_platform ms) = quiet_host"
  "pf_sha256 (sample_platform ms) = (\<lambda>c. c)"
  "pf_manifest_codec (sample_platform ms) = list_codec ([captured_manifest, written_manifest] @ ms)"
  "pf_pending_codec (sample_platform ms) = list_codec [sample_pending]"
  "generate_id (pf_stamp (sample_platform ms)) n = sample_sid"
  by (simp_all add: sample_platform_def sample_dir_eq(2)[unfolded quiet_platform_simps])

lemma sample_laws: "platform_laws (sample_platform ms) sample_dir"
  by (simp add: sample_platform_def quiet_platform.platform_laws_axioms)

lemma list_codec_reads:
  "to_toml (list_codec ms) m = Inr t \<Longrightarrow> valid_utf8 t \<and> from_toml (list_codec ms) t = Inr m"
  using list_codec_round_trips[of ms] unfolding codec_round_trips_def by blast

lemma list_codec_knows:
  assumes "m \<in> set ms"
  shows "\<exists>t. to_toml (list_codec ms) m = Inr t \<and> valid_utf8 t \<and> from_toml (list_codec ms) t = Inr m"
proof -
  obtain n where "n < length ms" "ms ! n = m" using assms by (auto simp: in_set_conv_nth)
  then have "(Suc n, m) \<in> set (List.enumerate 1 ms)" by (simp add: in_set_enumerate_eq)
  then have "List.find (\<lambda>(i, x). x = m) (List.enumerate 1 ms) \<noteq> None" by (auto simp: find_None_iff)
  then obtain t where t: "to_toml (list_codec ms) m = Inr t" by (auto simp: list_codec_def)
  then show ?thesis using list_codec_round_trips[of ms] by (auto simp: codec_round_trips_def)
qed

section \<open>The run succeeds\<close>

lemma the_ok_pair: "is_ok (fst x) \<Longrightarrow> x = (Inr (the_ok (fst x)), snd x)"
  by (cases x) (auto simp: is_ok_iff the_ok_def)

lemma captured_ok:
  "is_ok (fst captured_run)" "sample_dir \<in> mem_dirs (snd captured_run)"
  by code_simp+

lemma written_ok:
  "is_ok (fst written_run)" "sample_dir \<in> mem_dirs (snd written_run)"
  by code_simp+

lemma sample_snapshot:
  "execute_snapshot_step (sample_platform ms) 7 8 host_plan sample_profile snap_root host_fs =
     (Inr (sample_sid, captured_manifest), saved_fs)"
proof -
  let ?W = "sample_platform ms"
  have paths: "path_push snap_root sample_sid = sample_dir" "path_push sample_dir manifest_filename = manifest_file"
    "manifest_path snap_root sample_sid = manifest_file" "path_parent manifest_file = Some sample_dir"
    by code_simp+
  have one: "to_toml (pf_manifest_codec ?W) captured_manifest = Inr ''m''"
    by (simp add: list_codec_def)
  then have back_one: "valid_utf8 ''m''" "from_toml (pf_manifest_codec ?W) ''m'' = Inr captured_manifest"
    using list_codec_reads[of _ captured_manifest] by auto
  obtain fs1 where cap: "captured_run = (Inr captured_manifest, fs1)"
    using the_ok_pair[OF captured_ok(1)] unfolding captured_manifest_def by blast
  then have fs1: "snd captured_run = fs1" by (metis snd_conv)
  note fold = cap[unfolded captured_run_def mem_create_dir_all_def snd_conv]
  have "capture_with_id mem_ops (\<lambda>c. c) (pf_manifest_codec ?W) 8 host_plan sample_profile snap_root sample_sid host_fs =
      (Inr sample_sid, saved_fs)"
    unfolding capture_with_id_def Let_def paths
    using fold one captured_ok(2)
    by (simp add: io_then_def[of "io_map_err _ _"] io_then_def[of "io_fold _ _ _"] io_then_def[of "io_lift _"] fs1 io_map_err_def
        mem_create_dir_all_def[of "path_push sample_dir files_subdir" host_fs] mem_write_atomic_def parent_missing_def
        paths saved_fs_def)
  moreover have "step_kind (hd (plan_steps host_plan)) = SnapshotStep" "plan_steps host_plan \<noteq> []" by code_simp+
  ultimately show ?thesis
    using back_one
    by (cases "plan_steps host_plan")
      (auto simp: execute_snapshot_step_def capture_def Let_def io_then_def io_map_err_def paths mem_read_def
        saved_fs_def from_utf8_def)
qed

text \<open>The loop of the phase uses of its platform the file system and the hash only.\<close>

lemma sample_step:
  "phase_a_step (sample_platform ms) = phase_a_step (quiet_platform [] [])"
proof -
  have eqs: "read_target (sample_platform ms) = read_target (quiet_platform [] [])"
    "write_target (sample_platform ms) = write_target (quiet_platform [] [])"
    by (simp_all add: fun_eq_iff read_target_def write_target_def)
  show ?thesis
    unfolding fun_eq_iff phase_a_step_def run_bootloader_step_def run_vfio_step_def run_initramfs_step_def
      sample_platform_simps(1) quiet_platform_simps(1) eqs by (intro allI refl)
qed

lemma sample_run_result:
  "\<exists>t. to_toml (pf_manifest_codec (sample_platform ms)) written_manifest = Inr t \<and>
    sample_run ms = (Inr \<lparr>pa_snapshot_id = sample_sid, pa_pending_path = pending_path state_dir,
       pa_completed = snd (the_ok (fst written_run)), pa_message = next_step_message sample_sid\<rparr>,
     (snd written_run)\<lparr>mem_files := (mem_files (snd written_run))(manifest_file \<mapsto> t, pending_path state_dir \<mapsto> ''m''),
       mem_dirs := mem_dirs (snd written_run) \<union> set (path_chain state_dir)\<rparr>)"
proof -
  let ?W = "sample_platform ms"
  have paths: "manifest_path snap_root sample_sid = manifest_file" "path_parent manifest_file = Some sample_dir"
    "path_parent (pending_path state_dir) = Some state_dir" "state_dir \<in> set (path_chain state_dir)"
    by code_simp+
  define acc where "acc = the_ok (fst written_run)"
  have acc: "io_fold (phase_a_step ?W sample_profile sample_config) (captured_manifest, [SnapshotStep])
      (plan_steps host_plan) saved_fs = (Inr acc, snd written_run)" "the_ok (fst written_run) = acc"
    unfolding sample_step written_run_def[symmetric] acc_def by (rule the_ok_pair[OF written_ok(1)], rule refl)
  obtain t where t: "to_toml (pf_manifest_codec ?W) written_manifest = Inr t"
    using list_codec_knows[of written_manifest "[captured_manifest, written_manifest] @ ms"] by auto
  have pend: "to_toml (pf_pending_codec ?W) (build_pending_plan 9 host_plan sample_profile sample_config sample_sid) =
      Inr ''m''" by (simp add: list_codec_def sample_pending_def[symmetric])
  have "finish_phase_a ?W 9 host_plan sample_profile sample_config snap_root state_dir sample_sid acc (snd written_run) =
     (Inr \<lparr>pa_snapshot_id = sample_sid, pa_pending_path = pending_path state_dir,
       pa_completed = snd acc, pa_message = next_step_message sample_sid\<rparr>,
     (snd written_run)\<lparr>mem_files := (mem_files (snd written_run))(manifest_file \<mapsto> t, pending_path state_dir \<mapsto> ''m''),
       mem_dirs := mem_dirs (snd written_run) \<union> set (path_chain state_dir)\<rparr>)"
    using t pend written_ok(2) paths acc(2)
    by (cases acc) (simp add: finish_phase_a_def persist_manifest_def io_then_def io_map_err_def Let_def
      mem_write_atomic_def mem_create_dir_all_def parent_missing_def written_manifest_def)
  then show ?thesis
    using t acc by (simp add: sample_run_def execute_phase_a_def io_then_def io_map_err_def sample_snapshot)
qed

section \<open>What the theorems of Phase A say of it\<close>

lemma sample_targets:
  "collect_targets (plan_steps host_plan) = [grub_file, conf_file, xml_file]"
  by code_simp

lemma sample_safe: "snapshot_safe sample_dir (collect_targets (plan_steps host_plan))"
proof -
  have plain: "list_all (\<lambda>t. plain_name (sanitize_path t)) (collect_targets (plan_steps host_plan))"
    "distinct (map sanitize_path (collect_targets (plan_steps host_plan)))" by code_simp+
  have outside: "\<not> path_under sample_dir t" if "t \<in> set (collect_targets (plan_steps host_plan))" for t
    using that unfolding sample_targets
    by (auto simp: path_under_def sample_dir_def grub_file_def conf_file_def xml_file_def)
  show ?thesis unfolding snapshot_safe_def
    using plain outside by (auto simp: list_all_iff distinct_map)
qed

lemma sample_named: "touches_named (plan_steps host_plan)"
  by code_simp

lemma sample_pending_path: "\<not> path_under sample_dir (pending_path state_dir)"
proof -
  have "pending_path state_dir = Path True [''home'', ''u'', ''.virtu'', ''state'', ''pending.toml'']"
    by code_simp
  then show ?thesis by (simp add: path_under_def sample_dir_def)
qed

text \<open>A machine that has lost everything but the snapshot.\<close>

definition only_snapshot :: "mem_fs \<Rightarrow> mem_fs" where
  "only_snapshot s = \<lparr>mem_files = (\<lambda>p. if path_under sample_dir p then mem_files s p else None),
     mem_dirs = {}, mem_exec = {}\<rparr>"

lemma sample_plain: "targets_plain (only_snapshot s) (set (collect_targets (plan_steps host_plan)))"
proof -
  have "list_all (\<lambda>u. list_all (\<lambda>t. t \<notin> set (case path_parent u of None \<Rightarrow> [] | Some d \<Rightarrow> path_chain d))
      (collect_targets (plan_steps host_plan))) (collect_targets (plan_steps host_plan))" by code_simp
  then show ?thesis by (fastforce simp: targets_plain_def only_snapshot_def list_all_iff)
qed

lemma sample_platform_dir: "path_push snap_root (generate_id (pf_stamp (sample_platform ms)) n) = sample_dir"
  by (simp add: sample_dir_eq(1))


theorem phase_a_refines_witness:
  "\<exists>out s1 t. sample_run [] = (Inr out, s1) \<and>
     pa_completed out = [SnapshotStep, BootloaderWrite, VfioConfig] \<and>
     mem_files s1 (pending_path state_dir) = Some t \<and>
     from_toml (pf_pending_codec (sample_platform [])) t =
       Inr (build_pending_plan 9 host_plan sample_profile sample_config sample_sid)"
proof -
  obtain out s1 where run: "execute_phase_a (sample_platform []) (7, 8, 9) host_plan sample_profile sample_config
      snap_root state_dir SkipRegenerate host_fs = (Inr out, s1)"
    using sample_run_result[of "[]"] unfolding sample_run_def by blast
  have kinds: "filter edits (map step_kind (plan_steps host_plan)) = [BootloaderWrite, VfioConfig]"
    by code_simp
  show ?thesis
    using phase_a_refines[OF sample_laws[of "[]", folded sample_platform_dir[of "[]" 7]]
        sample_safe[folded sample_platform_dir[of "[]" 7]] sample_named run] run
    unfolding sample_run_def by (auto simp: kinds)
qed

end
