(* ===== verification/Handover.thy ===== *)
theory Handover
  imports Sample_Platform Phase_B
begin

text \<open>
  The two phases agree: what the verifier of the second boot looks for is what the writers of the
  first one wrote, and the files that Phase B writes are targets of the planner's plan.
\<close>

section \<open>The parameters\<close>

lemma pending_ids: "fp_pci_ids (pp_fingerprint (build_pending_plan now pl host c sid)) = sorted_ids host c"
  by (simp add: build_pending_plan_def new_pending_def fingerprint_capture_def sorted_ids_def)

lemma contains_Cons: "contains_str w cs \<Longrightarrow> contains_str w (c # cs)"
  by simp

lemma split_ws_infix:
  "(\<forall>w \<in> set (split_ws s). contains_str w s) \<and>
   (s \<noteq> [] \<and> \<not> is_ws (hd s) \<longrightarrow> split_ws s \<noteq> [] \<and> starts_with (hd (split_ws s)) s)"
proof (induction s)
  case (Cons c cs)
  consider (ws) "is_ws c" | (last) "\<not> is_ws c" "case cs of d # _ \<Rightarrow> is_ws d | [] \<Rightarrow> True"
    | (mid) "\<not> is_ws c" "\<not> (case cs of d # _ \<Rightarrow> is_ws d | [] \<Rightarrow> True)" by blast
  then show ?case
  proof cases
    case ws
    then show ?thesis using Cons.IH by (simp add: split_ws_Cons_ws)
  next
    case last
    then show ?thesis using Cons.IH by (simp add: split_ws_Cons_end)
  next
    case mid
    then have "cs \<noteq> []" "\<not> is_ws (hd cs)" by (cases cs; simp)+
    then obtain w ws where "split_ws cs = w # ws" "starts_with w cs" "\<forall>v \<in> set ws. contains_str v cs"
      using Cons.IH by (cases "split_ws cs") auto
    then show ?thesis using mid by (simp add: split_ws_Cons_mid)
  qed
qed simp

lemma token_present: "w \<in> set (split_ws cmdline) \<Longrightarrow> cmdline_has_param cmdline w"
  using split_ws_infix[of cmdline] by (auto simp: cmdline_has_param_def list_ex_iff)

lemma params_agree:
  assumes "cpu_vendor (sp_cpu host') = cpu_vendor (sp_cpu host)"
  shows "required_cmdline_params (if contains_str ''amd'' (to_lower (cpu_vendor (sp_cpu host'))) then ''amd_iommu=on''
       else ''intel_iommu=on'') (sorted_ids host c) =
     required_kernel_params host c"
  using assms by (simp add: required_cmdline_params_def required_kernel_params_def Let_def)

text \<open>The verifier accepts a boot iff the host is the same and every fact holds.\<close>

lemma verified_iff:
  "verify_phase_a_landed p pending = ResumeReady \<longleftrightarrow>
     host_identity_changes p (pp_fingerprint pending) = [] \<and> phase_a_divergences p (pp_fingerprint pending) = []"
  by (simp add: verify_phase_a_landed_def Let_def)

definition passed_bound :: "system_profile \<Rightarrow> string list \<Rightarrow> bool" where
  "passed_bound p ids \<longleftrightarrow> list_all (\<lambda>i. case find_gpu_by_id p i of None \<Rightarrow> True | Some d \<Rightarrow> d = Some ''vfio-pci'') ids"


text \<open>The sample host after the reboot: the parameters are on the command line and the card is bound.\<close>

definition rebooted_host :: system_profile where
  "rebooted_host = sample_profile\<lparr>
     sp_kernel_cmdline := ''quiet intel_iommu=on iommu=pt vfio-pci.ids=10de:1aef,10de:2204'',
     sp_readiness := (sp_readiness sample_profile)\<lparr>loaded_modules := [''vfio_pci'']\<rparr>,
     sp_gpus := map (\<lambda>g. g\<lparr>gpu_current_driver := Some ''vfio-pci''\<rparr>) (sp_gpus sample_profile)\<rparr>"


section \<open>The files of Phase B are targets of the plan\<close>

lemma planned_step_files:
  assumes "s \<in> set (build_steps e p c)" "\<not> phase_a_kind (step_kind s)"
    and cfg: "pp_config pending = c"
  shows "set (step_files pending s) \<subseteq> set (step_touches s)"
proof -
  have "step_kind s = VmXmlGenerate \<Longrightarrow> ?thesis" by (auto simp: step_files_def dest: in_set_takeD)
  moreover have "step_kind s = VmRegister \<Longrightarrow> ?thesis"
    using assms(1) bootloader_step_kind vfio_step_kind initramfs_step_kind
    by (auto simp: build_steps_mem step_files_def cfg vm_register_step_def snapshot_step_def single_gpu_hook_step_def
        looking_glass_step_def vm_xml_step_def verify_step_def Let_def case_prod_unfold split: disk_choice.splits)
  moreover have "step_kind s = HookInstall \<Longrightarrow> ?thesis"
    using assms(1) bootloader_step_kind vfio_step_kind initramfs_step_kind
    by (auto simp: build_steps_mem step_files_def cfg vm_register_step_def snapshot_step_def single_gpu_hook_step_def
        looking_glass_step_def vm_xml_step_def verify_step_def Let_def case_prod_unfold hook_paths_def)
  ultimately show ?thesis
    by (cases "step_kind s") (auto simp: step_files_def)
qed

lemma planned_files_captured:
  assumes "make_plan ex e p r c = Inr pl" and named: "touches_named (plan_steps pl)"
  shows "set (concat (map (step_files (build_pending_plan now pl p c sid)) (phase_b_steps pl))) \<subseteq>
    set (collect_targets (plan_steps pl))"
proof
  fix q assume "q \<in> set (concat (map (step_files (build_pending_plan now pl p c sid)) (phase_b_steps pl)))"
  then obtain s where s: "s \<in> set (plan_steps pl)" "\<not> phase_a_kind (step_kind s)"
      "q \<in> set (step_files (build_pending_plan now pl p c sid) s)"
    by (auto simp: phase_b_steps_def)
  have st: "plan_steps pl = build_steps e p c" using assms(1) by (simp add: make_plan_choices)
  have cfg: "pp_config (build_pending_plan now pl p c sid) = c" by (simp add: build_pending_plan_def new_pending_def)
  have "q \<in> set (step_touches s)" using planned_step_files[OF _ s(2) cfg] s(1,3) unfolding st by blast
  moreover have "step_kind s \<noteq> SnapshotStep" using s(2) by (auto simp: phase_a_kind_def)
  ultimately show "q \<in> set (collect_targets (plan_steps pl))"
    using s(1) named by (auto simp: touches_named_def intro: touches_collected)
qed

text \<open>C7: every file that Phase B will write for a plan of the planner is one of the files that Phase A
  has captured: the domain XML, the new disk image and the three hook scripts. So Phase B never
  declares a file of its own, and a rollback knows them all before the first one exists.\<close>

theorem phase_b_files_captured:
  assumes "make_plan ex e p r c = Inr pl" and "touches_named (plan_steps pl)"
    and "q \<in> set (concat (map (step_files (build_pending_plan now pl p c sid)) (phase_b_steps pl)))"
  shows "q \<in> set (collect_targets (plan_steps pl))"
  using assms planned_files_captured by blast

lemma sample_plan_named:
  assumes "make_plan sample_exists sample_env sample_profile (build_compatibility_report sample_profile) sample_config = Inr pl"
  shows "touches_named (plan_steps pl)"
proof -
  have "plan_steps pl = build_steps sample_env sample_profile sample_config"
    using assms by (simp add: make_plan_choices)
  moreover have "touches_named (build_steps sample_env sample_profile sample_config)" by code_simp
  ultimately show ?thesis by simp
qed

theorem phase_b_files_captured_witness:
  "\<exists>pl. make_plan sample_exists sample_env sample_profile (build_compatibility_report sample_profile) sample_config = Inr pl \<and>
     vm_xml_path sample_env (vm_name sample_config) \<in> set (collect_targets (plan_steps pl))"
proof -
  obtain pl where pl: "make_plan sample_exists sample_env sample_profile
      (build_compatibility_report sample_profile) sample_config = Inr pl"
    using make_plan_ok_iff[of sample_exists sample_env sample_profile sample_config]
    by (auto simp: sample_host_supported sample_choices_ok is_ok_iff)
  then have st: "plan_steps pl = build_steps sample_env sample_profile sample_config"
    by (simp add: make_plan_choices)
  have "vm_xml_step sample_env sample_config \<in> set (phase_b_steps pl)"
    by (simp add: phase_b_steps_def st build_steps_mem vm_xml_step_def phase_a_kind_def Let_def)
  then have "vm_xml_path sample_env (vm_name sample_config) \<in>
      set (concat (map (step_files (build_pending_plan 9 pl sample_profile sample_config sample_sid)) (phase_b_steps pl)))"
    by (force simp: step_files_def vm_xml_step_def Let_def)
  from phase_b_files_captured[OF pl sample_plan_named[OF pl] this] pl show ?thesis by blast
qed

section \<open>The life of an installation\<close>

lemma install_recoverable:
  assumes laws: "platform_laws W (path_push root (generate_id (pf_stamp W) t1))"
    and safe: "snapshot_safe (path_push root (generate_id (pf_stamp W) t1)) (collect_targets (plan_steps pl))"
    and named: "touches_named (plan_steps pl)"
    and pend: "\<not> path_under (path_push root (generate_id (pf_stamp W) t1)) (pending_path state_root)"
    and files: "set (concat (map (step_files (build_pending_plan t3 pl p c (generate_id (pf_stamp W) t1)))
        (phase_b_steps pl))) \<subseteq> set (collect_targets (plan_steps pl))"
    and phase_a: "execute_phase_a W (t1, t2, t3) pl p c root state_root mode s0 = (Inr out, s1)"
    and reboot: "\<forall>q. path_under (path_push root (generate_id (pf_stamp W) t1)) q \<longrightarrow>
        fs_content (pf_fs W) s2 q = fs_content (pf_fs W) s1 q"
    and phase_b: "execute_phase_b W E (build_pending_plan t3 pl p c (generate_id (pf_stamp W) t1)) p' root state_root
        mode' s2 = (rb, s3)"
    and later: "\<forall>q. path_under (path_push root (generate_id (pf_stamp W) t1)) q \<longrightarrow>
        fs_content (pf_fs W) s4 q = fs_content (pf_fs W) s3 q"
  shows "recoverable (pf_sha256 W) (pf_manifest_codec W) (path_push root (generate_id (pf_stamp W) t1))
    (collect_targets (plan_steps pl)) (fs_content (pf_fs W) s0) (fs_content (pf_fs W) s4)"
proof -
  let ?sid = "generate_id (pf_stamp W) t1" and ?T = "collect_targets (plan_steps pl)"
  let ?d = "path_push root ?sid" and ?P = "build_pending_plan t3 pl p c (generate_id (pf_stamp W) t1)"
  let ?safe = "recoverable (pf_sha256 W) (pf_manifest_codec W) ?d ?T (fs_content (pf_fs W) s0)"
  have P: "pp_snapshot_id ?P = ?sid" "pp_remaining ?P = phase_b_steps pl"
    by (simp_all add: build_pending_plan_def new_pending_def)
  have "?safe (fs_content (pf_fs W) s1)"
    using platform_laws.phase_a_safe[OF laws refl safe named pend phase_a] by blast
  then have "?safe (fs_content (pf_fs W) s2)"
    by (rule platform_laws.safe_frame[OF laws safe]) (use reboot in blast)
  moreover have "\<forall>step \<in> set (pp_remaining ?P). set (step_files ?P step) \<subseteq> set ?T"
    using files unfolding P by auto
  ultimately have "?safe (fs_content (pf_fs W) s3)"
    by (intro platform_laws.phase_b_safe[OF laws _ safe _ pend _ phase_b]) (simp_all add: P)
  then show ?thesis
    by (rule platform_laws.safe_frame[OF laws safe]) (use later in blast)
qed

text \<open>C2: from the first edit to the last, everything can be taken back. Phase A has run for a plan that
  names the files of Phase B among its targets, as every plan of the planner does; the machine has rebooted;
  Phase B has then run, to the end or into any error, with or without host commands; time has passed.
  If the snapshot directory itself is intact, a restore that returns gives every target, the boot
  configuration as well as the domain XML, disk image and hooks, the contents it had before Phase A, and
  touches nothing else.\<close>

theorem install_then_rollback:
  assumes laws: "platform_laws W (path_push root (generate_id (pf_stamp W) t1))"
    and safe: "snapshot_safe (path_push root (generate_id (pf_stamp W) t1)) (collect_targets (plan_steps pl))"
    and named: "touches_named (plan_steps pl)"
    and pend: "\<not> path_under (path_push root (generate_id (pf_stamp W) t1)) (pending_path state_root)"
    and files: "set (concat (map (step_files (build_pending_plan t3 pl p c (generate_id (pf_stamp W) t1)))
        (phase_b_steps pl))) \<subseteq> set (collect_targets (plan_steps pl))"
    and phase_a: "execute_phase_a W (t1, t2, t3) pl p c root state_root mode s0 = (Inr out, s1)"
    and reboot: "\<forall>q. path_under (path_push root (generate_id (pf_stamp W) t1)) q \<longrightarrow>
        fs_content (pf_fs W) s2 q = fs_content (pf_fs W) s1 q"
    and phase_b: "execute_phase_b W E (build_pending_plan t3 pl p c (generate_id (pf_stamp W) t1)) p' root state_root
        mode' s2 = (rb, s3)"
    and later: "\<forall>q. path_under (path_push root (generate_id (pf_stamp W) t1)) q \<longrightarrow>
        fs_content (pf_fs W) s4 q = fs_content (pf_fs W) s3 q"
    and hash: "hash_separates (pf_sha256 W) (set (collect_targets (plan_steps pl))) (fs_content (pf_fs W) s0)
        (fs_content (pf_fs W) s4)"
    and rollback: "restore (pf_fs W) (pf_sha256 W) (pf_manifest_codec W) root (generate_id (pf_stamp W) t1) s4 = (Inr x, s5)"
  shows "(\<forall>t \<in> set (collect_targets (plan_steps pl)). fs_content (pf_fs W) s5 t = fs_content (pf_fs W) s0 t) \<and>
    (\<forall>q. q \<notin> set (collect_targets (plan_steps pl)) \<longrightarrow> fs_content (pf_fs W) s5 q = fs_content (pf_fs W) s4 q)"
proof -
  have "platform_laws W (path_push root (generate_id (pf_stamp W) t1))" by fact
  then have "file_system_laws (pf_fs W)" by (rule platform_laws.axioms(1))
  from recoverable_restore[OF this install_recoverable[OF laws safe named pend files phase_a reboot phase_b later]
      safe hash rollback] show ?thesis .
qed

text \<open>The sample installation: its Phase B renders and writes the domain.\<close>

definition sample_vm_env :: vm_env where
  "sample_vm_env = \<lparr>ve_kb = kb_empty, ve_uuid = ''00000000-0000-0000-0000-000000000000'', ve_uid = 1000\<rparr>"

definition sample_domain :: string where
  "sample_domain = the_ok (generate_vm_xml (ve_kb sample_vm_env) (ve_uuid sample_vm_env) (ve_uid sample_vm_env)
     sample_profile sample_config)"

definition final_manifest :: snapshot_manifest where
  "final_manifest = update_entry xml_file (record_post_edit_hash sample_domain) written_manifest"

lemma sample_phase_b:
  assumes "sample_run [final_manifest] = (r, s1)"
  shows "\<exists>rb s3. execute_phase_b (sample_platform [final_manifest]) sample_vm_env sample_pending sample_profile
     snap_root state_dir SkipCommands s1 = (Inr rb, s3)"
proof -
  let ?W = "sample_platform [final_manifest]"
  obtain t where t: "to_toml (pf_manifest_codec ?W) written_manifest = Inr t"
    and files: "mem_files s1 = (mem_files (snd written_run))(manifest_file \<mapsto> t, pending_path state_dir \<mapsto> ''m'')"
    and dirs: "sample_dir \<in> mem_dirs s1"
    using sample_run_result[of "[final_manifest]"] written_ok(2) assms by auto
  obtain t2 where t2: "to_toml (pf_manifest_codec ?W) final_manifest = Inr t2"
    using list_codec_knows[of final_manifest "[captured_manifest, written_manifest, final_manifest]"] by auto
  have utf: "valid_utf8 t" "from_toml (pf_manifest_codec ?W) t = Inr written_manifest"
    using list_codec_reads[of _ written_manifest t] t by auto
  have paths: "manifest_path snap_root sample_sid = manifest_file" "path_parent manifest_file = Some sample_dir"
    "path_parent xml_file = Some (Path True [''home'', ''u'', ''.virtu''])"
    "Path True [''home'', ''u'', ''.virtu''] \<in> set (path_chain (Path True [''home'', ''u'', ''.virtu'']))"
    "manifest_file \<noteq> pending_path state_dir" "manifest_file \<noteq> xml_file" by code_simp+
  obtain v where "build_vm_view sample_profile sample_config = Inr v" using vm_view_of_sample by blast
  then have gen: "generate_vm_xml (ve_kb sample_vm_env) (ve_uuid sample_vm_env) (ve_uid sample_vm_env) sample_profile
      sample_config = Inr sample_domain"
    by (simp add: sample_domain_def the_ok_def generate_vm_xml_def)
  have "case entry_for xml_file written_manifest of Some e \<Rightarrow> \<not> original_existed e | None \<Rightarrow> False" by code_simp
  then obtain e where e: "entry_for xml_file written_manifest = Some e" "\<not> original_existed e"
    by (auto split: option.splits)
  obtain step where step: "pp_remaining sample_pending = [step]" "step_kind step = VmXmlGenerate"
    "step_touches step = [xml_file]"
  proof -
    have "map (\<lambda>s. (step_kind s, step_touches s)) (pp_remaining sample_pending) = [(VmXmlGenerate, [xml_file])]"
      by code_simp
    then show thesis using that by (auto simp: map_eq_Cons_conv)
  qed
  have P: "pp_snapshot_id sample_pending = sample_sid" "pp_config sample_pending = sample_config"
    by (simp_all add: sample_pending_def build_pending_plan_def new_pending_def)
  have rd: "read_manifest_b ?W snap_root sample_sid s1 = (Inr written_manifest, s1)"
    using utf files paths by (simp add: read_manifest_b_def Let_def io_then_def io_map_err_def mem_read_def from_utf8_def)
  have declared: "declare_file VmXmlGenerate xml_file written_manifest = written_manifest"
    using e by (simp add: declare_file_def declare_created_entry_def)
  obtain s2 where vm: "run_vm_xml_step ?W sample_vm_env step sample_pending sample_profile snap_root written_manifest
      SkipCommands s1 = (Inr final_manifest, s2)" and s2: "mem_files s2 (pending_path state_dir) \<noteq> None"
    using gen e t2 dirs paths files
    by (simp add: run_vm_xml_step_def step P declared persist_file_def make_parent_def snapshot_then_write_def
        write_manifest_def io_then_def io_map_err_def mem_create_dir_all_def mem_write_atomic_def parent_missing_def
        final_manifest_def[symmetric])
  then show ?thesis
    by (auto simp: execute_phase_b_def P rd io_then_def step phase_b_step_def Let_def clear_pending_def mem_exists_def
        mem_remove_file_def io_map_err_def)
qed

theorem install_then_rollback_witness:
  "\<exists>out s1 rb s3 x s5. sample_run [final_manifest] = (Inr out, s1) \<and>
     execute_phase_b (sample_platform [final_manifest]) sample_vm_env sample_pending sample_profile snap_root state_dir
       SkipCommands s1 = (Inr rb, s3) \<and>
     restore mem_ops (\<lambda>c. c) (pf_manifest_codec (sample_platform [final_manifest])) snap_root sample_sid
       (only_snapshot s3) = (Inr x, s5) \<and>
     mem_files s5 grub_file = mem_files host_fs grub_file \<and> mem_files s5 xml_file = None"
proof -
  let ?W = "sample_platform [final_manifest]" and ?T = "collect_targets (plan_steps host_plan)"
  obtain out s1 where run: "sample_run [final_manifest] = (Inr out, s1)"
    using sample_run_result by blast
  obtain rb s3 where phase_b: "execute_phase_b ?W sample_vm_env sample_pending sample_profile snap_root state_dir
      SkipCommands s1 = (Inr rb, s3)"
    using sample_phase_b[OF run] by blast
  have files: "set (concat (map (step_files sample_pending) (phase_b_steps host_plan))) \<subseteq> set ?T"
  proof -
    have "list_all (\<lambda>q. q \<in> set ?T) (concat (map (step_files sample_pending) (phase_b_steps host_plan)))" by code_simp
    then show ?thesis by (auto simp: list_all_iff)
  qed
  note dir = sample_platform_dir[of "[final_manifest]" 7]
  have agree: "\<forall>q. path_under (path_push snap_root (generate_id (pf_stamp ?W) 7)) q \<longrightarrow>
      fs_content (pf_fs ?W) (only_snapshot s3) q = fs_content (pf_fs ?W) s3 q"
    unfolding dir by (simp add: only_snapshot_def)
  have pending: "build_pending_plan 9 host_plan sample_profile sample_config (generate_id (pf_stamp ?W) 7) = sample_pending"
    by (simp add: sample_pending_def)
  note before = sample_laws[of "[final_manifest]", folded dir] sample_safe[folded dir] sample_named
    sample_pending_path[folded dir] files[folded pending] run[unfolded sample_run_def]
  note after = phase_b[folded pending] agree
  have "recoverable (\<lambda>c. c) (pf_manifest_codec ?W) (path_push snap_root sample_sid) ?T (mem_files host_fs)
      (mem_files (only_snapshot s3))"
    using install_recoverable[OF before _ after] unfolding sample_platform_simps(1,3,6) mem_content by simp
  then obtain x s5 where undone: "restore mem_ops (\<lambda>c. c) (pf_manifest_codec ?W) snap_root sample_sid (only_snapshot s3) = (Inr x, s5)"
    using recoverable_restore_mem[OF _ sample_safe[unfolded sample_dir_eq(1)] identity_separates sample_plain] by blast
  have "\<forall>t \<in> set ?T. mem_files s5 t = mem_files host_fs t"
    using install_then_rollback[OF before _ after, unfolded sample_platform_simps(1,3,6) mem_content, OF _ identity_separates undone]
    by simp
  moreover have "mem_files host_fs xml_file = None" by code_simp
  ultimately show ?thesis using run phase_b undone by (auto simp: sample_targets)
qed

end
