(* ===== verification/Real_File_System.thy ===== *)
theory Real_File_System
  imports File_System
begin

text \<open>
  \<open>snapshot/fs.rs\<close>: \<open>RealFileSystem\<close>, the implementation of the trait that the program runs on. The functions of
  \<open>std::fs\<close> and of \<open>tempfile\<close> that it calls are operations of a record, with their documented behaviour
  as a locale; under it the real file system keeps the contract that the rest of the development relies
  on, and a write that is cut off at any point leaves the old or the new contents.
\<close>

record 'os std_fs =
  std_read :: "path \<Rightarrow> 'os \<Rightarrow> io_error + string"
  std_exists :: "path \<Rightarrow> 'os \<Rightarrow> bool"
  std_create_dir_all :: "path \<Rightarrow> ('os, io_error, unit) io"
  std_copy :: "path \<Rightarrow> path \<Rightarrow> ('os, io_error, nat) io"
  std_remove_file :: "path \<Rightarrow> ('os, io_error, unit) io"
  std_mode :: "path \<Rightarrow> 'os \<Rightarrow> io_error + nat"
  std_set_mode :: "path \<Rightarrow> nat \<Rightarrow> ('os, io_error, unit) io"
  temp_new_in :: "path \<Rightarrow> ('os, io_error, path) io"
  temp_write_all :: "path \<Rightarrow> string \<Rightarrow> ('os, io_error, unit) io"
  temp_flush :: "path \<Rightarrow> ('os, io_error, unit) io"
  temp_sync_all :: "path \<Rightarrow> ('os, io_error, unit) io"
  temp_persist :: "path \<Rightarrow> path \<Rightarrow> ('os, io_error, unit) io"
  temp_drop :: "path \<Rightarrow> 'os \<Rightarrow> 'os"

text \<open>A sequence of calls, each with the \<open>?\<close> operator; a call whose error is only logged; the temporary file
  that goes out of scope on an error.\<close>

fun io_seq :: "('s, 'e, unit) io list \<Rightarrow> ('s, 'e, unit) io" where
  "io_seq [] = io_ok ()"
| "io_seq (m # ms) = io_then m (\<lambda>_. io_seq ms)"

definition io_logged :: "('s, 'e, 'a) io \<Rightarrow> ('s, 'e, unit) io" where
  "io_logged m s = (Inr (), snd (m s))"

definition dropping :: "('s \<Rightarrow> 's) \<Rightarrow> ('s, 'e, 'a) io \<Rightarrow> ('s, 'e, 'a) io" where
  "dropping d m s = (case m s of (Inl e, s') \<Rightarrow> (Inl e, d s') | (Inr a, s') \<Rightarrow> (Inr a, s'))"

definition write_calls :: "'os std_fs \<Rightarrow> path \<Rightarrow> path \<Rightarrow> string \<Rightarrow> ('os, io_error, unit) io list" where
  "write_calls S temp p content =
     [temp_write_all S temp content, temp_flush S temp, io_logged (temp_sync_all S temp), temp_persist S temp p]"

definition parent_calls :: "'os std_fs \<Rightarrow> path \<Rightarrow> ('os, io_error, path) io" where
  "parent_calls S p = (case path_parent p of
     None \<Rightarrow> io_err (IoError InvalidInput (''target '' @ path_display p @ '' has no parent directory''))
   | Some parent \<Rightarrow>
       io_then (if path_is_empty parent then io_ok () else std_create_dir_all S parent) (\<lambda>_.
         temp_new_in S (if path_is_empty parent then path_of ''.'' else parent)))"

definition real_write_atomic :: "'os std_fs \<Rightarrow> path \<Rightarrow> string \<Rightarrow> ('os, io_error, unit) io" where
  "real_write_atomic S p content =
     io_then (parent_calls S p) (\<lambda>temp. dropping (temp_drop S temp) (io_seq (write_calls S temp p content)))"

definition real_copy :: "'os std_fs \<Rightarrow> path \<Rightarrow> path \<Rightarrow> ('os, io_error, unit) io" where
  "real_copy S src dst =
     io_then (case path_parent dst of None \<Rightarrow> io_ok ()
              | Some parent \<Rightarrow> if path_is_empty parent then io_ok () else std_create_dir_all S parent) (\<lambda>_.
       io_then (std_copy S src dst) (\<lambda>_. io_ok ()))"

definition real_set_executable :: "'os std_fs \<Rightarrow> path \<Rightarrow> ('os, io_error, unit) io" where
  "real_set_executable S p =
     io_then (io_gets (std_exists S p)) (\<lambda>present.
       if \<not> present then io_err (IoError NotFound (''set_executable: '' @ path_display p @ '' does not exist''))
       else io_then (io_query (std_mode S p)) (\<lambda>_. std_set_mode S p 493))"

text \<open>The mode is 0o755; the executable bits are 0o111.\<close>

definition real_is_executable :: "'os std_fs \<Rightarrow> path \<Rightarrow> 'os \<Rightarrow> bool" where
  "real_is_executable S p s = (case std_mode S p s of Inr mode \<Rightarrow> and mode 73 \<noteq> 0 | Inl _ \<Rightarrow> False)"

definition real_ops :: "'os std_fs \<Rightarrow> 'os file_system" where
  "real_ops S =
     \<lparr>fs_read = std_read S, fs_write_atomic = real_write_atomic S, fs_copy = real_copy S, fs_exists = std_exists S,
      fs_create_dir_all = std_create_dir_all S, fs_remove_file = std_remove_file S,
      fs_set_executable = real_set_executable S, fs_is_executable = real_is_executable S\<rparr>"

lemma real_ops_simps [simp]:
  "fs_read (real_ops S) = std_read S" "fs_write_atomic (real_ops S) = real_write_atomic S"
  "fs_copy (real_ops S) = real_copy S" "fs_exists (real_ops S) = std_exists S"
  "fs_create_dir_all (real_ops S) = std_create_dir_all S" "fs_remove_file (real_ops S) = std_remove_file S"
  "fs_set_executable (real_ops S) = real_set_executable S" "fs_is_executable (real_ops S) = real_is_executable S"
  by (simp_all add: real_ops_def)

section \<open>What the program relies on\<close>

definition std_content :: "'os std_fs \<Rightarrow> 'os \<Rightarrow> path \<Rightarrow> string option" where
  "std_content S s p = (case std_read S p s of Inl _ \<Rightarrow> None | Inr c \<Rightarrow> Some c)"

lemma std_content_real [simp]: "fs_content (real_ops S) = std_content S"
  by (simp add: fs_content_def std_content_def fun_eq_iff)

definition is_temp :: "path \<Rightarrow> bool" where
  "is_temp p = (case path_file_name p of Some n \<Rightarrow> starts_with ''.tmp'' n | None \<Rightarrow> False)"

text \<open>A new temporary file has a name that begins with \<open>.tmp\<close> and is a path where nothing could be read; a write that fails may have written a
  part; \<open>persist\<close> is a rename, and all or nothing; dropping the file removes it.\<close>

locale std_fs_laws =
  fixes S :: "'os std_fs"
  assumes mkdir: "std_create_dir_all S d s = (r, s') \<Longrightarrow> std_content S s' = std_content S s"
    and temp_ok: "temp_new_in S d s = (Inr t, s') \<Longrightarrow>
      std_content S s t = None \<and> std_content S s' = (std_content S s)(t \<mapsto> [])"
    and temp_named: "temp_new_in S d s = (Inr t, s') \<Longrightarrow> is_temp t"
    and temp_err: "temp_new_in S d s = (Inl e, s') \<Longrightarrow> std_content S s' = std_content S s"
    and write_all_ok: "std_content S s t = Some b \<Longrightarrow> temp_write_all S t c s = (Inr u, s') \<Longrightarrow>
      std_content S s' = (std_content S s)(t \<mapsto> b @ c)"
    and write_all_err: "std_content S s t = Some b \<Longrightarrow> temp_write_all S t c s = (Inl e, s') \<Longrightarrow>
      \<exists>part. std_content S s' = (std_content S s)(t \<mapsto> part)"
    and flush: "temp_flush S t s = (r, s') \<Longrightarrow> std_content S s' = std_content S s"
    and sync_all: "temp_sync_all S t s = (r', s') \<Longrightarrow> std_content S s' = std_content S s"
    and persist_ok: "temp_persist S t p s = (Inr u, s') \<Longrightarrow>
      std_content S s' = (std_content S s)(t := None, p := std_content S s t)"
    and persist_err: "temp_persist S t p s = (Inl e, s') \<Longrightarrow> std_content S s' = std_content S s"
    and drop_temp: "std_content S (temp_drop S t s) = (std_content S s)(t := None)"
    and remove_file_ok: "std_remove_file S p s = (Inr u, s') \<Longrightarrow> std_content S s' = (std_content S s)(p := None)"
    and remove_file_err: "std_remove_file S p s = (Inl e, s') \<Longrightarrow> std_content S s' = std_content S s"
    and set_mode: "std_set_mode S p n s = (r, s') \<Longrightarrow> std_content S s' = std_content S s"
    and readable: "std_content S s p = Some c \<Longrightarrow> std_exists S p s"
begin

lemma parent_calls_ok:
  "parent_calls S p s = (Inr t, s') \<Longrightarrow> std_content S s t = None \<and> std_content S s' = (std_content S s)(t \<mapsto> [])"
  by (auto simp: parent_calls_def io_then_Inr_iff split: option.splits if_splits dest!: mkdir temp_ok)

lemma parent_calls_err: "parent_calls S p s = (Inl e, s') \<Longrightarrow> std_content S s' = std_content S s"
  by (auto simp: parent_calls_def io_then_def split: option.splits if_splits prod.splits sum.splits
      dest!: mkdir temp_err)

text \<open>The calls on the temporary file, cut off after any number of them.\<close>

lemma io_then_split: "io_then m f s = (case fst (m s) of Inl e \<Rightarrow> (Inl e, snd (m s)) | Inr a \<Rightarrow> f a (snd (m s)))"
  by (simp add: io_then_def case_prod_beta)

lemma content_frames [simp]:
  "std_content S (snd (temp_flush S t s)) = std_content S s" "std_content S (snd (temp_sync_all S t s)) = std_content S s"
  "std_content S (snd (std_set_mode S p n s)) = std_content S s" "std_content S (snd (std_create_dir_all S p s)) = std_content S s"
  using flush sync_all set_mode mkdir by (metis prod.collapse)+

lemma content_persist:
  "std_content S (snd (temp_persist S t p s)) = (case fst (temp_persist S t p s) of
     Inl _ \<Rightarrow> std_content S s | Inr _ \<Rightarrow> (std_content S s)(t := None, p := std_content S s t))"
  by (cases "temp_persist S t p s") (auto split: sum.splits dest: persist_ok persist_err)

lemma content_write_all:
  assumes "std_content S s t = Some []"
  obtains part where "std_content S (snd (temp_write_all S t c s)) = (std_content S s)(t \<mapsto> part)"
    "is_ok (fst (temp_write_all S t c s)) \<Longrightarrow> part = c"
  using write_all_ok[OF assms, of c] write_all_err[OF assms, of c]
  by (cases "temp_write_all S t c s"; cases "fst (temp_write_all S t c s)") auto

lemma cut_calls:
  assumes "std_content S s t = Some []" "io_seq (take k (write_calls S t p c)) s = (r, s')"
  shows "(\<exists>part. std_content S s' = (std_content S s)(t \<mapsto> part)) \<and> (4 \<le> k \<longrightarrow> \<not> is_ok r) \<or>
    std_content S s' = (std_content S s)(t := None, p \<mapsto> c) \<and> is_ok r"
proof -
  obtain part where part: "std_content S (snd (temp_write_all S t c s)) = (std_content S s)(t \<mapsto> part)"
    "is_ok (fst (temp_write_all S t c s)) \<Longrightarrow> part = c" using content_write_all[OF assms(1)] by metis
  have s': "s' = snd (io_seq (take k (write_calls S t p c)) s)" "r = fst (io_seq (take k (write_calls S t p c)) s)"
    using assms(2) by simp_all
  consider "k = 0" | "k = 1" | "k = 2" | "k = 3" | "4 \<le> k" by linarith
  then show ?thesis
  proof cases
    case 1
    have "std_content S s' = (std_content S s)(t \<mapsto> [])" using s' assms(1) 1 by (auto simp: fun_upd_idem)
    with 1 show ?thesis by auto
  qed (use part s' assms(1) in \<open>auto simp: write_calls_def io_then_split io_logged_def content_persist take_Cons' numeral_eq_Suc
        split: sum.splits\<close>)
qed

lemma write_atomic_cases:
  assumes "real_write_atomic S p c s = (r, s')"
  shows "std_content S s' = (if is_ok r then (std_content S s)(p \<mapsto> c) else std_content S s)"
proof (cases "parent_calls S p s")
  case (Pair r0 s1)
  show ?thesis
  proof (cases r0)
    case (Inl e)
    with assms Pair show ?thesis by (auto simp: real_write_atomic_def io_then_def dest: parent_calls_err)
  next
    case (Inr t)
    with Pair have t: "std_content S s t = None" "std_content S s1 = (std_content S s)(t \<mapsto> [])"
      using parent_calls_ok[of p s t s1] by auto
    obtain r1 s2 where calls: "io_seq (take 4 (write_calls S t p c)) s1 = (r1, s2)" by fastforce
    have "take 4 (write_calls S t p c) = write_calls S t p c" by (simp add: write_calls_def)
    with assms Pair Inr calls have r: "is_ok r = is_ok r1" "s' = (if is_ok r1 then s2 else temp_drop S t s2)"
      by (auto simp: real_write_atomic_def io_then_def dropping_def split: sum.splits prod.splits)
    have "std_content S s1 t = Some []" using t(2) by simp
    from cut_calls[OF this calls] show ?thesis using t r by (auto simp: drop_temp fun_upd_twist fun_upd_idem)
  qed
qed

text \<open>The contract of the trait, from the behaviour of the library.\<close>

sublocale real: file_system_laws "real_ops S"
proof
  fix p c s u s'
  assume "fs_write_atomic (real_ops S) p c s = (Inr u, s')"
  then show "fs_content (real_ops S) s' = (fs_content (real_ops S) s)(p \<mapsto> c)" using write_atomic_cases by fastforce
next
  fix p c s e s'
  assume "fs_write_atomic (real_ops S) p c s = (Inl e, s')"
  then show "fs_content (real_ops S) s' = fs_content (real_ops S) s" using write_atomic_cases by fastforce
next
  fix p s r s'
  assume "fs_set_executable (real_ops S) p s = (r, s')"
  then show "fs_content (real_ops S) s' = fs_content (real_ops S) s"
    by (auto simp: real_set_executable_def io_then_def split: if_splits prod.splits sum.splits dest: set_mode)
qed (auto dest: mkdir remove_file_ok remove_file_err readable)

lemma real_laws: "file_system_laws (real_ops S)"
  by (rule real.file_system_laws_axioms)

lemma parent_calls_temp: "parent_calls S p s = (Inr t, s') \<Longrightarrow> is_temp t"
  by (auto simp: parent_calls_def io_then_Inr_iff split: option.splits if_splits dest!: temp_named)

lemma cut_write:
  assumes target: "\<not> is_temp p"
    and cut: "io_then (parent_calls S p) (\<lambda>temp. io_seq (take k (write_calls S temp p c))) s = (r, s')"
  shows "std_content S s' p \<in> {std_content S s p, Some c} \<and>
    (\<forall>q. std_content S s' q = std_content S s q \<or> q = p \<or> is_temp q \<and> std_content S s q = None)"
proof (cases "parent_calls S p s")
  case (Pair r0 s1)
  show ?thesis
  proof (cases r0)
    case (Inl e)
    with cut Pair show ?thesis by (auto simp: io_then_def dest: parent_calls_err)
  next
    case (Inr t)
    with Pair have t: "std_content S s t = None" "std_content S s1 = (std_content S s)(t \<mapsto> [])" "is_temp t"
      using parent_calls_ok[of p s t s1] parent_calls_temp[of p s t s1] by auto
    have cut1: "io_seq (take k (write_calls S t p c)) s1 = (r, s')" using cut Pair Inr by (simp add: io_then_def)
    have "std_content S s1 t = Some []" "p \<noteq> t" using t target by auto
    from cut_calls[OF this(1) cut1] this(2) show ?thesis using t by (auto split: if_splits)
  qed
qed

end

section \<open>The contract and the atomic write\<close>

text \<open>C31: the file system that the program runs on keeps the contract of the trait, on any library that
  behaves as documented: a write that returns installs exactly its contents, a write, a removal or a change of
  mode that fails leaves every file as it was, even when the temporary file was written in part, and a
  file that can be read exists. So every theorem on a file system with these laws holds for \<open>RealFileSystem\<close>.\<close>

theorem real_file_system_contract:
  assumes "std_fs_laws S"
  shows "file_system_laws (real_ops S)"
  by (rule std_fs_laws.real_laws[OF assms])

text \<open>C30: a write is atomic even when the program is killed in the middle of it. Cut off after any number of
  its calls, with the last one failing or not, the target still reads as before or reads as the new contents,
  no other file that could be read has changed, and the only new file can be a temporary one.\<close>

theorem write_is_atomic:
  assumes laws: "std_fs_laws S" and target: "\<not> is_temp p"
    and cut: "io_then (parent_calls S p) (\<lambda>temp. io_seq (take k (write_calls S temp p c))) s = (r, s')"
  shows "std_content S s' p \<in> {std_content S s p, Some c} \<and>
    (\<forall>q. std_content S s' q = std_content S s q \<or> q = p \<or> is_temp q \<and> std_content S s q = None)"
  by (rule std_fs_laws.cut_write[OF laws target cut])

section \<open>A library with these laws\<close>

text \<open>The calls on the state of the memory file system: the temporary file of a directory is \<open>.tmpvirtu\<close>, and a
  second one cannot be made before the first is gone.\<close>

definition mem_temp :: "path \<Rightarrow> (mem_fs, io_error, path) io" where
  "mem_temp d s =
     (let t = path_push d ''.tmpvirtu'' in
      if mem_exists t s \<or> d \<notin> mem_dirs s then (Inl (IoError OtherError (''cannot create '' @ path_display t)), s)
      else (Inr t, s\<lparr>mem_files := (mem_files s)(t \<mapsto> [])\<rparr>))"

definition mem_append :: "path \<Rightarrow> string \<Rightarrow> (mem_fs, io_error, unit) io" where
  "mem_append t c s = (case mem_files s t of
     None \<Rightarrow> (Inl (IoError NotFound ''no temporary file''), s)
   | Some b \<Rightarrow> (Inr (), s\<lparr>mem_files := (mem_files s)(t \<mapsto> b @ c)\<rparr>))"

definition mem_rename :: "path \<Rightarrow> path \<Rightarrow> (mem_fs, io_error, unit) io" where
  "mem_rename t p s = (case mem_files s t of
     None \<Rightarrow> (Inl (IoError NotFound ''no temporary file''), s)
   | Some c \<Rightarrow> (Inr (), s\<lparr>mem_files := (mem_files s)(t := None, p \<mapsto> c)\<rparr>))"

definition mem_std :: "mem_fs std_fs" where
  "mem_std =
     \<lparr>std_read = mem_read, std_exists = mem_exists, std_create_dir_all = mem_create_dir_all,
      std_copy = (\<lambda>src dst. io_then (mem_copy src dst) (\<lambda>_. io_ok 0)), std_remove_file = mem_remove_file,
      std_mode = (\<lambda>p s. Inr (if mem_is_executable p s then 493 else 420)),
      std_set_mode = (\<lambda>p n. if and n 73 \<noteq> 0 then mem_set_executable p else io_ok ()),
      temp_new_in = mem_temp, temp_write_all = mem_append, temp_flush = (\<lambda>_. io_ok ()), temp_sync_all = (\<lambda>_. io_ok ()),
      temp_persist = mem_rename, temp_drop = (\<lambda>t s. s\<lparr>mem_files := (mem_files s)(t := None)\<rparr>)\<rparr>"

lemma mem_std_simps [simp]:
  "std_read mem_std = mem_read" "std_exists mem_std = mem_exists" "std_create_dir_all mem_std = mem_create_dir_all"
  "std_remove_file mem_std = mem_remove_file" "temp_new_in mem_std = mem_temp" "temp_write_all mem_std = mem_append"
  "temp_flush mem_std t = io_ok ()" "temp_sync_all mem_std t = io_ok ()" "temp_persist mem_std = mem_rename"
  "temp_drop mem_std t s = s\<lparr>mem_files := (mem_files s)(t := None)\<rparr>"
  "std_set_mode mem_std p n = (if and n 73 \<noteq> 0 then mem_set_executable p else io_ok ())"
  by (simp_all add: mem_std_def)

lemma mem_std_content [simp]: "std_content mem_std s = mem_files s"
  by (auto simp: std_content_def mem_read_def fun_eq_iff split: option.splits)

lemma temp_name: "is_temp (path_push d ''.tmpvirtu'')"
  by (simp add: is_temp_def path_file_name_def path_push_plain plain_name_def starts_with_iff)

interpretation memstd: std_fs_laws mem_std
  by unfold_locales
    (auto simp: mem_op_defs mem_temp_def mem_append_def mem_rename_def temp_name Let_def
      split: if_splits option.splits)

definition cut_fs :: mem_fs where
  "cut_fs = mem_seed_file (path_of ''/etc/default/grub'') ''old'' mem_empty"

theorem real_file_system_contract_witness:
  "real_write_atomic mem_std (path_of ''/etc/default/grub'') ''new'' cut_fs =
     (Inr (), snd (real_write_atomic mem_std (path_of ''/etc/default/grub'') ''new'' cut_fs)) \<and>
   mem_files (snd (real_write_atomic mem_std (path_of ''/etc/default/grub'') ''new'' cut_fs)) =
     (mem_files cut_fs)(path_of ''/etc/default/grub'' \<mapsto> ''new'')"
proof -
  let ?p = "path_of ''/etc/default/grub''"
  have "is_ok (fst (real_write_atomic mem_std ?p ''new'' cut_fs))" by code_simp
  then obtain s' where run: "real_write_atomic mem_std ?p ''new'' cut_fs = (Inr (), s')"
    by (cases "real_write_atomic mem_std ?p ''new'' cut_fs") (auto simp: is_ok_iff)
  with file_system_laws.write_ok[OF real_file_system_contract[OF memstd.std_fs_laws_axioms], of ?p "''new''" cut_fs "()" s']
  show ?thesis by simp
qed

theorem write_is_atomic_witness:
  "mem_files (snd (io_then (parent_calls mem_std (path_of ''/etc/default/grub''))
     (\<lambda>temp. io_seq (take 3 (write_calls mem_std temp (path_of ''/etc/default/grub'') ''new''))) cut_fs))
     (path_of ''/etc/default/grub'') \<in> {Some ''old'', Some ''new''}"
proof -
  let ?p = "path_of ''/etc/default/grub''"
  have "\<not> is_temp ?p" "mem_files cut_fs ?p = Some ''old''" by code_simp+
  with write_is_atomic[OF memstd.std_fs_laws_axioms, of ?p 3 "''new''" cut_fs, OF _ surjective_pairing] show ?thesis
    by simp
qed

end
