(* ===== verification/Wizard.thy ===== *)
theory Wizard
  imports Planner
begin

text \<open>
  \<open>tui/\<close>: the interactive wizard as a state machine. Keys become events, an event moves the
  application from one state to the next, and the loop ends in the screen \<open>Exiting\<close>. Two places
  of the code can panic, the cycling of an empty list of values and the drawing of a preview that was
  not built; they are values of an error type here. Drawing itself (ratatui) has no effect on the state.
\<close>

datatype wizard_panic = EmptyChoices | PreviewMissing

section \<open>The choice screen\<close>

datatype choice_action = PrevField | NextField | DecrementValue | IncrementValue

datatype monitor_plan_choice = OneMonitorHookHandoff | OneMonitorSwitchInputs | TwoMonitorsHostAndVm

definition monitor_plan_choice_display :: "monitor_plan_choice \<Rightarrow> string" where
  "monitor_plan_choice_display c = (case c of
     OneMonitorHookHandoff \<Rightarrow> ''One monitor, hook hand-off (single GPU)''
   | OneMonitorSwitchInputs \<Rightarrow> ''One monitor, switch inputs manually''
   | TwoMonitorsHostAndVm \<Rightarrow> ''Two monitors, one each'')"

datatype choice_field =
  GpuModeField gpu_mode "gpu_mode list"
| MonitorPlanField monitor_plan_choice "monitor_plan_choice list"
| RamField u64 u64
| VcpuField u32 u32

record choice_state =
  cs_selected :: nat
  cs_fields :: "choice_field list"
  cs_helper :: string

definition field_label :: "choice_field \<Rightarrow> string" where
  "field_label f = (case f of GpuModeField _ _ \<Rightarrow> ''GPU mode'' | MonitorPlanField _ _ \<Rightarrow> ''Monitor plan''
     | RamField _ _ \<Rightarrow> ''VM RAM (MiB)'' | VcpuField _ _ \<Rightarrow> ''VM vCPUs'')"

definition helper_for :: "choice_field \<Rightarrow> string" where
  "helper_for f = (case f of
     GpuModeField _ _ \<Rightarrow> ''Left / Right cycle through GPU modes. SingleGpu carries higher risk because the host display is torn down when the VM starts.''
   | MonitorPlanField _ _ \<Rightarrow> ''Left / Right cycle through monitor plans. Hook hand-off requires SingleGpu mode; the validator surfaces the mismatch on the plan preview if the choices are inconsistent.''
   | RamField _ _ \<Rightarrow> ''Left / Right step in 1 GiB increments. Virtu reserves at least 4 GiB for the host.''
   | VcpuField _ _ \<Rightarrow> ''Left / Right add or remove one vCPU. Virtu always reserves at least one host thread.'')"

text \<open>The position of the first occurrence, 0 when there is none.\<close>

fun position_of :: "'a \<Rightarrow> 'a list \<Rightarrow> nat option" where
  "position_of x [] = None"
| "position_of x (y # ys) = (if x = y then Some 0 else map_option Suc (position_of x ys))"

definition position_or_zero :: "'a \<Rightarrow> 'a list \<Rightarrow> nat" where
  "position_or_zero x xs = (case position_of x xs of Some i \<Rightarrow> i | None \<Rightarrow> 0)"

definition cycle_back :: "'a \<Rightarrow> 'a list \<Rightarrow> wizard_panic + 'a" where
  "cycle_back current available =
     (let idx = position_or_zero current available in
      if idx = 0 \<and> available = [] then Inl EmptyChoices
      else (let next = (if idx = 0 then length available - 1 else idx - 1) in
        Inr (if next < length available then available ! next else current)))"

definition cycle_forth :: "'a \<Rightarrow> 'a list \<Rightarrow> wizard_panic + 'a" where
  "cycle_forth current available =
     (let idx = position_or_zero current available in
      if available = [] then Inl EmptyChoices
      else (let next = (idx + 1) mod length available in
        Inr (if next < length available then available ! next else current)))"

definition sat_add :: "'a::len word \<Rightarrow> 'a word \<Rightarrow> 'a word" where
  "sat_add a b = (if unat a + unat b < 2 ^ LENGTH('a) then a + b else - 1)"

definition clamp :: "'a::linorder \<Rightarrow> 'a \<Rightarrow> 'a \<Rightarrow> 'a" where
  "clamp lo hi x = (if x < lo then lo else if hi < x then hi else x)"

definition max_vm_ram :: "u64 \<Rightarrow> u64" where
  "max_vm_ram host_total_kb = max (sat_sub (host_total_kb div 1024) 4096) 2048"

definition max_vm_threads :: "u32 \<Rightarrow> u32" where
  "max_vm_threads threads = max (sat_sub threads 1) 1"

definition field_decrement :: "choice_field \<Rightarrow> wizard_panic + choice_field" where
  "field_decrement f = (case f of
     GpuModeField current available \<Rightarrow>
       (case cycle_back current available of Inl e \<Rightarrow> Inl e | Inr m \<Rightarrow> Inr (GpuModeField m available))
   | MonitorPlanField current available \<Rightarrow>
       (case cycle_back current available of Inl e \<Rightarrow> Inl e | Inr m \<Rightarrow> Inr (MonitorPlanField m available))
   | RamField current host \<Rightarrow> Inr (RamField (clamp 2048 (max_vm_ram host) (sat_sub current 1024)) host)
   | VcpuField current host \<Rightarrow>
       Inr (VcpuField (clamp 1 (max_vm_threads host) (max (sat_sub current 1) 1)) host))"

definition field_increment :: "choice_field \<Rightarrow> wizard_panic + choice_field" where
  "field_increment f = (case f of
     GpuModeField current available \<Rightarrow>
       (case cycle_forth current available of Inl e \<Rightarrow> Inl e | Inr m \<Rightarrow> Inr (GpuModeField m available))
   | MonitorPlanField current available \<Rightarrow>
       (case cycle_forth current available of Inl e \<Rightarrow> Inl e | Inr m \<Rightarrow> Inr (MonitorPlanField m available))
   | RamField current host \<Rightarrow> Inr (RamField (clamp 2048 (max_vm_ram host) (sat_add current 1024)) host)
   | VcpuField current host \<Rightarrow> Inr (VcpuField (clamp 1 (max_vm_threads host) (sat_add current 1)) host))"

definition available_modes :: "system_profile \<Rightarrow> gpu_mode list" where
  "available_modes p =
     (let has_igpu = list_ex (\<lambda>g. gpu_type g = Integrated) (sp_gpus p); has_multiple = 2 \<le> length (sp_gpus p)
      in (if has_igpu \<and> has_multiple then [IgpuHost] else [])
         @ (if has_multiple then [DualGpu] else []) @ [SingleGpu])"

definition monitor_choice_from :: "monitor_plan \<Rightarrow> monitor_plan_choice" where
  "monitor_choice_from plan = (case plan of
     OneMonitor HookHandoff \<Rightarrow> OneMonitorHookHandoff
   | OneMonitor SwitchInputs \<Rightarrow> OneMonitorSwitchInputs
   | OneMonitor LookingGlassOnly \<Rightarrow> OneMonitorSwitchInputs
   | TwoMonitors _ _ \<Rightarrow> TwoMonitorsHostAndVm)"

definition monitor_plan_from_choice :: "system_profile \<Rightarrow> monitor_plan_choice \<Rightarrow> monitor_plan" where
  "monitor_plan_from_choice p c = (case c of
     OneMonitorHookHandoff \<Rightarrow> OneMonitor HookHandoff
   | OneMonitorSwitchInputs \<Rightarrow> OneMonitor SwitchInputs
   | TwoMonitorsHostAndVm \<Rightarrow>
       (let connectors = map connector_name (filter monitor_connected (sp_monitors p))
        in TwoMonitors (case connectors of a # _ \<Rightarrow> a | [] \<Rightarrow> ''DP-1'')
             (case connectors of _ # b # _ \<Rightarrow> b | _ \<Rightarrow> ''DP-2'')))"

definition new_choices :: "system_profile \<Rightarrow> passthrough_config \<Rightarrow> choice_state" where
  "new_choices p c =
     (let mode = GpuModeField (cfg_gpu_mode c) (available_modes p)
      in \<lparr>cs_selected = 0,
          cs_fields = [mode,
            MonitorPlanField (monitor_choice_from (cfg_monitor_plan c))
              [TwoMonitorsHostAndVm, OneMonitorHookHandoff, OneMonitorSwitchInputs],
            RamField (ram_mb (resources c)) (total_kb (sp_ram p)),
            VcpuField (vcpu_count (resources c)) (logical_cores (sp_cpu p))],
          cs_helper = helper_for mode\<rparr>)"

text \<open>An action on the selected field, if there is one.\<close>

definition update_selected ::
  "(choice_field \<Rightarrow> wizard_panic + choice_field) \<Rightarrow> choice_state \<Rightarrow> wizard_panic + choice_state" where
  "update_selected f st =
     (if cs_selected st < length (cs_fields st) then
        (case f (cs_fields st ! cs_selected st) of Inl e \<Rightarrow> Inl e
         | Inr x \<Rightarrow> Inr (st\<lparr>cs_fields := (cs_fields st)[cs_selected st := x]\<rparr>))
      else Inr st)"

definition refresh_helper :: "choice_state \<Rightarrow> choice_state" where
  "refresh_helper st =
     (if cs_selected st < length (cs_fields st)
      then st\<lparr>cs_helper := helper_for (cs_fields st ! cs_selected st)\<rparr> else st)"

definition choices_apply :: "choice_action \<Rightarrow> choice_state \<Rightarrow> wizard_panic + choice_state" where
  "choices_apply a st =
     res_then
       (case a of
          PrevField \<Rightarrow> Inr (st\<lparr>cs_selected := (if cs_selected st = 0 then length (cs_fields st) - 1
            else cs_selected st - 1)\<rparr>)
        | NextField \<Rightarrow> Inr (if cs_fields st \<noteq> []
            then st\<lparr>cs_selected := (cs_selected st + 1) mod length (cs_fields st)\<rparr> else st)
        | DecrementValue \<Rightarrow> update_selected field_decrement st
        | IncrementValue \<Rightarrow> update_selected field_increment st)
       (\<lambda>st'. Inr (refresh_helper st'))"

section \<open>From the choices back to the configuration\<close>

text \<open>The second loop over the roles for \<open>IgpuHost\<close>: only the first passed card stays.\<close>

fun keep_first_passthrough :: "bool \<Rightarrow> gpu_role list \<Rightarrow> gpu_role list" where
  "keep_first_passthrough seen [] = []"
| "keep_first_passthrough seen (r # rs) =
     (if r = Passthrough
      then (if seen then Ignored else Passthrough) # keep_first_passthrough True rs
      else r # keep_first_passthrough seen rs)"

text \<open>The loop over the roles for \<open>DualGpu\<close>, on the types of the cards: the first discrete card is
  the host's, the second is passed.\<close>

fun dual_roles :: "bool \<Rightarrow> bool \<Rightarrow> gpu_type option list \<Rightarrow> gpu_role list" where
  "dual_roles first_host first_pass [] = []"
| "dual_roles first_host first_pass (t # ts) =
     (if t \<noteq> Some Discrete then Ignored # dual_roles first_host first_pass ts
      else if \<not> first_host then Host # dual_roles True first_pass ts
      else if \<not> first_pass then Passthrough # dual_roles first_host True ts
      else Ignored # dual_roles first_host first_pass ts)"

definition type_of_slot :: "system_profile \<Rightarrow> gpu_role_assignment \<Rightarrow> gpu_type option" where
  "type_of_slot p a = map_option gpu_type (find_gpu p (role_pci_slot a))"

definition igpu_role :: "gpu_type option \<Rightarrow> gpu_role" where
  "igpu_role t = (case t of Some Integrated \<Rightarrow> Host | Some Discrete \<Rightarrow> Passthrough | _ \<Rightarrow> Ignored)"

definition set_roles :: "gpu_role_assignment list \<Rightarrow> gpu_role list \<Rightarrow> gpu_role_assignment list" where
  "set_roles as rs = map2 (\<lambda>a r. a\<lparr>role_role := r\<rparr>) as rs"

definition single_primary :: "system_profile \<Rightarrow> gpu_role_assignment list \<Rightarrow> string option" where
  "single_primary p as =
     (case List.find (\<lambda>a. role_role a = Passthrough) as of
        Some a \<Rightarrow> Some (role_pci_slot a)
      | None \<Rightarrow> map_option gpu_pci_slot (List.find (\<lambda>g. gpu_type g = Discrete) (sp_gpus p)))"

definition align_gpu_roles_to_mode ::
  "system_profile \<Rightarrow> gpu_mode \<Rightarrow> gpu_role_assignment list \<Rightarrow> gpu_role_assignment list" where
  "align_gpu_roles_to_mode p mode as = (case mode of
     SingleGpu \<Rightarrow> (let primary = single_primary p as in
       set_roles as (map (\<lambda>a. if Some (role_pci_slot a) = primary then Passthrough else Ignored) as))
   | IgpuHost \<Rightarrow> set_roles as (keep_first_passthrough False
       (map (\<lambda>a. igpu_role (type_of_slot p a)) as))
   | DualGpu \<Rightarrow> set_roles as (dual_roles False False (map (type_of_slot p) as))
   | MultiGpu \<Rightarrow> as)"

definition apply_field :: "system_profile \<Rightarrow> choice_field \<Rightarrow> passthrough_config \<Rightarrow> passthrough_config" where
  "apply_field p f c = (case f of
     GpuModeField m _ \<Rightarrow> c\<lparr>cfg_gpu_mode := m, gpu_roles := align_gpu_roles_to_mode p m (gpu_roles c)\<rparr>
   | MonitorPlanField m _ \<Rightarrow> c\<lparr>cfg_monitor_plan := monitor_plan_from_choice p m\<rparr>
   | RamField n _ \<Rightarrow> c\<lparr>resources := (resources c)\<lparr>ram_mb := n\<rparr>\<rparr>
   | VcpuField n _ \<Rightarrow> c\<lparr>resources := (resources c)\<lparr>vcpu_count := n\<rparr>\<rparr>)"

definition choices_apply_to :: "system_profile \<Rightarrow> choice_state \<Rightarrow> passthrough_config \<Rightarrow> passthrough_config" where
  "choices_apply_to p st c = foldl (\<lambda>c f. apply_field p f c) c (cs_fields st)"

section \<open>The preview screen\<close>

datatype preview_action = ScrollUp | ScrollDown | PageUp | PageDown | Confirm

datatype preview_result =
  PreviewPlan plan
| PlanFailed string
| PreviewErrors "validation_issue list"

record preview_state =
  pv_result :: preview_result
  pv_scroll :: nat
  pv_confirmed :: bool

text \<open>\<open>ex\<close> is the existence test of the file system when the preview is built, \<open>getenv\<close> the
  environment of the process.\<close>

definition new_preview ::
  "(path \<Rightarrow> bool) \<Rightarrow> (string \<Rightarrow> string option) \<Rightarrow> system_profile \<Rightarrow> compatibility_report \<Rightarrow> passthrough_config
    \<Rightarrow> preview_state" where
  "new_preview ex getenv p r c =
     (let errors = report_errors (validate ex p r c)
      in \<lparr>pv_result = (if errors \<noteq> [] then PreviewErrors errors
            else (case make_plan ex getenv p r c of
                Inr pl \<Rightarrow> PreviewPlan pl
              | Inl (ValidationFailed v) \<Rightarrow> PreviewErrors (report_errors v)
              | Inl other \<Rightarrow> PlanFailed (plan_error_display other))),
          pv_scroll = 0, pv_confirmed = False\<rparr>)"

definition step_count :: "preview_state \<Rightarrow> nat" where
  "step_count st = (case pv_result st of PreviewPlan pl \<Rightarrow> length (plan_steps pl)
     | PreviewErrors es \<Rightarrow> length es | PlanFailed _ \<Rightarrow> 1)"

definition can_confirm :: "preview_state \<Rightarrow> bool" where
  "can_confirm st = (case pv_result st of PreviewPlan _ \<Rightarrow> True | _ \<Rightarrow> False)"

definition preview_apply :: "preview_action \<Rightarrow> preview_state \<Rightarrow> preview_state" where
  "preview_apply a st =
     (let total = step_count st in (case a of
        ScrollUp \<Rightarrow> st\<lparr>pv_scroll := pv_scroll st - 1\<rparr>
      | ScrollDown \<Rightarrow> (if pv_scroll st + 1 < total then st\<lparr>pv_scroll := pv_scroll st + 1\<rparr> else st)
      | PageUp \<Rightarrow> st\<lparr>pv_scroll := pv_scroll st - 5\<rparr>
      | PageDown \<Rightarrow> st\<lparr>pv_scroll := min (pv_scroll st + 5) (total - 1)\<rparr>
      | Confirm \<Rightarrow> (if can_confirm st then st\<lparr>pv_confirmed := True\<rparr> else st)))"

section \<open>The application\<close>

datatype screen = Detection | Choices | Preview | Exiting

record app =
  app_screen :: screen
  app_profile :: system_profile
  app_report :: compatibility_report
  app_config :: passthrough_config
  app_choices :: choice_state
  app_preview :: "preview_state option"

datatype wizard_event =
  Quit
| Continue
| ChoiceMove choice_action
| PreviewMove preview_action
| Refresh

datatype key_code = KeyChar char | KeyEsc | KeyEnter | KeyPageUp | KeyPageDown
  | KeyUp | KeyDown | KeyLeft | KeyRight | KeyOther

definition map_key :: "key_code \<Rightarrow> wizard_event" where
  "map_key k =
     (if k \<in> {KeyChar (CHR ''q''), KeyChar (CHR ''Q''), KeyEsc} then Quit
      else if k = KeyEnter then Continue
      else if k \<in> {KeyChar (CHR ''c''), KeyChar (CHR ''C'')} then PreviewMove Confirm
      else if k = KeyPageUp then PreviewMove PageUp
      else if k = KeyPageDown then PreviewMove PageDown
      else if k \<in> {KeyUp, KeyChar (CHR ''k'')} then ChoiceMove PrevField
      else if k \<in> {KeyDown, KeyChar (CHR ''j'')} then ChoiceMove NextField
      else if k \<in> {KeyLeft, KeyChar (CHR ''h'')} then ChoiceMove DecrementValue
      else if k \<in> {KeyRight, KeyChar (CHR ''l'')} then ChoiceMove IncrementValue
      else Refresh)"

definition new_app :: "system_profile \<Rightarrow> compatibility_report \<Rightarrow> passthrough_config \<Rightarrow> app" where
  "new_app p r c = \<lparr>app_screen = Detection, app_profile = p, app_report = r, app_config = c,
     app_choices = new_choices p c, app_preview = None\<rparr>"

definition enter_preview :: "(path \<Rightarrow> bool) \<Rightarrow> (string \<Rightarrow> string option) \<Rightarrow> app \<Rightarrow> app" where
  "enter_preview ex getenv a = a\<lparr>app_preview :=
       Some (new_preview ex getenv (app_profile a) (app_report a) (app_config a)), app_screen := Preview\<rparr>"

definition was_confirmed :: "app \<Rightarrow> bool" where
  "was_confirmed a = (case app_preview a of Some st \<Rightarrow> pv_confirmed st | None \<Rightarrow> False)"

definition commit_choices :: "app \<Rightarrow> app" where
  "commit_choices a = a\<lparr>app_config := choices_apply_to (app_profile a) (app_choices a) (app_config a)\<rparr>"

definition on_preview :: "(preview_state \<Rightarrow> preview_state) \<Rightarrow> app \<Rightarrow> app" where
  "on_preview f a = a\<lparr>app_preview := map_option f (app_preview a)\<rparr>"

text \<open>The reaction to one event: the \<open>match\<close> of the loop.\<close>

definition handle_event ::
  "(path \<Rightarrow> bool) \<Rightarrow> (string \<Rightarrow> string option) \<Rightarrow> wizard_event \<Rightarrow> app \<Rightarrow> wizard_panic + app" where
  "handle_event ex getenv e a = (case e of
     Quit \<Rightarrow> Inr (if app_screen a = Preview then a\<lparr>app_screen := Choices, app_preview := None\<rparr>
                 else a\<lparr>app_screen := Exiting\<rparr>)
   | Continue \<Rightarrow> Inr (case app_screen a of
        Detection \<Rightarrow> a\<lparr>app_screen := Choices\<rparr>
      | Choices \<Rightarrow> enter_preview ex getenv (commit_choices a)
      | _ \<Rightarrow> a)
   | ChoiceMove act \<Rightarrow>
       (if app_screen a = Choices then
          (case choices_apply act (app_choices a) of Inl p \<Rightarrow> Inl p
           | Inr st \<Rightarrow> Inr (commit_choices (a\<lparr>app_choices := st\<rparr>)))
        else if app_screen a = Preview then
          Inr (case act of PrevField \<Rightarrow> on_preview (preview_apply ScrollUp) a
               | NextField \<Rightarrow> on_preview (preview_apply ScrollDown) a | _ \<Rightarrow> a)
        else Inr a)
   | PreviewMove act \<Rightarrow>
       Inr (if app_screen a = Preview then
          (let a' = on_preview (preview_apply act) a in
           if was_confirmed a' then a'\<lparr>app_screen := Exiting\<rparr> else a')
        else a)
   | Refresh \<Rightarrow> Inr a)"

text \<open>The loop: draw, wait for an event (\<open>None\<close>: the poll timed out), react. Each turn comes with
  the existence test of its moment; the run ends with the list of turns or in the screen \<open>Exiting\<close>.\<close>

fun run_event_loop ::
  "(string \<Rightarrow> string option) \<Rightarrow> ((path \<Rightarrow> bool) \<times> wizard_event option) list \<Rightarrow> app \<Rightarrow> wizard_panic + app" where
  "run_event_loop getenv [] a = Inr a"
| "run_event_loop getenv ((ex, e) # es) a =
     (if app_screen a = Exiting then Inr a
      else if app_screen a = Preview \<and> app_preview a = None then Inl PreviewMissing
      else (case e of None \<Rightarrow> run_event_loop getenv es a
        | Some ev \<Rightarrow> res_then (handle_event ex getenv ev a) (run_event_loop getenv es)))"

text \<open>The loop itself, on an endless stream of turns: it may never return.\<close>

partial_function (option) wizard_loop ::
  "(string \<Rightarrow> string option) \<Rightarrow> (nat \<Rightarrow> (path \<Rightarrow> bool) \<times> wizard_event option) \<Rightarrow> nat \<Rightarrow> app \<Rightarrow> (wizard_panic + app) option" where
  "wizard_loop getenv es n a =
     (if app_screen a = Exiting then Some (Inr a)
      else if app_screen a = Preview \<and> app_preview a = None then Some (Inl PreviewMissing)
      else (case snd (es n) of None \<Rightarrow> wizard_loop getenv es (Suc n) a
        | Some ev \<Rightarrow> (case handle_event (fst (es n)) getenv ev a of
            Inl e \<Rightarrow> Some (Inl e) | Inr a' \<Rightarrow> wizard_loop getenv es (Suc n) a')))"

definition synthetic_empty_config :: passthrough_config where
  "synthetic_empty_config =
     \<lparr>vm_name = ''virtu-windows'', cfg_guest_os = Windows11, cfg_gpu_mode = SingleGpu, gpu_roles = [],
      cfg_monitor_plan = OneMonitor SwitchInputs, looking_glass = LgDisabled, iso_path = None,
      resources = \<lparr>ram_mb = 8192, vcpu_count = 4,
        res_disk = CreateDisk (path_of ''/var/lib/libvirt/images/virtu-windows.qcow2'') 100 Qcow2\<rparr>,
      cfg_network = NatNetwork, cfg_audio = NoAudio,
      cfg_input = \<lparr>keyboard_evdev = None, mouse_evdev = None, additional_evdev = []\<rparr>\<rparr>"

definition run_wizard ::
  "string \<Rightarrow> (string \<Rightarrow> string option) \<Rightarrow> ((path \<Rightarrow> bool) \<times> wizard_event option) list \<Rightarrow> system_profile
    \<Rightarrow> panic + (wizard_panic + app)" where
  "run_wizard stamp getenv es p =
     (case recommended_defaults stamp p of Inl e \<Rightarrow> Inl e
      | Inr c \<Rightarrow> Inr (run_event_loop getenv es (new_app p (build_compatibility_report p)
          (case c of Some c \<Rightarrow> c | None \<Rightarrow> synthetic_empty_config))))"

text \<open>The printed plan; \<open>dbg\<close> is the derived \<open>Debug\<close> of three types.\<close>

definition confirmed_lines ::
  "(guest_os \<Rightarrow> string) \<times> (monitor_plan \<Rightarrow> string) \<times> (disk_choice \<Rightarrow> string) \<Rightarrow> (path \<Rightarrow> bool)
    \<Rightarrow> (string \<Rightarrow> string option) \<Rightarrow> app \<Rightarrow> string list" where
  "confirmed_lines dbg ex getenv a =
     (case dbg of (dbg_os, dbg_monitors, dbg_disk) \<Rightarrow> (let c = app_config a in
      [''=== VIRTU WIZARD: CONFIRMED PLAN ==='',
       ''VM name:       '' @ vm_name c, ''Guest OS:      '' @ dbg_os (cfg_guest_os c),
       ''GPU mode:      '' @ gpu_mode_display (cfg_gpu_mode c), ''Monitor plan:  '' @ dbg_monitors (cfg_monitor_plan c),
       ''VM resources:  '' @ show_nat (unat (ram_mb (resources c))) @ '' MiB RAM, ''
         @ show_nat (unat (vcpu_count (resources c))) @ '' vCPUs, disk '' @ dbg_disk (res_disk (resources c)), '''']
      @ (case make_plan ex getenv (app_profile a) (app_report a) c of
           Inl e \<Rightarrow> [''Plan generation failed after wizard confirmation: '' @ plan_error_display e]
         | Inr pl \<Rightarrow>
             [show_nat (length (plan_steps pl)) @ '' step(s):'']
             @ map (\<lambda>(i, s). ''  '' @ (if i < 10 then '' '' else '''') @ show_nat i @ ''. [''
                 @ risk_display (step_risk s) @ ''] '' @ step_title s) (List.enumerate 1 (plan_steps pl))
             @ [LF # ''Max risk: '' @ risk_display (max_risk (plan_summary pl))
                 @ ''    Reboot required: '' @ show_bool (sum_requires_reboot (plan_summary pl))
                 @ ''    Confirmation required: '' @ show_bool (sum_requires_confirmation (plan_summary pl)),
                LF # ''Review, then run:'',
                ''  virtu apply --phase a --confirm   # to start the host edits'',
                ''  virtu rollback --to <id>          # to undo, after a snapshot exists''])))"

text \<open>A finite run that leaves the wizard is a run of the loop.\<close>

lemma loop_of_run:
  "run_event_loop getenv (map es [n..<n + m]) a = Inr a' \<Longrightarrow> app_screen a' = Exiting \<Longrightarrow>
     wizard_loop getenv es n a = Some (Inr a')"
proof (induction m arbitrary: n a)
  case (Suc m)
  have "map es [n..<n + Suc m] = es n # map es [Suc n..<Suc n + m]" by (simp add: upt_conv_Cons del: upt_Suc)
  then show ?case using Suc
    by (cases "es n") (auto simp: wizard_loop.simps[of getenv es n] split: option.splits sum.splits if_splits)
qed (simp add: wizard_loop.simps)

section \<open>The invariant of the wizard\<close>

lemma sat_sub_zero [simp]: "sat_sub a 0 = a"
  by (simp add: sat_sub_def)

lemma clamp_range: "lo \<le> hi \<Longrightarrow> lo \<le> clamp lo hi x \<and> clamp lo hi x \<le> hi"
  by (auto simp: clamp_def not_less)

lemma position_of_less: "position_of x xs = Some i \<Longrightarrow> i < length xs \<and> xs ! i = x"
  by (induction xs arbitrary: i) (auto split: if_splits)

lemma position_or_zero_less: "xs \<noteq> [] \<Longrightarrow> position_or_zero x xs < length xs"
  by (auto simp: position_or_zero_def dest: position_of_less split: option.splits)

text \<open>Cycling a list that is not empty gives one of its elements.\<close>

lemma cycle_in:
  assumes "xs \<noteq> []"
  shows "\<exists>y \<in> set xs. cycle_back x xs = Inr y" "\<exists>y \<in> set xs. cycle_forth x xs = Inr y"
  using position_or_zero_less[OF assms, of x] assms by (auto simp: cycle_back_def cycle_forth_def Let_def)

definition monitor_choices :: "monitor_plan_choice list" where
  "monitor_choices = [TwoMonitorsHostAndVm, OneMonitorHookHandoff, OneMonitorSwitchInputs]"

text \<open>The fields keep their order and ranges; a value is the initial one or within its bounds.\<close>

definition field_ok :: "system_profile \<Rightarrow> passthrough_config \<Rightarrow> nat \<Rightarrow> choice_field \<Rightarrow> bool" where
  "field_ok p c i f = (case f of
     GpuModeField m ms \<Rightarrow> i = 0 \<and> ms = available_modes p \<and> (m = cfg_gpu_mode c \<or> m \<in> set ms)
   | MonitorPlanField m ms \<Rightarrow> i = 1 \<and> ms = monitor_choices
   | RamField n h \<Rightarrow> i = 2 \<and> h = total_kb (sp_ram p) \<and> (n = ram_mb (resources c) \<or> 2048 \<le> n \<and> n \<le> max_vm_ram h)
   | VcpuField n h \<Rightarrow> i = 3 \<and> h = logical_cores (sp_cpu p) \<and> (n = vcpu_count (resources c) \<or> 1 \<le> n \<and> n \<le> max_vm_threads h))"

definition choices_inv :: "system_profile \<Rightarrow> passthrough_config \<Rightarrow> choice_state \<Rightarrow> bool" where
  "choices_inv p c st \<longleftrightarrow> cs_selected st < 4 \<and> length (cs_fields st) = 4 \<and>
     (\<forall>i < 4. field_ok p c i (cs_fields st ! i)) \<and> cs_helper st = helper_for (cs_fields st ! cs_selected st)"

lemma available_modes_nonempty [simp]: "available_modes p \<noteq> []"
  by (simp add: available_modes_def Let_def)

lemma bounds_ordered: "2048 \<le> max_vm_ram h" "1 \<le> max_vm_threads n"
  by (simp_all add: max_vm_ram_def max_vm_threads_def)

lemma field_step:
  assumes ok: "field_ok p c i f"
  shows "\<exists>f'. field_decrement f = Inr f' \<and> field_ok p c i f'" "\<exists>f'. field_increment f = Inr f' \<and> field_ok p c i f'"
proof -
  have mc: "monitor_choices \<noteq> []" by (simp add: monitor_choices_def)
  have "(\<exists>f'. field_decrement f = Inr f' \<and> field_ok p c i f') \<and> (\<exists>f'. field_increment f = Inr f' \<and> field_ok p c i f')"
  proof (cases f)
    case (GpuModeField m ms)
    then have ms: "i = 0" "ms = available_modes p" using ok by (auto simp: field_ok_def)
    show ?thesis using cycle_in[of ms m] ms
      by (auto simp: GpuModeField field_decrement_def field_increment_def field_ok_def)
  next
    case (MonitorPlanField m ms)
    then have ms: "i = 1" "ms = monitor_choices" using ok by (auto simp: field_ok_def)
    show ?thesis using cycle_in[of ms m] ms mc
      by (auto simp: MonitorPlanField field_decrement_def field_increment_def field_ok_def)
  next
    case (RamField n h)
    then show ?thesis using ok clamp_range[OF bounds_ordered(1)]
      by (simp add: field_decrement_def field_increment_def field_ok_def)
  next
    case (VcpuField n h)
    then show ?thesis using ok clamp_range[OF bounds_ordered(2)]
      by (simp add: field_decrement_def field_increment_def field_ok_def)
  qed
  then show "\<exists>f'. field_decrement f = Inr f' \<and> field_ok p c i f'" "\<exists>f'. field_increment f = Inr f' \<and> field_ok p c i f'"
    by auto
qed

lemma new_choices_inv: "choices_inv p c (new_choices p c)"
proof -
  have "i = 0 \<or> i = 1 \<or> i = 2 \<or> i = 3" if "i < 4" for i :: nat using that by auto
  then show ?thesis
    by (fastforce simp: choices_inv_def new_choices_def field_ok_def monitor_choices_def Let_def)
qed

lemma refresh_inv:
  assumes "cs_selected st < 4" "length (cs_fields st) = 4" "\<forall>i < 4. field_ok p c i (cs_fields st ! i)"
  shows "choices_inv p c (refresh_helper st)"
  using assms by (simp add: choices_inv_def refresh_helper_def)

lemma update_selected_inv:
  assumes inv: "choices_inv p c st" and f: "\<And>i x. field_ok p c i x \<Longrightarrow> \<exists>y. f x = Inr y \<and> field_ok p c i y"
  shows "\<exists>st'. update_selected f st = Inr st' \<and> choices_inv p c (refresh_helper st')"
proof -
  let ?i = "cs_selected st"
  have i: "?i < length (cs_fields st)" "field_ok p c ?i (cs_fields st ! ?i)"
    using inv by (auto simp: choices_inv_def)
  then obtain y where "f (cs_fields st ! ?i) = Inr y" "field_ok p c ?i y" using f by blast
  moreover from this have "choices_inv p c (refresh_helper (st\<lparr>cs_fields := (cs_fields st)[?i := y]\<rparr>))"
    using inv by (intro refresh_inv) (auto simp: choices_inv_def nth_list_update)
  ultimately show ?thesis using i by (auto simp: update_selected_def)
qed

lemma choices_apply_inv:
  assumes "choices_inv p c st"
  shows "\<exists>st'. choices_apply a st = Inr st' \<and> choices_inv p c st'"
proof -
  have move: "choices_inv p c (refresh_helper (st\<lparr>cs_selected := k\<rparr>))" if "k < 4" for k
    by (rule refresh_inv) (use assms that in \<open>auto simp: choices_inv_def\<close>)
  have "length (cs_fields st) = 4" "cs_selected st < 4" using assms by (auto simp: choices_inv_def)
  moreover have "\<exists>st'. update_selected f st = Inr st' \<and> choices_inv p c (refresh_helper st')"
    if "f = field_decrement \<or> f = field_increment" for f
    using that update_selected_inv[OF assms] field_step by blast
  ultimately show ?thesis
    by (cases a) (fastforce simp: choices_apply_def intro: move)+
qed

text \<open>The preview of an application belongs to its configuration.\<close>

definition preview_inv ::
  "(string \<Rightarrow> string option) \<Rightarrow> system_profile \<Rightarrow> compatibility_report \<Rightarrow> passthrough_config \<Rightarrow> preview_state \<Rightarrow> bool" where
  "preview_inv getenv p r c st \<longleftrightarrow>
     (\<exists>ex. pv_result st = pv_result (new_preview ex getenv p r c)) \<and> (pv_confirmed st \<longrightarrow> can_confirm st) \<and>
     (pv_scroll st = 0 \<or> pv_scroll st < step_count st)"

definition app_inv ::
  "(string \<Rightarrow> string option) \<Rightarrow> system_profile \<Rightarrow> compatibility_report \<Rightarrow> passthrough_config \<Rightarrow> app \<Rightarrow> bool" where
  "app_inv getenv p r c a \<longleftrightarrow> app_profile a = p \<and> app_report a = r \<and> choices_inv p c (app_choices a) \<and>
     (app_screen a = Preview \<longrightarrow> app_preview a \<noteq> None) \<and>
     (\<forall>st. app_preview a = Some st \<longrightarrow> app_screen a \<in> {Preview, Exiting} \<and> preview_inv getenv p r (app_config a) st \<and>
        (app_screen a = Exiting \<longrightarrow> pv_confirmed st)) \<and>
     (was_confirmed a \<longrightarrow> app_screen a = Exiting)"

lemma preview_apply_inv:
  assumes "preview_inv getenv p r c st"
  shows "preview_inv getenv p r c (preview_apply act st)"
proof -
  have keep: "pv_result (preview_apply act st) = pv_result st" by (cases act) (simp_all add: preview_apply_def Let_def)
  then have "step_count (preview_apply act st) = step_count st" "can_confirm (preview_apply act st) = can_confirm st"
    by (simp_all add: step_count_def can_confirm_def)
  then show ?thesis using assms keep
    by (cases act) (auto simp: preview_inv_def preview_apply_def Let_def min_def)
qed

lemma preview_apply_confirmed:
  "act \<noteq> Confirm \<Longrightarrow> pv_confirmed (preview_apply act st) = pv_confirmed st"
  by (cases act) (simp_all add: preview_apply_def Let_def)

lemma handle_event_inv:
  assumes inv: "app_inv getenv p r c a" and "app_screen a \<noteq> Exiting"
  shows "\<exists>a'. handle_event ex getenv e a = Inr a' \<and> app_inv getenv p r c a'"
proof -
  have prof: "app_profile a = p" "app_report a = r" "choices_inv p c (app_choices a)" "\<not> was_confirmed a"
    using assms by (auto simp: app_inv_def)
  show ?thesis
  proof (cases e)
    case Quit
    then show ?thesis using inv prof(4) by (auto simp: handle_event_def app_inv_def was_confirmed_def)
  next
    case Continue
    have new: "preview_inv getenv p r d (new_preview ex getenv p r d)" "\<not> pv_confirmed (new_preview ex getenv p r d)" for d
      by (auto simp: preview_inv_def new_preview_def Let_def)
    show ?thesis using Continue inv prof new
      by (cases "app_screen a") (auto simp: handle_event_def app_inv_def enter_preview_def commit_choices_def was_confirmed_def)
  next
    case (ChoiceMove act)
    obtain st' where "choices_apply act (app_choices a) = Inr st'" "choices_inv p c st'"
      using choices_apply_inv[OF prof(3)] by blast
    then show ?thesis using ChoiceMove assms prof
      by (cases act; cases "app_screen a")
        (auto simp: handle_event_def app_inv_def commit_choices_def was_confirmed_def on_preview_def preview_apply_inv
          preview_apply_confirmed split: option.splits)
  next
    case (PreviewMove act)
    then show ?thesis using assms prof
      by (cases "app_screen a")
        (auto simp: handle_event_def app_inv_def was_confirmed_def on_preview_def preview_apply_inv Let_def split: option.splits)
  next
    case Refresh
    then show ?thesis using inv by (simp add: handle_event_def)
  qed
qed

lemma new_app_inv: "app_inv getenv p r c (new_app p r c)"
  by (simp add: app_inv_def new_app_def new_choices_inv was_confirmed_def)

lemma run_inv:
  "app_inv getenv p r c a \<Longrightarrow> \<exists>a'. run_event_loop getenv es a = Inr a' \<and> app_inv getenv p r c a'"
proof (induction es arbitrary: a)
  case (Cons x es)
  obtain ex e where x: "x = (ex, e)" by (cases x)
  have drawn: "\<not> (app_screen a = Preview \<and> app_preview a = None)" using Cons.prems by (auto simp: app_inv_def)
  show ?case
  proof (cases "app_screen a = Exiting \<or> e = None")
    case True
    then show ?thesis using Cons.IH[OF Cons.prems] Cons.prems drawn x by auto
  next
    case False
    then obtain ev where ev: "e = Some ev" "app_screen a \<noteq> Exiting" by auto
    then obtain a' where "handle_event ex getenv ev a = Inr a'" "app_inv getenv p r c a'"
      using handle_event_inv[OF Cons.prems] by blast
    then show ?thesis using Cons.IH drawn x ev by auto
  qed
qed simp

end
