(* ===== verification/Detect_Parse.thy ===== *)
theory Detect_Parse
  imports Vm_Xml "HOL-Library.Product_Lexorder"
begin

text \<open>
  \<open>detect/\<close>: the pure parsers of the scan. They turn the text of files below \<open>/proc\<close>, \<open>/sys\<close> and \<open>/etc\<close> and
  the output of host tools into the data of \<open>Host_Profile\<close>. No parser fails: what it cannot read is left out
  or takes a default.
\<close>

section \<open>String operations\<close>

text \<open>\<open>trim_start_matches\<close> with a pattern, \<open>replace\<close>, \<open>splitn(3, '_')\<close>, \<open>rsplit_once\<close>.\<close>

function trim_start_matches :: "string \<Rightarrow> string \<Rightarrow> string" where
  "trim_start_matches pat s =
     (if pat \<noteq> [] \<and> starts_with pat s then trim_start_matches pat (drop (length pat) s) else s)"
  by pat_completeness auto
termination
  by (relation "measure (\<lambda>(pat, s). length s)") (auto simp: starts_with_iff)

declare trim_start_matches.simps [simp del]

function replace_str :: "string \<Rightarrow> string \<Rightarrow> string \<Rightarrow> string" where
  "replace_str pat rep [] = []"
| "replace_str pat rep (c # cs) =
     (if pat \<noteq> [] \<and> starts_with pat (c # cs) then rep @ replace_str pat rep (drop (length pat) (c # cs))
      else c # replace_str pat rep cs)"
  by pat_completeness auto
termination
  by (relation "measure (\<lambda>(pat, rep, s). length s)") auto

definition rsplit_once :: "char \<Rightarrow> string \<Rightarrow> (string \<times> string) option" where
  "rsplit_once c s = map_option (\<lambda>(a, b). (rev b, rev a)) (split_once c (rev s))"

definition normalize_hex_id :: "string \<Rightarrow> string" where
  "normalize_hex_id v = to_lower (trim_start_matches ''0X'' (trim_start_matches ''0x'' (trim v)))"

text \<open>Fixture names such as \<open>0000_01_00.0\<close>; the same function stands in three modules.\<close>

definition normalize_pci_slot_name :: "string \<Rightarrow> string" where
  "normalize_pci_slot_name name =
     (if CHR '':'' \<in> set name then name
      else (case split_once (CHR ''_'') name of None \<Rightarrow> name
        | Some (domain, rest) \<Rightarrow> (case split_once (CHR ''_'') rest of None \<Rightarrow> name
          | Some (bus, device_function) \<Rightarrow>
              if length domain = 4 \<and> length bus = 2 \<and> length device_function \<ge> 4
              then domain @ '':'' @ bus @ '':'' @ device_function else name)))"

definition looks_like_pci_slot :: "string \<Rightarrow> bool" where
  "looks_like_pci_slot v \<longleftrightarrow> length v \<ge> 12 \<and> v ! 4 = CHR '':'' \<and> v ! 7 = CHR '':'' \<and> CHR ''.'' \<in> set v"

section \<open>CPU\<close>

fun cpuinfo_field :: "string \<Rightarrow> string list \<Rightarrow> string option" where
  "cpuinfo_field field [] = None"
| "cpuinfo_field field (l # ls) =
     (case split_once (CHR '':'') l of
        Some (key, v) \<Rightarrow> if trim key = field then Some (trim v) else cpuinfo_field field ls
      | None \<Rightarrow> cpuinfo_field field ls)"

definition parse_cpuinfo_field :: "string \<Rightarrow> string \<Rightarrow> string option" where
  "parse_cpuinfo_field cpuinfo field = cpuinfo_field field (str_lines cpuinfo)"

definition parse_colon_u32 :: "string \<Rightarrow> u32 option" where
  "parse_colon_u32 s = (case split_char (CHR '':'') s of
     _ # v # _ \<Rightarrow> map_option of_nat (parse_uint (2 ^ 32) (trim v)) | _ \<Rightarrow> None)"

text \<open>A \<open>BTreeMap\<close> from keys to lists, as an association list in the order of the keys.\<close>

fun tree_push :: "'k::linorder \<Rightarrow> 'v \<Rightarrow> ('k \<times> 'v list) list \<Rightarrow> ('k \<times> 'v list) list" where
  "tree_push k v [] = [(k, [v])]"
| "tree_push k v ((k', vs) # t) =
     (if k < k' then (k, [v]) # (k', vs) # t
      else if k = k' then (k', vs @ [v]) # t else (k', vs) # tree_push k v t)"

type_synonym core_map = "((u32 \<times> u32) \<times> u32 list) list"

record cpu_block =
  cb_map :: core_map
  cb_processor :: "u32 option"
  cb_physical_id :: "u32 option"
  cb_core_id :: "u32 option"

definition record_cpu_block :: "core_map \<Rightarrow> u32 option \<Rightarrow> u32 option \<Rightarrow> u32 option \<Rightarrow> core_map" where
  "record_cpu_block m processor physical_id core_id = (case (processor, core_id) of
     (Some q, Some core) \<Rightarrow> tree_push (case physical_id of Some i \<Rightarrow> i | None \<Rightarrow> 0, core) q m | _ \<Rightarrow> m)"

definition finish_block :: "cpu_block \<Rightarrow> cpu_block" where
  "finish_block b = \<lparr>cb_map = record_cpu_block (cb_map b) (cb_processor b) (cb_physical_id b) (cb_core_id b),
     cb_processor = None, cb_physical_id = None, cb_core_id = None\<rparr>"

definition cpuinfo_line :: "cpu_block \<Rightarrow> string \<Rightarrow> cpu_block" where
  "cpuinfo_line b line =
     (if trim line = [] then finish_block b
      else if starts_with ''processor'' line then b\<lparr>cb_processor := parse_colon_u32 (drop 9 line)\<rparr>
      else if starts_with ''physical id'' line then b\<lparr>cb_physical_id := parse_colon_u32 (drop 11 line)\<rparr>
      else if starts_with ''core id'' line then b\<lparr>cb_core_id := parse_colon_u32 (drop 7 line)\<rparr>
      else b)"

definition build_core_thread_map :: "string \<Rightarrow> (u32 \<times> u32 list) list" where
  "build_core_thread_map cpuinfo =
     (let m = cb_map (finish_block (foldl cpuinfo_line
           \<lparr>cb_map = [], cb_processor = None, cb_physical_id = None, cb_core_id = None\<rparr> (str_lines cpuinfo)))
      in if m = [] then
           map (\<lambda>i. (of_nat i, [of_nat i]))
             [0..<length (filter (\<lambda>l. starts_with ''processor'' (trim_start l)) (str_lines cpuinfo))]
         else map (\<lambda>(i, (_, threads)). (of_nat i, sort threads)) (List.enumerate 0 m))"

definition parse_cpuinfo :: "string \<Rightarrow> bool \<Rightarrow> numa_node list \<Rightarrow> cpu_info" where
  "parse_cpuinfo cpuinfo enabled nodes =
     (let field = parse_cpuinfo_field cpuinfo; or_default = (\<lambda>d v. case v of Some x \<Rightarrow> x | None \<Rightarrow> d);
          flags = or_default [] (or_else (field ''flags'') (field ''Features''));
          cores = build_core_thread_map cpuinfo
      in \<lparr>cpu_vendor = or_default ''unknown'' (or_else (field ''vendor_id'') (field ''CPU implementer'')),
          cpu_model_name = or_default ''Unknown CPU''
            (or_else (field ''model name'') (or_else (field ''Hardware'') (field ''Processor''))),
          physical_cores = of_nat (length cores),
          logical_cores = sum_list (map (\<lambda>(_, ts). of_nat (length ts)) cores),
          numa_nodes = nodes,
          iommu_capable = list_ex (\<lambda>f. f = ''vmx'' \<or> f = ''svm'') (split_ws flags),
          iommu_enabled = enabled,
          has_hyperthreading = list_ex (\<lambda>(_, ts). length ts > 1) cores,
          core_to_threads = cores\<rparr>)"

definition parse_cpu_list_part :: "string \<Rightarrow> u32 list" where
  "parse_cpu_list_part part =
     (if CHR ''-'' \<in> set part then
        (case split_char (CHR ''-'') part of
           a # b # _ \<Rightarrow> (case (parse_uint (2 ^ 32) (trim a), parse_uint (2 ^ 32) (trim b)) of
             (Some m, Some n) \<Rightarrow> map of_nat [m..<Suc n] | _ \<Rightarrow> [])
         | _ \<Rightarrow> [])
      else (case parse_uint (2 ^ 32) (trim part) of Some n \<Rightarrow> [of_nat n] | None \<Rightarrow> []))"

definition parse_cpu_list :: "string \<Rightarrow> u32 list" where
  "parse_cpu_list s = concat (map parse_cpu_list_part (split_char (CHR '','') (trim s)))"

text \<open>The last field but one of the first line with a number there.\<close>

fun node_memory_lines :: "string list \<Rightarrow> u64" where
  "node_memory_lines [] = 0"
| "node_memory_lines (l # ls) =
     (if contains_str ''MemTotal'' l then
        (case rev (split_ws l) of
           _ # kb # _ \<Rightarrow> (case parse_uint (2 ^ 64) kb of Some n \<Rightarrow> of_nat n div 1024 | None \<Rightarrow> node_memory_lines ls)
         | _ \<Rightarrow> node_memory_lines ls)
      else node_memory_lines ls)"

definition parse_node_memory_mb :: "string \<Rightarrow> u64" where
  "parse_node_memory_mb meminfo = node_memory_lines (str_lines meminfo)"

section \<open>Memory and storage\<close>

definition parse_or :: "u64 \<Rightarrow> string \<Rightarrow> u64" where
  "parse_or d s = (case parse_uint (2 ^ 64) s of Some n \<Rightarrow> of_nat n | None \<Rightarrow> d)"

definition meminfo_line :: "mem_info \<Rightarrow> string \<Rightarrow> mem_info" where
  "meminfo_line m line = (case split_ws line of
     key # v # _ \<Rightarrow>
       if key = ''MemTotal:'' then m\<lparr>total_kb := parse_or 0 v\<rparr>
       else if key = ''MemAvailable:'' then m\<lparr>available_kb := parse_or 0 v\<rparr>
       else if key = ''Hugepagesize:'' then m\<lparr>hugepage_size_kb := parse_or 2048 v\<rparr>
       else if key = ''HugePages_Total:'' then m\<lparr>hugepages_total := parse_or 0 v\<rparr>
       else if key = ''HugePages_Free:'' then m\<lparr>hugepages_free := parse_or 0 v\<rparr>
       else m
   | _ \<Rightarrow> m)"

definition parse_meminfo :: "string \<Rightarrow> mem_info" where
  "parse_meminfo content = foldl meminfo_line
     \<lparr>total_kb = 0, available_kb = 0, hugepage_size_kb = 2048, hugepages_total = 0, hugepages_free = 0\<rparr>
     (str_lines content)"

definition parse_df_available_bytes :: "string \<Rightarrow> u64" where
  "parse_df_available_bytes stdout =
     (case List.map_filter (\<lambda>l. parse_uint (2 ^ 64) (trim l)) (drop 1 (str_lines stdout)) of
        n # _ \<Rightarrow> of_nat n | [] \<Rightarrow> 0)"

section \<open>Distribution\<close>

definition unquote_os_release_value :: "string \<Rightarrow> string" where
  "unquote_os_release_value v =
     (if length v \<ge> 2 \<and> (hd v = DQ \<and> last v = DQ \<or> hd v = SQ \<and> last v = SQ)
      then butlast (tl v) else v)"

definition os_release_line :: "(string \<Rightarrow> string option) \<Rightarrow> string \<Rightarrow> string \<Rightarrow> string option" where
  "os_release_line m raw =
     (let line = trim raw in
      if line = [] \<or> starts_with ''#'' line then m
      else (case split_once (CHR ''='') line of None \<Rightarrow> m
        | Some (key, v) \<Rightarrow> m(trim key \<mapsto> unquote_os_release_value (trim v))))"

definition parse_os_release :: "string \<Rightarrow> string \<Rightarrow> string option" where
  "parse_os_release content = foldl os_release_line Map.empty (str_lines content)"

definition family_of_id :: "string \<Rightarrow> distro_family option" where
  "family_of_id i =
     (if i \<in> {''arch'', ''endeavouros'', ''manjaro'', ''garuda'', ''artix''} then Some ArchFamily
      else if i \<in> {''ubuntu'', ''linuxmint'', ''pop'', ''elementary'', ''zorin''} then Some UbuntuFamily
      else if i = ''debian'' then Some DebianFamily
      else if i = ''fedora'' then Some FedoraFamily
      else if i \<in> {''rhel'', ''centos'', ''almalinux'', ''rocky''} then Some RhelFamily
      else if i \<in> {''opensuse'', ''opensuse-leap'', ''opensuse-tumbleweed'', ''sled'', ''sles''} then Some OpenSuseFamily
      else if i = ''gentoo'' then Some GentooFamily
      else if starts_with ''opensuse-'' i then Some OpenSuseFamily
      else None)"

definition classify_family :: "string \<Rightarrow> string list \<Rightarrow> distro_family" where
  "classify_family i id_like = (case List.map_filter family_of_id (i # id_like) of
     f # _ \<Rightarrow> f | [] \<Rightarrow> UnknownFamily)"

definition detect_package_manager :: "distro_family \<Rightarrow> package_manager" where
  "detect_package_manager f = (case f of ArchFamily \<Rightarrow> Pacman | UbuntuFamily \<Rightarrow> Apt | DebianFamily \<Rightarrow> Apt
     | FedoraFamily \<Rightarrow> Dnf | RhelFamily \<Rightarrow> Dnf | OpenSuseFamily \<Rightarrow> Zypper | GentooFamily \<Rightarrow> Portage
     | UnknownFamily \<Rightarrow> UnknownManager)"

definition parse_distro_info :: "string \<Rightarrow> distro_info" where
  "parse_distro_info content =
     (let fields = parse_os_release content;
          i = (case fields ''ID'' of Some v \<Rightarrow> v | None \<Rightarrow> ''unknown'');
          id_like = (case fields ''ID_LIKE'' of Some v \<Rightarrow> split_ws v | None \<Rightarrow> []);
          family = classify_family i id_like
      in \<lparr>distro_id = i, distro_id_like = id_like,
          distro_pretty_name = (case fields ''PRETTY_NAME'' of Some v \<Rightarrow> v | None \<Rightarrow> i),
          distro_version_id = (case fields ''VERSION_ID'' of Some v \<Rightarrow> v | None \<Rightarrow> []),
          distro_family = family, package_manager = detect_package_manager family\<rparr>)"

section \<open>Software\<close>

fun loader_default :: "string list \<Rightarrow> string option" where
  "loader_default [] = None"
| "loader_default (raw # ls) =
     (let line = trim raw in
      if line = [] \<or> starts_with ''#'' line then loader_default ls
      else (case split_ws line of
          w # ws \<Rightarrow> if w = ''default'' then (case ws of v # _ \<Rightarrow> Some v | [] \<Rightarrow> None) else loader_default ls
        | [] \<Rightarrow> loader_default ls))"

definition parse_systemd_boot_default :: "string \<Rightarrow> string option" where
  "parse_systemd_boot_default loader_conf = loader_default (str_lines loader_conf)"

definition parse_display_manager_service :: "string \<Rightarrow> display_manager" where
  "parse_display_manager_service text =
     (let service = to_lower text in
      if contains_str ''gdm'' service then Gdm
      else if contains_str ''sddm'' service then Sddm
      else if contains_str ''lightdm'' service then LightDm
      else if contains_str ''greetd'' service then Greetd
      else if contains_str ''ly.service'' service \<or> trim service = ''ly'' then Ly
      else if contains_str ''lxdm'' service then Lxdm
      else UnknownDm)"

definition parse_pactl_info :: "string \<Rightarrow> audio_system" where
  "parse_pactl_info info =
     (let lower = to_lower info in
      if contains_str ''pipewire'' lower then PipeWire
      else if contains_str ''pulseaudio'' lower \<or> contains_str ''pulse audio'' lower then PulseAudio
      else if contains_str ''jack'' lower then Jack
      else UnknownAudio)"

definition parse_kernel_cmdline :: "string \<Rightarrow> string list" where
  "parse_kernel_cmdline cmdline = split_ws cmdline"

definition parse_loaded_modules :: "string \<Rightarrow> string list" where
  "parse_loaded_modules modules =
     remdups_adj (sort (List.map_filter (\<lambda>l. case split_ws l of w # _ \<Rightarrow> Some w | [] \<Rightarrow> None) (str_lines modules)))"

text \<open>\<open>from_utf8\<close> rejects bytes that are not UTF-8; the variable of the firmware has four attribute
  bytes before its value.\<close>

definition parse_secure_boot_state :: "string \<Rightarrow> bool" where
  "parse_secure_boot_state bytes =
     (if valid_utf8 bytes \<and> trim bytes = ''1'' then True
      else if valid_utf8 bytes \<and> trim bytes = ''0'' then False
      else if bytes = [CHR 0x01] \<or> bytes = ''1'' then True
      else if bytes = [CHR 0x00] \<or> bytes = ''0'' then False
      else length bytes \<ge> 5 \<and> bytes ! 4 = CHR 0x01)"

definition parse_user_access :: "string option \<Rightarrow> string \<Rightarrow> user_access_info" where
  "parse_user_access username groups =
     (let gs = remdups_adj (sort (split_ws groups)) in
      \<lparr>access_username = username, access_groups = gs, in_libvirt_group = list_ex (\<lambda>g. g = ''libvirt'') gs,
       in_kvm_group = list_ex (\<lambda>g. g = ''kvm'') gs\<rparr>)"

definition virsh_line :: "string \<Rightarrow> libvirt_domain_info option" where
  "virsh_line raw =
     (let line = trim raw; parts = split_ws line in
      if line = [] then None
      else if take 2 parts = [''Id'', ''Name''] then None
      else if starts_with ''---'' line then None
      else (case parts of
          i # name # st \<Rightarrow> if st = [] then None
            else Some \<lparr>domain_id = (if i \<noteq> ''-'' then Some i else None), domain_name = name,
                       domain_state = str_join [SP] st\<rparr>
        | _ \<Rightarrow> None))"

definition parse_virsh_list_all :: "string \<Rightarrow> libvirt_domain_info list" where
  "parse_virsh_list_all output' = List.map_filter virsh_line (str_lines output')"

section \<open>Devices\<close>

definition is_gpu_class :: "string \<Rightarrow> bool" where
  "is_gpu_class class \<longleftrightarrow> starts_with ''0x03'' (to_lower (trim class))"

text \<open>\<open>u8::from_str_radix(s, 16)\<close>.\<close>

definition parse_hex8 :: "string \<Rightarrow> nat option" where
  "parse_hex8 s =
     (let ds = (case s of c # cs \<Rightarrow> if c = CHR ''+'' then cs else s | [] \<Rightarrow> s)
      in if ds = [] then None
         else (case hex_value 0 ds of None \<Rightarrow> None | Some n \<Rightarrow> if n < 2 ^ 8 then Some n else None))"

definition determine_gpu_type :: "gpu_vendor \<Rightarrow> string \<Rightarrow> gpu_type" where
  "determine_gpu_type vendor slot = (case vendor of
     Intel \<Rightarrow> Integrated
   | Amd \<Rightarrow> (case split_char (CHR '':'') slot of
       _ # bus # _ \<Rightarrow> (case parse_hex8 bus of
         Some n \<Rightarrow> if n = 0 \<or> n = 6 then Integrated else Discrete | None \<Rightarrow> UnknownGpuType)
     | _ \<Rightarrow> UnknownGpuType)
   | Nvidia \<Rightarrow> Discrete
   | UnknownVendor _ \<Rightarrow> UnknownGpuType)"

definition parse_connector_entry_name :: "string \<Rightarrow> (string \<times> string) option" where
  "parse_connector_entry_name name = (case split_once (CHR ''-'') name of
     Some (c, connector) \<Rightarrow>
       if starts_with ''card'' c \<and> connector \<noteq> [] then Some (c, connector) else None
   | None \<Rightarrow> None)"

definition classify_input_device :: "string \<Rightarrow> usb_device_class" where
  "classify_input_device name =
     (let lower = to_lower name in
      if ends_with ''-event-kbd'' lower \<or> contains_str ''keyboard'' lower then Keyboard
      else if ends_with ''-event-mouse'' lower \<or> contains_str ''mouse'' lower then Mouse
      else if ends_with ''-event-joystick'' lower \<or> contains_str ''gamepad'' lower
        \<or> contains_str ''controller'' lower then Gamepad
      else if contains_str ''hub'' lower then UsbHub
      else OtherUsb)"

definition friendly_input_name :: "string \<Rightarrow> string" where
  "friendly_input_name name =
     replace_str ''_'' [SP] (replace_str ''-if01'' [] (replace_str ''-if00'' []
       (replace_str ''-event-joystick'' [] (replace_str ''-event-mouse'' [] (replace_str ''-event-kbd'' []
         (trim_start_matches ''hid-'' (trim_start_matches ''usb-'' name)))))))"

definition device_class_order :: "usb_device_class \<Rightarrow> nat" where
  "device_class_order c = (case c of Keyboard \<Rightarrow> 0 | Mouse \<Rightarrow> 1 | Gamepad \<Rightarrow> 2 | UsbHub \<Rightarrow> 3 | OtherUsb \<Rightarrow> 4)"

end
