(* ===== verification/Detect_Scan.thy ===== *)
theory Detect_Scan
  imports Detect_Parse File_System "HOL-Library.List_Lexorder" "HOL-Library.Char_ord"
begin

text \<open>
  \<open>detect/\<close>: the scan of the host. A \<open>host_view\<close> is what the scan can observe at one moment: files,
  directories in the order the system lists them, links, programs and their output. The modules only
  read, so the concurrent \<open>join!\<close> of \<open>scan_system\<close> is a tuple here.
\<close>

record host_view =
  hv_bytes :: "path \<Rightarrow> string option"
  hv_exists :: "path \<Rightarrow> bool"
  hv_dir :: "path \<Rightarrow> io_error + string list \<times> io_error option"
  hv_link :: "path \<Rightarrow> path option"
  hv_which :: "string \<Rightarrow> bool"
  hv_run :: "string list \<Rightarrow> (int option \<times> string) option"
  hv_env :: "string \<Rightarrow> string option"
  hv_uid :: nat

text \<open>\<open>read_to_string\<close>; the names of a directory up to the first error, and with that error.\<close>

definition hv_text :: "host_view \<Rightarrow> path \<Rightarrow> string option" where
  "hv_text v q = Option.bind (hv_bytes v q) from_utf8"

definition text_or_empty :: "host_view \<Rightarrow> path \<Rightarrow> string" where
  "text_or_empty v q = (case hv_text v q of Some t \<Rightarrow> t | None \<Rightarrow> [])"

definition names_seen :: "host_view \<Rightarrow> path \<Rightarrow> string list" where
  "names_seen v q = (case hv_dir v q of Inl _ \<Rightarrow> [] | Inr (ns, _) \<Rightarrow> ns)"

definition names_or_error :: "host_view \<Rightarrow> path \<Rightarrow> string + string list" where
  "names_or_error v q = (case hv_dir v q of
     Inl e \<Rightarrow> Inl (io_message e) | Inr (ns, None) \<Rightarrow> Inr ns | Inr (_, Some e) \<Rightarrow> Inl (io_message e))"

definition rooted :: "path \<Rightarrow> string \<Rightarrow> path" where
  "rooted root s = path_push root (dropWhile (\<lambda>c. c = CHR ''/'') s)"

definition root_dir :: path where "root_dir = path_of ''/''"

section \<open>CPU, memory, storage\<close>

definition check_iommu_active_in_kernel :: "host_view \<Rightarrow> bool" where
  "check_iommu_active_in_kernel v \<longleftrightarrow> names_seen v (path_of ''/sys/kernel/iommu_groups'') \<noteq> []"

definition numa_node_of :: "host_view \<Rightarrow> path \<Rightarrow> string \<Rightarrow> numa_node option" where
  "numa_node_of v dir raw =
     (let name = from_utf8_lossy raw in
      if \<not> starts_with ''node'' name then None
      else (case parse_uint (2 ^ 32) (drop 4 name) of None \<Rightarrow> None
        | Some n \<Rightarrow> Some \<lparr>numa_id = of_nat n,
            numa_cpu_list = parse_cpu_list (text_or_empty v (path_push (path_push dir raw) ''cpulist'')),
            numa_memory_mb = parse_node_memory_mb (text_or_empty v (path_push (path_push dir raw) ''meminfo''))\<rparr>))"

definition detect_numa_nodes :: "host_view \<Rightarrow> numa_node list" where
  "detect_numa_nodes v =
     (let dir = path_of ''/sys/devices/system/node''
      in sort_key numa_id (List.map_filter (numa_node_of v dir) (names_seen v dir)))"

definition detect_cpu :: "host_view \<Rightarrow> string + cpu_info" where
  "detect_cpu v = (case hv_text v (path_of ''/proc/cpuinfo'') of
     None \<Rightarrow> Inl ''Cannot read /proc/cpuinfo''
   | Some t \<Rightarrow> Inr (parse_cpuinfo t (check_iommu_active_in_kernel v) (detect_numa_nodes v)))"

definition detect_memory :: "host_view \<Rightarrow> string + mem_info" where
  "detect_memory v = (case hv_text v (path_of ''/proc/meminfo'') of
     None \<Rightarrow> Inl ''Cannot read /proc/meminfo''
   | Some t \<Rightarrow> (let m = parse_meminfo t in
       Inr (if list_ex (\<lambda>n. contains_str ''1048576'' (from_utf8_lossy n))
              (names_seen v (path_of ''/sys/kernel/mm/hugepages''))
            then m\<lparr>hugepage_size_kb := 1048576\<rparr> else m)))"

definition get_available_bytes :: "host_view \<Rightarrow> path \<Rightarrow> u64 option" where
  "get_available_bytes v q =
     (let dir = (if hv_exists v q then q else path_of ''/var/lib'');
          arg = (if valid_utf8 (path_display dir) then path_display dir else ''/'')
      in map_option (\<lambda>(_, out). parse_df_available_bytes (from_utf8_lossy out))
           (hv_run v [''df'', ''-B1'', ''--output=avail'', arg]))"

definition detect_storage :: "host_view \<Rightarrow> path \<Rightarrow> bool \<Rightarrow> storage_info" where
  "detect_storage v root allow_df =
     (let dir = rooted root ''/var/lib/libvirt/images'' in
      \<lparr>default_vm_dir = dir,
       available_bytes = (case hv_text v (path_push dir ''.available-bytes'') of
         Some t \<Rightarrow> parse_or 0 (trim t)
       | None \<Rightarrow> if allow_df then (case get_available_bytes v dir of Some n \<Rightarrow> n | None \<Rightarrow> 0) else 0)\<rparr>)"

section \<open>IOMMU groups\<close>

definition resolve_iommu_device_path :: "host_view \<Rightarrow> path \<Rightarrow> path \<Rightarrow> string \<Rightarrow> path" where
  "resolve_iommu_device_path v sysfs entry slot =
     (let fallback = path_push (path_push sysfs ''bus/pci/devices'') slot in
      if hv_exists v (path_push entry ''class'') then entry
      else (case hv_link v entry of None \<Rightarrow> fallback
        | Some target \<Rightarrow>
            if is_absolute target then
              (if take 1 (components target) = [''sys'']
               then path_join sysfs (Path False (drop 1 (components target))) else target)
            else
              (let parent = (case path_parent entry of Some q \<Rightarrow> q | None \<Rightarrow> entry);
                   joined = path_join parent target
               in if hv_exists v (path_push joined ''class'') then joined else fallback)))"

definition read_group_device :: "host_view \<Rightarrow> path \<Rightarrow> path \<Rightarrow> string \<Rightarrow> iommu_device" where
  "read_group_device v sysfs devices raw =
     (let slot = normalize_pci_slot_name (from_utf8_lossy raw);
          dev = resolve_iommu_device_path v sysfs (path_push devices raw) slot;
          class = to_lower (trim (text_or_empty v (path_push dev ''class'')))
      in \<lparr>dev_pci_slot = slot, dev_class = class,
          dev_vendor_id = normalize_hex_id (text_or_empty v (path_push dev ''vendor'')),
          dev_device_id = normalize_hex_id (text_or_empty v (path_push dev ''device'')),
          dev_is_bridge = is_bridge_class class\<rparr>)"

definition read_group_devices :: "host_view \<Rightarrow> path \<Rightarrow> path \<Rightarrow> iommu_device list" where
  "read_group_devices v sysfs devices =
     sort_key dev_pci_slot (map (read_group_device v sysfs devices) (names_seen v devices))"

definition read_group :: "host_view \<Rightarrow> path \<Rightarrow> path \<Rightarrow> string \<Rightarrow> iommu_group option" where
  "read_group v sysfs groups raw =
     (case parse_uint (2 ^ 32) (from_utf8_lossy raw) of None \<Rightarrow> None
      | Some n \<Rightarrow> (let dir = path_push (path_push groups raw) ''devices'' in
          if \<not> hv_exists v dir then None
          else (let devices = read_group_devices v sysfs dir in
            Some \<lparr>group_id = of_nat n, group_devices = devices, is_isolated_for_gpu = check_gpu_isolation devices\<rparr>)))"

definition detect_groups :: "host_view \<Rightarrow> path \<Rightarrow> string + iommu_group list" where
  "detect_groups v sysfs =
     (let groups = path_push sysfs ''kernel/iommu_groups'' in
      if \<not> hv_exists v groups then Inr []
      else res_then (names_or_error v groups) (\<lambda>ns.
        Inr (sort_key group_id (List.map_filter (read_group v sysfs groups) ns))))"

section \<open>Graphics cards\<close>

definition detect_model_name :: "host_view \<Rightarrow> path \<Rightarrow> gpu_vendor \<Rightarrow> string \<Rightarrow> string \<Rightarrow> string" where
  "detect_model_name v dev vendor vid did =
     (let generic = (case vendor of Nvidia \<Rightarrow> ''NVIDIA'' | Amd \<Rightarrow> ''AMD'' | Intel \<Rightarrow> ''Intel''
             | UnknownVendor s \<Rightarrow> s) @ '' GPU ['' @ vid @ '':'' @ did @ '']''
      in case hv_text v (path_push dev ''label'') of
           Some t \<Rightarrow> if trim t \<noteq> [] then trim t else generic | None \<Rightarrow> generic)"

definition nonempty :: "string \<Rightarrow> string option" where
  "nonempty s = (if s = [] then None else Some s)"

definition detect_driver :: "host_view \<Rightarrow> path \<Rightarrow> string option" where
  "detect_driver v dev =
     (let driver_link = path_push dev ''driver'' in
      case Option.bind (hv_text v (path_push dev ''driver_name'')) (\<lambda>t. nonempty (trim t)) of
        Some d \<Rightarrow> Some d
      | None \<Rightarrow>
          if \<not> hv_exists v driver_link then None
          else (case hv_link v driver_link of
              Some target \<Rightarrow> map_option from_utf8_lossy (path_file_name target)
            | None \<Rightarrow> Option.bind (hv_text v driver_link) (\<lambda>t. nonempty (trim t))))"

definition pci_device_path :: "host_view \<Rightarrow> path \<Rightarrow> string \<Rightarrow> path" where
  "pci_device_path v sysfs slot =
     (let devices = path_push sysfs ''bus/pci/devices''; native = path_push devices slot
      in if hv_exists v native then native else path_push devices (replace_str '':'' ''_'' slot))"

definition audio_class :: "string \<Rightarrow> bool" where
  "audio_class c \<longleftrightarrow> starts_with ''0x0401'' c \<or> starts_with ''0x0403'' c"

definition companion_at :: "host_view \<Rightarrow> path \<Rightarrow> string \<Rightarrow> companion_device option" where
  "companion_at v sysfs slot =
     (let dev = pci_device_path v sysfs slot in
      if \<not> hv_exists v dev then None
      else (case hv_text v (path_push dev ''class'') of None \<Rightarrow> None
        | Some raw \<Rightarrow> (let class = to_lower (trim raw) in
            if \<not> audio_class class then None
            else Some \<lparr>comp_pci_slot = slot,
              comp_vendor_id = normalize_hex_id (text_or_empty v (path_push dev ''vendor'')),
              comp_device_id = normalize_hex_id (text_or_empty v (path_push dev ''device'')),
              comp_class = class, comp_current_driver = detect_driver v dev\<rparr>)))"

definition detect_companion_audio :: "host_view \<Rightarrow> path \<Rightarrow> string \<Rightarrow> companion_device option" where
  "detect_companion_audio v sysfs slot =
     (case rsplit_once (CHR ''.'') slot of None \<Rightarrow> None
      | Some (base, _) \<Rightarrow>
          (case List.map_filter (\<lambda>n. companion_at v sysfs (base @ ''.'' @ show_nat n)) [1..<8] of
             c # _ \<Rightarrow> Some c | [] \<Rightarrow> None))"

definition parse_gpu_device :: "host_view \<Rightarrow> path \<Rightarrow> string \<Rightarrow> path \<Rightarrow> gpu_info option" where
  "parse_gpu_device v sysfs slot dev =
     (case (hv_text v (path_push dev ''vendor''), hv_text v (path_push dev ''device'')) of
        (Some raw_vendor, Some raw_device) \<Rightarrow>
          (let vid = normalize_hex_id raw_vendor; did = normalize_hex_id raw_device;
               vendor = vendor_id_to_vendor vid
           in Some \<lparr>gpu_pci_slot = slot, gpu_vendor = vendor, gpu_type = determine_gpu_type vendor slot,
                gpu_model_name = detect_model_name v dev vendor vid did, gpu_vendor_id = vid, gpu_device_id = did,
                subsystem_vendor_id = normalize_hex_id (text_or_empty v (path_push dev ''subsystem_vendor'')),
                subsystem_device_id = normalize_hex_id (text_or_empty v (path_push dev ''subsystem_device'')),
                gpu_current_driver = detect_driver v dev, iommu_group_id = None, iommu_isolated = False,
                rom_accessible = hv_exists v (path_push dev ''rom''),
                companion_audio = detect_companion_audio v sysfs slot,
                is_boot_vga = (case hv_text v (path_push dev ''boot_vga'') of Some t \<Rightarrow> trim t = ''1'' | None \<Rightarrow> False),
                vfio_compatible = False, gpu_quirks = []\<rparr>)
      | _ \<Rightarrow> None)"

definition gpu_entry :: "host_view \<Rightarrow> path \<Rightarrow> path \<Rightarrow> string \<Rightarrow> gpu_info option" where
  "gpu_entry v sysfs devices raw =
     (let slot = normalize_pci_slot_name (from_utf8_lossy raw); dev = path_push devices raw in
      case hv_text v (path_push dev ''class'') of None \<Rightarrow> None
      | Some class \<Rightarrow> if is_gpu_class class then parse_gpu_device v sysfs slot dev else None)"

definition detect_gpus :: "host_view \<Rightarrow> path \<Rightarrow> string + gpu_info list" where
  "detect_gpus v sysfs =
     (let devices = path_push sysfs ''bus/pci/devices'' in
      case hv_dir v devices of
        Inl _ \<Rightarrow> Inl (''Cannot read PCI device directory '' @ path_display devices)
      | Inr _ \<Rightarrow> res_then (names_or_error v devices) (\<lambda>ns.
          Inr (sort_key gpu_pci_slot (List.map_filter (gpu_entry v sysfs devices) ns))))"

section \<open>Monitors and input devices\<close>

definition detect_card_pci_slot :: "host_view \<Rightarrow> path \<Rightarrow> string \<Rightarrow> string option" where
  "detect_card_pci_slot v drm c =
     (let dev = path_push (path_push drm c) ''device'';
          checked = (\<lambda>s. let slot = normalize_pci_slot_name s in if looks_like_pci_slot slot then Some slot else None)
      in case Option.bind (hv_text v dev) (\<lambda>t. checked (trim t)) of
           Some slot \<Rightarrow> Some slot
         | None \<Rightarrow> Option.bind (hv_link v dev) (\<lambda>target.
             Option.bind (path_file_name target) (\<lambda>n. checked (from_utf8_lossy n))))"

definition monitor_entry :: "host_view \<Rightarrow> path \<Rightarrow> string \<Rightarrow> monitor_info option" where
  "monitor_entry v drm raw =
     (case parse_connector_entry_name (from_utf8_lossy raw) of None \<Rightarrow> None
      | Some (c, connector) \<Rightarrow> Some
          \<lparr>connector_name = connector,
           monitor_connected = (trim (text_or_empty v (path_push (path_push drm raw) ''status'')) = ''connected''),
           current_mode = Option.bind (hv_text v (path_push (path_push drm raw) ''modes''))
             (\<lambda>t. case str_lines t of m # _ \<Rightarrow> Some m | [] \<Rightarrow> None),
           monitor_card = c, monitor_gpu_pci_slot = detect_card_pci_slot v drm c,
           monitor_is_internal = (starts_with ''eDP'' connector \<or> starts_with ''LVDS'' connector)\<rparr>)"

definition monitor_key :: "monitor_info \<Rightarrow> bool \<times> bool \<times> string \<times> string" where
  "monitor_key m = (\<not> monitor_connected m, monitor_is_internal m, monitor_card m, connector_name m)"

definition detect_monitors :: "host_view \<Rightarrow> path \<Rightarrow> string + monitor_info list" where
  "detect_monitors v drm =
     (if \<not> hv_exists v drm then Inr []
      else res_then (names_or_error v drm) (\<lambda>ns.
        Inr (sort_key monitor_key (List.map_filter (monitor_entry v drm) ns))))"

definition resolve_event_name :: "host_view \<Rightarrow> path \<Rightarrow> string option" where
  "resolve_event_name v entry =
     (case hv_link v entry of
        Some target \<Rightarrow> map_option from_utf8_lossy (path_file_name target)
      | None \<Rightarrow> Option.bind (hv_text v entry) (\<lambda>t.
          Option.bind (nonempty (trim t)) (\<lambda>n. path_file_name (path_of n))))"

definition extract_usb_ids :: "host_view \<Rightarrow> path \<Rightarrow> path \<Rightarrow> string \<times> string" where
  "extract_usb_ids v root entry =
     (case resolve_event_name v entry of None \<Rightarrow> (''0000'', ''0000'')
      | Some event \<Rightarrow>
          (let ids = rooted root (''/sys/class/input/'' @ event @ ''/device/id'');
               id_of = (\<lambda>f. case Option.bind (hv_text v (path_push ids f)) (\<lambda>t. nonempty (trim t)) of
                  Some t \<Rightarrow> t | None \<Rightarrow> ''0000'')
           in (normalize_hex_id (id_of ''vendor''), normalize_hex_id (id_of ''product''))))"

definition input_entry :: "host_view \<Rightarrow> path \<Rightarrow> path \<Rightarrow> string \<Rightarrow> usb_device option" where
  "input_entry v root dir raw =
     (let name = from_utf8_lossy raw; class = classify_input_device name in
      if class \<notin> {Keyboard, Mouse, Gamepad} then None
      else (let ids = extract_usb_ids v root (path_push dir raw) in
        Some \<lparr>usb_name = friendly_input_name name, usb_evdev_path = Some (path_push dir raw),
              usb_vendor_id = fst ids, usb_product_id = snd ids, usb_device_class = class, usb_bus_path = None\<rparr>))"

definition detect_input_devices :: "host_view \<Rightarrow> path \<Rightarrow> string + usb_device list" where
  "detect_input_devices v root =
     (let dir = rooted root ''/dev/input/by-id'' in
      if \<not> hv_exists v dir then Inr []
      else res_then (names_or_error v dir) (\<lambda>ns.
        Inr (sort_key (\<lambda>d. (device_class_order (usb_device_class d), usb_name d))
          (List.map_filter (input_entry v root dir) ns))))"

section \<open>Bootloader and initramfs\<close>

definition grub_update_command :: "host_view \<Rightarrow> path \<Rightarrow> bool \<Rightarrow> string" where
  "grub_update_command v root lookup =
     (if hv_exists v (rooted root ''/boot/grub2/grub.cfg'') then ''grub2-mkconfig -o /boot/grub2/grub.cfg''
      else if lookup \<and> hv_which v ''update-grub'' then ''update-grub''
      else if lookup \<and> hv_which v ''grub2-mkconfig'' then ''grub2-mkconfig -o /boot/grub2/grub.cfg''
      else ''grub-mkconfig -o /boot/grub/grub.cfg'')"

definition plain_bootloader :: "bootloader_kind \<Rightarrow> path option \<Rightarrow> bool \<Rightarrow> bootloader_info" where
  "plain_bootloader kind config uefi = \<lparr>bootloader_kind = kind, bootloader_config_path = config,
     entry_paths = [], active_entry = None, update_command = None, is_uefi = uefi\<rparr>"

definition detect_grub2 :: "host_view \<Rightarrow> path \<Rightarrow> bool \<Rightarrow> bool \<Rightarrow> bootloader_info option" where
  "detect_grub2 v root uefi lookup =
     (let config = rooted root ''/etc/default/grub'' in
      if \<not> hv_exists v config then None
      else Some ((plain_bootloader Grub2 (Some config) uefi)\<lparr>update_command := Some (grub_update_command v root lookup)\<rparr>))"

definition first_existing :: "host_view \<Rightarrow> path \<Rightarrow> string list \<Rightarrow> path option" where
  "first_existing v root candidates = List.find (hv_exists v) (map (rooted root) candidates)"

definition loader_confs :: "string list" where
  "loader_confs = [''/boot/loader/loader.conf'', ''/efi/loader/loader.conf'', ''/boot/efi/loader/loader.conf'']"

text \<open>The order of paths is that of their components.\<close>

definition path_order :: "path \<Rightarrow> bool \<times> string list" where
  "path_order q = (is_absolute q, components q)"

definition detect_systemd_boot :: "host_view \<Rightarrow> path \<Rightarrow> bool \<Rightarrow> bootloader_info option" where
  "detect_systemd_boot v root uefi =
     (if \<not> uefi then None
      else Option.bind (first_existing v root loader_confs) (\<lambda>conf.
        Option.bind (path_parent conf) (\<lambda>dir.
          let entries_dir = path_push dir ''entries'' in
          Some \<lparr>bootloader_kind = SystemdBoot, bootloader_config_path = Some conf,
            entry_paths = sort_key path_order
              (filter (\<lambda>q. map_option from_utf8_lossy (path_extension q) = Some ''conf'')
                (map (path_push entries_dir) (names_seen v entries_dir))),
            active_entry = Option.bind (hv_text v conf) parse_systemd_boot_default,
            update_command = None, is_uefi = uefi\<rparr>)))"

definition detect_refind :: "host_view \<Rightarrow> path \<Rightarrow> bool \<Rightarrow> bootloader_info option" where
  "detect_refind v root uefi =
     (if \<not> uefi then None
      else map_option (\<lambda>q. plain_bootloader Refind (Some q) uefi)
        (first_existing v root [''/boot/EFI/refind/refind.conf'', ''/boot/efi/EFI/refind/refind.conf'',
           ''/efi/EFI/refind/refind.conf'']))"

definition detect_syslinux :: "host_view \<Rightarrow> path \<Rightarrow> bool \<Rightarrow> bootloader_info option" where
  "detect_syslinux v root uefi =
     map_option (\<lambda>q. plain_bootloader Syslinux (Some q) uefi)
       (first_existing v root [''/boot/syslinux/syslinux.cfg'', ''/boot/extlinux/extlinux.conf'',
          ''/syslinux/syslinux.cfg''])"

definition detect_bootloader_from_root :: "host_view \<Rightarrow> path \<Rightarrow> bool \<Rightarrow> bool \<Rightarrow> bootloader_info" where
  "detect_bootloader_from_root v root uefi lookup =
     (case detect_grub2 v root uefi lookup of Some i \<Rightarrow> i
      | None \<Rightarrow> (case detect_systemd_boot v root uefi of Some i \<Rightarrow> i
        | None \<Rightarrow> (case detect_refind v root uefi of Some i \<Rightarrow> i
          | None \<Rightarrow> (case detect_syslinux v root uefi of Some i \<Rightarrow> i
            | None \<Rightarrow> plain_bootloader UnknownBootloader None uefi))))"

definition run_succeeds :: "host_view \<Rightarrow> string list \<Rightarrow> bool" where
  "run_succeeds v cmd = (case hv_run v cmd of Some (code, _) \<Rightarrow> code = Some 0 | None \<Rightarrow> False)"

definition detect_efistub :: "host_view \<Rightarrow> bootloader_info option" where
  "detect_efistub v = (if run_succeeds v [''efibootmgr'', ''-v'']
     then Some ((plain_bootloader Efistub None True)\<lparr>update_command := Some ''efibootmgr''\<rparr>) else None)"

definition detect_bootloader :: "host_view \<Rightarrow> bootloader_info" where
  "detect_bootloader v =
     (let uefi = hv_exists v (path_of ''/sys/firmware/efi'');
          info = detect_bootloader_from_root v root_dir uefi True
      in if bootloader_kind info = UnknownBootloader \<and> uefi
         then (case detect_efistub v of Some i \<Rightarrow> i | None \<Rightarrow> info) else info)"

definition detect_initramfs :: "host_view \<Rightarrow> path \<Rightarrow> bool \<Rightarrow> initramfs_system" where
  "detect_initramfs v root lookup =
     (if hv_exists v (rooted root ''/etc/mkinitcpio.conf'') then Mkinitcpio
      else if hv_exists v (rooted root ''/etc/dracut.conf'') \<or> hv_exists v (rooted root ''/etc/dracut.conf.d'')
        \<or> (lookup \<and> hv_which v ''dracut'') then Dracut
      else if hv_exists v (rooted root ''/etc/initramfs-tools'') then UpdateInitramfs
      else UnknownInitramfs)"

section \<open>Desktop, audio, virtualisation\<close>

definition dm_services :: "(string \<times> display_manager) list" where
  "dm_services = [(''gdm'', Gdm), (''sddm'', Sddm), (''lightdm'', LightDm), (''greetd'', Greetd), (''ly'', Ly),
     (''lxdm'', Lxdm)]"

definition detect_display_manager_from_root :: "host_view \<Rightarrow> path \<Rightarrow> display_manager" where
  "detect_display_manager_from_root v root =
     (let unit = rooted root ''/etc/systemd/system/display-manager.service'';
          declared = (if \<not> hv_exists v unit then None
            else (case Option.bind (hv_link v unit) path_file_name of
                Some n \<Rightarrow> Some (parse_display_manager_service (from_utf8_lossy n))
              | None \<Rightarrow> map_option parse_display_manager_service (hv_text v unit)))
      in case declared of Some dm \<Rightarrow> dm
         | None \<Rightarrow> (case List.find (\<lambda>(s, _). hv_exists v (rooted root (''/etc/systemd/system/'' @ s @ ''.service''))) dm_services of
             Some (_, dm) \<Rightarrow> dm | None \<Rightarrow> UnknownDm))"

definition detect_display_manager :: "host_view \<Rightarrow> display_manager" where
  "detect_display_manager v =
     (let dm = detect_display_manager_from_root v root_dir in
      if dm \<noteq> UnknownDm then dm
      else (case List.find (\<lambda>(s, _). run_succeeds v [''systemctl'', ''is-active'', ''--quiet'', s]) dm_services of
          Some (_, dm) \<Rightarrow> dm | None \<Rightarrow> UnknownDm))"

definition detect_display_server :: "host_view \<Rightarrow> display_server" where
  "detect_display_server v =
     (let session = to_lower (case hv_env v ''XDG_SESSION_TYPE'' of Some t \<Rightarrow> t | None \<Rightarrow> []) in
      if session = ''wayland'' then Wayland
      else if session = ''x11'' then X11
      else (case (hv_exists v (path_of (''/run/user/'' @ show_nat (hv_uid v) @ ''/wayland-0'')),
                  hv_exists v (path_of ''/tmp/.X11-unix/X0'')) of
          (True, True) \<Rightarrow> BothServers | (True, False) \<Rightarrow> Wayland | (False, True) \<Rightarrow> X11 | _ \<Rightarrow> UnknownServer))"

definition detect_audio :: "host_view \<Rightarrow> audio_system" where
  "detect_audio v =
     (let parsed = (case Option.bind (hv_run v [''pactl'', ''info'']) (\<lambda>(_, out). from_utf8 out) of
          Some t \<Rightarrow> parse_pactl_info t | None \<Rightarrow> UnknownAudio)
      in if parsed \<noteq> UnknownAudio then parsed
         else if hv_exists v (path_of ''/proc/asound'') then Alsa else UnknownAudio)"

definition detect_audio_from_root :: "host_view \<Rightarrow> path \<Rightarrow> audio_system" where
  "detect_audio_from_root v root =
     (case filter (\<lambda>a. a \<noteq> UnknownAudio) (map parse_pactl_info (List.map_filter (\<lambda>f. hv_text v (rooted root f))
            [''/run/user/1000/pactl-info'', ''/tmp/virtu-pactl-info'', ''/proc/virtu-pactl-info''])) of
        a # _ \<Rightarrow> a
      | [] \<Rightarrow>
          if hv_exists v (rooted root ''/run/user/1000/pipewire-0'') then PipeWire
          else if hv_exists v (rooted root ''/run/user/1000/pulse/native'') then PulseAudio
          else if hv_exists v (rooted root ''/proc/asound'') then Alsa
          else UnknownAudio)"

definition get_command_version :: "host_view \<Rightarrow> string \<Rightarrow> string option" where
  "get_command_version v cmd =
     (if \<not> hv_which v cmd then None
      else Option.bind (hv_run v [cmd, ''--version'']) (\<lambda>(_, out).
        case str_lines (from_utf8_lossy out) of l # _ \<Rightarrow> Some (trim l) | [] \<Rightarrow> None))"

definition detect_virtualization :: "host_view \<Rightarrow> virt_info" where
  "detect_virtualization v =
     \<lparr>qemu_version = get_command_version v ''qemu-system-x86_64'', libvirt_version = get_command_version v ''virsh'',
      virsh_available = hv_which v ''virsh'', virt_manager_available = hv_which v ''virt-manager'',
      libvirtd_running = run_succeeds v [''systemctl'', ''is-active'', ''--quiet'', ''libvirtd'']\<rparr>"

section \<open>Readiness\<close>

definition read_kernel_version :: "host_view \<Rightarrow> path \<Rightarrow> bool \<Rightarrow> string" where
  "read_kernel_version v root live =
     (case Option.bind (hv_text v (rooted root ''/proc/sys/kernel/osrelease'')) (\<lambda>t. nonempty (trim t)) of
        Some t \<Rightarrow> t
      | None \<Rightarrow> if live then (case hv_run v [''uname'', ''-r''] of
            Some (_, out) \<Rightarrow> trim (from_utf8_lossy out) | None \<Rightarrow> []) else [])"

definition kernel_header_candidates :: "string \<Rightarrow> string list" where
  "kernel_header_candidates k =
     (if k = [] then []
      else [''/usr/lib/modules/'' @ k @ ''/build'', ''/lib/modules/'' @ k @ ''/build'',
            ''/usr/src/linux-headers-'' @ k, ''/usr/src/kernels/'' @ k])"

definition detect_kernel_headers :: "host_view \<Rightarrow> path \<Rightarrow> string \<Rightarrow> kernel_headers_info" where
  "detect_kernel_headers v root k =
     (let found = first_existing v root (kernel_header_candidates k)
      in \<lparr>headers_present = (found \<noteq> None), headers_path = found\<rparr>)"

definition detect_secure_boot :: "host_view \<Rightarrow> path \<Rightarrow> bool" where
  "detect_secure_boot v root =
     (case hv_bytes v (rooted root ''/sys/firmware/efi/efivars/SecureBoot-8be4df61-93ca-11d2-aa0d-00e098032b8c'') of
        Some b \<Rightarrow> parse_secure_boot_state b | None \<Rightarrow> False)"

definition ovmf_code_candidates :: "string list" where
  "ovmf_code_candidates =
     [''/usr/share/OVMF/OVMF_CODE.fd'', ''/usr/share/OVMF/OVMF_CODE_4M.fd'',
      ''/usr/share/OVMF/OVMF_CODE.secboot.fd'', ''/usr/share/edk2/x64/OVMF_CODE.fd'',
      ''/usr/share/edk2/x64/OVMF_CODE.4m.fd'', ''/usr/share/edk2-ovmf/x64/OVMF_CODE.fd'',
      ''/usr/share/edk2-ovmf/x64/OVMF_CODE.4m.fd'', ''/usr/share/edk2/ovmf/OVMF_CODE.fd'',
      ''/usr/share/qemu/ovmf-x86_64-code.bin'', ''/usr/share/qemu/ovmf-x86_64-ms-code.bin'']"

definition ovmf_vars_candidates :: "string list" where
  "ovmf_vars_candidates =
     [''/usr/share/OVMF/OVMF_VARS.fd'', ''/usr/share/OVMF/OVMF_VARS_4M.fd'',
      ''/usr/share/OVMF/OVMF_VARS.secboot.fd'', ''/usr/share/edk2/x64/OVMF_VARS.fd'',
      ''/usr/share/edk2/x64/OVMF_VARS.4m.fd'', ''/usr/share/edk2-ovmf/x64/OVMF_VARS.fd'',
      ''/usr/share/edk2-ovmf/x64/OVMF_VARS.4m.fd'', ''/usr/share/edk2/ovmf/OVMF_VARS.fd'',
      ''/usr/share/qemu/ovmf-x86_64-vars.bin'', ''/usr/share/qemu/ovmf-x86_64-ms-vars.bin'']"

definition detect_ovmf :: "host_view \<Rightarrow> path \<Rightarrow> ovmf_info" where
  "detect_ovmf v root =
     \<lparr>code_paths = filter (hv_exists v) (map (rooted root) ovmf_code_candidates),
      vars_paths = filter (hv_exists v) (map (rooted root) ovmf_vars_candidates)\<rparr>"

definition detect_user_access :: "host_view \<Rightarrow> path \<Rightarrow> bool \<Rightarrow> user_access_info" where
  "detect_user_access v root live =
     (case hv_text v (rooted root ''/etc/virtu-user-groups'') of
        Some t \<Rightarrow> (case str_lines t of
            [] \<Rightarrow> parse_user_access None []
          | u # ls \<Rightarrow> parse_user_access (nonempty (trim u)) (case ls of g # _ \<Rightarrow> g | [] \<Rightarrow> []))
      | None \<Rightarrow>
          (case (if live then hv_run v [''id'', ''-nG''] else None) of
             Some (_, out) \<Rightarrow> parse_user_access (or_else (hv_env v ''USER'') (hv_env v ''USERNAME''))
               (from_utf8_lossy out)
           | None \<Rightarrow> parse_user_access None []))"

definition detect_libvirt_domains :: "host_view \<Rightarrow> path \<Rightarrow> bool \<Rightarrow> libvirt_domain_info list" where
  "detect_libvirt_domains v root live =
     (case hv_text v (rooted root ''/var/lib/libvirt/virsh-list-all'') of
        Some t \<Rightarrow> parse_virsh_list_all t
      | None \<Rightarrow>
          if live \<and> hv_which v ''virsh'' then
            (case hv_run v [''virsh'', ''list'', ''--all''] of
               Some (code, out) \<Rightarrow> if code = Some 0 then parse_virsh_list_all (from_utf8_lossy out) else []
             | None \<Rightarrow> [])
          else [])"

definition detect_readiness :: "host_view \<Rightarrow> path \<Rightarrow> readiness_info" where
  "detect_readiness v root =
     (let live = (root = root_dir); k = read_kernel_version v root live;
          cmdline = trim (text_or_empty v (rooted root ''/proc/cmdline''))
      in \<lparr>kernel_version = k, readiness_cmdline = cmdline, kernel_cmdline_params = parse_kernel_cmdline cmdline,
          loaded_modules = (case hv_text v (rooted root ''/proc/modules'') of
            Some t \<Rightarrow> parse_loaded_modules t | None \<Rightarrow> []),
          kernel_headers = detect_kernel_headers v root k, readiness_secure_boot = detect_secure_boot v root,
          ovmf = detect_ovmf v root, user_access = detect_user_access v root live,
          libvirt_domains = detect_libvirt_domains v root live\<rparr>)"

section \<open>The scan\<close>

definition sysfs_dir :: path where "sysfs_dir = path_of ''/sys''"

definition scan_system :: "host_view \<Rightarrow> string + system_profile" where
  "scan_system v =
     res_then (detect_gpus v sysfs_dir) (\<lambda>gpus.
     res_then (detect_groups v sysfs_dir) (\<lambda>groups.
     let readiness = detect_readiness v root_dir in
     res_then (detect_cpu v) (\<lambda>cpu.
     res_then (detect_memory v) (\<lambda>ram.
     res_then (detect_monitors v (path_of ''/sys/class/drm'')) (\<lambda>monitors.
     res_then (detect_input_devices v root_dir) (\<lambda>usb.
     Inr \<lparr>sp_cpu = cpu, sp_gpus = map (annotate_gpu groups) gpus, sp_iommu_groups = groups, sp_ram = ram,
       sp_distro = parse_distro_info (text_or_empty v (path_of ''/etc/os-release'')),
       sp_bootloader = detect_bootloader v, sp_initramfs_system = detect_initramfs v root_dir True,
       sp_display_manager = detect_display_manager v, sp_display_server = detect_display_server v,
       sp_audio = detect_audio v, sp_monitors = monitors, sp_usb_devices = usb,
       sp_storage = detect_storage v root_dir True, sp_virtualization = detect_virtualization v,
       sp_readiness = readiness, sp_secure_boot = readiness_secure_boot readiness,
       sp_kernel_cmdline = readiness_cmdline readiness\<rparr>))))))"

definition yes_no :: "bool \<Rightarrow> string" where
  "yes_no b = (if b then ''yes'' else ''no'')"

definition scan_gpu_line :: "gpu_info \<Rightarrow> string" where
  "scan_gpu_line g = ''  ['' @ (case gpu_type g of Integrated \<Rightarrow> ''iGPU'' | Discrete \<Rightarrow> ''dGPU'' | UnknownGpuType \<Rightarrow> ''GPU?'')
     @ ''] '' @ gpu_model_name g @ '' - '' @ gpu_pci_slot g @ '' | IOMMU group ''
     @ (case iommu_group_id g of Some n \<Rightarrow> show_nat (unat n) | None \<Rightarrow> ''?'') @ '': ''
     @ (if iommu_isolated g then ''isolated'' else ''not isolated'')"

definition scan_report_lines :: "system_profile \<Rightarrow> string list" where
  "scan_report_lines p =
     [LF # ''=== VIRTU SYSTEM SCAN ==='',
      ''CPU:         '' @ cpu_model_name (sp_cpu p) @ '' ('' @ cpu_vendor (sp_cpu p) @ '')'',
      ''VT-d/AMD-Vi: '' @ (if iommu_capable (sp_cpu p) then ''supported''
         else ''not detected - enable virtualization/IOMMU in firmware''),
      ''IOMMU:       '' @ (if iommu_active p
         then ''active ('' @ show_nat (length (sp_iommu_groups p)) @ '' groups)''
         else ''not active - kernel parameters or firmware settings are needed''),
      ''Distro:      '' @ distro_pretty_name (sp_distro p),
      ''Kernel:      '' @ kernel_version (sp_readiness p),
      ''Bootloader:  '' @ bootloader_display (bootloader_kind (sp_bootloader p)),
      ''Initramfs:   '' @ initramfs_name (sp_initramfs_system p),
      ''RAM:         '' @ show_nat (unat (total_gb (sp_ram p))) @ '' GB total, ''
        @ show_nat (unat (hugepage_eligible_gb (sp_ram p))) @ '' GB hugepage-eligible'',
      ''Monitors:    '' @ show_nat (length (sp_monitors p)) @ '' detected'',
      ''Secure Boot: '' @ (if sp_secure_boot p then ''enabled (may require module signing)'' else ''disabled''),
      ''OVMF:        '' @ (if ovmf_available (ovmf (sp_readiness p)) then ''available'' else ''not found''),
      ''Groups:      libvirt='' @ yes_no (in_libvirt_group (user_access (sp_readiness p)))
        @ '', kvm='' @ yes_no (in_kvm_group (user_access (sp_readiness p))),
      ''VM domains:  '' @ show_nat (length (libvirt_domains (sp_readiness p))) @ '' existing'',
      LF # ''Detected GPUs:'']
     @ map scan_gpu_line (sp_gpus p) @ [[]]"

definition vfio_status_lines :: "host_view \<Rightarrow> string + string list" where
  "vfio_status_lines v =
     res_then (detect_groups v sysfs_dir) (\<lambda>groups.
     res_then (detect_gpus v sysfs_dir) (\<lambda>gpus.
     let cmdline = text_or_empty v (path_of ''/proc/cmdline'');
         on = contains_str ''intel_iommu=on'' cmdline \<or> contains_str ''amd_iommu=on'' cmdline
     in Inr ([LF # ''=== VIRTU STATUS ==='' @ [LF], ''IOMMU in kernel cmdline: '' @ yes_no on,
          ''IOMMU groups detected:   '' @ show_nat (length groups)]
        @ map (\<lambda>g. ''  '' @ gpu_model_name g @ '' '' @ gpu_pci_slot g @ '' - ''
            @ (if gpu_current_driver g = Some ''vfio-pci'' then ''VFIO bound''
               else ''driver: '' @ (case gpu_current_driver g of Some d \<Rightarrow> d | None \<Rightarrow> ''none''))) gpus
        @ [[]])))"

end
