(* ===== verification/Wizard_View.thy ===== *)
theory Wizard_View
  imports Wizard Detect_Scan
begin

text \<open>
  \<open>tui/screens/\<close>: what the screens of the wizard show. A panel is a paragraph with the title of its border, a
  line is a list of styled spans; the split of the terminal into areas, wrapping and drawing are those of
  ratatui and not modelled.
\<close>

datatype color = Green | Yellow | Red | Cyan | Gray | DarkGray | Magenta

datatype span = Span string "color option" bool

type_synonym screen_line = "span list"

record panel =
  panel_title :: "string option"
  panel_lines :: "screen_line list"

definition raw :: "string \<Rightarrow> span" where "raw t = Span t None False"
definition bold :: "color \<Rightarrow> string \<Rightarrow> span" where "bold c t = Span t (Some c) True"
definition plain_line :: "string \<Rightarrow> screen_line" where "plain_line t = [raw t]"

definition titled :: "string \<Rightarrow> screen_line list \<Rightarrow> panel" where
  "titled title ls = \<lparr>panel_title = Some title, panel_lines = ls\<rparr>"

definition bar :: "screen_line \<Rightarrow> panel" where
  "bar l = \<lparr>panel_title = None, panel_lines = [l]\<rparr>"

definition glyph :: "nat \<Rightarrow> nat \<Rightarrow> string" where
  "glyph a b = [CHR 0xE2, char_of a, char_of b]"

definition up_key :: string where "up_key = glyph 0x86 0x91"
definition down_key :: string where "down_key = glyph 0x86 0x93"
definition left_key :: string where "left_key = glyph 0x86 0x90"
definition right_key :: string where "right_key = glyph 0x86 0x92"

section \<open>Decimal fractions\<close>

text \<open>\<open>n as f64\<close> rounds to 53 bits, half to even; the quotient by a power of two is exact; \<open>{:.1}\<close> rounds it
  half to even.\<close>

definition half_even :: "nat \<Rightarrow> nat \<Rightarrow> nat" where
  "half_even n d = (let q = n div d; r = n mod d in if d < 2 * r \<or> (2 * r = d \<and> odd q) then q + 1 else q)"

fun bit_len :: "nat \<Rightarrow> nat" where
  "bit_len n = (if n = 0 then 0 else Suc (bit_len (n div 2)))"

declare bit_len.simps [simp del]

definition as_f64 :: "nat \<Rightarrow> nat" where
  "as_f64 n = (if n < 2 ^ 53 then n else (let e = bit_len n - 53 in half_even n (2 ^ e) * 2 ^ e))"

definition one_decimal :: "nat \<Rightarrow> nat \<Rightarrow> string" where
  "one_decimal n d = (let t = half_even (as_f64 n * 10) d in show_nat (t div 10) @ ''.'' @ show_nat (t mod 10))"

section \<open>The detection screen\<close>

record detection_view =
  dv_host_lines :: "string list"
  dv_gpu_lines :: "string list"
  dv_findings :: "(finding_severity \<times> string) list"
  dv_status :: compatibility_status

definition host_lines :: "system_profile \<Rightarrow> string list" where
  "host_lines p =
     [''Distro       '' @ distro_pretty_name (sp_distro p) @ '' ('' @ distro_id (sp_distro p) @ '')'',
      ''Kernel       '' @ kernel_version (sp_readiness p),
      ''CPU          '' @ trim (cpu_model_name (sp_cpu p)) @ '' ('' @ show_nat (unat (physical_cores (sp_cpu p)))
        @ '' cores / '' @ show_nat (unat (logical_cores (sp_cpu p))) @ '' threads)'',
      ''RAM          '' @ one_decimal (unat (total_kb (sp_ram p))) (2 ^ 20) @ '' GiB total, ''
        @ one_decimal (unat (available_kb (sp_ram p))) (2 ^ 20) @ '' GiB available'',
      ''Bootloader   '' @ bootloader_display (bootloader_kind (sp_bootloader p)),
      ''Initramfs    '' @ initramfs_name (sp_initramfs_system p),
      ''Display Mgr  '' @ dm_display (sp_display_manager p),
      ''Display Srv  '' @ display_server_display (sp_display_server p),
      ''Audio        '' @ audio_display (sp_audio p),
      ''IOMMU        '' @ (if iommu_active p then ''active ('' @ show_nat (length (sp_iommu_groups p)) @ '' groups)''
         else ''NOT active''),
      ''Secure Boot  '' @ (if sp_secure_boot p then ''enabled (signing required for new kernel modules)'' else ''disabled'')]"

definition gpu_line :: "gpu_info \<Rightarrow> string" where
  "gpu_line g = gpu_pci_slot g @ ''  '' @ gpu_model_name g @ ''  '' @ gpu_vendor_id g @ '':'' @ gpu_device_id g
     @ ''  driver='' @ (case gpu_current_driver g of Some d \<Rightarrow> d | None \<Rightarrow> ''none'')
     @ ''  iommu_group='' @ (case iommu_group_id g of Some i \<Rightarrow> show_nat (unat i) | None \<Rightarrow> ''?'')
     @ ''  isolated='' @ show_bool (iommu_isolated g)"

definition new_detection_view :: "system_profile \<Rightarrow> compatibility_report \<Rightarrow> detection_view" where
  "new_detection_view p r =
     \<lparr>dv_host_lines = host_lines p,
      dv_gpu_lines = (if sp_gpus p = [] then [''(no GPUs detected)''] else map gpu_line (sp_gpus p)),
      dv_findings = map (\<lambda>f. (finding_severity f, finding_explanation f)) (report_findings r),
      dv_status = report_status r\<rparr>"

definition status_span :: "compatibility_status \<Rightarrow> span" where
  "status_span s = (case s of Ready \<Rightarrow> bold Green ''Compatibility: READY''
     | Warnings \<Rightarrow> bold Yellow ''Compatibility: WARNINGS'' | Blocked \<Rightarrow> bold Red ''Compatibility: BLOCKED'')"

definition finding_line :: "finding_severity \<times> string \<Rightarrow> screen_line" where
  "finding_line f = [case fst f of Pass \<Rightarrow> bold Green ''[OK]   '' | Warn \<Rightarrow> bold Yellow ''[WARN] ''
     | Fail \<Rightarrow> bold Red ''[FAIL] '', raw (snd f)]"

definition detection_panels :: "detection_view \<Rightarrow> panel list" where
  "detection_panels v =
     [bar [Span (''Virtu '' @ em_dash @ '' GPU Passthrough Wizard'') None True, raw ''    '', status_span (dv_status v)],
      titled '' Host '' (map plain_line (dv_host_lines v)), titled '' GPUs '' (map plain_line (dv_gpu_lines v)),
      titled '' Compatibility findings ''
        (if dv_findings v = [] then [[Span (''No findings '' @ em_dash @ '' host looks clean.'') (Some Green) False]]
         else map finding_line (dv_findings v)),
      bar [bold Cyan ''q'', raw '' quit    '', bold Cyan ''Enter'',
        raw '' continue (choice flow lands in slice 10.3)'']]"

section \<open>The choice screen\<close>

definition current_value_text :: "choice_field \<Rightarrow> string" where
  "current_value_text f = (case f of
     GpuModeField m _ \<Rightarrow> gpu_mode_display m
   | MonitorPlanField m _ \<Rightarrow> monitor_plan_choice_display m
   | RamField n _ \<Rightarrow> show_nat (unat n) @ '' MiB ('' @ one_decimal (unat n) (2 ^ 10) @ '' GiB)''
   | VcpuField n _ \<Rightarrow> show_nat (unat n))"

definition pad_right :: "nat \<Rightarrow> string \<Rightarrow> string" where
  "pad_right n t = t @ replicate (n - length t) SP"

definition field_line :: "nat \<Rightarrow> nat \<times> choice_field \<Rightarrow> screen_line" where
  "field_line selected = (\<lambda>(i, f).
     let styled = (\<lambda>t. if i = selected then bold Cyan t else raw t)
     in [styled (if i = selected then glyph 0x96 0xB6 @ '' '' else ''  ''), styled (pad_right 14 (field_label f)),
         raw ''  '', styled (current_value_text f)])"

definition choice_panels :: "choice_state \<Rightarrow> panel list" where
  "choice_panels st =
     [bar [Span ''Configure your VM'' None True],
      titled '' Choices '' (map (field_line (cs_selected st)) (List.enumerate 0 (cs_fields st))),
      titled '' Help '' [plain_line (cs_helper st)],
      bar [bold Cyan (up_key @ ''/k '' @ down_key @ ''/j''), raw '' move    '',
        bold Cyan (left_key @ ''/h '' @ right_key @ ''/l''), raw '' change    '', bold Cyan ''Enter'',
        raw '' preview plan    '', bold Cyan ''q'', raw '' quit'']]"

section \<open>The preview screen\<close>

definition preview_title :: "preview_result \<Rightarrow> span" where
  "preview_title r = (case r of PreviewPlan _ \<Rightarrow> Span ''Plan preview'' None True
     | PlanFailed _ \<Rightarrow> bold Red ''Plan failed'' | PreviewErrors _ \<Rightarrow> bold Red ''Configuration has errors'')"

definition risk_span :: "step_risk \<Rightarrow> span" where
  "risk_span r = (case r of RiskReadOnly \<Rightarrow> bold Gray ''[READ-ONLY] '' | RiskLow \<Rightarrow> bold Green ''[LOW] ''
     | RiskMedium \<Rightarrow> bold Yellow ''[MEDIUM] '' | RiskHigh \<Rightarrow> bold Red ''[HIGH] '')"

definition step_number :: "nat \<Rightarrow> string" where
  "step_number i = (if i < 10 then '' '' else '''') @ show_nat i @ ''. ''"

definition step_header :: "nat \<Rightarrow> planned_step \<Rightarrow> screen_line" where
  "step_header i s =
     [bold Cyan (step_number i), risk_span (step_risk s), Span (step_title s) None True]
     @ (if step_requires_confirmation s
        then [Span (''  '' @ glyph 0x9A 0xA0 @ '' requires confirmation'') (Some Yellow) False] else [])
     @ (if step_requires_reboot s then [Span (''  '' @ glyph 0x9F 0xB3 @ '' reboot'') (Some Magenta) False] else [])"

definition preview_step_lines :: "nat \<times> planned_step \<Rightarrow> screen_line list" where
  "preview_step_lines = (\<lambda>(i, s).
     [step_header i s, plain_line (''    '' @ step_summary s)]
     @ (if step_touches s = [] then [] else [Span ''    Touches:'' (Some Cyan) False]
         # map (\<lambda>q. plain_line (''      - '' @ path_display q)) (step_touches s))
     @ (if step_commands s = [] then [] else [Span ''    Commands:'' (Some Cyan) False]
         # map (\<lambda>c. plain_line (''      $ '' @ c)) (step_commands s))
     @ [plain_line []])"

definition plan_panel :: "nat \<Rightarrow> plan \<Rightarrow> panel" where
  "plan_panel offset pl = titled ('' Steps ('' @ show_nat (length (plan_steps pl)) @ '' total) '')
     (concat (map preview_step_lines (drop offset (List.enumerate 1 (plan_steps pl)))))"

definition issue_lines :: "validation_issue \<Rightarrow> screen_line list" where
  "issue_lines i = [[case issue_severity i of SevError \<Rightarrow> bold Red ''[ERROR] '' | SevWarning \<Rightarrow> bold Yellow ''[WARN] '',
     raw (issue_message i)], plain_line []]"

definition errors_panel :: "nat \<Rightarrow> validation_issue list \<Rightarrow> panel" where
  "errors_panel offset es = titled ('' Validation errors '' @ em_dash @ '' go back and fix these '')
     (let ls = concat (map issue_lines (drop offset es))
      in if ls = [] then [plain_line ''(no validation issues to display)''] else ls)"

definition preview_body :: "preview_state \<Rightarrow> panel" where
  "preview_body st = (case pv_result st of
     PreviewPlan pl \<Rightarrow> plan_panel (pv_scroll st) pl
   | PreviewErrors es \<Rightarrow> errors_panel (pv_scroll st) es
   | PlanFailed m \<Rightarrow> titled '' Plan generation failed '' [plain_line m])"

definition preview_summary :: "preview_result \<Rightarrow> panel" where
  "preview_summary r = titled '' Summary '' (case r of
     PreviewPlan pl \<Rightarrow>
       [plain_line (''Steps: '' @ show_nat (total_steps (plan_summary pl)) @ ''    Max risk: ''
          @ risk_display (max_risk (plan_summary pl)) @ ''    Reboot required: ''
          @ yes_no (sum_requires_reboot (plan_summary pl)) @ ''    Confirmation required: ''
          @ yes_no (sum_requires_confirmation (plan_summary pl))),
        plain_line (''Files touched (cumulative): ''
          @ show_nat (sum_list (map (\<lambda>s. length (step_touches s)) (plan_steps pl))))]
   | PreviewErrors es \<Rightarrow> [plain_line (show_nat (length es) @ '' validation error''
        @ (if length es = 1 then '''' else ''s'') @ '' '' @ em_dash @ '' confirmation disabled.'')]
   | PlanFailed _ \<Rightarrow> [plain_line (''Plan generation failed '' @ em_dash @ '' confirmation disabled.'')])"

definition preview_footer :: "preview_state \<Rightarrow> screen_line" where
  "preview_footer st =
     [bold Cyan (up_key @ ''/k '' @ down_key @ ''/j''), raw '' scroll    '',
      (if can_confirm st then bold Cyan ''c'' else Span ''c'' (Some DarkGray) False),
      raw (if can_confirm st then '' confirm    '' else '' confirm (disabled)    ''),
      bold Cyan ''q/Esc'', raw '' back / quit'']
     @ (if pv_confirmed st
        then [raw ''    '', bold Green (glyph 0x9C 0x94 @ '' Confirmed '' @ em_dash @ '' exiting'')] else [])"

definition preview_panels :: "preview_state \<Rightarrow> panel list" where
  "preview_panels st = [bar [preview_title (pv_result st)], preview_body st, preview_summary (pv_result st),
     bar (preview_footer st)]"

text \<open>The screen that the loop draws in a state of the application.\<close>

definition app_panels :: "app \<Rightarrow> wizard_panic + panel list" where
  "app_panels a = (case app_screen a of
     Detection \<Rightarrow> Inr (detection_panels (new_detection_view (app_profile a) (app_report a)))
   | Choices \<Rightarrow> Inr (choice_panels (app_choices a))
   | Preview \<Rightarrow> (case app_preview a of None \<Rightarrow> Inl PreviewMissing | Some st \<Rightarrow> Inr (preview_panels st))
   | Exiting \<Rightarrow> Inr [])"

end
