(* ===== verification/Wizard_Props.thy ===== *)
theory Wizard_Props
  imports Wizard_View Planning
begin

text \<open>
  What a user can reach in the wizard: only plans of the planner are confirmed, the edits stay
  within bounds, the way out is always open, and which GPU modes the role alignment can realise.
\<close>

section \<open>Confirmation\<close>

text \<open>C15: no sequence of keys, timeouts and redraws makes the wizard panic, and a confirmed wizard has
  left its loop with the plan that the planner makes for the configuration it holds: the plan shown on
  the preview screen, for the host it was started on.\<close>

theorem wizard_confirms_plan:
  "\<exists>a. run_event_loop getenv es (new_app p r c) = Inr a \<and>
     (was_confirmed a \<longrightarrow> app_screen a = Exiting \<and>
        (\<exists>ex pl. make_plan ex getenv p r (app_config a) = Inr pl \<and>
           map_option pv_result (app_preview a) = Some (PreviewPlan pl)))"
proof -
  obtain a where a: "run_event_loop getenv es (new_app p r c) = Inr a" "app_inv getenv p r c a"
    using run_inv[OF new_app_inv] by blast
  have "app_screen a = Exiting \<and> (\<exists>ex pl. make_plan ex getenv p r (app_config a) = Inr pl \<and>
      map_option pv_result (app_preview a) = Some (PreviewPlan pl))" if conf: "was_confirmed a"
  proof -
    from conf obtain st where st: "app_preview a = Some st" "pv_confirmed st"
      by (auto simp: was_confirmed_def split: option.splits)
    with a(2) obtain ex where ex: "pv_result st = pv_result (new_preview ex getenv p r (app_config a))" "can_confirm st"
      by (auto simp: app_inv_def preview_inv_def)
    then obtain pl where pl: "pv_result st = PreviewPlan pl" by (auto simp: can_confirm_def split: preview_result.splits)
    with ex(1) have "make_plan ex getenv p r (app_config a) = Inr pl"
      by (auto simp: new_preview_def Let_def split: if_splits sum.splits plan_error.splits)
    then show ?thesis using a(2) conf st pl by (auto simp: app_inv_def)
  qed
  with a(1) show ?thesis by blast
qed

lemma sample_untouched: "choices_apply_to sample_profile (new_choices sample_profile sample_config) sample_config = sample_config"
proof -
  have "align_gpu_roles_to_mode sample_profile IgpuHost (gpu_roles sample_config) = gpu_roles sample_config"
    by code_simp
  moreover have "cfg_gpu_mode sample_config = IgpuHost" "cfg_monitor_plan sample_config = OneMonitor SwitchInputs"
    by (simp_all add: sample_config_def)
  ultimately show ?thesis
    by (simp add: choices_apply_to_def new_choices_def apply_field_def Let_def monitor_choice_from_def
        monitor_plan_from_choice_def)
qed

lemma sample_no_errors:
  "report_errors (validate sample_exists sample_profile (build_compatibility_report sample_profile) sample_config) = []"
  using sample_plan
  by (auto simp: make_plan_def has_errors_def report_errors_def list_ex_iff filter_empty_conv Let_def split: if_splits)

theorem wizard_confirms_plan_witness:
  "\<exists>a pl. run_event_loop sample_env (map (\<lambda>e. (sample_exists, Some e)) [Continue, Continue, PreviewMove Confirm])
      (new_app sample_profile (build_compatibility_report sample_profile) sample_config) = Inr a \<and>
    app_screen a = Exiting \<and> map_option pv_result (app_preview a) = Some (PreviewPlan pl)"
proof -
  let ?r = "build_compatibility_report sample_profile"
  let ?es = "map (\<lambda>e. (sample_exists, Some e)) [Continue, Continue, PreviewMove Confirm]"
  obtain pl where pl: "make_plan sample_exists sample_env sample_profile ?r sample_config = Inr pl"
    using sample_plan by blast
  then have prev: "pv_result (new_preview sample_exists sample_env sample_profile ?r sample_config) = PreviewPlan pl"
    by (simp add: new_preview_def pl Let_def sample_no_errors)
  obtain a where run: "run_event_loop sample_env ?es (new_app sample_profile ?r sample_config) = Inr a"
    and confirmed: "was_confirmed a \<longrightarrow> app_screen a = Exiting \<and>
      (\<exists>ex pl. make_plan ex sample_env sample_profile ?r (app_config a) = Inr pl \<and>
         map_option pv_result (app_preview a) = Some (PreviewPlan pl))"
    using wizard_confirms_plan[of sample_env ?es sample_profile ?r sample_config] by blast
  have "was_confirmed a"
    using run prev
    by (auto simp: new_app_def handle_event_def commit_choices_def enter_preview_def sample_untouched on_preview_def
        preview_apply_def can_confirm_def was_confirmed_def Let_def split: if_splits)
  with run confirmed show ?thesis by blast
qed

lemma two_quits_run:
  "\<exists>a. run_event_loop getenv (es @ [(ex, Some Quit), (ex', Some Quit)]) (new_app p r c) = Inr a \<and>
     app_screen a = Exiting"
proof -
  have "app_inv getenv p r c a \<Longrightarrow>
      \<exists>a'. run_event_loop getenv (es @ [(ex, Some Quit), (ex', Some Quit)]) a = Inr a' \<and> app_screen a' = Exiting" for a
  proof (induction es arbitrary: a)
    case Nil
    then show ?case by (cases "app_screen a") (auto simp: handle_event_def app_inv_def)
  next
    case (Cons x es)
    obtain ex e where x: "x = (ex, e)" by (cases x)
    have drawn: "\<not> (app_screen a = Preview \<and> app_preview a = None)" using Cons.prems by (auto simp: app_inv_def)
    show ?case
    proof (cases "app_screen a = Exiting \<or> e = None")
      case True
      then show ?thesis using Cons.IH[OF Cons.prems] drawn x by auto
    next
      case False
      then obtain ev where ev: "e = Some ev" "app_screen a \<noteq> Exiting" by auto
      then obtain a' where "handle_event ex getenv ev a = Inr a'" "app_inv getenv p r c a'"
        using handle_event_inv[OF Cons.prems] by blast
      then show ?thesis using Cons.IH drawn x ev by auto
    qed
  qed
  then show ?thesis using new_app_inv by blast
qed

text \<open>C18: the loop of the wizard terminates, on every endless stream of keys and timeouts, as soon as
  two presses of the quit key follow each other: it returns without a panic, whatever was pressed before.\<close>

theorem two_quits_exit:
  "\<exists>a. wizard_loop getenv (es(n := (ex, Some Quit), Suc n := (ex', Some Quit))) 0 (new_app p r c) = Some (Inr a) \<and>
     app_screen a = Exiting"
proof -
  let ?es = "es(n := (ex, Some Quit), Suc n := (ex', Some Quit))"
  have "map ?es [0..<0 + (n + 2)] = map es [0..<n] @ [(ex, Some Quit), (ex', Some Quit)]" by auto
  then show ?thesis using loop_of_run[of getenv ?es 0 "n + 2"] two_quits_run[of getenv "map es [0..<n]" ex ex' p r c] by auto
qed

section \<open>What the preview shows\<close>

lemma scroll_down:
  assumes "app_screen a = Preview" "app_preview a = Some st" "pv_result st = PreviewPlan pl"
    "pv_scroll st + i < length (plan_steps pl)"
  shows "run_event_loop getenv (replicate i (ex, Some (ChoiceMove NextField))) a =
    Inr (a\<lparr>app_preview := Some (st\<lparr>pv_scroll := pv_scroll st + i\<rparr>)\<rparr>)"
  using assms
proof (induction i arbitrary: a st)
  case (Suc i)
  let ?st = "st\<lparr>pv_scroll := pv_scroll st + 1\<rparr>"
  have "handle_event ex getenv (ChoiceMove NextField) a = Inr (a\<lparr>app_preview := Some ?st\<rparr>)"
    using Suc.prems by (simp add: handle_event_def on_preview_def preview_apply_def step_count_def Let_def)
  moreover have "run_event_loop getenv (replicate i (ex, Some (ChoiceMove NextField))) (a\<lparr>app_preview := Some ?st\<rparr>) =
      Inr (a\<lparr>app_preview := Some (st\<lparr>pv_scroll := pv_scroll st + Suc i\<rparr>)\<rparr>)"
    using Suc.IH[of "a\<lparr>app_preview := Some ?st\<rparr>" ?st] Suc.prems by simp
  ultimately show ?case using Suc.prems by simp
qed simp

lemma enumerate_drop: "drop i (List.enumerate n xs) = List.enumerate (n + i) (drop i xs)"
proof (induction xs arbitrary: i n)
  case (Cons x xs)
  then show ?case by (cases i) simp_all
qed simp

text \<open>C19: every step of a plan can be read on the preview screen: after as many presses of the down key as
  there are steps before it, the list of steps starts with the number, risk and title of this step, its summary,
  and then everything below; and there the footer offers the confirmation, and confirming it leaves
  the wizard with this plan.\<close>

theorem preview_shows_every_step:
  assumes screen: "app_screen a = Preview" "app_preview a = Some (new_preview ex getenv p r c)"
    and plan: "make_plan ex getenv p r c = Inr pl" "report_errors (validate ex p r c) = []"
    and i: "i < length (plan_steps pl)"
  shows "\<exists>a' st rest. run_event_loop getenv (replicate i (ex, Some (map_key KeyDown))) a = Inr a' \<and>
    app_preview a' = Some st \<and> app_panels a' = Inr (preview_panels st) \<and>
    panel_lines (preview_body st) = step_header (i + 1) (plan_steps pl ! i)
      # plain_line (''    '' @ step_summary (plan_steps pl ! i)) # rest \<and>
    raw '' confirm    '' \<in> set (preview_footer st) \<and>
    (\<exists>b. handle_event ex getenv (map_key (KeyChar (CHR ''c''))) a' = Inr b \<and> app_screen b = Exiting \<and> was_confirmed b \<and>
       map_option pv_result (app_preview b) = Some (PreviewPlan pl))"
proof -
  let ?fresh = "new_preview ex getenv p r c"
  let ?st = "?fresh\<lparr>pv_scroll := i\<rparr>" and ?a = "a\<lparr>app_preview := Some (?fresh\<lparr>pv_scroll := i\<rparr>)\<rparr>"
  have st0: "pv_result ?fresh = PreviewPlan pl" "pv_scroll ?fresh = 0" using plan by (simp_all add: new_preview_def Let_def)
  have "run_event_loop getenv (replicate i (ex, Some (map_key KeyDown))) a = Inr ?a"
    using scroll_down[OF screen st0(1), of i getenv ex] st0(2) i by (simp add: map_key_def)
  moreover have "app_panels ?a = Inr (preview_panels ?st)" by (simp add: app_panels_def screen)
  moreover have "drop i (List.enumerate 1 (plan_steps pl)) = (i + 1, plan_steps pl ! i) # List.enumerate (i + 2) (drop (Suc i) (plan_steps pl))"
    using i by (simp add: enumerate_drop Cons_nth_drop_Suc[symmetric])
  then have "\<exists>rest. panel_lines (preview_body ?st) = step_header (i + 1) (plan_steps pl ! i)
      # plain_line (''    '' @ step_summary (plan_steps pl ! i)) # rest"
    by (simp add: preview_body_def st0 plan_panel_def titled_def preview_step_lines_def)
  moreover have "can_confirm ?st" by (simp add: can_confirm_def st0)
  then have "raw '' confirm    '' \<in> set (preview_footer ?st)"
    "\<exists>b. handle_event ex getenv (map_key (KeyChar (CHR ''c''))) ?a = Inr b \<and> app_screen b = Exiting \<and> was_confirmed b \<and>
       map_option pv_result (app_preview b) = Some (PreviewPlan pl)"
    by (simp_all add: preview_footer_def handle_event_def map_key_def screen on_preview_def preview_apply_def
        was_confirmed_def st0 Let_def)
  ultimately show ?thesis by (intro exI[of _ ?a] exI[of _ ?st]) auto
qed

theorem preview_shows_every_step_witness:
  "\<exists>pl a st rest. make_plan sample_exists sample_env sample_profile (build_compatibility_report sample_profile) sample_config = Inr pl \<and>
     run_event_loop sample_env [(sample_exists, Some (map_key KeyDown))]
       (enter_preview sample_exists sample_env (new_app sample_profile (build_compatibility_report sample_profile) sample_config)) = Inr a \<and>
     app_preview a = Some st \<and> panel_lines (preview_body st) = step_header 2 (plan_steps pl ! 1) # rest"
proof -
  let ?r = "build_compatibility_report sample_profile"
  let ?a = "enter_preview sample_exists sample_env (new_app sample_profile ?r sample_config)"
  obtain pl where pl: "make_plan sample_exists sample_env sample_profile ?r sample_config = Inr pl"
    using sample_plan by blast
  have "app_screen ?a = Preview" "app_preview ?a = Some (new_preview sample_exists sample_env sample_profile ?r sample_config)"
    by (simp_all add: enter_preview_def new_app_def)
  moreover have "1 < length (plan_steps pl)"
    using make_plan_choices[OF pl] by (simp add: build_steps_def)
  ultimately show ?thesis
    using preview_shows_every_step[OF _ _ pl sample_no_errors, of ?a 1] pl by (auto simp: numeral_2_eq_2)
qed

section \<open>What the choices change\<close>

definition wizard_edit :: "system_profile \<Rightarrow> passthrough_config \<Rightarrow> passthrough_config \<Rightarrow> bool" where
  "wizard_edit p c d \<longleftrightarrow>
     (\<exists>mode roles monitors ram vcpus.
        d = c\<lparr>cfg_gpu_mode := mode, gpu_roles := roles, cfg_monitor_plan := monitors,
              resources := (resources c)\<lparr>ram_mb := ram, vcpu_count := vcpus\<rparr>\<rparr> \<and>
        map role_pci_slot roles = map role_pci_slot (gpu_roles c) \<and>
        (mode = cfg_gpu_mode c \<or> mode \<in> set (available_modes p)) \<and>
        (ram = ram_mb (resources c) \<or> 2048 \<le> ram \<and> ram \<le> max_vm_ram (total_kb (sp_ram p))) \<and>
        (vcpus = vcpu_count (resources c) \<or> 1 \<le> vcpus \<and> vcpus \<le> max_vm_threads (logical_cores (sp_cpu p))))"

lemma length_keep_first [simp]: "length (keep_first_passthrough b rs) = length rs"
  by (induction b rs rule: keep_first_passthrough.induct) auto

lemma length_dual_roles [simp]: "length (dual_roles h q ts) = length ts"
  by (induction h q ts rule: dual_roles.induct) auto

lemma set_roles_slots: "length rs = length as \<Longrightarrow> map role_pci_slot (set_roles as rs) = map role_pci_slot as"
  by (induction as rs rule: list_induct2') (auto simp: set_roles_def)

lemma align_slots: "map role_pci_slot (align_gpu_roles_to_mode p m as) = map role_pci_slot as"
  by (cases m) (simp_all add: align_gpu_roles_to_mode_def set_roles_slots Let_def)

lemma four_fields:
  assumes "choices_inv p c st"
  shows "\<exists>m mc n t. cs_fields st = [GpuModeField m (available_modes p), MonitorPlanField mc monitor_choices,
      RamField n (total_kb (sp_ram p)), VcpuField t (logical_cores (sp_cpu p))] \<and>
    field_ok p c 0 (GpuModeField m (available_modes p)) \<and> field_ok p c 2 (RamField n (total_kb (sp_ram p))) \<and>
    field_ok p c 3 (VcpuField t (logical_cores (sp_cpu p)))"
proof -
  have len: "length (cs_fields st) = 4" and ok: "\<forall>i < 4. field_ok p c i (cs_fields st ! i)"
    using assms by (auto simp: choices_inv_def)
  from len obtain f0 f1 f2 f3 where f: "cs_fields st = [f0, f1, f2, f3]"
    by (auto simp: numeral_eq_Suc length_Suc_conv)
  have "field_ok p c 0 f0" "field_ok p c 1 f1" "field_ok p c 2 f2" "field_ok p c 3 f3"
    using ok[rule_format, of 0] ok[rule_format, of 1] ok[rule_format, of 2] ok[rule_format, of 3] by (simp_all add: f numeral_eq_Suc)
  then show ?thesis
    unfolding f by (cases f0; cases f1; cases f2; cases f3) (simp_all add: field_ok_def)
qed

lemma apply_to_edit:
  assumes "choices_inv p c st" "wizard_edit p c d"
  shows "wizard_edit p c (choices_apply_to p st d)"
proof -
  obtain m mc n t where st: "cs_fields st = [GpuModeField m (available_modes p), MonitorPlanField mc monitor_choices,
      RamField n (total_kb (sp_ram p)), VcpuField t (logical_cores (sp_cpu p))]"
    and ok: "field_ok p c 0 (GpuModeField m (available_modes p))" "field_ok p c 2 (RamField n (total_kb (sp_ram p)))"
    "field_ok p c 3 (VcpuField t (logical_cores (sp_cpu p)))"
    using four_fields[OF assms(1)] by blast
  have result: "choices_apply_to p st d = d\<lparr>cfg_gpu_mode := m, gpu_roles := align_gpu_roles_to_mode p m (gpu_roles d),
      cfg_monitor_plan := monitor_plan_from_choice p mc, resources := (resources d)\<lparr>ram_mb := n, vcpu_count := t\<rparr>\<rparr>"
    by (simp add: choices_apply_to_def st apply_field_def)
  from assms(2) obtain mode roles mons ram vcpus
    where d: "d = c\<lparr>cfg_gpu_mode := mode, gpu_roles := roles, cfg_monitor_plan := mons,
        resources := (resources c)\<lparr>ram_mb := ram, vcpu_count := vcpus\<rparr>\<rparr>"
      and roles: "map role_pci_slot roles = map role_pci_slot (gpu_roles c)"
    unfolding wizard_edit_def by blast
  show ?thesis unfolding wizard_edit_def result
    by (rule exI[of _ m], rule exI[of _ "align_gpu_roles_to_mode p m (gpu_roles d)"],
        rule exI[of _ "monitor_plan_from_choice p mc"], rule exI[of _ n], rule exI[of _ t])
      (use ok roles in \<open>auto simp: d align_slots field_ok_def\<close>)
qed

lemma run_edit:
  "app_inv getenv p r c a \<Longrightarrow> wizard_edit p c (app_config a) \<Longrightarrow> run_event_loop getenv es a = Inr a' \<Longrightarrow>
   wizard_edit p c (app_config a')"
proof (induction es arbitrary: a)
  case (Cons x es)
  obtain ex e where x: "x = (ex, e)" by (cases x)
  show ?case
  proof (cases "app_screen a = Exiting \<or> e = None")
    case True
    then show ?thesis using Cons x by (auto split: if_splits)
  next
    case False
    then obtain ev where ev: "e = Some ev" "app_screen a \<noteq> Exiting" by auto
    then obtain b where b: "handle_event ex getenv ev a = Inr b" "app_inv getenv p r c b"
      using handle_event_inv[OF Cons.prems(1)] by blast
    have p: "app_profile a = p" "choices_inv p c (app_choices a)" using Cons.prems(1) by (auto simp: app_inv_def)
    have "choices_apply act (app_choices a) = Inr st \<Longrightarrow> choices_inv p c st" for act st
      using choices_apply_inv[OF p(2), of act] by auto
    then have "wizard_edit p c (app_config b)"
      using b(1) Cons.prems(2) p apply_to_edit
      by (auto simp: handle_event_def commit_choices_def enter_preview_def on_preview_def Let_def
          split: wizard_event.splits screen.splits if_splits sum.splits choice_action.splits)
    then show ?thesis using Cons.IH[OF b(2)] Cons.prems(3) x ev b by (auto split: if_splits)
  qed
qed simp

text \<open>C20: whatever the user presses, the configuration differs from the one the wizard started with in
  the GPU mode, the roles of the same cards, the monitor plan, the RAM and the vCPU count only; a mode
  is one that was offered; and each number is its initial value or within its bounds: between 2 GiB
  and the host's RAM less 4 GiB (2 GiB on a host with less than 6), between one and the
  host's threads less one (one on a host with one).\<close>

theorem wizard_edits_bounded:
  "\<exists>a mode roles monitors ram vcpus. run_event_loop getenv es (new_app p r c) = Inr a \<and>
     app_config a = c\<lparr>cfg_gpu_mode := mode, gpu_roles := roles, cfg_monitor_plan := monitors,
       resources := (resources c)\<lparr>ram_mb := ram, vcpu_count := vcpus\<rparr>\<rparr> \<and>
     map role_pci_slot roles = map role_pci_slot (gpu_roles c) \<and>
     (mode = cfg_gpu_mode c \<or> mode \<in> set (available_modes p)) \<and>
     (ram = ram_mb (resources c) \<or>
        unat ram \<in> {2048..max 2048 (unat (total_kb (sp_ram p)) div 1024 - 4096)}) \<and>
     (vcpus = vcpu_count (resources c) \<or>
        unat vcpus \<in> {1..max 1 (unat (logical_cores (sp_cpu p)) - 1)})"
proof -
  obtain a where run: "run_event_loop getenv es (new_app p r c) = Inr a"
    using run_inv[OF new_app_inv] by blast
  have self: "wizard_edit p c (app_config (new_app p r c))"
    unfolding wizard_edit_def
    by (rule exI[of _ "cfg_gpu_mode c"], rule exI[of _ "gpu_roles c"], rule exI[of _ "cfg_monitor_plan c"],
        rule exI[of _ "ram_mb (resources c)"], rule exI[of _ "vcpu_count (resources c)"]) (simp add: new_app_def)
  have sub: "unat (sat_sub a b) = unat a - unat b" for a b :: "'a::len word"
    by (auto simp: sat_sub_def unat_sub word_less_nat_alt word_le_nat_alt)
  have mx: "unat (max a b) = max (unat a) (unat b)" for a b :: "'a::len word"
    by (simp add: max_def word_le_nat_alt)
  have "unat (max_vm_ram h) = max 2048 (unat h div 1024 - 4096)" for h
    by (simp add: max_vm_ram_def mx sub unat_div max.commute)
  moreover have "unat (max_vm_threads n) = max 1 (unat n - 1)" for n
    by (simp add: max_vm_threads_def mx sub max.commute)
  ultimately have bounds: "2048 \<le> ram \<and> ram \<le> max_vm_ram h \<longleftrightarrow> unat ram \<in> {2048..max 2048 (unat h div 1024 - 4096)}"
      "1 \<le> vcpus \<and> vcpus \<le> max_vm_threads n \<longleftrightarrow> unat vcpus \<in> {1..max 1 (unat n - 1)}" for ram h vcpus n
    by (simp_all add: word_le_nat_alt)
  show ?thesis
    using run run_edit[OF new_app_inv self run] unfolding wizard_edit_def bounds by blast
qed

section \<open>Which modes the alignment realises\<close>

text \<open>An untouched choice screen does not give the configuration back: Looking Glass on one monitor
  becomes switching of inputs, and the connectors of two monitors become the first two connected ones.\<close>

theorem untouched_monitor_plan:
  "cfg_monitor_plan (choices_apply_to p (new_choices p c) c) =
     (case cfg_monitor_plan c of
        OneMonitor s \<Rightarrow> OneMonitor (if s = HookHandoff then HookHandoff else SwitchInputs)
      | TwoMonitors _ _ \<Rightarrow> monitor_plan_from_choice p TwoMonitorsHostAndVm)"
  by (simp add: choices_apply_to_def new_choices_def apply_field_def Let_def monitor_choice_from_def
      monitor_plan_from_choice_def split: monitor_plan.splits single_monitor_strategy.splits)

lemma find_gpu_nth:
  assumes "distinct (map gpu_pci_slot gs)" "i < length gs"
  shows "List.find (\<lambda>g. gpu_pci_slot g = gpu_pci_slot (gs ! i)) gs = Some (gs ! i)"
  using assms
proof (induction gs arbitrary: i)
  case (Cons g gs)
  then show ?case by (cases i) (force simp: in_set_conv_nth)+
qed simp

text \<open>One assignment per card, in the order of the cards.\<close>

definition roles_cover :: "system_profile \<Rightarrow> gpu_role_assignment list \<Rightarrow> bool" where
  "roles_cover p as \<longleftrightarrow> distinct (map gpu_pci_slot (sp_gpus p)) \<and> map role_pci_slot as = map gpu_pci_slot (sp_gpus p)"

lemma covered_types:
  assumes "roles_cover p as"
  shows "map (\<lambda>a. find_gpu p (role_pci_slot a)) as = map Some (sp_gpus p)"
    "map (type_of_slot p) as = map (Some \<circ> gpu_type) (sp_gpus p)"
proof -
  have len: "length as = length (sp_gpus p)" using assms by (auto simp: roles_cover_def dest: map_eq_imp_length_eq)
  have "find_gpu p (role_pci_slot (as ! i)) = Some (sp_gpus p ! i)" if "i < length as" for i
  proof -
    have "role_pci_slot (as ! i) = gpu_pci_slot (sp_gpus p ! i)"
      using assms that len by (metis roles_cover_def nth_map)
    then show ?thesis using assms that len find_gpu_nth[of "sp_gpus p" i] by (simp add: find_gpu_def roles_cover_def)
  qed
  then show "map (\<lambda>a. find_gpu p (role_pci_slot a)) as = map Some (sp_gpus p)"
    "map (type_of_slot p) as = map (Some \<circ> gpu_type) (sp_gpus p)"
    by (auto simp: type_of_slot_def len intro!: nth_equalityI)
qed

text \<open>The cards with a role, as a list.\<close>

lemma found_with:
  assumes "roles_cover p as" "length rs = length as"
  shows "map (\<lambda>a. find_gpu p (role_pci_slot a)) (roles_with r (c\<lparr>gpu_roles := set_roles as rs\<rparr>)) =
    map (Some \<circ> fst) (filter (\<lambda>(g, r'). r' = r) (zip (sp_gpus p) rs))"
proof -
  have "map (\<lambda>a. find_gpu p (role_pci_slot a)) (filter (\<lambda>a. role_role a = r) (set_roles as rs)) =
      map (Some \<circ> fst) (filter (\<lambda>(g, r'). r' = r) (zip gs rs))"
    if "map (\<lambda>a. find_gpu p (role_pci_slot a)) as = map Some gs" "length rs = length as" for gs
    using that
  proof (induction as arbitrary: gs rs)
    case (Cons a as)
    then show ?case by (cases gs; cases rs) (auto simp: set_roles_def)
  qed (simp add: set_roles_def)
  then show ?thesis using covered_types(1)[OF assms(1)] assms(2) by (simp add: roles_with_def)
qed

lemma derived_of_roles:
  assumes "roles_cover p as" "length rs = length as"
  shows "derived_mode (c\<lparr>gpu_roles := set_roles as rs\<rparr>) p =
    (let n = count_list rs Passthrough; hosts = filter (\<lambda>(g, r). r = Host) (zip (sp_gpus p) rs) in
     if n = 0 then None else if 2 \<le> n then Some MultiGpu else if hosts = [] then Some SingleGpu
     else (case hosts of [(g, _)] \<Rightarrow> Some (if gpu_type g = Integrated then IgpuHost else DualGpu) | _ \<Rightarrow> None))"
proof -
  let ?c = "c\<lparr>gpu_roles := set_roles as rs\<rparr>" and ?h = "filter (\<lambda>(g, r). r = Host) (zip (sp_gpus p) rs)"
  have len: "length (sp_gpus p) = length rs" using assms by (auto simp: roles_cover_def dest: map_eq_imp_length_eq)
  have cnt: "length (filter (\<lambda>(g, r'). r' = r) (zip gs rs)) = count_list rs r" if "length gs = length rs" for gs :: "gpu_info list" and r
    using that by (induction gs rs rule: list_induct2) auto
  have pass: "length (roles_with Passthrough ?c) = count_list rs Passthrough"
    using arg_cong[OF found_with[OF assms, of Passthrough c], of length] by (simp add: cnt[OF len])
  note host = found_with[OF assms, of Host c]
  have host_gpu: "host_gpu ?c p = (case ?h of [(g, _)] \<Rightarrow> Some g | _ \<Rightarrow> None)"
    using host by (cases ?h; cases "roles_with Host ?c") (auto simp: host_gpu_def split: list.splits)
  have "(roles_with Host ?c = []) = (?h = [])" using host by (metis map_is_Nil_conv)
  then show ?thesis
    unfolding derived_mode_alt pass host_gpu by (auto simp: Let_def split: list.splits)
qed

definition cards :: "system_profile \<Rightarrow> gpu_type \<Rightarrow> nat" where
  "cards p t = length (filter (\<lambda>g. gpu_type g = t) (sp_gpus p))"

lemma keep_first_counts:
  "count_list (keep_first_passthrough seen rs) Passthrough = (if seen \<or> count_list rs Passthrough = 0 then 0 else 1)"
  "length rs = length gs \<Longrightarrow> filter (\<lambda>(g, r). r = Host) (zip gs (keep_first_passthrough seen rs)) =
     filter (\<lambda>(g, r). r = Host) (zip gs rs)"
proof -
  show "count_list (keep_first_passthrough seen rs) Passthrough = (if seen \<or> count_list rs Passthrough = 0 then 0 else 1)"
    by (induction seen rs rule: keep_first_passthrough.induct) auto
  show "length rs = length gs \<Longrightarrow> filter (\<lambda>(g, r). r = Host) (zip gs (keep_first_passthrough seen rs)) =
     filter (\<lambda>(g, r). r = Host) (zip gs rs)"
  proof (induction seen rs arbitrary: gs rule: keep_first_passthrough.induct)
    case (2 seen r rs)
    then show ?case by (cases gs) auto
  qed simp
qed

lemma igpu_counts:
  "count_list (map (\<lambda>g. igpu_role (Some (gpu_type g))) gs) Passthrough = length (filter (\<lambda>g. gpu_type g = Discrete) gs)"
  "filter (\<lambda>(g, r). r = Host) (zip gs (map (\<lambda>g. igpu_role (Some (gpu_type g))) gs)) =
     map (\<lambda>g. (g, Host)) (filter (\<lambda>g. gpu_type g = Integrated) gs)"
  by (induction gs) (auto simp: igpu_role_def split: gpu_type.splits)

lemma dual_counts:
  "count_list (dual_roles h q (map (Some \<circ> gpu_type) gs)) Passthrough =
     (if q then 0 else if (if h then 1 else 2) \<le> length (filter (\<lambda>g. gpu_type g = Discrete) gs) then 1 else 0)"
  "filter (\<lambda>(g, r). r = Host) (zip gs (dual_roles h q (map (Some \<circ> gpu_type) gs))) =
     (if h then [] else map (\<lambda>g. (g, Host)) (take 1 (filter (\<lambda>g. gpu_type g = Discrete) gs)))"
  by (induction gs arbitrary: h q) auto

lemma single_primary_found:
  assumes cover: "roles_cover p (gpu_roles c)"
  shows "(case single_primary p (gpu_roles c) of Some s \<Rightarrow> s \<in> set (map role_pci_slot (gpu_roles c)) | None \<Rightarrow> False) \<longleftrightarrow>
     roles_with Passthrough c \<noteq> [] \<or> 1 \<le> cards p Discrete"
proof (cases "List.find (\<lambda>a. role_role a = Passthrough) (gpu_roles c)")
  case (Some a)
  then have "a \<in> set (gpu_roles c)" "role_role a = Passthrough" by (auto simp: find_Some_iff)
  then show ?thesis using Some by (auto simp: single_primary_def roles_with_def filter_empty_conv)
next
  case unpassed: None
  then have none: "roles_with Passthrough c = []" by (auto simp: roles_with_def find_None_iff filter_empty_conv)
  have slots: "set (map role_pci_slot (gpu_roles c)) = gpu_pci_slot ` set (sp_gpus p)"
    using cover by (metis roles_cover_def set_map)
  show ?thesis
  proof (cases "List.find (\<lambda>g. gpu_type g = Discrete) (sp_gpus p)")
    case None
    moreover from this have "cards p Discrete = 0" by (auto simp: cards_def find_None_iff filter_empty_conv)
    ultimately show ?thesis using none unpassed by (simp add: single_primary_def)
  next
    case (Some g)
    then have "g \<in> set (sp_gpus p)" "gpu_type g = Discrete" by (auto simp: find_Some_iff)
    then have "1 \<le> cards p Discrete" by (cases "filter (\<lambda>g. gpu_type g = Discrete) (sp_gpus p)") (auto simp: cards_def filter_empty_conv)
    then show ?thesis using unpassed Some slots \<open>g \<in> set (sp_gpus p)\<close> by (simp add: single_primary_def)
  qed
qed

lemma passed_once:
  "distinct (map role_pci_slot as) \<Longrightarrow>
   count_list (map (\<lambda>a. if Some (role_pci_slot a) = x then Passthrough else Ignored) as) Passthrough =
     (case x of Some s \<Rightarrow> if s \<in> set (map role_pci_slot as) then 1 else 0 | None \<Rightarrow> 0)"
  by (induction as) (auto split: option.splits)

lemma aligned_single:
  assumes cover: "roles_cover p (gpu_roles c)"
  shows "derived_mode (c\<lparr>gpu_roles := align_gpu_roles_to_mode p SingleGpu (gpu_roles c)\<rparr>) p = Some SingleGpu \<longleftrightarrow>
    roles_with Passthrough c \<noteq> [] \<or> 1 \<le> cards p Discrete"
proof -
  let ?as = "gpu_roles c" and ?q = "single_primary p (gpu_roles c)"
  let ?rs = "map (\<lambda>a. if Some (role_pci_slot a) = ?q then Passthrough else Ignored) ?as"
  have slots: "distinct (map role_pci_slot ?as)" using cover by (simp add: roles_cover_def)
  have "filter (\<lambda>(g, r). r = Host) (zip (sp_gpus p) ?rs) = []" by (auto simp: filter_empty_conv dest!: set_zip_rightD)
  then show ?thesis
    using derived_of_roles[OF cover, of ?rs c] passed_once[OF slots, of ?q] single_primary_found[OF cover]
    by (auto simp: align_gpu_roles_to_mode_def Let_def split: option.splits if_splits)
qed

lemma aligned_igpu:
  assumes cover: "roles_cover p (gpu_roles c)"
  shows "derived_mode (c\<lparr>gpu_roles := align_gpu_roles_to_mode p IgpuHost (gpu_roles c)\<rparr>) p = Some IgpuHost \<longleftrightarrow>
    cards p Integrated = 1 \<and> 1 \<le> cards p Discrete"
proof -
  let ?as = "gpu_roles c" and ?gs = "sp_gpus p"
  have len: "length ?as = length ?gs" using cover by (auto simp: roles_cover_def dest: map_eq_imp_length_eq)
  note types = covered_types(2)[OF cover]
  let ?I = "filter (\<lambda>g. gpu_type g = Integrated) ?gs"
  let ?rs = "map (\<lambda>g. igpu_role (Some (gpu_type g))) ?gs"
  have rs: "map (\<lambda>a. igpu_role (type_of_slot p a)) ?as = ?rs"
    using arg_cong[OF types, of "map igpu_role"] by (simp add: comp_def)
  have "derived_mode (c\<lparr>gpu_roles := align_gpu_roles_to_mode p IgpuHost ?as\<rparr>) p =
      (if cards p Discrete = 0 then None else if ?I = [] then Some SingleGpu
       else (case map (\<lambda>g. (g, Host)) ?I of
         [(g, _)] \<Rightarrow> Some (if gpu_type g = Integrated then IgpuHost else DualGpu) | _ \<Rightarrow> None))"
    using derived_of_roles[OF cover, of "keep_first_passthrough False ?rs" c] len
    by (simp add: align_gpu_roles_to_mode_def rs keep_first_counts igpu_counts cards_def Let_def)
  moreover obtain I where I: "?I = I" "\<forall>g \<in> set I. gpu_type g = Integrated" by auto
  moreover have "cards p Integrated = length I" by (simp add: cards_def I)
  ultimately show ?thesis
    by (cases I rule: remdups_adj.cases) auto
qed

lemma aligned_dual:
  assumes cover: "roles_cover p (gpu_roles c)"
  shows "derived_mode (c\<lparr>gpu_roles := align_gpu_roles_to_mode p DualGpu (gpu_roles c)\<rparr>) p = Some DualGpu \<longleftrightarrow>
    2 \<le> cards p Discrete"
proof -
  let ?as = "gpu_roles c" and ?gs = "sp_gpus p"
  have len: "length ?as = length ?gs" using cover by (auto simp: roles_cover_def dest: map_eq_imp_length_eq)
  note types = covered_types(2)[OF cover]
  obtain D where D: "filter (\<lambda>g. gpu_type g = Discrete) ?gs = D" "\<forall>g \<in> set D. gpu_type g = Discrete" by auto
  moreover have "cards p Discrete = length D" by (simp add: cards_def D)
  moreover have "derived_mode (c\<lparr>gpu_roles := align_gpu_roles_to_mode p DualGpu ?as\<rparr>) p =
      (if \<not> 2 \<le> length D then None else if D = [] then Some SingleGpu
       else (case map (\<lambda>g. (g, Host)) (take 1 D) of
         [(g, _)] \<Rightarrow> Some (if gpu_type g = Integrated then IgpuHost else DualGpu) | _ \<Rightarrow> None))"
    using derived_of_roles[OF cover, of "dual_roles False False (map (type_of_slot p) ?as)" c] len
    by (simp add: align_gpu_roles_to_mode_def types dual_counts D(1) Let_def)
  ultimately show ?thesis by (cases D) auto
qed



end
