(* ===== verification/Session.thy ===== *)
theory Session
  imports Executor_B Resume Wizard Detect_Scan
begin

text \<open>
  \<open>main.rs\<close>: the commands of the program, each a computation on the file system of the machine it runs
  on, with the wrappers of \<open>snapshot/mod.rs\<close> for the real file system. A \<open>machine\<close> is the platform with
  the environment variables, the user, the clock and what a scan of the host observes; the lines a
  command prints are those of its outcome. The set-up of the log is in \<open>Program\<close>.
\<close>

record 'fs machine =
  mc_platform :: "'fs platform"
  mc_getenv :: "string \<Rightarrow> string option"
  mc_uid :: nat
  mc_view :: "'fs \<Rightarrow> host_view"
  mc_vm_env :: vm_env
  mc_clock :: "nat \<times> nat \<times> nat"
  mc_stamp :: string
  mc_list_dirs :: "path \<Rightarrow> 'fs \<Rightarrow> io_error + path list"

datatype session_error =
  RunAsRoot
| PendingExists path
| ScanFailed string
| DefaultsPanic panic
| NoGpus
| PhaseAFailed phase_a_error
| NoPending path
| ReadPendingFailed path io_error
| ParsePendingFailed path string
| PhaseBFailed phase_b_error
| SnapshotMissing string
| RollbackFailed snapshot_error
| NoSnapshotId
| ListFailed io_error
| WizardPanic wizard_panic

definition session_error_display :: "(path option \<Rightarrow> string) \<Rightarrow> session_error \<Rightarrow> string" where
  "session_error_display dbg e = (case e of
     RunAsRoot \<Rightarrow> ''Virtu must not be run as root.'' @ [LF]
       @ ''It will request elevated privileges only for specific operations via sudo.'' @ [LF]
       @ ''Please run as your normal user account.''
   | PendingExists q \<Rightarrow> ''A pending Virtu plan already exists at '' @ path_display q @ ''.'' @ [LF]
       @ ''Run `virtu resume` after rebooting, or `virtu rollback --to <id>` to abort it.''
   | ScanFailed m \<Rightarrow> m
   | DefaultsPanic _ \<Rightarrow> ''panicked''
   | NoGpus \<Rightarrow> ''No GPUs detected; cannot build a plan.''
   | PhaseAFailed src \<Rightarrow> ''Phase A failed: '' @ phase_a_error_display src
   | NoPending q \<Rightarrow> ''No pending Virtu plan found at '' @ path_display q @ ''.'' @ [LF]
       @ ''`virtu resume` only runs after a successful `virtu apply --phase a --confirm`.''
   | ReadPendingFailed q _ \<Rightarrow> ''reading pending-plan record at '' @ path_display q
   | ParsePendingFailed q _ \<Rightarrow> ''parsing pending-plan record at '' @ path_display q
   | PhaseBFailed src \<Rightarrow> ''Phase B failed: '' @ phase_b_error_display dbg src
   | SnapshotMissing i \<Rightarrow> ''Snapshot `'' @ i @ ''` does not exist''
   | RollbackFailed src \<Rightarrow> snapshot_error_display src
   | NoSnapshotId \<Rightarrow>
       ''Provide a snapshot ID with --to <ID>, or use --list to see available snapshots''
   | ListFailed src \<Rightarrow> io_message src
   | WizardPanic _ \<Rightarrow> ''panicked'')"

definition scan_host :: "'fs machine \<Rightarrow> ('fs, session_error, system_profile) io" where
  "scan_host M = io_map_err ScanFailed (io_query (\<lambda>s. scan_system (mc_view M s)))"

section \<open>Directories\<close>

text \<open>\<open>main.rs\<close> and \<open>snapshot/mod.rs\<close> each have their own home directory, with different fallbacks.\<close>

definition dirs_home :: "(string \<Rightarrow> string option) \<Rightarrow> path" where
  "dirs_home getenv =
     (case or_else (getenv ''HOME'') (getenv ''USERPROFILE'') of
        Some h \<Rightarrow> path_of h | None \<Rightarrow> path_of ''/tmp'')"

definition snapshot_home :: "(string \<Rightarrow> string option) \<Rightarrow> path" where
  "snapshot_home getenv = path_push
     (case or_else (getenv ''HOME'') (getenv ''USERPROFILE'') of
        Some h \<Rightarrow> path_of h | None \<Rightarrow> path_of ''.'') ''.virtu''"

definition snapshots_root :: "'fs machine \<Rightarrow> path" where
  "snapshots_root M = path_push (path_push (dirs_home (mc_getenv M)) ''.virtu'') ''snapshots''"

definition state_root :: "'fs machine \<Rightarrow> path" where
  "state_root M = path_push (path_push (dirs_home (mc_getenv M)) ''.virtu'') state_subdir"

section \<open>\<open>virtu apply\<close>\<close>

datatype apply_outcome =
  PlanRefused plan_error
| DryRun plan
| PhaseADone plan phase_a_outcome

definition dry_run_lines :: "string list" where
  "dry_run_lines = [LF # ''--- DRY RUN ---'',
     ''Re-run with `--confirm` to actually apply Phase A.'',
     ''Phase A will: capture a snapshot, edit the bootloader, write the VFIO'',
     ''modprobe snippet, rebuild the initramfs, and persist a pending-plan'',
     ''record. The host will need a reboot before `virtu resume` can finish.'']"

definition apply_lines :: "compatibility_report \<Rightarrow> apply_outcome \<Rightarrow> string list" where
  "apply_lines r out = report_lines r @ (case out of
     PlanRefused e \<Rightarrow> [LF # ''Plan refused: '' @ plan_error_display e]
   | DryRun pl \<Rightarrow> plan_lines pl @ dry_run_lines
   | PhaseADone pl out \<Rightarrow> plan_lines pl @ [LF # ''=== PHASE A COMPLETE ==='', pa_message out,
       ''Pending plan written to: '' @ path_display (pa_pending_path out)])"

definition run_apply :: "'fs machine \<Rightarrow> bool \<Rightarrow> ('fs, session_error, apply_outcome) io" where
  "run_apply M confirm =
     (let W = mc_platform M; record_path = pending_path (state_root M) in
      io_then (io_gets (fs_exists (pf_fs W) record_path)) (\<lambda>pending.
      if pending then io_err (PendingExists record_path) else
      io_then (scan_host M) (\<lambda>host.
      let report = build_compatibility_report host in
      io_then (io_lift (map_err DefaultsPanic (recommended_defaults (mc_stamp M) host))) (\<lambda>defaults.
      case defaults of None \<Rightarrow> io_err NoGpus
      | Some c \<Rightarrow>
          io_then (io_gets (\<lambda>s. make_plan (\<lambda>q. fs_exists (pf_fs W) q s) (mc_getenv M) host report c)) (\<lambda>planned.
          case planned of Inl e \<Rightarrow> io_ok (PlanRefused e)
          | Inr pl \<Rightarrow>
              if \<not> confirm then io_ok (DryRun pl)
              else io_then (io_map_err PhaseAFailed (execute_phase_a W (mc_clock M) pl host c
                       (snapshots_root M) (state_root M) RunRegenerate)) (\<lambda>out. io_ok (PhaseADone pl out)))))))"

section \<open>\<open>virtu resume\<close>\<close>

datatype resume_outcome =
  ResumeRefused pending_plan resume_readiness
| PhaseBDone pending_plan phase_b_outcome "(string + divergence list) option"

text \<open>The manifest read again after Phase B; the text of the error is that of its context.\<close>

definition read_manifest_from_disk :: "'fs platform \<Rightarrow> path \<Rightarrow> 'fs \<Rightarrow> string + snapshot_manifest" where
  "read_manifest_from_disk W q s =
     (case fs_read (pf_fs W) q s of
        Inl _ \<Rightarrow> Inl (''reading manifest at '' @ path_display q)
      | Inr bytes \<Rightarrow> (case from_utf8 bytes of
          None \<Rightarrow> Inl (''reading manifest at '' @ path_display q)
        | Some t \<Rightarrow> map_err (\<lambda>_. ''parsing manifest at '' @ path_display q) (from_toml (pf_manifest_codec W) t)))"

definition hook_post_check ::
  "'fs platform \<Rightarrow> path \<Rightarrow> pending_plan \<Rightarrow> phase_b_outcome \<Rightarrow> 'fs \<Rightarrow> (string + divergence list) option" where
  "hook_post_check W root pending out s =
     (if HookInstall \<in> set (pb_completed out)
      then Some (map_sum id (\<lambda>m. verify_hook_install m (pf_fs W) (pf_sha256 W) (vm_name (pp_config pending)) s)
             (read_manifest_from_disk W (manifest_path root (pb_snapshot_id out)) s))
      else None)"

definition read_pending :: "'fs machine \<Rightarrow> ('fs, session_error, pending_plan) io" where
  "read_pending M =
     (let W = mc_platform M; record_path = pending_path (state_root M) in
      io_then (io_gets (fs_exists (pf_fs W) record_path)) (\<lambda>present.
      if \<not> present then io_err (NoPending record_path) else
      io_then (io_map_err (ReadPendingFailed record_path) (io_query (fs_read (pf_fs W) record_path))) (\<lambda>bytes.
      case from_utf8 bytes of
        None \<Rightarrow> io_err (ReadPendingFailed record_path (IoError InvalidData ''stream did not contain valid UTF-8''))
      | Some t \<Rightarrow> io_lift (map_err (ParsePendingFailed record_path) (from_toml (pf_pending_codec W) t)))))"

definition run_resume :: "'fs machine \<Rightarrow> ('fs, session_error, resume_outcome) io" where
  "run_resume M =
     (let W = mc_platform M in
      io_then (read_pending M) (\<lambda>pending.
      io_then (scan_host M) (\<lambda>host.
      let readiness = verify_phase_a_landed host pending in
      if readiness \<noteq> ResumeReady then io_ok (ResumeRefused pending readiness)
      else io_then (io_map_err PhaseBFailed (execute_phase_b W (mc_vm_env M) pending host
               (snapshots_root M) (state_root M) RunCommands)) (\<lambda>out.
           io_then (io_gets (hook_post_check W (snapshots_root M) pending out)) (\<lambda>check.
             io_ok (PhaseBDone pending out check))))))"

text \<open>The lines printed; \<open>stamp\<close> formats the time of the record.\<close>

definition resume_lines :: "(nat \<Rightarrow> string) \<Rightarrow> path \<Rightarrow> path \<Rightarrow> resume_outcome \<Rightarrow> string list" where
  "resume_lines stamp record_path root out =
     (let opening = (\<lambda>p. [''=== VIRTU RESUME ==='', ''Pending plan from: '' @ stamp (pp_created_at p),
            ''Snapshot id:       '' @ pp_snapshot_id p,
            ''Phase B steps:     '' @ show_nat (length (pp_remaining p)), '''']);
          back = (\<lambda>m p. LF # m @ [LF] @ ''  virtu rollback --to '' @ pp_snapshot_id p);
          kinds = (\<lambda>title ks. if ks = [] then [] else title # map (\<lambda>k. ''  - '' @ step_debug k) ks)
      in (case out of
        ResumeRefused p (NotReady ds) \<Rightarrow> opening p
          @ [''Verifier: Phase A did NOT land cleanly. Resume refused.'' @ [LF]]
          @ map (\<lambda>d. ''  - '' @ divergence_summary d) ds
          @ [back ''If the bootloader edit failed, you can roll back with:'' p]
      | ResumeRefused p (WrongHost rs) \<Rightarrow> opening p
          @ [''Verifier: this host does not match the one Phase A captured. Resume refused.'' @ [LF]]
          @ map (\<lambda>r. ''  - '' @ mismatch_summary r) rs
          @ [back ''If you intended to run Phase B on a different host, abort with:'' p]
      | ResumeRefused p ResumeReady \<Rightarrow> []
      | PhaseBDone p b check \<Rightarrow> opening p @ [''Verifier: Phase A landed cleanly.'' @ [LF], LF # ''=== PHASE B SUMMARY ==='']
          @ kinds ''Completed:'' (pb_completed b)
          @ kinds ''Deferred to a later milestone (not yet implemented):'' (pb_deferred b)
          @ (case check of
               Some (Inr ds) \<Rightarrow> if ds = [] then [] else
                 (LF # ''[WARN] Single-GPU hook scripts diverge from the Phase-B manifest:'')
                 # map (\<lambda>d. ''  - '' @ divergence_summary d) ds
                 @ [''       Re-run `virtu apply` to regenerate, or `virtu rollback --to '' @ pb_snapshot_id b @ ''` to undo.'']
             | Some (Inl e) \<Rightarrow> [LF # ''[WARN] Could not re-read the snapshot manifest at ''
                 @ path_display (manifest_path root (pb_snapshot_id b)) @ '' to verify hook scripts: '' @ e @ ''.'' @ [LF]
                 @ ''       Phase B succeeded; this is a verification-only failure.'']
             | None \<Rightarrow> [])
          @ [if pb_pending_cleared b then LF # ''Pending-plan record cleared. You can run `virtu apply` again later.''
             else LF # ''Pending-plan record still on disk at '' @ path_display record_path
               @ ''. Inspect or remove it manually if you're done.'']
          @ [LF # ''Snapshot id (kept for rollback): '' @ pb_snapshot_id b]))"

section \<open>\<open>virtu rollback\<close>\<close>

definition rollback_to :: "'fs machine \<Rightarrow> string \<Rightarrow> ('fs, session_error, restore_summary) io" where
  "rollback_to M sid =
     (let W = mc_platform M; root = path_push (snapshot_home (mc_getenv M)) ''snapshots'' in
      io_then (io_gets (fs_exists (pf_fs W) (path_push root sid))) (\<lambda>present.
      if \<not> present then io_err (SnapshotMissing sid)
      else io_map_err RollbackFailed (restore (pf_fs W) (pf_sha256 W) (pf_manifest_codec W) root sid)))"

definition read_manifest_from_dir :: "'fs platform \<Rightarrow> path \<Rightarrow> 'fs \<Rightarrow> string + snapshot_manifest" where
  "read_manifest_from_dir W dir s =
     (case fs_read (pf_fs W) (path_push dir manifest_filename) s of
        Inl e \<Rightarrow> Inl (io_message e)
      | Inr bytes \<Rightarrow> (case from_utf8 bytes of
          None \<Rightarrow> Inl ''stream did not contain valid UTF-8''
        | Some t \<Rightarrow> from_toml (pf_manifest_codec W) t))"

text \<open>\<open>mc_list_dirs\<close> gives the directories below a path in the order of \<open>PathBuf\<close> (the sorted \<open>entries\<close>),
  or the error of the listing.\<close>

definition list_snapshots :: "'fs machine \<Rightarrow> (nat \<Rightarrow> string) \<Rightarrow> ('fs, session_error, string list) io" where
  "list_snapshots M stamp =
     (let W = mc_platform M; root = path_push (snapshot_home (mc_getenv M)) ''snapshots'' in
      io_then (io_gets (fs_exists (pf_fs W) root)) (\<lambda>present.
      if \<not> present then io_ok [''No Virtu snapshots found.''] else
      io_then (io_map_err ListFailed (io_query (mc_list_dirs M root))) (\<lambda>dirs.
      if dirs = [] then io_ok [''No Virtu snapshots found.''] else
      io_gets (\<lambda>s. ''Available Virtu snapshots:'' # map (\<lambda>d.
          let sid = (case path_file_name d of Some n \<Rightarrow> n | None \<Rightarrow> '''') in
          (case read_manifest_from_dir W d s of
             Inr m \<Rightarrow> ''  '' @ sid @ ''  ('' @ show_nat (length (entries m)) @ '' entries, ''
               @ show_nat (total_steps (manifest_plan_summary m)) @ '' step(s), captured ''
               @ stamp (created_at m) @ '')''
           | Inl e \<Rightarrow> ''  '' @ sid @ ''  (manifest unreadable: '' @ e @ '')'')) dirs))))"

section \<open>\<open>virtu plan\<close>, \<open>virtu status\<close> and the dispatch\<close>

definition run_plan :: "'fs machine \<Rightarrow> ('fs, session_error, string list) io" where
  "run_plan M =
     (let W = mc_platform M in
      io_then (scan_host M) (\<lambda>host.
      let report = build_compatibility_report host in
      io_then (io_lift (map_err DefaultsPanic (recommended_defaults (mc_stamp M) host))) (\<lambda>defaults.
      case defaults of None \<Rightarrow> io_ok (report_lines report @ [''No GPUs detected; cannot build a plan.''])
      | Some c \<Rightarrow> io_gets (\<lambda>s. report_lines report @
          (case make_plan (\<lambda>q. fs_exists (pf_fs W) q s) (mc_getenv M) host report c of
             Inr pl \<Rightarrow> plan_lines pl | Inl e \<Rightarrow> [LF # ''Plan refused: '' @ plan_error_display e])))))"

definition pending_warning :: "'fs machine \<Rightarrow> 'fs \<Rightarrow> string list" where
  "pending_warning M s =
     (let record_path = pending_path (state_root M) in
      if fs_exists (pf_fs (mc_platform M)) record_path s
      then [LF # ''[NOTE] A Phase-A apply is pending. Reboot and run `virtu resume` to finish, or `virtu rollback --to <id>` to abort.'' @ [LF]
        @ ''       Record: '' @ path_display record_path]
      else [])"

definition run_status :: "'fs machine \<Rightarrow> ('fs, session_error, string list) io" where
  "run_status M = io_then (io_gets (pending_warning M)) (\<lambda>warning.
     io_then (io_map_err ScanFailed (io_query (\<lambda>s. vfio_status_lines (mc_view M s)))) (\<lambda>ls. io_ok (warning @ ls)))"

definition run_scan :: "'fs machine \<Rightarrow> ('fs, session_error, string list) io" where
  "run_scan M = io_then (scan_host M) (\<lambda>host.
     io_ok (scan_report_lines host @ report_lines (build_compatibility_report host)))"

text \<open>The wizard: \<open>events\<close> is what the terminal delivers, \<open>None\<close> when there is no terminal.\<close>

definition wizard_fallback_lines :: "string list" where
  "wizard_fallback_lines =
     [''Virtu wizard cannot launch: stdin or stdout is not a TTY.'',
      ''Run `virtu scan` for the detection summary, or invoke `virtu wizard`'', ''from an interactive terminal.'']"

definition run_wizard_command ::
  "'fs machine \<Rightarrow> ((guest_os \<Rightarrow> string) \<times> (monitor_plan \<Rightarrow> string) \<times> (disk_choice \<Rightarrow> string))
    \<Rightarrow> ((path \<Rightarrow> bool) \<times> wizard_event option) list option \<Rightarrow> ('fs, session_error, string list) io" where
  "run_wizard_command M dbg events =
     (case events of None \<Rightarrow> io_ok wizard_fallback_lines
      | Some es \<Rightarrow>
          io_then (io_map_err (\<lambda>_. ScanFailed ''scanning host before launching the wizard'') (scan_host M)) (\<lambda>host.
          io_then (io_lift (map_err DefaultsPanic (run_wizard (mc_stamp M) (mc_getenv M) es host))) (\<lambda>ended.
          io_then (io_lift (map_err WizardPanic ended)) (\<lambda>a.
          if was_confirmed a
          then io_gets (\<lambda>s. confirmed_lines dbg (\<lambda>q. fs_exists (pf_fs (mc_platform M)) q s) (mc_getenv M) a)
          else io_ok [''Wizard exited without confirming a plan.'']))))"

definition check_not_root :: "'fs machine \<Rightarrow> ('fs, session_error, unit) io" where
  "check_not_root M = (if mc_uid M = 0 then io_err RunAsRoot else io_ok ())"

datatype cli_command =
  CmdWizard "((path \<Rightarrow> bool) \<times> wizard_event option) list option"
| CmdScan
| CmdPlan
| CmdApply bool
| CmdResume
| CmdRollback bool "string option"
| CmdStatus

datatype command_outcome =
  Printed "string list"
| ApplyOutcome apply_outcome
| ResumeOutcome resume_outcome
| RollbackOutcome restore_summary

text \<open>The \<open>match\<close> of \<open>main\<close>. \<open>stamp\<close> formats a time, \<open>dbg\<close> is the derived \<open>Debug\<close> of the
  three types the confirmed plan prints with it.\<close>

definition dispatch_command ::
  "'fs machine \<Rightarrow> (nat \<Rightarrow> string) \<Rightarrow> ((guest_os \<Rightarrow> string) \<times> (monitor_plan \<Rightarrow> string) \<times> (disk_choice \<Rightarrow> string))
    \<Rightarrow> cli_command \<Rightarrow> ('fs, session_error, command_outcome) io" where
  "dispatch_command M stamp dbg cmd = (case cmd of
       CmdWizard events \<Rightarrow> io_then (run_wizard_command M dbg events) (\<lambda>ls. io_ok (Printed ls))
     | CmdScan \<Rightarrow> io_then (run_scan M) (\<lambda>ls. io_ok (Printed ls))
     | CmdStatus \<Rightarrow> io_then (run_status M) (\<lambda>ls. io_ok (Printed ls))
     | CmdPlan \<Rightarrow> io_then (run_plan M) (\<lambda>ls. io_ok (Printed ls))
     | CmdApply confirm \<Rightarrow> io_then (run_apply M confirm) (\<lambda>out. io_ok (ApplyOutcome out))
     | CmdResume \<Rightarrow> io_then (run_resume M) (\<lambda>out. io_ok (ResumeOutcome out))
     | CmdRollback list sid \<Rightarrow>
         if list then io_then (list_snapshots M stamp) (\<lambda>ls. io_ok (Printed ls))
         else (case sid of None \<Rightarrow> io_err NoSnapshotId
               | Some i \<Rightarrow> io_then (rollback_to M i) (\<lambda>sm. io_ok (RollbackOutcome sm))))"

definition run_command_line ::
  "'fs machine \<Rightarrow> (nat \<Rightarrow> string) \<Rightarrow> ((guest_os \<Rightarrow> string) \<times> (monitor_plan \<Rightarrow> string) \<times> (disk_choice \<Rightarrow> string))
    \<Rightarrow> cli_command \<Rightarrow> ('fs, session_error, command_outcome) io" where
  "run_command_line M stamp dbg cmd = io_then (check_not_root M) (\<lambda>_. dispatch_command M stamp dbg cmd)"

end
