(* ===== verification/Detect_Props.thy ===== *)
theory Detect_Props
  imports Detect_Scan Sample_Platform
begin

text \<open>
  What the scan promises to the later stages, and two places where the bootloader it detects is not
  the one that Phase A works on.
\<close>

section \<open>A scan is consistent\<close>

definition group_consistent :: "iommu_group \<Rightarrow> bool" where
  "group_consistent g \<longleftrightarrow> is_isolated_for_gpu g = check_gpu_isolation (group_devices g) \<and>
     sorted (map dev_pci_slot (group_devices g)) \<and>
     list_all (\<lambda>d. dev_is_bridge d = is_bridge_class (dev_class d)) (group_devices g)"

definition gpu_consistent :: "iommu_group list \<Rightarrow> gpu_info \<Rightarrow> bool" where
  "gpu_consistent groups g \<longleftrightarrow> gpu_vendor g = vendor_id_to_vendor (gpu_vendor_id g) \<and>
     gpu_type g = determine_gpu_type (gpu_vendor g) (gpu_pci_slot g) \<and>
     iommu_isolated g = is_gpu_isolated groups (gpu_pci_slot g) \<and>
     iommu_group_id g = group_for_pci_slot groups (gpu_pci_slot g) \<and>
     vfio_compatible g = (iommu_isolated g \<and> gpu_current_driver g \<noteq> Some ''vfio-pci'')"

lemma map_filter_setD: "x \<in> set (List.map_filter f xs) \<Longrightarrow> \<exists>y \<in> set xs. f y = Some x"
  by (auto simp: List.map_filter_def)

lemma group_of_entry: "read_group v sysfs groups raw = Some g \<Longrightarrow> group_consistent g"
  by (auto simp: read_group_def group_consistent_def read_group_devices_def read_group_device_def Let_def
      list_all_iff split: option.splits if_splits)

lemma gpu_of_entry:
  "gpu_entry v sysfs devices raw = Some g \<Longrightarrow> gpu_vendor g = vendor_id_to_vendor (gpu_vendor_id g) \<and>
     gpu_type g = determine_gpu_type (gpu_vendor g) (gpu_pci_slot g)"
  by (auto simp: gpu_entry_def parse_gpu_device_def Let_def split: option.splits if_splits)


text \<open>A small host: one card with its audio function in one group, GRUB on Fedora paths, systemd-boot beside it
  when there is no \<open>/etc/default/grub\<close>.\<close>

definition view_of :: "(string \<times> string) list \<Rightarrow> (string \<times> string list) list \<Rightarrow> host_view" where
  "view_of files dirs =
     \<lparr>hv_bytes = (\<lambda>q. map_of files (path_display q)),
      hv_exists = (\<lambda>q. map_of files (path_display q) \<noteq> None \<or> map_of dirs (path_display q) \<noteq> None),
      hv_dir = (\<lambda>q. case map_of dirs (path_display q) of
        Some ns \<Rightarrow> Inr (ns, None) | None \<Rightarrow> Inl (IoError NotFound ''not found'')),
      hv_link = (\<lambda>_. None), hv_which = (\<lambda>_. False), hv_run = (\<lambda>_. None), hv_env = (\<lambda>_. None), hv_uid = 1000\<rparr>"

definition card_files :: "(string \<times> string) list" where
  "card_files =
     [(''/proc/cpuinfo'', ''vendor_id: GenuineIntel'' @ [LF]), (''/proc/meminfo'', ''MemTotal: 1024 kB''),
      (''/sys/bus/pci/devices/0000:01:00.0/class'', ''0x030000'' @ [LF]),
      (''/sys/bus/pci/devices/0000:01:00.0/vendor'', ''0x10de'' @ [LF]),
      (''/sys/bus/pci/devices/0000:01:00.0/device'', ''0x2204'' @ [LF]),
      (''/sys/kernel/iommu_groups/1/devices/0000:01:00.0/class'', ''0x030000'' @ [LF])]"

definition card_dirs :: "(string \<times> string list) list" where
  "card_dirs =
     [(''/sys/bus/pci/devices'', [''0000:01:00.0'']), (''/sys/kernel/iommu_groups'', [''1'']),
      (''/sys/kernel/iommu_groups/1/devices'', [''0000:01:00.0''])]"

definition card_view :: host_view where
  "card_view = view_of card_files card_dirs"

lemma scan_succeeds:
  assumes "detect_gpus v sysfs_dir = Inr gpus" "is_ok (detect_groups v sysfs_dir)" "is_ok (detect_cpu v)"
    "is_ok (detect_memory v)" "is_ok (detect_monitors v (path_of ''/sys/class/drm''))" "is_ok (detect_input_devices v root_dir)"
  shows "\<exists>p groups. scan_system v = Inr p \<and> sp_gpus p = map (annotate_gpu groups) gpus"
  using assms by (auto simp: scan_system_def is_ok_iff Let_def)


section \<open>systemd-boot: the wrong file\<close>

lemma loader_conf_cases:
  "set (map (rooted root_dir) loader_confs) = {Path True [''boot'', ''loader'', ''loader.conf''],
     Path True [''efi'', ''loader'', ''loader.conf''], Path True [''boot'', ''efi'', ''loader'', ''loader.conf'']}"
  by code_simp

lemma systemd_boot_detected:
  assumes kind: "bootloader_kind (detect_bootloader v) = SystemdBoot"
    and names: "\<forall>d ns e. hv_dir v d = Inr (ns, e) \<longrightarrow> list_all plain_name ns"
  obtains q where "bootloader_config_path (detect_bootloader v) = Some q" "q \<in> set (map (rooted root_dir) loader_confs)"
    "\<forall>e \<in> set (entry_paths (detect_bootloader v)). length (components e) = length (components q) + 1"
proof -
  have sd: "detect_systemd_boot v root_dir uefi = Some (detect_bootloader v)" if "uefi = hv_exists v (path_of ''/sys/firmware/efi'')" for uefi
    using kind that
    by (auto simp: detect_bootloader_def detect_bootloader_from_root_def Let_def detect_grub2_def plain_bootloader_def
        detect_refind_def detect_syslinux_def detect_efistub_def split: option.splits if_splits)
  obtain uefi where "uefi = hv_exists v (path_of ''/sys/firmware/efi'')" by simp
  note sd = sd[OF this]
  from sd obtain q where f: "first_existing v root_dir loader_confs = Some q"
    by (auto simp: detect_systemd_boot_def bind_eq_Some_conv split: if_splits)
  with sd obtain d where "path_parent q = Some d"
    by (auto simp: detect_systemd_boot_def bind_eq_Some_conv split: if_splits)
  moreover have "uefi" using sd by (auto simp: detect_systemd_boot_def split: if_splits)
  moreover have "detect_bootloader v = the (detect_systemd_boot v root_dir uefi)" using sd by simp
  ultimately have "first_existing v root_dir loader_confs = Some q" "path_parent q = Some d"
    "bootloader_config_path (detect_bootloader v) = Some q"
    "set (entry_paths (detect_bootloader v)) \<subseteq> path_push (path_push d ''entries'') ` set (names_seen v (path_push d ''entries''))"
    using f by (auto simp: detect_systemd_boot_def Let_def)
  then obtain q d where q: "first_existing v root_dir loader_confs = Some q" "path_parent q = Some d"
    "bootloader_config_path (detect_bootloader v) = Some q"
    "set (entry_paths (detect_bootloader v)) \<subseteq> path_push (path_push d ''entries'') ` set (names_seen v (path_push d ''entries''))"
    by blast
  have mem: "q \<in> set (map (rooted root_dir) loader_confs)"
    using q(1) by (force simp: first_existing_def find_Some_iff in_set_conv_nth)
  have "length (components d) + 1 = length (components q)"
    using q(2) by (auto simp: path_parent_def split: if_splits)
  moreover have "plain_name ''entries''" by (simp add: plain_name_def)
  moreover have "plain_name n" if "n \<in> set (names_seen v (path_push d ''entries''))" for n
    using that names by (cases "hv_dir v (path_push d ''entries'')") (auto simp: names_seen_def list_all_iff)
  ultimately have "\<forall>e \<in> set (entry_paths (detect_bootloader v)). length (components e) = length (components q) + 1"
    using q(4) by (auto simp: path_push_plain)
  with q(3) mem that show thesis by blast
qed

text \<open>C25: on a host that boots with systemd-boot, the file that the scan records as the bootloader's
  configuration is the \<open>loader.conf\<close>, so that is the file the planner names and the file Phase A rewrites as if
  it were a boot entry: the kernel parameters become an \<open>options\<close> line of \<open>loader.conf\<close>, and every
  boot entry keeps its contents.\<close>

theorem systemd_boot_entries_untouched:
  assumes laws: "file_system_laws (pf_fs W)"
    and detected: "sp_bootloader host = detect_bootloader v" "bootloader_kind (detect_bootloader v) = SystemdBoot"
    and names: "\<forall>d ns e. hv_dir v d = Inr (ns, e) \<longrightarrow> list_all plain_name ns"
    and planned: "bootloader_step host c = Some st"
    and run: "run_bootloader_step W st host c m s = (Inr m', s')"
  shows "(\<exists>q old new. q \<in> set (map (rooted root_dir) loader_confs) \<and> step_touches st = [q] \<and>
      rewrite_systemd_boot_entry old (required_kernel_params host c) = Inr new \<and>
      fs_content (pf_fs W) s' = (fs_content (pf_fs W) s)(q \<mapsto> new)) \<and>
    (\<forall>e \<in> set (entry_paths (sp_bootloader host)). fs_content (pf_fs W) s' e = fs_content (pf_fs W) s e)"
proof -
  obtain q where q: "bootloader_config_path (detect_bootloader v) = Some q" "q \<in> set (map (rooted root_dir) loader_confs)"
    "\<forall>e \<in> set (entry_paths (detect_bootloader v)). length (components e) = length (components q) + 1"
    using systemd_boot_detected[OF detected(2) names] by blast
  then have touches: "step_touches st = [q]"
    using planned detected by (auto simp: bootloader_step_def Let_def)
  from run obtain old new where new: "rewrite_systemd_boot_entry old (required_kernel_params host c) = Inr new"
    and guarded: "snapshot_then_write (pf_fs W) (pf_sha256 W) m q new s = (Inr m', s')"
    by (auto simp: run_bootloader_step_def touches detected io_then_Inr_iff read_target_def write_target_def Let_def)
  have content: "fs_content (pf_fs W) s' = (fs_content (pf_fs W) s)(q \<mapsto> new)"
    by (rule file_system_laws.write_step_effect[OF laws guarded])
  moreover have "e \<noteq> q" if "e \<in> set (entry_paths (sp_bootloader host))" for e
    using q(3) that by (auto simp: detected)
  ultimately show ?thesis using q(2) touches new by auto
qed

definition sdboot_view :: host_view where
  "sdboot_view = view_of [(''/boot/loader/loader.conf'', ''default arch.conf''), (''/boot/loader/entries/arch.conf'', ''options quiet'')]
     [(''/sys/firmware/efi'', []), (''/boot/loader/entries'', [''arch.conf''])]"

definition sdboot_host :: system_profile where
  "sdboot_host = sample_profile\<lparr>sp_bootloader := detect_bootloader sdboot_view\<rparr>"

definition sdboot_fs :: mem_fs where
  "sdboot_fs = mem_seed_file (path_of ''/boot/loader/loader.conf'') ''default arch.conf''
     (mem_seed_file (path_of ''/boot/loader/entries/arch.conf'') ''options quiet'' mem_empty)"

definition sdboot_manifest :: snapshot_manifest where
  "sdboot_manifest = push_entry \<lparr>original_path = path_of ''/boot/loader/loader.conf'',
       backup_path = backup_relative_path (path_of ''/boot/loader/loader.conf''), pre_edit_sha256 = ''default arch.conf'',
       post_edit_sha256 = None, original_existed = True, entry_produced_by = BootloaderWrite\<rparr> small_manifest"

theorem systemd_boot_entries_untouched_witness:
  "\<exists>st m' s'. bootloader_step sdboot_host sample_config = Some st \<and>
     run_bootloader_step (quiet_platform [] []) st sdboot_host sample_config sdboot_manifest sdboot_fs = (Inr m', s') \<and>
     mem_files s' (path_of ''/boot/loader/entries/arch.conf'') = Some ''options quiet''"
proof -
  let ?W = "quiet_platform [] []" and ?e = "path_of ''/boot/loader/entries/arch.conf''"
  have kind: "bootloader_kind (detect_bootloader sdboot_view) = SystemdBoot"
    and entry: "entry_paths (detect_bootloader sdboot_view) = [?e]"
    and there: "mem_files sdboot_fs ?e = Some ''options quiet''" by code_simp+
  have ran: "case bootloader_step sdboot_host sample_config of None \<Rightarrow> False
      | Some st \<Rightarrow> is_ok (fst (run_bootloader_step ?W st sdboot_host sample_config sdboot_manifest sdboot_fs))" by code_simp
  then obtain st where st: "bootloader_step sdboot_host sample_config = Some st" by (auto split: option.splits)
  with ran obtain m' s' where run: "run_bootloader_step ?W st sdboot_host sample_config sdboot_manifest sdboot_fs = (Inr m', s')"
    by (cases "run_bootloader_step ?W st sdboot_host sample_config sdboot_manifest sdboot_fs") (auto simp: is_ok_iff)
  have names: "\<forall>d ns e. hv_dir sdboot_view d = Inr (ns, e) \<longrightarrow> list_all plain_name ns"
    by (auto simp: sdboot_view_def view_of_def plain_name_def split: option.splits if_splits)
  have host: "sp_bootloader sdboot_host = detect_bootloader sdboot_view" by (simp add: sdboot_host_def)
  have laws: "file_system_laws (pf_fs ?W)" by (simp add: memfs.file_system_laws_axioms)
  from systemd_boot_entries_untouched[OF laws host kind names st run] st run there show ?thesis
    by (auto simp: host entry)
qed

section \<open>GRUB: the wrong command\<close>

lemma phase_a_kinds:
  "io_fold (phase_a_step W host c) (m, ks) steps s = (Inr (m', ks'), s') \<Longrightarrow>
     ks' = ks @ filter edits (map step_kind steps)"
proof (induction steps arbitrary: m ks s)
  case (Cons step steps)
  then obtain m1 ks1 s1 where one: "phase_a_step W host c (m, ks) step s = (Inr (m1, ks1), s1)"
    and rest: "io_fold (phase_a_step W host c) (m1, ks1) steps s1 = (Inr (m', ks'), s')"
    by (auto simp: io_then_Inr_iff)
  have "ks1 = ks @ (if edits (step_kind step) then [step_kind step] else [])"
    using one by (cases "step_kind step") (auto simp: phase_a_step_def io_then_Inr_iff edits_def)
  then show ?case using Cons.IH[OF rest] by simp
qed simp

text \<open>On a host with GRUB under \<open>/boot/grub2\<close> (Fedora and its relatives, where the tool is
  called \<open>grub2-mkconfig\<close>) the scan records the right command and the plan shows it, but Phase A always
  runs \<open>grub-mkconfig\<close>: when that program is not installed the phase cannot succeed, whatever the plan, the
  choices and the files.\<close>

theorem grub2_host_phase_a_fails:
  assumes detected: "sp_bootloader host = detect_bootloader v" "hv_exists v (path_of ''/etc/default/grub'')"
      "hv_exists v (path_of ''/boot/grub2/grub.cfg'')"
    and planned: "bootloader_step host c = Some st" "st \<in> set (plan_steps pl)"
    and missing: "\<And>s. \<not> which (pf_host W) ''grub-mkconfig'' s"
  shows "step_commands st = [''grub2-mkconfig -o /boot/grub2/grub.cfg''] \<and>
    \<not> is_ok (fst (execute_phase_a W clock pl host c root state RunRegenerate s0))"
proof -
  have paths: "rooted root_dir ''/etc/default/grub'' = path_of ''/etc/default/grub''"
    "rooted root_dir ''/boot/grub2/grub.cfg'' = path_of ''/boot/grub2/grub.cfg''" by code_simp+
  have det: "bootloader_kind (detect_bootloader v) = Grub2"
    "update_command (detect_bootloader v) = Some ''grub2-mkconfig -o /boot/grub2/grub.cfg''"
    using detected(2,3)
    by (simp_all add: detect_bootloader_def detect_bootloader_from_root_def detect_grub2_def paths plain_bootloader_def
        grub_update_command_def Let_def)
  have st: "step_commands st = [''grub2-mkconfig -o /boot/grub2/grub.cfg'']" "step_kind st = BootloaderWrite"
    using planned(1) by (auto simp: bootloader_step_def Let_def detected(1) det split: option.splits)
  have "\<not> is_ok (fst (run_regenerate_commands W host ks s))" if "BootloaderWrite \<in> set ks" for ks s
    using that missing
    by (simp add: run_regenerate_commands_def detected(1) det run_grub_mkconfig_def when_available_def io_then_def
        io_map_err_def Let_def)
  then have reg: "run_regenerate_commands W host ks s = (Inr u, s') \<Longrightarrow> BootloaderWrite \<notin> set ks" for ks s u s'
    by (metis fst_conv is_ok_simps(2))
  have "execute_phase_a W (t1, t2, t3) pl host c root state RunRegenerate s0 \<noteq> (Inr out, s1)" for t1 t2 t3 out s1
  proof
    assume "execute_phase_a W (t1, t2, t3) pl host c root state RunRegenerate s0 = (Inr out, s1)"
    then obtain m s2 acc s3 u s4 where loop: "io_fold (phase_a_step W host c) (m, [SnapshotStep]) (plan_steps pl) s2 = (Inr acc, s3)"
      and "run_regenerate_commands W host (snd acc) s3 = (Inr u, s4)"
      by (auto simp: execute_phase_a_def io_then_Inr_iff)
    then have "BootloaderWrite \<notin> set (snd acc)" using reg by blast
    moreover have "snd acc = [SnapshotStep] @ filter edits (map step_kind (plan_steps pl))"
      using phase_a_kinds[of W host c m "[SnapshotStep]" "plan_steps pl" s2 "fst acc" "snd acc" s3] loop by simp
    moreover have "BootloaderWrite \<in> set (filter edits (map step_kind (plan_steps pl)))"
      using planned(2) st(2) by (force simp: edits_def)
    ultimately show False by simp
  qed
  then show ?thesis using st(1)
    by (cases "execute_phase_a W clock pl host c root state RunRegenerate s0"; cases clock) (auto simp: is_ok_iff)
qed

definition fedora_view :: host_view where
  "fedora_view = view_of [(''/etc/default/grub'', []), (''/boot/grub2/grub.cfg'', [])] []"

theorem grub2_host_phase_a_fails_witness:
  "\<exists>st. bootloader_step (sample_profile\<lparr>sp_bootloader := detect_bootloader fedora_view\<rparr>) sample_config = Some st \<and>
     \<not> is_ok (fst (execute_phase_a ((quiet_platform [] [])\<lparr>pf_host := quiet_host\<lparr>which := (\<lambda>_ _. False)\<rparr>\<rparr>) (7, 8, 9)
       (host_plan\<lparr>plan_steps := plan_steps host_plan @ [st]\<rparr>) (sample_profile\<lparr>sp_bootloader := detect_bootloader fedora_view\<rparr>)
       sample_config snap_root state_dir RunRegenerate host_fs))"
proof -
  let ?host = "sample_profile\<lparr>sp_bootloader := detect_bootloader fedora_view\<rparr>"
  have "case bootloader_step ?host sample_config of None \<Rightarrow> False | Some _ \<Rightarrow> True" by code_simp
  then obtain st where st: "bootloader_step ?host sample_config = Some st" by (auto split: option.splits)
  have ex: "hv_exists fedora_view (path_of ''/etc/default/grub'')" "hv_exists fedora_view (path_of ''/boot/grub2/grub.cfg'')"
    by code_simp+
  have host: "sp_bootloader ?host = detect_bootloader fedora_view" by simp
  show ?thesis
    using st grub2_host_phase_a_fails[OF host ex st, of "host_plan\<lparr>plan_steps := plan_steps host_plan @ [st]\<rparr>"
        "(quiet_platform [] [])\<lparr>pf_host := quiet_host\<lparr>which := (\<lambda>_ _. False)\<rparr>\<rparr>" "(7, 8, 9)" snap_root state_dir host_fs]
    by simp
qed

end
