(* ===== verification/Session_Props.thy ===== *)
theory Session_Props
  imports Session Handover Detect_Props
begin

text \<open>
  What the commands of the program promise: when the host may be changed at all, and how \<open>apply\<close>,
  \<open>rollback\<close> and the pending record interact.
\<close>

section \<open>Guards\<close>

text \<open>C12: \<open>virtu apply\<close> leaves the machine exactly as it was unless all of this holds: there is no pending
  record, the host could be scanned and offers all ten requirements, the default choices satisfy the
  conditions of a valid configuration on this file system, and the user has confirmed. Then the state
  is that of Phase A for the plan of these choices.\<close>

theorem apply_guarded:
  "(case run_apply M confirm s of (r, s') \<Rightarrow> s' = s \<or>
     (\<exists>host c pl. scan_system (mc_view M s) = Inr host \<and> recommended_defaults (mc_stamp M) host = Inr (Some c) \<and>
        \<not> fs_exists (pf_fs (mc_platform M)) (pending_path (state_root M)) s \<and> confirm \<and>
        host_supported host \<and> choices_ok (\<lambda>q. fs_exists (pf_fs (mc_platform M)) q s) host c \<and>
        plan_steps pl = build_steps (mc_getenv M) host c \<and>
        s' = snd (execute_phase_a (mc_platform M) (mc_clock M) pl host c (snapshots_root M) (state_root M)
               RunRegenerate s)))"
proof -
  have planned: "host_supported host \<and> choices_ok ex host c \<and> plan_steps pl = build_steps e host c"
    if "make_plan ex e host (build_compatibility_report host) c = Inr pl" for ex e host c pl
    using that make_plan_ok_iff[of ex e host c] make_plan_choices[OF that] by (simp add: is_ok_iff)
  show ?thesis
    by (auto simp: run_apply_def scan_host_def io_then_def io_map_err_def Let_def
        split: prod.splits sum.splits option.splits if_splits dest!: planned)
qed

lemma dispatch_read_only:
  "case dispatch_command M stamp dbg cmd s of (r, s') \<Rightarrow>
     s' = s \<or> cmd \<in> {CmdApply True, CmdResume} \<union> range (\<lambda>i. CmdRollback False (Some i))"
proof -
  have frames: "snd (scan_host M s) = s" "snd (run_plan M s) = s" "snd (run_scan M s) = s" "snd (run_status M s) = s"
    "snd (run_wizard_command M dbg es s) = s" "snd (list_snapshots M stamp s) = s" "snd (run_apply M False s) = s" for es
    by (auto simp: scan_host_def run_plan_def run_scan_def run_status_def run_wizard_command_def list_snapshots_def
        run_apply_def io_then_def io_map_err_def Let_def split: prod.splits sum.splits option.splits)
  then show ?thesis
    by (cases cmd) (auto simp: dispatch_command_def io_then_def split: prod.splits sum.splits option.splits dest: arg_cong[of _ _ snd])
qed


text \<open>What the verifier of the second boot has established about a host.\<close>

definition boot_checked :: "system_profile \<Rightarrow> host_fingerprint \<Rightarrow> bool" where
  "boot_checked p fp \<longleftrightarrow>
     distro_id (sp_distro p) = fp_distro_id fp \<and> bootloader_kind (sp_bootloader p) = fp_bootloader fp \<and>
     sp_initramfs_system p = fp_initramfs fp \<and> iommu_active p \<and> ''vfio_pci'' \<in> set (loaded_modules (sp_readiness p)) \<and>
     list_all (cmdline_has_param (sp_kernel_cmdline p))
       (required_cmdline_params (if contains_str ''amd'' (to_lower (cpu_vendor (sp_cpu p))) then ''amd_iommu=on''
          else ''intel_iommu=on'') (fp_pci_ids fp)) \<and>
     passed_bound p (fp_pci_ids fp)"

lemma ready_checked:
  assumes "verify_phase_a_landed p pending = ResumeReady"
  shows "boot_checked p (pp_fingerprint pending)"
proof -
  have bound: "concat (map (\<lambda>i. case find_gpu_by_id p i of
      Some driver \<Rightarrow> if driver = Some ''vfio-pci'' then [] else [VfioPciNotBoundTo i driver] | None \<Rightarrow> []) ids) = [] \<Longrightarrow>
      passed_bound p ids" for ids
    by (induction ids) (auto simp: passed_bound_def split: option.splits if_splits)
  from assms have "host_identity_changes p (pp_fingerprint pending) = []" "phase_a_divergences p (pp_fingerprint pending) = []"
    by (auto simp: verified_iff)
  then show ?thesis using bound
    by (auto simp: boot_checked_def host_identity_changes_def phase_a_divergences_def Let_def filter_empty_conv
        list_all_iff list_ex_iff split: if_splits simp del: concat_eq_Nil_conv)
qed

lemma from_utf8_SomeD: "from_utf8 bytes = Some t \<Longrightarrow> t = bytes \<and> valid_utf8 bytes"
  by (auto simp: from_utf8_def split: if_splits)

text \<open>C13: \<open>virtu resume\<close> leaves the machine exactly as it was unless the pending record could be read
  and parsed and the booted host passes every check against it: the same distribution, bootloader and
  initramfs generator, an active IOMMU, the VFIO module loaded, every kernel parameter on the command
  line, and every passed card bound to VFIO. Then the state is that of Phase B for this record.\<close>

theorem resume_guarded:
  "(case run_resume M s of (r, s') \<Rightarrow> s' = s \<or>
     (\<exists>t pending host. fs_read (pf_fs (mc_platform M)) (pending_path (state_root M)) s = Inr t \<and> valid_utf8 t \<and>
        from_toml (pf_pending_codec (mc_platform M)) t = Inr pending \<and> scan_system (mc_view M s) = Inr host \<and>
        boot_checked host (pp_fingerprint pending) \<and>
        s' = snd (execute_phase_b (mc_platform M) (mc_vm_env M) pending host (snapshots_root M) (state_root M)
               RunCommands s)))"
  by (auto simp: run_resume_def scan_host_def read_pending_def io_then_def io_map_err_def Let_def
      split: prod.splits sum.splits option.splits if_splits dest!: ready_checked from_utf8_SomeD)

section \<open>Rollback and the pending record\<close>

lemma rollback_root:
  assumes "or_else (mc_getenv M ''HOME'') (mc_getenv M ''USERPROFILE'') = Some h"
  shows "path_push (snapshot_home (mc_getenv M)) ''snapshots'' = snapshots_root M"
  using assms by (simp add: snapshot_home_def snapshots_root_def dirs_home_def)

lemma apply_blocked:
  assumes "file_system_laws (pf_fs (mc_platform M))"
    and "fs_content (pf_fs (mc_platform M)) s (pending_path (state_root M)) = Some t"
  shows "run_apply M confirm s = (Inl (PendingExists (pending_path (state_root M))), s)"
  using file_system_laws.content_exists[OF assms] by (simp add: run_apply_def io_then_def Let_def)

lemma phase_a_pending:
  assumes laws: "platform_laws W (path_push root (generate_id (pf_stamp W) t1))"
    and safe: "snapshot_safe (path_push root (generate_id (pf_stamp W) t1)) (collect_targets (plan_steps pl))"
    and run: "execute_phase_a W (t1, t2, t3) pl host c root state mode s0 = (Inr out, s1)"
  shows "\<exists>t. fs_content (pf_fs W) s1 (pending_path state) = Some t"
proof -
  let ?sid = "generate_id (pf_stamp W) t1"
  obtain sid m s' acc s2 where snap: "execute_snapshot_step W t1 t2 pl host root s0 = (Inr (sid, m), s')"
    and fin: "finish_phase_a W t3 pl host c root state sid acc s2 = (Inr out, s1)"
    using run by (auto simp: execute_phase_a_def io_then_Inr_iff)
  have "sid = ?sid" using platform_laws.snapshot_step_good[OF laws snap refl safe] by auto
  then obtain m2 ks where "finish_phase_a W t3 pl host c root state ?sid (m2, ks) s2 = (Inr out, s1)"
    using fin by (cases acc) auto
  from finish_effect[OF laws _ this] show ?thesis by (auto simp: manifest_path_def manifest_under)
qed

text \<open>C14: the advice of the program to abort a pending apply with a rollback does not work. After a
  successful Phase A, \<open>virtu rollback --to\<close> its snapshot gives every target its old contents, but the
  pending record, which is no target, stays: \<open>virtu apply\<close> refuses to run before and after, with the
  message that tells the user to roll back.\<close>

theorem rollback_keeps_apply_blocked:
  assumes home: "or_else (mc_getenv M ''HOME'') (mc_getenv M ''USERPROFILE'') = Some h"
    and sid: "sid = generate_id (pf_stamp (mc_platform M)) t1"
    and laws: "platform_laws (mc_platform M) (path_push (snapshots_root M) sid)"
    and safe: "snapshot_safe (path_push (snapshots_root M) sid) (collect_targets (plan_steps pl))"
    and named: "touches_named (plan_steps pl)"
    and pend: "\<not> path_under (path_push (snapshots_root M) sid) (pending_path (state_root M))"
      "pending_path (state_root M) \<notin> set (collect_targets (plan_steps pl))"
    and run: "execute_phase_a (mc_platform M) (t1, t2, t3) pl host c (snapshots_root M) (state_root M) mode s0 = (Inr out, s1)"
    and kept: "\<forall>q. path_under (path_push (snapshots_root M) sid) q \<or> q = pending_path (state_root M) \<longrightarrow>
        fs_content (pf_fs (mc_platform M)) s2 q = fs_content (pf_fs (mc_platform M)) s1 q"
    and hash: "hash_separates (pf_sha256 (mc_platform M)) (set (collect_targets (plan_steps pl)))
        (fs_content (pf_fs (mc_platform M)) s0) (fs_content (pf_fs (mc_platform M)) s2)"
    and rollback: "rollback_to M sid s2 = (Inr x, s3)"
  shows "(\<forall>t \<in> set (collect_targets (plan_steps pl)).
      fs_content (pf_fs (mc_platform M)) s3 t = fs_content (pf_fs (mc_platform M)) s0 t) \<and>
    run_apply M confirm s2 = (Inl (PendingExists (pending_path (state_root M))), s2) \<and>
    run_apply M confirm s3 = (Inl (PendingExists (pending_path (state_root M))), s3)"
proof -
  let ?W = "mc_platform M" and ?q = "pending_path (state_root M)"
  note fs = platform_laws.axioms(1)[OF laws]
  have restored: "restore (pf_fs ?W) (pf_sha256 ?W) (pf_manifest_codec ?W) (snapshots_root M) sid s2 = (Inr x, s3)"
    using rollback by (auto simp: rollback_to_def rollback_root[OF home] io_then_Inr_iff Let_def split: if_splits)
  have outcome: "(\<forall>t \<in> set (collect_targets (plan_steps pl)). fs_content (pf_fs ?W) s3 t = fs_content (pf_fs ?W) s0 t) \<and>
      (\<forall>p. p \<notin> set (collect_targets (plan_steps pl)) \<longrightarrow> fs_content (pf_fs ?W) s3 p = fs_content (pf_fs ?W) s2 p)"
    using platform_laws.safe_state_restores[OF laws refl safe _ _ hash restored]
      platform_laws.phase_a_safe[OF laws[unfolded sid] refl safe[unfolded sid] named pend(1)[unfolded sid] run] kept
    unfolding sid by blast
  obtain t where t: "fs_content (pf_fs ?W) s1 ?q = Some t"
    using phase_a_pending[OF laws[unfolded sid] safe[unfolded sid] run] by blast
  then have "fs_content (pf_fs ?W) s2 ?q = Some t" using kept by simp
  moreover from this have "fs_content (pf_fs ?W) s3 ?q = Some t" using outcome pend(2) by simp
  ultimately show ?thesis using outcome apply_blocked[OF fs] by blast
qed

text \<open>The sample run on a machine whose home is \<open>/home/u\<close>.\<close>

definition sample_machine :: "mem_fs machine" where
  "sample_machine = \<lparr>mc_platform = sample_platform [], mc_getenv = sample_env, mc_uid = 1000,
     mc_view = (\<lambda>_. card_view), mc_vm_env = sample_vm_env, mc_clock = (7, 8, 9), mc_stamp = [],
     mc_list_dirs = (\<lambda>_ _. Inr [])\<rparr>"

definition snapshot_and_pending :: "mem_fs \<Rightarrow> mem_fs" where
  "snapshot_and_pending s = (only_snapshot s)\<lparr>mem_files :=
     (mem_files (only_snapshot s))(pending_path state_dir := mem_files s (pending_path state_dir)),
     mem_dirs := {sample_dir}\<rparr>"

theorem rollback_keeps_apply_blocked_witness:
  "\<exists>x s3. rollback_to sample_machine sample_sid (snapshot_and_pending (snd (sample_run []))) = (Inr x, s3) \<and>
     mem_files s3 grub_file = mem_files host_fs grub_file \<and> mem_files s3 conf_file = mem_files host_fs conf_file \<and>
     run_apply sample_machine True s3 = (Inl (PendingExists (pending_path state_dir)), s3)"
proof -
  let ?W = "sample_platform []" and ?T = "collect_targets (plan_steps host_plan)" and ?M = sample_machine
  let ?s2 = "snapshot_and_pending (snd (sample_run []))"
  have roots: "snapshots_root ?M = snap_root" "state_root ?M = state_dir" by code_simp+
  have M: "mc_platform ?M = ?W" by (simp add: sample_machine_def)
  have home: "or_else (mc_getenv ?M ''HOME'') (mc_getenv ?M ''USERPROFILE'') = Some ''/home/u''"
    by (simp add: sample_machine_def sample_env_def)
  obtain out s1 where run: "execute_phase_a ?W (7, 8, 9) host_plan sample_profile sample_config
      snap_root state_dir SkipRegenerate host_fs = (Inr out, s1)" and s1: "snd (sample_run []) = s1"
    using sample_run_result[of "[]"] unfolding sample_run_def by auto
  have "pending_path state_dir \<notin> {grub_file, conf_file, xml_file}" by code_simp
  then have pend: "pending_path state_dir \<notin> set ?T" by (simp add: sample_targets)
  have kept: "\<forall>q. path_under sample_dir q \<or> q = pending_path state_dir \<longrightarrow> mem_files ?s2 q = mem_files s1 q"
    by (auto simp: snapshot_and_pending_def only_snapshot_def s1)
  have safe1: "recoverable (\<lambda>c. c) (pf_manifest_codec ?W) sample_dir ?T (mem_files host_fs) (mem_files s1)"
    using platform_laws.phase_a_safe[OF sample_laws sample_platform_dir[symmetric] sample_safe sample_named
        sample_pending_path run] by simp
  have rec: "recoverable (\<lambda>c. c) (pf_manifest_codec ?W) (path_push snap_root sample_sid) ?T (mem_files host_fs) (mem_files ?s2)"
    unfolding sample_dir_eq(1)[symmetric]
    by (rule recoverable_cong[OF safe1]) (use kept safe_backups(1)[OF sample_safe] in blast)
  have "sample_dir \<notin> set ?T" "list_all (\<lambda>u. case path_parent u of Some d \<Rightarrow> True | None \<Rightarrow> True) ?T"
    by code_simp+
  then have plain: "targets_plain ?s2 (set ?T)"
    using sample_plain[of s1] by (auto simp: targets_plain_def snapshot_and_pending_def only_snapshot_def s1)
  obtain x s3 where restored: "restore mem_ops (\<lambda>c. c) (pf_manifest_codec ?W) snap_root sample_sid ?s2 = (Inr x, s3)"
    using recoverable_restore_mem[OF rec sample_safe[unfolded sample_dir_eq(1)] identity_separates plain] by blast
  have "fs_exists mem_ops (path_push snap_root sample_sid) ?s2"
    by (simp add: mem_ops_def mem_exists_def snapshot_and_pending_def sample_dir_eq(1))
  then have rb: "rollback_to ?M sample_sid ?s2 = (Inr x, s3)"
    using restored by (simp add: rollback_to_def rollback_root[OF home] roots M io_then_def io_map_err_def Let_def)
  note blocked = rollback_keeps_apply_blocked[OF home, of sample_sid 7 host_plan 8 9 sample_profile sample_config
      SkipRegenerate host_fs out s1 ?s2, unfolded M roots sample_dir_eq(1)[symmetric] mem_content sample_platform_simps,
      OF _ sample_laws sample_safe sample_named sample_pending_path pend run kept identity_separates rb]
  show ?thesis using blocked rb by (auto simp: sample_targets)
qed

text \<open>Without a home directory the two halves of the program disagree on where snapshots are.\<close>

theorem home_fallbacks_differ:
  "path_push (path_push (dirs_home (\<lambda>_. None)) ''.virtu'') ''snapshots'' = path_of ''/tmp/.virtu/snapshots'' \<and>
   path_push (snapshot_home (\<lambda>_. None)) ''snapshots'' = path_of ''./.virtu/snapshots'' \<and>
   path_of ''/tmp/.virtu/snapshots'' \<noteq> path_of ''./.virtu/snapshots''"
  by code_simp

end
