(* ===== verification/Detect_Cpu.thy ===== *)
theory Detect_Cpu
  imports Detect_Parse Domain_Xml
begin

text \<open>
  The CPU topology of a scan: what the kernel prints for a table of processors is read back as the cores
  of that table, which satisfy what the pinning relies on; and the CPU lists that the program
  writes are read back by the parser of the scan.
\<close>

section \<open>The map under construction\<close>

lemma tree_push_keys [simp]: "fst ` set (tree_push k v m) = insert k (fst ` set m)"
  by (induction k v m rule: tree_push.induct) auto

lemma tree_push_sorted: "sorted_wrt (<) (map fst m) \<Longrightarrow> sorted_wrt (<) (map fst (tree_push k v m))"
proof (induction k v m rule: tree_push.induct)
  case (2 k v k' vs t)
  have "\<forall>x \<in> fst ` set (tree_push k v t). k' < x" if "k' < k" using 2 that by auto
  then show ?case using 2 by (auto intro: less_trans simp: not_less order_le_less simp del: tree_push_keys)
qed simp

lemma tree_push_mset: "mset (concat (map snd (tree_push k v m))) = add_mset v (mset (concat (map snd m)))"
  by (induction k v m rule: tree_push.induct) auto

lemma tree_push_map_of:
  "sorted_wrt (<) (map fst m) \<Longrightarrow> map_of (tree_push k v m) =
     (map_of m)(k \<mapsto> (case map_of m k of None \<Rightarrow> [v] | Some vs \<Rightarrow> vs @ [v]))"
proof (induction k v m rule: tree_push.induct)
  case (2 k v k' vs t)
  have "map_of t k = None" if "k < k'" using 2 that by (force simp: map_of_eq_None_iff)
  moreover have "map_of t k' = None" using 2 by (force simp: map_of_eq_None_iff)
  ultimately show ?case using 2 by (auto simp: fun_eq_iff)
qed simp

type_synonym cpu_row = "u32 \<times> u32 \<times> u32"

definition cores_of :: "cpu_row list \<Rightarrow> core_map" where
  "cores_of rows = foldl (\<lambda>m (q, k). tree_push k q m) [] rows"

lemma cores_of_snoc: "cores_of (rows @ [(q, k)]) = tree_push k q (cores_of rows)"
  by (simp add: cores_of_def)

lemma cores_of_sorted: "sorted_wrt (<) (map fst (cores_of rows))"
proof (induction rows rule: rev_induct)
  case (snoc r rows)
  then show ?case by (cases r) (simp add: cores_of_snoc tree_push_sorted)
qed (simp add: cores_of_def)

lemma cores_of_mset: "mset (concat (map snd (cores_of rows))) = mset (map fst rows)"
proof (induction rows rule: rev_induct)
  case (snoc r rows)
  then show ?case by (cases r) (simp add: cores_of_snoc tree_push_mset)
qed (simp add: cores_of_def)

lemma cores_of_keys: "fst ` set (cores_of rows) = snd ` set rows"
proof (induction rows rule: rev_induct)
  case (snoc r rows)
  then show ?case by (cases r) (simp add: cores_of_snoc)
qed (simp add: cores_of_def)

lemma cores_of_map_of:
  "map_of (cores_of rows) k =
     (let qs = map fst (filter (\<lambda>r. snd r = k) rows) in if qs = [] then None else Some qs)"
proof (induction rows rule: rev_induct)
  case (snoc r rows)
  obtain q k' where r: "r = (q, k')" by (cases r)
  show ?case
    using snoc by (auto simp: r cores_of_snoc tree_push_map_of[OF cores_of_sorted] Let_def split: option.splits if_splits)
qed (simp add: cores_of_def)

lemma cores_of_mem:
  "(k, ts) \<in> set (cores_of rows) \<longleftrightarrow> k \<in> snd ` set rows \<and> ts = map fst (filter (\<lambda>r. snd r = k) rows)"
proof -
  have "distinct (map fst (cores_of rows))" using cores_of_sorted strict_sorted_iff by blast
  then have "(k, ts) \<in> set (cores_of rows) \<longleftrightarrow> map_of (cores_of rows) k = Some ts" by simp
  then show ?thesis by (force simp: cores_of_map_of filter_empty_conv Let_def)
qed

section \<open>The text of \<open>/proc/cpuinfo\<close>\<close>

text \<open>An entry for each processor: its three lines, with other lines between and after them.\<close>

type_synonym cpu_entry = "cpu_row \<times> string list \<times> string list \<times> string list"

definition noise :: "string \<Rightarrow> bool" where
  "noise l \<longleftrightarrow> clean_line l \<and> trim l \<noteq> [] \<and> \<not> starts_with ''processor'' l \<and> \<not> starts_with ''physical id'' l \<and>
     \<not> starts_with ''core id'' l"

definition entry_ok :: "cpu_entry \<Rightarrow> bool" where
  "entry_ok e = (case e of (_, xs, ys, zs) \<Rightarrow> list_all noise (xs @ ys @ zs))"

definition cpu_field_line :: "string \<Rightarrow> u32 \<Rightarrow> string" where
  "cpu_field_line name n = name @ TAB # '': '' @ show_u32 n"

definition entry_lines :: "cpu_entry \<Rightarrow> string list" where
  "entry_lines e = (case e of ((q, ph, co), xs, ys, zs) \<Rightarrow>
     cpu_field_line ''processor'' q # xs @ cpu_field_line ''physical id'' ph # ys @ cpu_field_line ''core id'' co # zs @ [[]])"

definition cpuinfo_text :: "cpu_entry list \<Rightarrow> string" where
  "cpuinfo_text es = concat (map writeln (concat (map entry_lines es)))"

lemma lines_of_writeln: "list_all clean_line ls \<Longrightarrow> str_lines (concat (map writeln ls)) = ls"
  by (induction ls) (auto simp: writeln_def str_lines_line_LF)

lemma show_u32_no_ws: "\<forall>c \<in> set (show_u32 n). \<not> is_ws c \<and> c \<notin> {CHR '':'', CHR ''-'', CHR '',''}" "show_u32 n \<noteq> []"
proof -
  have "\<not> is_ws c \<and> c \<notin> {CHR '':'', CHR ''-'', CHR '',''}" if "ascii_digit c" for c
    using that hexdigit_not_ws[of c] by (auto simp: ascii_digit_def ascii_hexdigit_def Let_def)
  then show "\<forall>c \<in> set (show_u32 n). \<not> is_ws c \<and> c \<notin> {CHR '':'', CHR ''-'', CHR '',''}"
    using show_nat_ascii[of _ "unat n"] unfolding show_u32_def by blast
  show "show_u32 n \<noteq> []" using show_nat_digits by (simp add: show_u32_def)
qed

lemma field_value: "parse_colon_u32 (TAB # '': '' @ show_u32 n) = Some n"
proof -
  have ne: "CHR '':'' \<notin> set [TAB]" "CHR '':'' \<noteq> SP" by code_simp+
  then have no: "CHR '':'' \<notin> set (SP # show_u32 n)" using show_u32_no_ws(1)[of n] by fastforce
  have "split_char (CHR '':'') ([TAB] @ CHR '':'' # SP # show_u32 n) = [[TAB], SP # show_u32 n]"
    unfolding split_char_append[OF ne(1)] split_char_none[OF no] ..
  moreover have "trim (SP # show_u32 n) = show_u32 n"
    using trim_noop[of "show_u32 n"] show_u32_no_ws[of n] by (simp add: trim_def trim_start_def)
  ultimately show ?thesis by (simp add: parse_colon_u32_def parse_show_u32[simplified])
qed

lemma trim_not_empty: "\<not> is_ws c \<Longrightarrow> trim (c # cs) \<noteq> []"
  by (auto simp: trim_def trim_start_def trim_end_def)

lemma cpu_field_lines:
  "trim (cpu_field_line ''processor'' n) \<noteq> []" "trim (cpu_field_line ''physical id'' n) \<noteq> []" "trim (cpu_field_line ''core id'' n) \<noteq> []"
  by (simp_all add: cpu_field_line_def trim_not_empty is_ws_def)

abbreviation fresh_block :: "core_map \<Rightarrow> cpu_block" where
  "fresh_block m \<equiv> \<lparr>cb_map = m, cb_processor = None, cb_physical_id = None, cb_core_id = None\<rparr>"

lemma entry_step:
  assumes "entry_ok ((q, ph, co), xs, ys, zs)"
  shows "foldl cpuinfo_line (fresh_block m) (entry_lines ((q, ph, co), xs, ys, zs)) = fresh_block (tree_push (ph, co) q m)"
proof -
  have skip: "list_all noise ls \<Longrightarrow> foldl cpuinfo_line b ls = b" for ls b
    by (induction ls) (auto simp: noise_def cpuinfo_line_def)
  have "cpuinfo_line b (cpu_field_line ''processor'' n) = b\<lparr>cb_processor := Some n\<rparr>"
    "cpuinfo_line b (cpu_field_line ''physical id'' n) = b\<lparr>cb_physical_id := Some n\<rparr>"
    "cpuinfo_line b (cpu_field_line ''core id'' n) = b\<lparr>cb_core_id := Some n\<rparr>" for b n
    using field_value[of n] cpu_field_lines[of n] by (simp_all add: cpuinfo_line_def) (simp_all add: cpu_field_line_def)
  then show ?thesis
    using assms by (simp add: entry_lines_def entry_ok_def skip cpuinfo_line_def[of _ "[]"] trim_def trim_start_def trim_end_def
        finish_block_def record_cpu_block_def)
qed

lemma entries_step:
  "list_all entry_ok es \<Longrightarrow> foldl cpuinfo_line (fresh_block m) (concat (map entry_lines es)) =
     fresh_block (foldl (\<lambda>m (q, k). tree_push k q m) m (map fst es))"
proof (induction es arbitrary: m)
  case (Cons e es)
  obtain q ph co xs ys zs where "e = ((q, ph, co), xs, ys, zs)" by (cases e) auto
  with Cons show ?case by (simp add: entry_step)
qed simp

lemma clean_entries: "list_all entry_ok es \<Longrightarrow> list_all clean_line (concat (map entry_lines es))"
proof (induction es)
  case (Cons e es)
  have "clean_line (cpu_field_line name n)" if "clean_line name" for name n
    using that show_u32_no_ws(1)[of n] by (auto simp: cpu_field_line_def clean_line_def is_ws_def)
  moreover have "clean_line ''processor''" "clean_line ''physical id''" "clean_line ''core id''" by code_simp+
  ultimately show ?case using Cons
    by (cases e) (auto simp: entry_lines_def entry_ok_def noise_def list_all_iff)
qed simp

lemma core_map_of_text:
  assumes "list_all entry_ok es"
  shows "build_core_thread_map (cpuinfo_text es) =
    map (\<lambda>(i, (_, ts)). (of_nat i, sort ts)) (List.enumerate 0 (cores_of (map fst es)))"
proof -
  have ls: "str_lines (cpuinfo_text es) = concat (map entry_lines es)"
    unfolding cpuinfo_text_def by (rule lines_of_writeln[OF clean_entries[OF assms]])
  have "cores_of (map fst es) = [] \<longleftrightarrow> es = []" using cores_of_keys[of "map fst es"] by auto
  moreover have "str_lines (cpuinfo_text []) = []" by (simp add: cpuinfo_text_def)
  ultimately show ?thesis
    by (auto simp: build_core_thread_map_def ls entries_step[OF assms] finish_block_def record_cpu_block_def cores_of_def Let_def)
qed

section \<open>The topology of a scan\<close>

lemma cores_length: "length (cores_of rows) = card (snd ` set rows)"
proof -
  have "distinct (map fst (cores_of rows))" using cores_of_sorted strict_sorted_iff by blast
  then have "card (fst ` set (cores_of rows)) = length (cores_of rows)"
    by (metis distinct_card length_map set_map)
  then show ?thesis by (simp only: cores_of_keys)
qed

definition numbered :: "core_map \<Rightarrow> (u32 \<times> u32 list) list" where
  "numbered m = map (\<lambda>(i, (_, ts)). (of_nat i, sort ts)) (List.enumerate 0 m)"

lemma numbered_parts:
  "map fst (numbered m) = map of_nat [0..<length m]" "map snd (numbered m) = map (sort \<circ> snd) m"
proof -
  have "map fst (map (\<lambda>(i, (_, ts)). (of_nat i :: u32, sort ts)) (List.enumerate n m)) = map of_nat [n..<n + length m] \<and>
      map snd (map (\<lambda>(i, (_, ts)). (of_nat i :: u32, sort ts)) (List.enumerate n m)) = map (sort \<circ> snd) m" for n
    by (induction m arbitrary: n) (auto simp: upt_conv_Cons simp del: upt_Suc)
  from this[of 0] show "map fst (numbered m) = map of_nat [0..<length m]" "map snd (numbered m) = map (sort \<circ> snd) m"
    by (simp_all add: numbered_def)
qed

lemma numbered_threads: "mset (concat (map snd (numbered m))) = mset (concat (map snd m))"
  unfolding numbered_parts by (induction m) auto

lemma numbered_distinct:
  assumes "length m \<le> 2 ^ 32"
  shows "distinct (map fst (numbered m))"
proof -
  have "inj_on (of_nat :: nat \<Rightarrow> u32) {0..<length m}"
    using assms by (auto simp: inj_on_def word_unat_eq_iff unat_of_nat)
  then show ?thesis by (simp add: numbered_parts(1) distinct_map)
qed

text \<open>How often a core id occurs.\<close>

lemma threads_per_key:
  "sum_list (map (\<lambda>(_, ts). of_nat (length ts) :: u32) (numbered m)) = of_nat (length (concat (map snd m)))"
proof -
  have "map (\<lambda>(_, ts). of_nat (length ts) :: u32) (numbered m) = map (of_nat \<circ> length) (map snd (numbered m))"
    by (simp add: case_prod_beta comp_def)
  also have "sum_list \<dots> = of_nat (length (concat (map snd m)))"
    unfolding numbered_parts(2) by (induction m) auto
  finally show ?thesis .
qed

lemma crowded_iff: "(\<exists>k \<in> set ks. 1 < length (filter (\<lambda>r. snd r = k) rs)) \<longleftrightarrow> \<not> distinct ks"
  if "ks = map snd rs" for rs :: "('a \<times> 'b) list"
proof -
  have "length (filter (\<lambda>r. snd r = k) rs) = count (mset (map snd rs)) k" for k by (induction rs) auto
  moreover have "1 \<le> count (mset ks) k" if "k \<in> set ks" for k
    using that count_greater_eq_one_iff by fastforce
  moreover have "distinct ks \<longleftrightarrow> (\<forall>k \<in> set ks. count (mset ks) k = 1)"
    by (auto simp: distinct_count_atmost_1 count_eq_zero_iff[of "mset ks"])
  ultimately show ?thesis using that by (metis le_eq_less_or_eq less_irrefl_nat)
qed

text \<open>The threads of a core are the processors with its socket and core id.\<close>

abbreviation row_threads :: "cpu_row list \<Rightarrow> u32 \<times> u32 \<Rightarrow> u32 list" where
  "row_threads rows k \<equiv> sort (map fst (filter (\<lambda>r. snd r = k) rows))"

lemma core_groups: "snd ` set (numbered (cores_of rows)) = row_threads rows ` snd ` set rows"
proof -
  have "snd ` set (numbered (cores_of rows)) = set (map snd (numbered (cores_of rows)))" by simp
  also have "\<dots> = (\<lambda>(_, ts). sort ts) ` set (cores_of rows)" unfolding numbered_parts by (simp add: comp_def case_prod_beta)
  also have "\<dots> = row_threads rows ` snd ` set rows" by (force simp: cores_of_mem image_iff)
  finally show ?thesis .
qed

lemma row_threads_mem: "q \<in> set (row_threads rows k) \<longleftrightarrow> (q, k) \<in> set rows"
proof -
  have "fst ` {r \<in> set rows. snd r = k} = {q. (q, k) \<in> set rows}" by force
  then show ?thesis by auto
qed

lemma rows_bound:
  assumes "distinct (map fst rows)"
  shows "length (cores_of rows) \<le> 2 ^ 32"
proof -
  have "length (cores_of rows) \<le> length rows"
    using card_image_le[of "set rows" snd] card_length[of rows] by (simp add: cores_length)
  also have "length rows \<le> 2 ^ 32"
    using distinct_card[OF assms] card_mono[of "UNIV :: u32 set" "set (map fst rows)"] by (simp add: card_word)
  finally show ?thesis .
qed

lemma cores_topology_ok:
  assumes procs: "distinct (map fst rows)" and cpu: "core_to_threads cpu = numbered (cores_of rows)"
  shows "topology_ok cpu"
proof -
  have "distinct (concat (map snd (core_to_threads cpu)))"
    using procs mset_eq_imp_distinct_iff[of "concat (map snd (core_to_threads cpu))" "map fst rows"]
    unfolding cpu numbered_threads cores_of_mset by blast
  moreover have "distinct (map fst (core_to_threads cpu))" unfolding cpu by (rule numbered_distinct[OF rows_bound[OF procs]])
  moreover have "ts \<noteq> []" if "(c, ts) \<in> set (core_to_threads cpu)" for c ts
  proof -
    have "ts \<in> row_threads rows ` snd ` set rows" using that core_groups[of rows] cpu by force
    then obtain r where "r \<in> set rows" "ts = row_threads rows (snd r)" by blast
    then have "fst r \<in> set ts" using row_threads_mem[of "fst r" "snd r" rows] by simp
    then show ?thesis by auto
  qed
  ultimately show ?thesis by (auto simp: topology_ok_def)
qed

lemma same_core_iff:
  assumes procs: "distinct (map fst rows)" and r: "r \<in> set rows" "r' \<in> set rows"
  shows "(\<exists>ts \<in> snd ` set (numbered (cores_of rows)). {fst r, fst r'} \<subseteq> set ts) \<longleftrightarrow> snd r = snd r'"
proof -
  have at: "(fst x, k) \<in> set rows \<longleftrightarrow> snd x = k" if "x \<in> set rows" for x k
    using procs that by (cases x) (auto dest: eq_key_imp_eq_value)
  have "(\<exists>ts \<in> snd ` set (numbered (cores_of rows)). {fst r, fst r'} \<subseteq> set ts) \<longleftrightarrow>
      (\<exists>k \<in> snd ` set rows. {fst r, fst r'} \<subseteq> set (row_threads rows k))"
    unfolding core_groups by (simp only: bex_simps)
  also have "\<dots> \<longleftrightarrow> (\<exists>k \<in> snd ` set rows. snd r = k \<and> snd r' = k)"
    unfolding insert_subset row_threads_mem at[OF r(1)] at[OF r(2)] by simp
  also have "\<dots> \<longleftrightarrow> snd r = snd r'" using r by auto
  finally show ?thesis .
qed

lemma hyperthreads_iff:
  "(\<exists>ts \<in> snd ` set (numbered (cores_of rows)). 1 < length ts) \<longleftrightarrow> \<not> distinct (map snd rows)"
proof -
  have "(\<exists>ts \<in> snd ` set (numbered (cores_of rows)). 1 < length ts) \<longleftrightarrow>
      (\<exists>k \<in> snd ` set rows. 1 < length (filter (\<lambda>r. snd r = k) rows))"
    unfolding core_groups by simp
  then show ?thesis using crowded_iff[of "map snd rows" rows] by simp
qed

lemma scanned_cores:
  assumes "list_all entry_ok es"
  shows "core_to_threads (parse_cpuinfo (cpuinfo_text es) enabled nodes) = numbered (cores_of (map fst es))"
  by (simp add: parse_cpuinfo_def core_map_of_text[OF assms] Let_def numbered_def)

lemma scanned_counts:
  assumes cores: "core_to_threads (parse_cpuinfo t enabled nodes) = numbered (cores_of rows)"
  shows "physical_cores (parse_cpuinfo t enabled nodes) = of_nat (card (snd ` set rows))"
    "logical_cores (parse_cpuinfo t enabled nodes) = of_nat (length rows)"
    "has_hyperthreading (parse_cpuinfo t enabled nodes) \<longleftrightarrow> \<not> distinct (map snd rows)"
proof -
  have "length (numbered (cores_of rows)) = card (snd ` set rows)" by (simp add: numbered_def cores_length)
  then show "physical_cores (parse_cpuinfo t enabled nodes) = of_nat (card (snd ` set rows))"
    using cores by (simp add: parse_cpuinfo_def Let_def)
  have "length (concat (map snd (cores_of rows))) = length rows"
    using arg_cong[OF cores_of_mset[of rows], of size] by simp
  then show "logical_cores (parse_cpuinfo t enabled nodes) = of_nat (length rows)"
    using threads_per_key[of "cores_of rows"] cores by (simp add: parse_cpuinfo_def Let_def)
  show "has_hyperthreading (parse_cpuinfo t enabled nodes) \<longleftrightarrow> \<not> distinct (map snd rows)"
    using hyperthreads_iff[of rows] cores by (simp add: parse_cpuinfo_def Let_def list_ex_iff case_prod_beta)
qed



section \<open>CPU lists\<close>

lemma parse_part_range: "a \<le> b \<Longrightarrow> parse_cpu_list_part (show_range a b) = map of_nat [unat a..<Suc (unat b)]"
proof -
  have clean: "CHR ''-'' \<notin> set (show_u32 k)" "trim (show_u32 k) = show_u32 k" for k
    using show_u32_no_ws(1)[of k] by (auto simp: trim_noop)
  have one: "[b] = map of_nat [unat b..<Suc (unat b)]" by simp
  show ?thesis
    unfolding show_range_def parse_cpu_list_part_def one[symmetric]
    by (auto simp: clean one split_char_append split_char_none parse_show_u32[simplified] simp del: upt_Suc)
qed

lemma compress_ranges_shape:
  "a \<le> b \<Longrightarrow> sorted_wrt (<) (b # ns) \<Longrightarrow> \<forall>x \<in> set (compress_ranges a b ns). \<exists>c d. c \<le> d \<and> x = show_range c d"
proof (induction a b ns rule: compress_ranges.induct)
  case (2 a b n ns)
  then have "a \<le> n" by auto
  with 2 show ?case by auto
qed auto

lemma show_range_no_ws: "c \<in> set (show_range a b) \<Longrightarrow> \<not> is_ws c"
  using show_u32_no_ws(1)[of a] show_u32_no_ws(1)[of b] by (auto simp: show_range_def is_ws_def split: if_splits)

text \<open>C24: what the program writes as a CPU list, for the emulator threads of the guest, is read back by the parser
  that reads the CPU lists of the host's memory nodes: the result is the CPUs, sorted and without
  repetitions. No range wraps around, and a list of no CPU is read as no CPU.\<close>

theorem parse_cpu_list_round_trip: "parse_cpu_list (compress_cpu_list (map show_u32 ts)) = remdups_adj (sort ts)"
proof (cases "remdups_adj (sort ts)")
  case Nil
  have "parse_cpu_list [] = []" by (simp add: parse_cpu_list_def parse_cpu_list_part_def trim_noop parse_uint_def)
  then show ?thesis unfolding compress_show by (simp add: Nil)
next
  case (Cons n ns)
  have s: "sorted_wrt (<) (n # ns)" using sorted_dedup[of ts] Cons by simp
  let ?rs = "compress_ranges n n ns"
  note ne = compress_ranges_ne[of n n ns] and shape = compress_ranges_shape[OF order_refl s]
  have "\<not> is_ws (CHR '','')" by code_simp
  then have "\<not> is_ws c" if "c \<in> set (str_join '','' ?rs)" for c
    using set_str_joinD[OF that] shape show_range_no_ws by fastforce
  then have "trim (str_join '','' ?rs) = str_join '','' ?rs" by (simp add: trim_noop)
  moreover have "split_char (CHR '','') (str_join '','' ?rs) = ?rs"
    using split_char_join[OF ne] compress_ranges_chars[of n n ns] by blast
  moreover have "map parse_cpu_list_part ?rs = map read_range ?rs"
  proof (rule map_cong[OF refl])
    fix x assume "x \<in> set ?rs"
    then obtain c d where "c \<le> d" "x = show_range c d" using shape by blast
    then show "parse_cpu_list_part x = read_range x" by (simp only: parse_part_range read_show_range)
  qed
  ultimately show ?thesis
    using compress_ranges_read[OF order_refl s] unfolding compress_show by (simp add: Cons parse_cpu_list_def del: map_eq_conv)
qed

end
