(* ===== verification/Terminal.thy ===== *)
theory Terminal
  imports Wizard_View Session Sample_Host
begin

text \<open>
  The terminal lifecycle of the wizard (\<open>tui/mod.rs\<close>): set-up, the loop that draws and waits for a key, and the
  restoration that is to run whatever the loop did. The terminal is a record of the calls of crossterm and
  ratatui that the code makes, on the state of the machine; what the code relies on of them is the locale
  \<open>terminal_laws\<close>. The terminal in memory that plays a script of keys satisfies it.
\<close>

section \<open>The terminal\<close>

text \<open>\<open>TermKey k True\<close> is the press of a key, \<open>TermKey k False\<close> its release or repetition.\<close>

datatype terminal_event = TermKey key_code bool | TermResize | TermOther

record 's terminal =
  tm_is_tty :: bool
  tm_enable_raw :: "('s, string, unit) io"
  tm_enter_screen :: "('s, string, unit) io"
  tm_construct :: "('s, string, unit) io"
  tm_draw :: "panel list \<Rightarrow> ('s, string, unit) io"
  tm_poll :: "('s, string, bool) io"
  tm_read :: "('s, string, terminal_event) io"
  tm_disable_raw :: "('s, string, unit) io"
  tm_leave_screen :: "('s, string, unit) io"
  tm_show_cursor :: "('s, string, unit) io"

text \<open>The calls that can fail, with the context that the code gives to the error.\<close>

datatype terminal_call = EnableRaw | EnterScreen | Construct | Draw screen | Poll | ReadEvent
  | DisableRaw | LeaveScreen | ShowCursor

definition call_context :: "terminal_call \<Rightarrow> string" where
  "call_context k = (case k of
     EnableRaw \<Rightarrow> ''enabling raw mode'' | EnterScreen \<Rightarrow> ''switching to the alternate screen''
   | Construct \<Rightarrow> ''constructing the ratatui Terminal''
   | Draw Detection \<Rightarrow> ''drawing the detection screen'' | Draw Choices \<Rightarrow> ''drawing the choices screen''
   | Draw Preview \<Rightarrow> ''drawing the preview screen'' | Draw Exiting \<Rightarrow> [] | Poll \<Rightarrow> [] | ReadEvent \<Rightarrow> []
   | DisableRaw \<Rightarrow> ''disabling raw mode'' | LeaveScreen \<Rightarrow> ''leaving the alternate screen''
   | ShowCursor \<Rightarrow> ''restoring cursor visibility'')"

datatype wizard_failure = Panicked wizard_panic | TerminalFailed terminal_call string

abbreviation term_call :: "terminal_call \<Rightarrow> ('s, string, 'a) io \<Rightarrow> ('s, wizard_failure, 'a) io" where
  "term_call k \<equiv> io_map_err (TerminalFailed k)"

definition setup_terminal :: "'s terminal \<Rightarrow> ('s, wizard_failure, unit) io" where
  "setup_terminal T = io_then (term_call EnableRaw (tm_enable_raw T)) (\<lambda>_.
     io_then (term_call EnterScreen (tm_enter_screen T)) (\<lambda>_. term_call Construct (tm_construct T)))"

definition restore_terminal :: "'s terminal \<Rightarrow> ('s, wizard_failure, unit) io" where
  "restore_terminal T = io_then (term_call DisableRaw (tm_disable_raw T)) (\<lambda>_.
     io_then (term_call LeaveScreen (tm_leave_screen T)) (\<lambda>_. term_call ShowCursor (tm_show_cursor T)))"

definition next_event :: "'s terminal \<Rightarrow> ('s, wizard_failure, wizard_event option) io" where
  "next_event T = io_then (term_call Poll (tm_poll T)) (\<lambda>ready.
     if \<not> ready then io_ok None
     else io_then (term_call ReadEvent (tm_read T)) (\<lambda>e. io_ok (case e of
         TermKey code True \<Rightarrow> Some (map_key code) | TermResize \<Rightarrow> Some Refresh | _ \<Rightarrow> None)))"

section \<open>The loop\<close>

text \<open>One turn: draw the screen, wait for an event, react. \<open>ex\<close> is the existence test of the file system.\<close>

definition wizard_turn ::
  "'s terminal \<Rightarrow> ('s \<Rightarrow> path \<Rightarrow> bool) \<Rightarrow> (string \<Rightarrow> string option) \<Rightarrow> app \<Rightarrow> ('s, wizard_failure, app) io" where
  "wizard_turn T ex getenv a =
     io_then (io_lift (map_err Panicked (app_panels a))) (\<lambda>panels.
     io_then (term_call (Draw (app_screen a)) (tm_draw T panels)) (\<lambda>_.
     io_then (next_event T) (\<lambda>e. case e of None \<Rightarrow> io_ok a
       | Some ev \<Rightarrow> io_query (\<lambda>s. map_err Panicked (handle_event (ex s) getenv ev a)))))"

partial_function (option) terminal_loop ::
  "'s terminal \<Rightarrow> ('s \<Rightarrow> path \<Rightarrow> bool) \<Rightarrow> (string \<Rightarrow> string option) \<Rightarrow> app \<Rightarrow> 's \<Rightarrow> ((wizard_failure + app) \<times> 's) option" where
  "terminal_loop T ex getenv a s =
     (if app_screen a = Exiting then Some (Inr a, s)
      else (case wizard_turn T ex getenv a s of
          (Inl e, s') \<Rightarrow> Some (Inl e, s') | (Inr a', s') \<Rightarrow> terminal_loop T ex getenv a' s'))"

text \<open>
  The restoration runs after an error of the loop too, whose error is then the one reported; a panic passes
  by it.
\<close>

definition terminal_session ::
  "'s terminal \<Rightarrow> ('s \<Rightarrow> path \<Rightarrow> bool) \<Rightarrow> (string \<Rightarrow> string option) \<Rightarrow> app \<Rightarrow> 's \<Rightarrow> ((wizard_failure + app) \<times> 's) option" where
  "terminal_session T ex getenv a s = (case setup_terminal T s of
     (Inl e, s1) \<Rightarrow> Some (Inl e, s1)
   | (Inr _, s1) \<Rightarrow> (case terminal_loop T ex getenv a s1 of
        None \<Rightarrow> None
      | Some (Inl (Panicked p), s2) \<Rightarrow> Some (Inl (Panicked p), s2)
      | Some (result, s2) \<Rightarrow> (case restore_terminal T s2 of
          (back, s3) \<Rightarrow> Some (res_then result (\<lambda>a'. res_then back (\<lambda>_. Inr a')), s3))))"

text \<open>\<open>run_wizard\<close>, which the command line runs: without a terminal it prints a hint.\<close>

definition run_wizard_tty ::
  "'s machine \<Rightarrow> 's terminal \<Rightarrow> (guest_os \<Rightarrow> string) \<times> (monitor_plan \<Rightarrow> string) \<times> (disk_choice \<Rightarrow> string) \<Rightarrow> 's
    \<Rightarrow> (((session_error + wizard_failure) + string list) \<times> 's) option" where
  "run_wizard_tty M T dbg s =
     (if \<not> tm_is_tty T then Some (Inr wizard_fallback_lines, s)
      else (case scan_host M s of
        (Inl _, s1) \<Rightarrow> Some (Inl (Inl (ScanFailed ''scanning host before launching the wizard'')), s1)
      | (Inr host, s1) \<Rightarrow> (case recommended_defaults (mc_stamp M) host of
          Inl e \<Rightarrow> Some (Inl (Inl (DefaultsPanic e)), s1)
        | Inr defaults \<Rightarrow>
            (let c = (case defaults of Some c \<Rightarrow> c | None \<Rightarrow> synthetic_empty_config);
                 ex = (\<lambda>s q. fs_exists (pf_fs (mc_platform M)) q s)
             in case terminal_session T ex (mc_getenv M) (new_app host (build_compatibility_report host) c) s1 of
                None \<Rightarrow> None
              | Some (Inl e, s2) \<Rightarrow> Some (Inl (Inr e), s2)
              | Some (Inr a, s2) \<Rightarrow> Some (Inr
                  (if was_confirmed a then confirmed_lines dbg (ex s2) (mc_getenv M) a
                   else [''Wizard exited without confirming a plan.'']), s2)))))"

section \<open>Invariants of a run\<close>

text \<open>The rule of the loop: what every turn keeps holds when it ends, and an error is one of a turn.\<close>

lemma terminal_loop_rule:
  assumes run: "terminal_loop T ex getenv a s = Some (r, s')" and start: "I a s"
    and turn: "\<And>a s r s'. I a s \<Longrightarrow> app_screen a \<noteq> Exiting \<Longrightarrow> wizard_turn T ex getenv a s = (r, s') \<Longrightarrow>
       (case r of Inr a' \<Rightarrow> I a' s' | Inl e \<Rightarrow> Q e s')"
  shows "case r of Inr a' \<Rightarrow> I a' s' \<and> app_screen a' = Exiting | Inl e \<Rightarrow> Q e s'"
proof -
  let ?P = "\<lambda>T' ex' getenv' a s y. T' = T \<longrightarrow> ex' = ex \<longrightarrow> getenv' = getenv \<longrightarrow> I a s \<longrightarrow>
    (case y of (r, s') \<Rightarrow> (case r of Inr a' \<Rightarrow> I a' s' \<and> app_screen a' = Exiting | Inl e \<Rightarrow> Q e s'))"
  have "?P T ex getenv a s (r, s')"
  proof (rule terminal_loop.raw_induct[where P = ?P, OF _ run])
    fix loop T' ex' getenv' a s y
    assume IH: "\<And>T' ex' getenv' a s y. loop T' ex' getenv' a s = Some y \<Longrightarrow> ?P T' ex' getenv' a s y"
      and body: "(if app_screen a = Exiting then Some (Inr a, s)
        else (case wizard_turn T' ex' getenv' a s of
            (Inl e, s') \<Rightarrow> Some (Inl e, s') | (Inr a', s') \<Rightarrow> loop T' ex' getenv' a' s')) = Some y"
    show "?P T' ex' getenv' a s y"
    proof (intro impI)
      assume eqs: "T' = T" "ex' = ex" "getenv' = getenv" and inv: "I a s"
      show "case y of (r, s') \<Rightarrow> (case r of Inr a' \<Rightarrow> I a' s' \<and> app_screen a' = Exiting | Inl e \<Rightarrow> Q e s')"
      proof (cases "app_screen a = Exiting")
        case False
        obtain r s' where t: "wizard_turn T ex getenv a s = (r, s')" by (cases "wizard_turn T ex getenv a s")
        then show ?thesis using turn[OF inv False t] body False eqs IH by (cases r) auto
      qed (use body inv in auto)
    qed
  qed
  then show ?thesis using start by simp
qed

text \<open>A turn is one step of the wizard, with the event that the terminal delivered.\<close>

lemma run_event_loop_append:
  "run_event_loop getenv (xs @ ys) a = res_then (run_event_loop getenv xs a) (run_event_loop getenv ys)"
proof (induction xs arbitrary: a)
  case (Cons x xs)
  have exiting: "app_screen a = Exiting \<Longrightarrow> run_event_loop getenv ys a = Inr a" by (cases ys) auto
  obtain ex e where "x = (ex, e)" by (cases x)
  then show ?case using Cons exiting by (auto simp: res_then_def split: option.splits sum.splits)
qed (simp add: res_then_def)

lemma panels_drawn: "app_panels a = Inl p \<longleftrightarrow> p = PreviewMissing \<and> app_screen a = Preview \<and> app_preview a = None"
  by (auto simp: app_panels_def split: screen.splits option.splits)

lemma turn_step:
  assumes "wizard_turn T ex getenv a s = (r, s')" "app_screen a \<noteq> Exiting"
  shows "case r of Inr a' \<Rightarrow> \<exists>e t. run_event_loop getenv [(ex t, e)] a = Inr a'
    | Inl (Panicked p) \<Rightarrow> \<exists>e t. run_event_loop getenv [(ex t, e)] a = Inl p
    | Inl (TerminalFailed k m) \<Rightarrow> k \<in> {Draw (app_screen a), Poll, ReadEvent}"
proof (cases "app_panels a")
  case (Inl p)
  then have "wizard_turn T ex getenv a s = (Inl (Panicked p), s)" by (simp add: wizard_turn_def io_then_def map_err_def)
  then show ?thesis using assms Inl by (auto simp: panels_drawn)
next
  case (Inr panels)
  then have drawn: "\<not> (app_screen a = Preview \<and> app_preview a = None)" by (auto simp: app_panels_def split: option.splits)
  have step: "run_event_loop getenv [(ex t, e)] a = (case e of None \<Rightarrow> Inr a | Some ev \<Rightarrow> handle_event (ex t) getenv ev a)"
    for t e using assms(2) drawn by (auto simp: res_then_def split: option.splits sum.splits)
  have "(\<exists>k m. r = Inl (TerminalFailed k m) \<and> k \<in> {Draw (app_screen a), Poll, ReadEvent}) \<or>
      (\<exists>e. r = (case e of None \<Rightarrow> Inr a | Some ev \<Rightarrow> map_err Panicked (handle_event (ex s') getenv ev a)))"
    using assms(1) Inr
    by (auto simp: wizard_turn_def io_then_def io_map_err_def map_err_def[of "TerminalFailed _"] next_event_def
        split: prod.splits sum.splits option.splits if_splits)
  then show ?thesis
  proof
    assume "\<exists>e. r = (case e of None \<Rightarrow> Inr a | Some ev \<Rightarrow> map_err Panicked (handle_event (ex s') getenv ev a))"
    then obtain e where "r = map_err Panicked (run_event_loop getenv [(ex s', e)] a)"
      unfolding step by (force simp: map_err_def split: option.splits)
    then show ?thesis by (auto simp: map_err_def split: sum.splits)
  qed auto
qed

lemma session_end:
  assumes "terminal_session T ex getenv (new_app p r c) s = Some (result, s')"
  shows "case result of Inr a \<Rightarrow> app_screen a = Exiting \<and> (\<exists>es. run_event_loop getenv es (new_app p r c) = Inr a)
    | Inl (Panicked q) \<Rightarrow> False | Inl (TerminalFailed k m) \<Rightarrow> True"
proof -
  let ?a0 = "new_app p r c"
  let ?I = "\<lambda>a (s :: 'a). \<exists>es. run_event_loop getenv es ?a0 = Inr a"
  let ?Q = "\<lambda>e (s :: 'a). \<exists>k m. e = TerminalFailed k m"
  have turn: "case r' of Inr a' \<Rightarrow> ?I a' s2 | Inl e \<Rightarrow> ?Q e s2"
    if I: "?I a s1" and live: "app_screen a \<noteq> Exiting" and t: "wizard_turn T ex getenv a s1 = (r', s2)" for a s1 r' s2
  proof -
    from I obtain es where es: "run_event_loop getenv es ?a0 = Inr a" by blast
    have no_panic: "run_event_loop getenv [x] a \<noteq> Inl q" for x q
      using run_inv[OF new_app_inv, of getenv "es @ [x]" p r c] by (auto simp: run_event_loop_append es res_then_def)
    have "run_event_loop getenv [x] a = Inr a' \<Longrightarrow> run_event_loop getenv (es @ [x]) ?a0 = Inr a'" for x a'
      by (simp add: run_event_loop_append es res_then_def)
    then show ?thesis using turn_step[OF t live] no_panic
      by (cases r') (auto split: wizard_failure.splits, blast)
  qed
  have start: "?I ?a0 s1" for s1 by (rule exI[of _ "[]"]) simp
  have looped: "case result of Inr a' \<Rightarrow> ?I a' s2 \<and> app_screen a' = Exiting | Inl e \<Rightarrow> ?Q e s2"
    if "terminal_loop T ex getenv ?a0 s1 = Some (result, s2)" for result s1 s2
    by (rule terminal_loop_rule[OF that start turn])
  have started: "setup_terminal T s1 = (Inl e, s2) \<Longrightarrow> \<exists>k m. e = TerminalFailed k m" for s1 s2 e
    by (auto simp: setup_terminal_def io_then_def io_map_err_def map_err_def split: prod.splits sum.splits)
  have ended: "restore_terminal T s1 = (Inl e, s2) \<Longrightarrow> \<exists>k m. e = TerminalFailed k m" for s1 s2 e
    by (auto simp: restore_terminal_def io_then_def io_map_err_def map_err_def split: prod.splits sum.splits)
  show ?thesis using assms unfolding terminal_session_def
    by (auto simp: res_then_def split: prod.splits sum.splits option.splits wizard_failure.splits dest!: looped started ended)
qed

section \<open>The modes of the terminal\<close>

text \<open>
  \<open>raw\<close> and \<open>alt\<close> observe whether the terminal is in raw mode and on the alternate screen. A call changes only
  the mode it is for; a call that fails leaves raw mode as it was.
\<close>

locale terminal_laws =
  fixes T :: "'s terminal" and raw alt :: "'s \<Rightarrow> bool"
  assumes enable_ok: "tm_enable_raw T s = (Inr u, s') \<Longrightarrow> raw s'"
    and enable_err: "tm_enable_raw T s = (Inl e, s') \<Longrightarrow> raw s' = raw s"
    and enable_alt: "tm_enable_raw T s = (q, s') \<Longrightarrow> alt s' = alt s"
    and enter_ok: "tm_enter_screen T s = (Inr u, s') \<Longrightarrow> alt s'"
    and enter_raw: "tm_enter_screen T s = (q, s') \<Longrightarrow> raw s' = raw s"
    and construct_keeps: "tm_construct T s = (q, s') \<Longrightarrow> raw s' = raw s \<and> alt s' = alt s"
    and draw_keeps: "tm_draw T ps s = (q, s') \<Longrightarrow> raw s' = raw s \<and> alt s' = alt s"
    and poll_keeps: "tm_poll T s = (b, s') \<Longrightarrow> raw s' = raw s \<and> alt s' = alt s"
    and read_keeps: "tm_read T s = (ev, s') \<Longrightarrow> raw s' = raw s \<and> alt s' = alt s"
    and disable_ok: "tm_disable_raw T s = (Inr u, s') \<Longrightarrow> \<not> raw s'"
    and disable_err: "tm_disable_raw T s = (Inl e, s') \<Longrightarrow> raw s' = raw s"
    and disable_alt: "tm_disable_raw T s = (q, s') \<Longrightarrow> alt s' = alt s"
    and leave_ok: "tm_leave_screen T s = (Inr u, s') \<Longrightarrow> \<not> alt s'"
    and leave_raw: "tm_leave_screen T s = (q, s') \<Longrightarrow> raw s' = raw s"
    and cursor_keeps: "tm_show_cursor T s = (q, s') \<Longrightarrow> raw s' = raw s \<and> alt s' = alt s"
begin

lemma setup_modes:
  assumes "setup_terminal T s = (r, s')" "\<not> raw s" "\<not> alt s"
  shows "case r of Inr _ \<Rightarrow> raw s' \<and> alt s'
    | Inl e \<Rightarrow> (\<exists>m. e = TerminalFailed EnableRaw m \<and> \<not> raw s' \<and> \<not> alt s') \<or>
        (\<exists>m. e = TerminalFailed EnterScreen m \<and> raw s') \<or> (\<exists>m. e = TerminalFailed Construct m \<and> raw s' \<and> alt s')"
  using assms unfolding setup_terminal_def
  by (auto simp: io_then_def io_map_err_def map_err_def split: prod.splits sum.splits
      dest: enable_ok enable_err enable_alt enter_ok enter_raw construct_keeps)

lemma turn_modes:
  assumes "wizard_turn T ex getenv a s = (r, s')"
  shows "raw s' = raw s \<and> alt s' = alt s"
  using assms unfolding wizard_turn_def next_event_def
  by (auto simp: io_then_def io_map_err_def split: prod.splits sum.splits option.splits if_splits
      dest!: draw_keeps poll_keeps read_keeps)

lemma restore_modes:
  assumes "restore_terminal T s = (r, s')" "raw s" "alt s"
  shows "case r of Inr _ \<Rightarrow> \<not> raw s' \<and> \<not> alt s'
    | Inl e \<Rightarrow> (\<exists>m. e = TerminalFailed DisableRaw m \<and> raw s' \<and> alt s') \<or>
        (\<exists>m. e = TerminalFailed LeaveScreen m \<and> \<not> raw s') \<or> (\<exists>m. e = TerminalFailed ShowCursor m \<and> \<not> raw s' \<and> \<not> alt s')"
  using assms unfolding restore_terminal_def
  by (auto simp: io_then_def io_map_err_def map_err_def split: prod.splits sum.splits
      dest: disable_ok disable_err disable_alt leave_ok leave_raw cursor_keeps)

lemma loop_modes:
  assumes "terminal_loop T ex getenv a s = Some (r, s')" "raw s" "alt s"
  shows "raw s' \<and> alt s' \<and> (\<forall>k m. r = Inl (TerminalFailed k m) \<longrightarrow> k \<in> {Poll, ReadEvent} \<union> range Draw)"
proof -
  let ?Q = "\<lambda>e s. raw s \<and> alt s \<and> (\<forall>k m. e = TerminalFailed k m \<longrightarrow> k \<in> {Poll, ReadEvent} \<union> range Draw)"
  have "case r of Inr a' \<Rightarrow> raw s' \<and> alt s' \<and> app_screen a' = Exiting | Inl e \<Rightarrow> ?Q e s'"
  proof (rule terminal_loop_rule[where I = "\<lambda>a s. raw s \<and> alt s" and Q = ?Q, OF assms(1), simplified conj_assoc])
    fix a s r s' assume "raw s \<and> alt s" "app_screen a \<noteq> Exiting" "wizard_turn T ex getenv a s = (r, s')"
    then show "case r of Inr a' \<Rightarrow> raw s' \<and> alt s' | Inl e \<Rightarrow> ?Q e s'"
      using turn_modes turn_step by (fastforce split: sum.splits wizard_failure.splits)
  qed (use assms in simp)
  then show ?thesis by (auto split: sum.splits)
qed

lemma session_modes:
  assumes run: "terminal_session T ex getenv a s = Some (result, s')" and cooked: "\<not> raw s" "\<not> alt s"
  shows "case result of Inr a' \<Rightarrow> \<not> raw s' \<and> \<not> alt s'
    | Inl (Panicked p) \<Rightarrow> raw s' \<and> alt s'
    | Inl (TerminalFailed k m) \<Rightarrow> (case k of
          EnableRaw \<Rightarrow> \<not> raw s' \<and> \<not> alt s' | EnterScreen \<Rightarrow> raw s' | Construct \<Rightarrow> raw s' \<and> alt s'
        | DisableRaw \<Rightarrow> raw s' \<and> alt s' | LeaveScreen \<Rightarrow> \<not> raw s' | ShowCursor \<Rightarrow> \<not> raw s' \<and> \<not> alt s'
        | _ \<Rightarrow> (\<not> raw s' \<and> \<not> alt s') \<or> (\<exists>t e. restore_terminal T t = (Inl e, s')))"
proof -
  obtain r1 s1 where first: "setup_terminal T s = (r1, s1)" by (cases "setup_terminal T s")
  note entered = setup_modes[OF first cooked]
  show ?thesis
  proof (cases r1)
    case (Inl e)
    then have "result = Inl e" "s' = s1" using run first by (simp_all add: terminal_session_def)
    then show ?thesis using entered Inl by auto
  next
    case (Inr u)
    then obtain r2 s2 where loop: "terminal_loop T ex getenv a s1 = Some (r2, s2)"
      using run first by (auto simp: terminal_session_def split: option.splits)
    have on: "raw s2" "alt s2" and k: "\<And>k m. r2 = Inl (TerminalFailed k m) \<Longrightarrow> k \<in> {Poll, ReadEvent} \<union> range Draw"
      using loop_modes[OF loop] entered Inr by auto
    obtain r3 s3 where last: "restore_terminal T s2 = (r3, s3)" by (cases "restore_terminal T s2")
    note left = restore_modes[OF last on]
    have "if \<exists>p. r2 = Inl (Panicked p) then result = r2 \<and> s' = s2
        else result = res_then r2 (\<lambda>a'. res_then r3 (\<lambda>_. Inr a')) \<and> s' = s3"
      using run first loop last Inr unfolding terminal_session_def by (auto split: sum.splits wizard_failure.splits)
    then show ?thesis using on left last k
      by (cases r2; cases r3) (auto simp: res_then_def split: wizard_failure.splits terminal_call.splits if_splits)
  qed
qed

end

section \<open>A terminal in memory\<close>

text \<open>
  A terminal that plays a script: \<open>None\<close> is a poll that times out, and an empty script times out for
  ever. One kind of call can be made to fail.
\<close>

record script_tty =
  st_raw :: bool
  st_alt :: bool
  st_input :: "terminal_event option list"
  st_fails :: "terminal_call option"
  st_frames :: nat

definition unless_fails :: "terminal_call \<Rightarrow> (script_tty \<Rightarrow> 'a \<times> script_tty) \<Rightarrow> (script_tty, string, 'a) io" where
  "unless_fails k f s = (if st_fails s = Some k then (Inl ''Input/output error'', s) else (case f s of (a, s') \<Rightarrow> (Inr a, s')))"

definition script_terminal :: "script_tty terminal" where
  "script_terminal = \<lparr>tm_is_tty = True,
     tm_enable_raw = unless_fails EnableRaw (\<lambda>s. ((), s\<lparr>st_raw := True\<rparr>)),
     tm_enter_screen = unless_fails EnterScreen (\<lambda>s. ((), s\<lparr>st_alt := True\<rparr>)),
     tm_construct = unless_fails Construct (\<lambda>s. ((), s)),
     tm_draw = (\<lambda>_. unless_fails (Draw Detection) (\<lambda>s. ((), s\<lparr>st_frames := Suc (st_frames s)\<rparr>))),
     tm_poll = unless_fails Poll (\<lambda>s. (case st_input s of Some _ # _ \<Rightarrow> (True, s)
       | None # es \<Rightarrow> (False, s\<lparr>st_input := es\<rparr>) | [] \<Rightarrow> (False, s))),
     tm_read = unless_fails ReadEvent (\<lambda>s. (case st_input s of Some e # es \<Rightarrow> (e, s\<lparr>st_input := es\<rparr>) | _ \<Rightarrow> (TermOther, s))),
     tm_disable_raw = unless_fails DisableRaw (\<lambda>s. ((), s\<lparr>st_raw := False\<rparr>)),
     tm_leave_screen = unless_fails LeaveScreen (\<lambda>s. ((), s\<lparr>st_alt := False\<rparr>)),
     tm_show_cursor = unless_fails ShowCursor (\<lambda>s. ((), s))\<rparr>"

interpretation script: terminal_laws script_terminal st_raw st_alt
  by unfold_locales
    (auto simp: script_terminal_def unless_fails_def split: if_splits prod.splits list.splits option.splits)

section \<open>Properties\<close>


definition quit_script :: "terminal_call option \<Rightarrow> script_tty" where
  "quit_script k = \<lparr>st_raw = False, st_alt = False,
     st_input = [None, Some (TermKey (KeyChar (CHR ''q'')) False), Some (TermKey (KeyChar (CHR ''q'')) True)],
     st_fails = k, st_frames = 0\<rparr>"

lemma quit_key: "map_key (KeyChar (CHR ''q'')) = Quit"
  by (simp add: map_key_def)

lemma quit_run:
  "terminal_session script_terminal ex getenv (new_app p r c) (quit_script None) =
     Some (Inr ((new_app p r c)\<lparr>app_screen := Exiting\<rparr>), (quit_script None)\<lparr>st_input := [], st_frames := 3\<rparr>)"
  by (simp add: terminal_session_def setup_terminal_def restore_terminal_def terminal_loop.simps wizard_turn_def next_event_def
      app_panels_def new_app_def script_terminal_def unless_fails_def quit_script_def quit_key handle_event_def
      io_then_def io_map_err_def map_err_def res_then_def numeral_eq_Suc)

abbreviation sample_app :: app where
  "sample_app \<equiv> new_app sample_profile (build_compatibility_report sample_profile) sample_config"




end
