(* ===== verification/Program.thy ===== *)
theory Program
  imports Session_Props Terminal
begin

text \<open>
  \<open>main\<close>: the check of the user, the set-up of the log with its two fallbacks, and the commands, the wizard among them on
  a terminal. The log is a library (\<open>tracing\<close>, \<open>tracing_appender\<close>); the calls that the code makes are parameters. What
  the commands write to the log afterwards is not modelled.
\<close>

section \<open>The log\<close>

text \<open>The appender creates the log file; the library panics when it cannot.\<close>

record 's logging =
  lg_temp_dir :: path
  lg_timestamp :: string
  lg_appender :: "path \<Rightarrow> string \<Rightarrow> ('s, string, unit) io"
  lg_event :: "string \<Rightarrow> 's \<Rightarrow> 's"

text \<open>The directories of the log, and the warning of \<open>dirs_home\<close>, which is printed once.\<close>

definition primary_log_dir :: "(string \<Rightarrow> string option) \<Rightarrow> path" where
  "primary_log_dir getenv = path_push (path_push (dirs_home getenv) ''.virtu'') ''logs''"

definition fallback_log_dir :: "'s logging \<Rightarrow> path" where
  "fallback_log_dir L = path_push (path_push (lg_temp_dir L) ''virtu'') ''logs''"

definition home_warning :: "(string \<Rightarrow> string option) \<Rightarrow> string list" where
  "home_warning getenv = (if or_else (getenv ''HOME'') (getenv ''USERPROFILE'') = None
     then [''warning: neither HOME nor USERPROFILE is set; falling back to /tmp for Virtu state. ''
       @ ''Snapshots stored under /tmp/.virtu/ may not survive a reboot. ''
       @ ''Set HOME to your user account to keep snapshots durable.'']
     else [])"

text \<open>The result: what is printed to the standard error, and the log file if there is one.\<close>

definition open_log :: "'s logging \<Rightarrow> path \<Rightarrow> string list \<Rightarrow> ('s, string, string list \<times> path option) io" where
  "open_log L log_dir warnings =
     (let name = lg_timestamp L @ ''.log''; log_file = path_push log_dir name
      in io_then (lg_appender L log_dir name) (\<lambda>_ s.
        (Inr (warnings, Some log_file), lg_event L (''Virtu 0.1.0 starting up. Log: '' @ path_display log_file) s)))"

definition setup_logging ::
  "'s file_system \<Rightarrow> (string \<Rightarrow> string option) \<Rightarrow> 's logging \<Rightarrow> ('s, string, string list \<times> path option) io" where
  "setup_logging F getenv L s =
     (let primary_dir = primary_log_dir getenv; fallback_dir = fallback_log_dir L; warned = home_warning getenv in
      case fs_create_dir_all F primary_dir s of
        (Inr _, s1) \<Rightarrow> open_log L primary_dir warned s1
      | (Inl primary_err, s1) \<Rightarrow> (case fs_create_dir_all F fallback_dir s1 of
          (Inr _, s2) \<Rightarrow> open_log L fallback_dir
             (warned @ [''warning: could not create log dir at '' @ path_display primary_dir @ '': ''
                @ io_message primary_err @ ''; falling back to '' @ path_display fallback_dir]) s2
        | (Inl fallback_err, s2) \<Rightarrow> (Inr (warned @ [''warning: could not create either '' @ path_display primary_dir
                @ '' ('' @ io_message primary_err @ '') or '' @ path_display fallback_dir @ '' ('' @ io_message fallback_err
                @ ''); continuing without file logging''], None), s2)))"

section \<open>The program\<close>

datatype program_error = CommandError session_error | WizardError wizard_failure | LogPanic string

definition wizard_outcome :: "(session_error + wizard_failure) + string list \<Rightarrow> program_error + command_outcome" where
  "wizard_outcome r = (case r of Inl (Inl e) \<Rightarrow> Inl (CommandError e) | Inl (Inr e) \<Rightarrow> Inl (WizardError e) | Inr ls \<Rightarrow> Inr (Printed ls))"

text \<open>\<open>None\<close> for the command is the program without a subcommand, which is the wizard. The loop of the wizard may never
  return; then the result is \<open>None\<close>. \<open>CmdWizard\<close> carries the terminal's events for \<open>dispatch_command\<close>; here the
  terminal delivers them.\<close>

definition virtu_main ::
  "'s machine \<Rightarrow> 's terminal \<Rightarrow> 's logging \<Rightarrow> (nat \<Rightarrow> string)
    \<Rightarrow> (guest_os \<Rightarrow> string) \<times> (monitor_plan \<Rightarrow> string) \<times> (disk_choice \<Rightarrow> string) \<Rightarrow> cli_command option \<Rightarrow> 's
    \<Rightarrow> ((program_error + command_outcome) \<times> 's) option" where
  "virtu_main M T L stamp dbg cmd s = (case check_not_root M s of
     (Inl e, s1) \<Rightarrow> Some (Inl (CommandError e), s1)
   | (Inr _, s1) \<Rightarrow> (case setup_logging (pf_fs (mc_platform M)) (mc_getenv M) L s1 of
       (Inl e, s2) \<Rightarrow> Some (Inl (LogPanic e), s2)
     | (Inr _, s2) \<Rightarrow>
         (let wizard = map_option (apfst wizard_outcome) (run_wizard_tty M T dbg s2)
          in case cmd of None \<Rightarrow> wizard | Some (CmdWizard _) \<Rightarrow> wizard
          | Some c \<Rightarrow> Some (io_map_err CommandError (dispatch_command M stamp dbg c) s2))))"

section \<open>When the log stops the program\<close>

text \<open>Only the appender can: neither directory need be creatable, but a log file that cannot be created in a directory
  that can is a panic of the library, which nothing catches.\<close>

lemma setup_logging_panics:
  assumes "setup_logging F getenv L s = (Inl e, s')"
  shows "\<exists>d \<in> {primary_log_dir getenv, fallback_log_dir L}. \<exists>t. lg_appender L d (lg_timestamp L @ ''.log'') t = (Inl e, s')"
  using assms by (auto simp: setup_logging_def open_log_def io_then_def Let_def split: prod.splits sum.splits)

section \<open>What a run of the program may change\<close>

text \<open>A terminal and a log beside the files: drawing and keys change no file, the log only its own.\<close>

locale program_env = file_system_laws F for F :: "'s file_system" +
  fixes T :: "'s terminal" and L :: "'s logging" and logs :: "path set"
  assumes mode_content:
      "m \<in> {tm_enable_raw T, tm_enter_screen T, tm_construct T, tm_disable_raw T, tm_leave_screen T, tm_show_cursor T} \<Longrightarrow>
        m s = (u, s') \<Longrightarrow> fs_content F s' = fs_content F s"
    and draw_content: "tm_draw T ps s = (u, s') \<Longrightarrow> fs_content F s' = fs_content F s"
    and poll_content: "tm_poll T s = (b, s') \<Longrightarrow> fs_content F s' = fs_content F s"
    and read_content': "tm_read T s = (ev, s') \<Longrightarrow> fs_content F s' = fs_content F s"
    and appender_content: "lg_appender L d name s = (u, s') \<Longrightarrow> q \<notin> logs \<Longrightarrow> fs_content F s' q = fs_content F s q"
    and event_content: "q \<notin> logs \<Longrightarrow> fs_content F (lg_event L t s) q = fs_content F s q"
begin

lemma setup_content: "setup_terminal T s = (r, s') \<Longrightarrow> fs_content F s' = fs_content F s"
  by (auto simp: setup_terminal_def io_then_def io_map_err_def split: prod.splits sum.splits dest!: mode_content[rotated])

lemma restore_content: "restore_terminal T s = (r, s') \<Longrightarrow> fs_content F s' = fs_content F s"
  by (auto simp: restore_terminal_def io_then_def io_map_err_def split: prod.splits sum.splits dest!: mode_content[rotated])

lemma turn_content: "wizard_turn T ex getenv a s = (r, s') \<Longrightarrow> fs_content F s' = fs_content F s"
  by (auto simp: wizard_turn_def next_event_def io_then_def io_map_err_def split: prod.splits sum.splits option.splits if_splits
      dest!: draw_content poll_content read_content')

lemma loop_content:
  assumes "terminal_loop T ex getenv a s = Some (r, s')"
  shows "fs_content F s' = fs_content F s"
proof -
  let ?I = "\<lambda>t. fs_content F t = fs_content F s"
  have "case r of Inr a' \<Rightarrow> ?I s' \<and> app_screen a' = Exiting | Inl e \<Rightarrow> ?I s'"
    by (rule terminal_loop_rule[where I = "\<lambda>_. ?I" and Q = "\<lambda>_. ?I", OF assms refl])
      (auto dest!: turn_content split: sum.splits)
  then show ?thesis by (auto split: sum.splits)
qed

lemma session_content:
  assumes "terminal_session T ex getenv a s = Some (r, s')"
  shows "fs_content F s' = fs_content F s"
  using assms unfolding terminal_session_def
  by (auto split: prod.splits sum.splits option.splits wizard_failure.splits dest!: setup_content loop_content restore_content)

lemma logging_content:
  assumes "setup_logging F getenv L s = (r, s')" "q \<notin> logs"
  shows "fs_content F s' q = fs_content F s q"
proof -
  have "fs_content F t' q = fs_content F t q" if "open_log L d ls t = (u, t')" for d ls t t' u
    using that assms(2) appender_content event_content
    by (fastforce simp: open_log_def io_then_def Let_def split: prod.splits sum.splits)
  then show ?thesis using assms(1)
    by (auto simp: setup_logging_def Let_def split: prod.splits sum.splits dest!: mkdir_content)
qed

end

lemma wizard_tty_content:
  assumes env: "program_env (pf_fs (mc_platform M)) T L logs" and run: "run_wizard_tty M T dbg s = Some (r, s')"
  shows "fs_content (pf_fs (mc_platform M)) s' = fs_content (pf_fs (mc_platform M)) s"
proof -
  have "snd (scan_host M s) = s" by (simp add: scan_host_def io_map_err_def)
  then show ?thesis using run unfolding run_wizard_tty_def
    by (auto simp: Let_def split: prod.splits sum.splits option.splits if_splits dest!: program_env.session_content[OF env])
qed

text \<open>C11: a run of the program, from the check of the user to its end, changes no file outside the log, unless the user is
  not root and the command is a confirmed \<open>apply\<close>, \<open>resume\<close> or a rollback to a named snapshot. That includes every
  session of the wizard, confirmed, left or cut off by a failure of the terminal.\<close>

theorem program_changes_only:
  assumes env: "program_env (pf_fs (mc_platform M)) T L logs"
    and run: "virtu_main M T L stamp dbg cmd s = Some (r, s')" and "q \<notin> logs"
  shows "fs_content (pf_fs (mc_platform M)) s' q = fs_content (pf_fs (mc_platform M)) s q \<or>
    (0 < mc_uid M \<and> cmd \<in> {Some (CmdApply True), Some CmdResume} \<union> range (\<lambda>i. Some (CmdRollback False (Some i))))"
proof (cases "setup_logging (pf_fs (mc_platform M)) (mc_getenv M) L s")
  case (Pair r1 s1)
  note logged = program_env.logging_content[OF env Pair \<open>q \<notin> logs\<close>]
  have command: "io_map_err CommandError (dispatch_command M stamp dbg c) s1 = (r, s') \<Longrightarrow>
      s' = s1 \<or> c \<in> {CmdApply True, CmdResume} \<union> range (\<lambda>i. CmdRollback False (Some i))" for c
    using dispatch_read_only[where M = M and stamp = stamp and dbg = dbg and cmd = c and s = s1]
    by (auto simp: io_map_err_def split: prod.splits)
  have wizard: "run_wizard_tty M T dbg s1 = Some (r', s') \<Longrightarrow>
      fs_content (pf_fs (mc_platform M)) s' q = fs_content (pf_fs (mc_platform M)) s q" for r'
    using wizard_tty_content[OF env] logged by simp
  show ?thesis
  proof (cases "mc_uid M = 0")
    case True
    then show ?thesis using run by (auto simp: virtu_main_def check_not_root_def)
  next
    case False
    with run Pair have "(\<exists>e. r1 = Inl e \<and> s' = s1) \<or> (\<exists>r'. run_wizard_tty M T dbg s1 = Some (r', s')) \<or>
        (\<exists>c. cmd = Some c \<and> io_map_err CommandError (dispatch_command M stamp dbg c) s1 = (r, s'))"
      by (auto simp: virtu_main_def check_not_root_def Let_def split: sum.splits option.splits cli_command.splits)
    then show ?thesis using logged wizard command False by auto
  qed
qed

text \<open>A terminal on which somebody presses \<open>q\<close> for ever, and a log that is not kept.\<close>

definition q_terminal :: "mem_fs terminal" where
  "q_terminal = \<lparr>tm_is_tty = True, tm_enable_raw = io_ok (), tm_enter_screen = io_ok (), tm_construct = io_ok (),
     tm_draw = (\<lambda>_. io_ok ()), tm_poll = io_ok True, tm_read = io_ok (TermKey (KeyChar (CHR ''q'')) True),
     tm_disable_raw = io_ok (), tm_leave_screen = io_ok (), tm_show_cursor = io_ok ()\<rparr>"

definition null_log :: "mem_fs logging" where
  "null_log = \<lparr>lg_temp_dir = path_of ''/tmp'', lg_timestamp = ''2024-01-01_00-00-00'', lg_appender = (\<lambda>_ _. io_ok ()),
     lg_event = (\<lambda>_ s. s)\<rparr>"

interpretation quiet_program: program_env mem_ops q_terminal null_log "{}"
  by unfold_locales (auto simp: q_terminal_def null_log_def io_ok_def)

definition no_debug :: "(guest_os \<Rightarrow> string) \<times> (monitor_plan \<Rightarrow> string) \<times> (disk_choice \<Rightarrow> string)" where
  "no_debug = (\<lambda>_. [], \<lambda>_. [], \<lambda>_. [])"

theorem program_changes_only_witness:
  "\<exists>r s'. virtu_main sample_machine q_terminal null_log show_nat no_debug None host_fs = Some (r, s') \<and>
     mem_files s' grub_file = mem_files host_fs grub_file"
proof -
  let ?M = sample_machine and ?T = q_terminal
  have quits: "terminal_session ?T ex getenv (new_app p r0 c) s1 \<noteq> None" for ex getenv p r0 c s1
    by (simp add: terminal_session_def setup_terminal_def restore_terminal_def terminal_loop.simps wizard_turn_def next_event_def
        app_panels_def new_app_def q_terminal_def quit_key handle_event_def io_then_def io_map_err_def map_err_def io_ok_def
        res_then_def)
  have wizard: "run_wizard_tty ?M ?T no_debug s1 \<noteq> None" for s1
    by (simp add: run_wizard_tty_def Let_def quits split: prod.splits sum.splits option.splits)
  have "virtu_main ?M ?T null_log show_nat no_debug None host_fs \<noteq> None"
    by (simp add: virtu_main_def wizard check_not_root_def io_ok_def io_err_def split: prod.splits sum.splits del: not_None_eq)
  then obtain r s' where run: "virtu_main ?M ?T null_log show_nat no_debug None host_fs = Some (r, s')" by auto
  then show ?thesis
    using program_changes_only[OF _ run, of "{}" grub_file] quiet_program.program_env_axioms by (auto simp: sample_machine_def)
qed

end
