(* ===== verification/Frames.thy ===== *)
theory Frames
  imports Handover
begin

text \<open>
  What a run of a phase or of a restore leaves alone: every file outside the targets of its plan, its own
  snapshot directory and the pending record. With the invariants of \<open>Phase_A\<close> and \<open>Phase_B\<close> on the run's own
  snapshot this gives the life of several installations in \<open>Lifecycle\<close>.
\<close>

section \<open>Writes\<close>

context platform_laws
begin

lemma keeps_loop_mem: "(\<And>b x. x \<in> set xs \<Longrightarrow> host.keeps (f b x)) \<Longrightarrow> host.keeps (io_fold f b xs)"
  by (induction xs arbitrary: b) (auto intro: host.keeps_simple host.keeps_then)

lemma keeps_write:
  assumes "\<not> path_under d t"
  shows "host.keeps (fs_write_atomic (pf_fs W) t c)" "host.keeps (write_target W m t c)" "host.keeps (persist_file W k m t c)"
proof -
  have "t \<noteq> p" if "path_under d p" for p using assms that by blast
  then show "host.keeps (fs_write_atomic (pf_fs W) t c)"
    using fs.write_frame by (fastforce simp: host.keeps_def)
  have "host.keeps (snapshot_then_write (pf_fs W) (pf_sha256 W) m t c)"
    unfolding host.keeps_def
  proof (intro allI impI)
    fix s r s' p assume run: "snapshot_then_write (pf_fs W) (pf_sha256 W) m t c s = (r, s')" and p: "path_under d p"
    then have "t \<noteq> p" using assms by blast
    then show "content s' p = content s p" using fs.snapshot_then_write_result[OF run] by (cases r) auto
  qed
  then show "host.keeps (write_target W m t c)" "host.keeps (persist_file W k m t c)"
    by (simp_all add: write_target_def persist_file_def host.keeps_map_err)
qed

section \<open>Phase A\<close>

text \<open>The writers touch the first file that their step names.\<close>

lemma keeps_writers:
  assumes "\<forall>t \<in> set (step_touches step). \<not> path_under d t"
  shows "host.keeps (run_bootloader_step W step host c m)" "host.keeps (run_vfio_step W step host c m)"
    "host.keeps (run_initramfs_step W step host m)"
  unfolding run_bootloader_step_def run_vfio_step_def run_initramfs_step_def Let_def
  using assms
  by (cases "step_touches step";
      auto intro!: host.keeps_then keeps_pure keeps_write split: bootloader_kind.split initramfs_system.split)+

lemma keeps_phase_a_step:
  assumes "step_kind step \<noteq> SnapshotStep \<Longrightarrow> \<forall>t \<in> set (step_touches step). \<not> path_under d t"
  shows "host.keeps (phase_a_step W host c acc step)"
  unfolding phase_a_step_def case_prod_unfold
  using assms
  by (cases "step_kind step") (auto intro!: host.keeps_then keeps_writers host.keeps_simple simp: keeps_const io_ok_def[abs_def])

text \<open>The tail writes the manifest and the pending record.\<close>

lemma finish_frame:
  assumes run: "finish_phase_a W now pl host c root state_root sid acc s = (r, s')"
    and apart: "manifest_path root sid \<noteq> pending_path state_root"
  shows "(\<forall>p. p \<noteq> manifest_path root sid \<and> p \<noteq> pending_path state_root \<longrightarrow> content s' p = content s p) \<and>
    (content s' (pending_path state_root) = content s (pending_path state_root) \<or>
     (\<exists>t. content s' (pending_path state_root) = Some t \<and>
        to_toml (pf_pending_codec W) (build_pending_plan now pl host c sid) = Inr t))"
proof -
  let ?mp = "manifest_path root sid" and ?q = "pending_path state_root"
  let ?P = "build_pending_plan now pl host c sid"
  obtain x u where save: "persist_manifest W root sid (fst acc) s = (x, u)" by fastforce
  then have kept: "p \<noteq> ?mp \<Longrightarrow> content u p = content s p" for p
    using fs.write_frame by (auto simp: persist_manifest_def io_then_def io_map_err_def split: prod.splits sum.splits)
  have "content s' = content u \<or> (\<exists>t. to_toml (pf_pending_codec W) ?P = Inr t \<and> content s' = (content u)(?q \<mapsto> t))"
    using run save
    by (cases acc) (auto simp: finish_phase_a_def io_then_def io_map_err_def Let_def split: prod.splits sum.splits
        dest!: fs.mkdir_content fs.write_ok fs.write_err)
  then show ?thesis using kept apart by auto
qed

text \<open>A run up to its tail: what lies below \<open>d\<close> is kept, for the directory of another snapshot or for the pending record.\<close>

lemma phase_a_frame:
  assumes laws: "platform_laws W (path_push root (generate_id (pf_stamp W) t1))"
    and safe: "snapshot_safe (path_push root (generate_id (pf_stamp W) t1)) (collect_targets (plan_steps pl))"
    and named: "touches_named (plan_steps pl)"
    and other: "\<And>p. path_under d p \<Longrightarrow> \<not> path_under (path_push root (generate_id (pf_stamp W) t1)) p"
    and outside: "\<forall>t \<in> set (collect_targets (plan_steps pl)). \<not> path_under d t"
    and run: "execute_phase_a W (t1, t2, t3) pl host c root state_root mode s0 = (r, s1)"
  shows "\<exists>s2. (\<forall>p. path_under d p \<longrightarrow> content s2 p = content s0 p) \<and>
    (s1 = s2 \<or> is_ok (fst (execute_snapshot_step W t1 t2 pl host root s0)) \<and>
      (\<exists>acc. finish_phase_a W t3 pl host c root state_root (generate_id (pf_stamp W) t1) acc s2 = (r, s1)))"
proof -
  let ?sid = "generate_id (pf_stamp W) t1"
  obtain rs ss where snap: "execute_snapshot_step W t1 t2 pl host root s0 = (rs, ss)" by fastforce
  note S = platform_laws.snapshot_step_good[OF laws snap refl safe]
  have kept: "path_under d p \<Longrightarrow> content ss p = content s0 p" for p using S other by blast
  show ?thesis
  proof (cases rs)
    case (Inl e)
    then have "s1 = ss" using run snap by (auto simp: execute_phase_a_def io_then_def io_map_err_def)
    then show ?thesis using kept by blast
  next
    case (Inr x)
    then obtain m where x: "x = (?sid, m)" using S by (cases x) auto
    obtain rl sl where loop: "io_fold (phase_a_step W host c) (m, [SnapshotStep]) (plan_steps pl) ss = (rl, sl)" by fastforce
    have "host.keeps (io_fold (phase_a_step W host c) (m, [SnapshotStep]) (plan_steps pl))"
      by (intro keeps_loop_mem keeps_phase_a_step) (use named outside touches_collected in \<open>fastforce simp: touches_named_def\<close>)
    then have kept: "path_under d p \<Longrightarrow> content sl p = content s0 p" for p using kept host.keepsD loop by metis
    show ?thesis
    proof (cases rl)
      case (Inl e)
      then have "s1 = sl" using run snap Inr x loop by (auto simp: execute_phase_a_def io_then_def io_map_err_def)
      then show ?thesis using kept by blast
    next
      case ok: (Inr acc)
      let ?g = "if mode = RunRegenerate then run_regenerate_commands W host (snd acc) else io_ok ()"
      obtain rg sg where regen: "?g sl = (rg, sg)" by fastforce
      have "host.keeps ?g" by (intro host.keeps_if keeps_regenerate keeps_pure)
      then have kept: "path_under d p \<Longrightarrow> content sg p = content s0 p" for p using kept host.keepsD regen by metis
      have "s1 = sg \<or> finish_phase_a W t3 pl host c root state_root ?sid acc sg = (r, s1)"
        using run snap Inr x loop ok regen
        by (cases rg) (auto simp: execute_phase_a_def io_then_def io_map_err_def)
      then show ?thesis
      proof
        assume "s1 = sg"
        then show ?thesis using kept by blast
      next
        assume "finish_phase_a W t3 pl host c root state_root ?sid acc sg = (r, s1)"
        moreover have "is_ok (fst (execute_snapshot_step W t1 t2 pl host root s0))" using snap Inr by (simp add: is_ok_def)
        ultimately show ?thesis using kept by blast
      qed
    qed
  qed
qed

section \<open>Phase B\<close>

lemma keeps_phase_b_step:
  assumes files: "\<forall>q \<in> set (step_files pending step). \<not> path_under d q"
    and mp: "\<not> path_under d (manifest_path root (pp_snapshot_id pending))"
  shows "host.keeps (phase_b_step W E pending p root mode acc step)"
proof -
  have save: "host.keeps (write_manifest W root (pp_snapshot_id pending) m)" for m
    unfolding write_manifest_def by (intro host.keeps_then host.keeps_map_err keeps_pure keeps_write mp)
  have xml: "host.keeps (run_vm_xml_step W E step pending p root m mode)" if "step_kind step = VmXmlGenerate" for m
    unfolding run_vm_xml_step_def using files that save
    by (cases "step_touches step")
      (auto simp: step_files_def intro!: host.keeps_then keeps_pure host.keeps_map_err host.keeps_wrappers keeps_phase_b keeps_write host.keeps_if)
  have disk: "host.keeps (create_disk W pending root m mode)"
    "create_disk W pending root m mode s = (Inr (m', created), s') \<Longrightarrow> created = Some q \<Longrightarrow> \<not> path_under d q"
    if "step_kind step = VmRegister" for m m' s s' created q
    using files that save
    by (auto simp: create_disk_def step_files_def Let_def io_then_def[where m = "io_gets _"] io_then_Inr_iff
        intro!: host.keeps_then host.keeps_simple host.keeps_map_err host.keeps_wrappers keeps_phase_b host.keeps_if
        split: disk_choice.splits if_splits)
  have register: "host.keeps (run_vm_register_step W pending root m mode)" if "step_kind step = VmRegister" for m
    unfolding run_vm_register_step_def case_prod_unfold Let_def using disk[OF that] save
    by (auto intro!: host.keeps_then host.keeps_simple keeps_phase_b host.keeps_if split: option.split)
  have hooks: "host.keeps (run_hook_install_step W pending p root m mode)" if "step_kind step = HookInstall" for m
    using files that save unfolding run_hook_install_step_def install_hooks_def Let_def
    by (auto simp: step_files_def intro!: host.keeps_then keeps_pure keeps_phase_b host.keeps_if keeps_loop_mem keeps_write
        host.keeps_map_err keeps_files dest!: set_zip_leftD split: option.split)
  show ?thesis unfolding phase_b_step_def case_prod_unfold Let_def
    by (cases "step_kind step") (auto intro!: host.keeps_then host.keeps_simple xml register hooks simp: keeps_const io_ok_def[abs_def] io_err_def[abs_def])
qed

lemma keeps_phase_b_loop:
  assumes "\<forall>step \<in> set (pp_remaining pending). \<forall>q \<in> set (step_files pending step). \<not> path_under d q"
    and "\<not> path_under d (manifest_path root (pp_snapshot_id pending))"
  shows "host.keeps (io_fold (phase_b_step W E pending p root mode) acc (pp_remaining pending))"
    "host.keeps (read_manifest_b W root (pp_snapshot_id pending))"
  using assms
  by (auto simp: read_manifest_b_def Let_def intro!: keeps_loop_mem keeps_phase_b_step host.keeps_then host.keeps_simple
      host.keeps_if host.keeps_map_err split: option.split)

text \<open>The phase keeps what lies below \<open>d\<close>; its last act may remove the pending record.\<close>

lemma phase_b_frame:
  assumes files: "\<forall>step \<in> set (pp_remaining pending). \<forall>q \<in> set (step_files pending step). \<not> path_under d q"
    and mp: "\<not> path_under d (manifest_path root (pp_snapshot_id pending))"
    and run: "execute_phase_b W E pending p root state_root mode s = (r, s')" and q: "path_under d q"
  shows "content s' q = content s q \<or> q = pending_path state_root \<and> content s' q = None"
proof -
  let ?loop = "\<lambda>m. io_fold (phase_b_step W E pending p root mode) (m, [], []) (pp_remaining pending)"
  obtain r1 s1 where rd: "read_manifest_b W root (pp_snapshot_id pending) s = (r1, s1)" by fastforce
  have s1: "content s1 q = content s q" using host.keepsD[OF keeps_phase_b_loop(2)[OF files mp] rd q] .
  show ?thesis
  proof (cases r1)
    case (Inl e)
    then show ?thesis using run rd s1 by (simp add: execute_phase_b_def io_then_def)
  next
    case (Inr m)
    obtain r2 s2 where loop: "?loop m s1 = (r2, s2)" by fastforce
    have s2: "content s2 q = content s q" using host.keepsD[OF keeps_phase_b_loop(1)[OF files mp] loop q] s1 by simp
    show ?thesis
    proof (cases r2)
      case (Inl e)
      then show ?thesis using run rd Inr loop s2 by (simp add: execute_phase_b_def io_then_def)
    next
      case ok: (Inr acc)
      obtain r3 s3 where clear: "clear_pending W state_root s2 = (r3, s3)" by fastforce
      then have "content s3 q = content s2 q \<or> q = pending_path state_root \<and> content s3 q = None"
        by (auto simp: clear_pending_def io_then_def io_map_err_def dest!: fs.remove_ok fs.remove_err
            split: prod.splits sum.splits if_splits)
      moreover have "s' = s3"
        using run rd Inr loop ok clear by (cases r3) (auto simp: execute_phase_b_def io_then_def)
      ultimately show ?thesis using s2 by simp
    qed
  qed
qed

section \<open>Restore\<close>

lemma keeps_restore_entry:
  assumes "\<not> path_under d (original_path e)"
  shows "host.keeps (restore_entry (pf_fs W) H sid dir sm e)"
  unfolding restore_entry_def Let_def
  by (auto intro!: host.keeps_then host.keeps_simple host.keeps_if host.keeps_map_err keeps_files keeps_write assms
      split: option.split)

lemma restore_frame:
  assumes rec: "recoverable H codec (path_push root sid) T orig (content s)"
    and apart: "\<forall>t \<in> set T. \<not> path_under d t"
    and run: "restore (pf_fs W) H codec root sid s = (r, s')" and q: "path_under d q"
  shows "content s' q = content s q"
proof -
  from rec obtain m t where m: "content s (path_push (path_push root sid) manifest_filename) = Some t" "valid_utf8 t"
    "from_toml codec t = Inr m" "original_path ` set (entries m) = set T"
    by (auto simp: recoverable_def manifest_good_def)
  have "read_manifest (pf_fs W) codec (path_push root sid) sid s = (Inr m, s)"
    using m(1-3) fs.content_exists[OF m(1)]
    by (simp add: read_manifest_def Let_def io_then_def io_map_err_def fs_content_read from_utf8_def)
  then have loop: "io_fold (restore_entry (pf_fs W) H sid (path_push root sid))
      \<lparr>rs_id = sid, rs_restored = [], rs_already = [], rs_deleted = [], rs_post_actions = restore_actions m\<rparr>
      (entries m) s = (r, s')"
    using run by (simp add: restore_def Let_def io_then_def)
  have "host.keeps (io_fold (restore_entry (pf_fs W) H sid (path_push root sid)) sm (entries m))" for sm
    by (intro keeps_loop_mem keeps_restore_entry) (use m(4) apart in blast)
  from host.keepsD[OF this loop q] show ?thesis .
qed

end

end
