(* ===== verification/Lifecycle.thy ===== *)
theory Lifecycle
  imports Frames
begin

text \<open>
  The life of a host on which Virtu is used again and again: runs of Phase A, of Phase B and of
  restores in any order, each with any outcome, and in between everything else that happens on the machine.
  The step relation keeps a list of the snapshots that were taken, with what their targets held at that
  moment; the invariant says that each of them can still be restored.
\<close>

section \<open>Paths\<close>

lemma path_under_linear: "path_under a p \<Longrightarrow> path_under b p \<Longrightarrow> path_under a b \<or> path_under b a"
  by (auto simp: path_under_def append_eq_append_conv2) metis+

lemma path_under_trans: "path_under a b \<Longrightarrow> path_under b p \<Longrightarrow> path_under a p"
  by (auto simp: path_under_def)

lemma path_under_push_iff:
  "plain_name n \<Longrightarrow> path_under q (path_push d n) \<longleftrightarrow> path_under q d \<or> q = path_push d n"
  by (cases q) (auto simp: path_under_def path_push_plain append_eq_append_conv2 Cons_eq_append_conv
      append_eq_Cons_conv)

lemma siblings_apart:
  "plain_name a \<Longrightarrow> plain_name b \<Longrightarrow> a \<noteq> b \<Longrightarrow> path_under (path_push d a) p \<Longrightarrow> \<not> path_under (path_push d b) p"
  by (auto simp: path_under_def path_push_plain)

section \<open>The steps\<close>

record installation =
  in_id :: string
  in_targets :: "path list"
  in_before :: "path \<Rightarrow> string option"

text \<open>What a plan must satisfy: a fresh identifier for the snapshot, targets away from Virtu's own
  directories, and the files of Phase B among them. The last holds for every plan of the planner.\<close>

definition targets_apart :: "path \<Rightarrow> path \<Rightarrow> path list \<Rightarrow> bool" where
  "targets_apart root record_path ts \<longleftrightarrow> (\<forall>t \<in> set ts. \<not> path_under root t \<and> \<not> path_under record_path t)"

definition plan_apart :: "'fs platform \<Rightarrow> path \<Rightarrow> path \<Rightarrow> installation list \<Rightarrow> plan \<Rightarrow> nat \<Rightarrow> bool" where
  "plan_apart W root state_root I pl t1 \<longleftrightarrow>
     (let sid = generate_id (pf_stamp W) t1; ts = collect_targets (plan_steps pl) in
      plain_name sid \<and> sid \<notin> in_id ` set I \<and> snapshot_safe (path_push root sid) ts \<and>
      touches_named (plan_steps pl) \<and> targets_apart root (pending_path state_root) ts)"

definition installable ::
  "'fs platform \<Rightarrow> path \<Rightarrow> path \<Rightarrow> installation list \<Rightarrow> plan \<Rightarrow> system_profile \<Rightarrow> passthrough_config \<Rightarrow> nat \<times> nat \<times> nat \<Rightarrow> bool" where
  "installable W root state_root I pl host c clock \<longleftrightarrow> plan_apart W root state_root I pl (fst clock) \<and>
     set (concat (map (step_files (build_pending_plan (snd (snd clock)) pl host c (generate_id (pf_stamp W) (fst clock))))
       (phase_b_steps pl))) \<subseteq> set (collect_targets (plan_steps pl))"

lemma planned_installable:
  assumes "make_plan ex e p r c = Inr pl" and "plan_apart W root state_root I pl (fst clock)"
  shows "installable W root state_root I pl p c clock"
  using assms planned_files_captured[OF assms(1)] by (simp add: installable_def plan_apart_def Let_def)

inductive life_step ::
  "'fs platform \<Rightarrow> path \<Rightarrow> path \<Rightarrow> 'fs \<times> installation list \<Rightarrow> 'fs \<times> installation list \<Rightarrow> bool"
  for W root state_root where
  elsewhere:
    "(\<And>p. path_under root p \<or> path_under (pending_path state_root) p \<Longrightarrow>
        fs_content (pf_fs W) s' p = fs_content (pf_fs W) s p) \<Longrightarrow>
     life_step W root state_root (s, I) (s', I)"
| apply_fails:
    "installable W root state_root I pl host c (t1, t2, t3) \<Longrightarrow>
     execute_snapshot_step W t1 t2 pl host root s = (Inl e, u) \<Longrightarrow>
     execute_phase_a W (t1, t2, t3) pl host c root state_root mode s = (r, s') \<Longrightarrow>
     life_step W root state_root (s, I) (s', I)"
| apply_runs:
    "installable W root state_root I pl host c (t1, t2, t3) \<Longrightarrow>
     execute_snapshot_step W t1 t2 pl host root s = (Inr x, u) \<Longrightarrow>
     execute_phase_a W (t1, t2, t3) pl host c root state_root mode s = (r, s') \<Longrightarrow>
     life_step W root state_root (s, I)
       (s', \<lparr>in_id = generate_id (pf_stamp W) t1, in_targets = collect_targets (plan_steps pl),
             in_before = fs_content (pf_fs W) s\<rparr> # I)"
| resume_runs:
    "fs_read (pf_fs W) (pending_path state_root) s = Inr t \<Longrightarrow>
     from_toml (pf_pending_codec W) t = Inr pending \<Longrightarrow>
     execute_phase_b W E pending host root state_root mode' s = (r', s') \<Longrightarrow>
     life_step W root state_root (s, I) (s', I)"
| rollback_runs:
    "i \<in> set I \<Longrightarrow>
     restore (pf_fs W) (pf_sha256 W) (pf_manifest_codec W) root (in_id i) s = (r'', s') \<Longrightarrow>
     life_step W root state_root (s, I) (s', I)"

inductive_cases life_stepE: "life_step W root state_root (s, I) (s', I')"

section \<open>The invariant\<close>

definition installed :: "'fs platform \<Rightarrow> path \<Rightarrow> path \<Rightarrow> 'fs \<Rightarrow> installation \<Rightarrow> bool" where
  "installed W root state_root s i \<longleftrightarrow>
     plain_name (in_id i) \<and> snapshot_safe (path_push root (in_id i)) (in_targets i) \<and>
     targets_apart root (pending_path state_root) (in_targets i) \<and>
     recoverable (pf_sha256 W) (pf_manifest_codec W) (path_push root (in_id i)) (in_targets i) (in_before i)
       (fs_content (pf_fs W) s)"

definition belongs :: "pending_plan \<Rightarrow> installation \<Rightarrow> bool" where
  "belongs pending i \<longleftrightarrow> pp_snapshot_id pending = in_id i \<and>
     (\<forall>step \<in> set (pp_remaining pending). set (step_files pending step) \<subseteq> set (in_targets i))"

definition record_known :: "'fs platform \<Rightarrow> path \<Rightarrow> 'fs \<Rightarrow> installation list \<Rightarrow> bool" where
  "record_known W state_root s I \<longleftrightarrow>
     (\<forall>t pending. fs_content (pf_fs W) s (pending_path state_root) = Some t \<longrightarrow>
        from_toml (pf_pending_codec W) t = Inr pending \<longrightarrow> (\<exists>i \<in> set I. belongs pending i))"

definition life_inv :: "'fs platform \<Rightarrow> path \<Rightarrow> path \<Rightarrow> 'fs \<times> installation list \<Rightarrow> bool" where
  "life_inv W root state_root = (\<lambda>(s, I).
     inj_on in_id (set I) \<and> (\<forall>i \<in> set I. installed W root state_root s i) \<and> record_known W state_root s I)"

locale lifecycle =
  fixes W :: "'fs platform" and root state_root :: path
  assumes dir_laws: "plain_name n \<Longrightarrow> platform_laws W (path_push root n)"
    and record_laws: "platform_laws W (pending_path state_root)"
    and record_outside: "\<not> path_under root (pending_path state_root)"
    and root_outside: "\<not> path_under (pending_path state_root) root"
begin

abbreviation dir :: "string \<Rightarrow> path" where "dir n \<equiv> path_push root n"

abbreviation (input) "record_path \<equiv> pending_path state_root"

lemma apart:
  assumes "plain_name n" "path_under record_path p"
  shows "\<not> path_under (dir n) p"
proof
  assume "path_under (dir n) p"
  then have "path_under record_path (dir n) \<or> path_under (dir n) record_path"
    using assms(2) path_under_linear by blast
  moreover have "path_under root (dir n)" using assms(1) by (simp add: path_under_push)
  ultimately show False
    using assms(1) record_outside root_outside by (metis path_under_push_iff path_under_trans)
qed

lemma record_not_in_dir: "plain_name n \<Longrightarrow> \<not> path_under (dir n) record_path"
  by (rule apart) simp_all

lemma below_root: "plain_name n \<Longrightarrow> path_under (dir n) p \<Longrightarrow> path_under root p"
  by (rule path_under_trans[OF path_under_push]) simp_all

lemma targets_not_in_dir: "targets_apart root record_path ts \<Longrightarrow> plain_name n \<Longrightarrow> t \<in> set ts \<Longrightarrow> \<not> path_under (dir n) t"
  using below_root by (auto simp: targets_apart_def)

lemma installed_frame:
  assumes "installed W root state_root s i"
    and "\<And>p. path_under (dir (in_id i)) p \<Longrightarrow> fs_content (pf_fs W) s' p = fs_content (pf_fs W) s p"
  shows "installed W root state_root s' i"
  using assms platform_laws.safe_frame[OF dir_laws] unfolding installed_def by blast

lemma record_frame:
  assumes "record_known W state_root s I" and "set I \<subseteq> set I'"
    and "fs_content (pf_fs W) s' record_path = fs_content (pf_fs W) s record_path \<or>
      fs_content (pf_fs W) s' record_path = None"
  shows "record_known W state_root s' I'"
  using assms unfolding record_known_def by force

section \<open>Every step keeps the invariant\<close>

lemma phase_a_others:
  assumes ok: "installable W root state_root I pl host c (t1, t2, t3)"
    and run: "execute_phase_a W (t1, t2, t3) pl host c root state_root mode s = (r, s')"
    and i: "installed W root state_root s i" "i \<in> set I"
  shows "installed W root state_root s' i"
proof (rule installed_frame[OF i(1)])
  fix p assume p: "path_under (dir (in_id i)) p"
  let ?sid = "generate_id (pf_stamp W) t1" and ?T = "collect_targets (plan_steps pl)"
  have sid: "plain_name ?sid" "?sid \<noteq> in_id i" and safe: "snapshot_safe (dir ?sid) ?T"
    and named: "touches_named (plan_steps pl)" and away: "targets_apart root record_path ?T"
    using ok i(2) by (auto simp: installable_def plan_apart_def Let_def)
  have id: "plain_name (in_id i)" using i(1) by (simp add: installed_def)
  have other: "path_under (dir (in_id i)) q \<Longrightarrow> \<not> path_under (dir ?sid) q" for q
    using siblings_apart[OF id sid(1)] sid(2) by metis
  obtain s2 where kept: "\<forall>q. path_under (dir (in_id i)) q \<longrightarrow> fs_content (pf_fs W) s2 q = fs_content (pf_fs W) s q"
    and rest: "s' = s2 \<or> (\<exists>acc. finish_phase_a W t3 pl host c root state_root ?sid acc s2 = (r, s'))"
    using platform_laws.phase_a_frame[OF dir_laws[OF id] dir_laws[OF sid(1)] safe named other _ run]
      targets_not_in_dir[OF away id] by blast
  have mp: "p \<noteq> manifest_path root ?sid" using other[OF p] manifest_under by (auto simp: manifest_path_def)
  have "p \<noteq> record_path" using p record_not_in_dir[OF id] by blast
  moreover have "manifest_path root ?sid \<noteq> record_path"
    using record_not_in_dir[OF sid(1)] manifest_under by (metis manifest_path_def)
  ultimately show "fs_content (pf_fs W) s' p = fs_content (pf_fs W) s p"
    using rest kept p mp platform_laws.finish_frame[OF record_laws] by metis
qed

lemma phase_a_record:
  assumes ok: "installable W root state_root I pl host c (t1, t2, t3)"
    and run: "execute_phase_a W (t1, t2, t3) pl host c root state_root mode s = (r, s')"
  shows "fs_content (pf_fs W) s' record_path = fs_content (pf_fs W) s record_path \<or>
    is_ok (fst (execute_snapshot_step W t1 t2 pl host root s)) \<and>
    (\<exists>t. fs_content (pf_fs W) s' record_path = Some t \<and>
      from_toml (pf_pending_codec W) t = Inr (build_pending_plan t3 pl host c (generate_id (pf_stamp W) t1)))"
proof -
  let ?sid = "generate_id (pf_stamp W) t1" and ?T = "collect_targets (plan_steps pl)"
  have sid: "plain_name ?sid" and safe: "snapshot_safe (dir ?sid) ?T"
    and named: "touches_named (plan_steps pl)" and away: "\<forall>t \<in> set ?T. \<not> path_under record_path t"
    using ok by (auto simp: installable_def plan_apart_def targets_apart_def Let_def)
  obtain s2 where kept: "\<forall>q. path_under record_path q \<longrightarrow> fs_content (pf_fs W) s2 q = fs_content (pf_fs W) s q"
    and rest: "s' = s2 \<or> is_ok (fst (execute_snapshot_step W t1 t2 pl host root s)) \<and>
      (\<exists>acc. finish_phase_a W t3 pl host c root state_root ?sid acc s2 = (r, s'))"
    using platform_laws.phase_a_frame[OF record_laws dir_laws[OF sid] safe named apart[OF sid] away run] by blast
  have "manifest_path root ?sid \<noteq> record_path"
    using record_not_in_dir[OF sid] manifest_under by (metis manifest_path_def)
  moreover have "from_toml (pf_pending_codec W) t = Inr P" if "to_toml (pf_pending_codec W) P = Inr t" for t P
    using that platform_laws.pending_codec[OF record_laws] by (auto simp: codec_round_trips_def)
  ultimately show ?thesis
    using rest kept platform_laws.finish_frame[OF record_laws] by (metis path_under_refl)
qed

lemma phase_a_installed:
  assumes ok: "installable W root state_root I pl host c (t1, t2, t3)"
    and snap: "execute_snapshot_step W t1 t2 pl host root s = (Inr x, u)"
    and run: "execute_phase_a W (t1, t2, t3) pl host c root state_root mode s = (r, s')"
    and i: "i = \<lparr>in_id = generate_id (pf_stamp W) t1, in_targets = collect_targets (plan_steps pl),
      in_before = fs_content (pf_fs W) s\<rparr>"
  shows "installed W root state_root s' i"
    and "belongs (build_pending_plan t3 pl host c (generate_id (pf_stamp W) t1)) i"
proof -
  have sid: "plain_name (generate_id (pf_stamp W) t1)" using ok by (simp add: installable_def plan_apart_def Let_def)
  show "installed W root state_root s' i"
    using ok platform_laws.phase_a_captured[OF dir_laws[OF sid] refl _ _ record_not_in_dir[OF sid] snap run]
    by (simp add: installed_def installable_def plan_apart_def Let_def i)
  show "belongs (build_pending_plan t3 pl host c (generate_id (pf_stamp W) t1)) i"
    using ok by (auto simp: belongs_def installable_def plan_apart_def Let_def i build_pending_plan_def new_pending_def)
qed

lemma apply_keeps:
  assumes inv: "life_inv W root state_root (s, I)" and ok: "installable W root state_root I pl host c (t1, t2, t3)"
    and snap: "execute_snapshot_step W t1 t2 pl host root s = (Inr x, u)"
    and run: "execute_phase_a W (t1, t2, t3) pl host c root state_root mode s = (r, s')"
    and i: "i = \<lparr>in_id = generate_id (pf_stamp W) t1, in_targets = collect_targets (plan_steps pl),
      in_before = fs_content (pf_fs W) s\<rparr>"
  shows "life_inv W root state_root (s', i # I)"
proof -
  note new = phase_a_installed[OF ok snap run i]
  have "in_id i \<notin> in_id ` set I" using ok by (simp add: installable_def plan_apart_def Let_def i)
  moreover have "record_known W state_root s' (i # I)"
    using phase_a_record[OF ok run]
  proof
    assume "fs_content (pf_fs W) s' record_path = fs_content (pf_fs W) s record_path"
    then show ?thesis
      using inv by (simp add: life_inv_def record_frame[of s I] subset_insertI)
  next
    assume "is_ok (fst (execute_snapshot_step W t1 t2 pl host root s)) \<and>
      (\<exists>t. fs_content (pf_fs W) s' record_path = Some t \<and>
        from_toml (pf_pending_codec W) t = Inr (build_pending_plan t3 pl host c (generate_id (pf_stamp W) t1)))"
    then show ?thesis using new(2) by (force simp: record_known_def)
  qed
  moreover have "\<forall>j \<in> set (i # I). installed W root state_root s' j"
    using inv new(1) phase_a_others[OF ok run] by (simp add: life_inv_def)
  ultimately show ?thesis using inv by (auto simp: life_inv_def)
qed

lemma apply_fails_keeps:
  assumes inv: "life_inv W root state_root (s, I)" and ok: "installable W root state_root I pl host c (t1, t2, t3)"
    and snap: "execute_snapshot_step W t1 t2 pl host root s = (Inl e, u)"
    and run: "execute_phase_a W (t1, t2, t3) pl host c root state_root mode s = (r, s')"
  shows "life_inv W root state_root (s', I)"
  using inv phase_a_others[OF ok run] phase_a_record[OF ok run] snap record_frame[of s I I s']
  by (auto simp: life_inv_def is_ok_def)

lemma resume_keeps:
  assumes inv: "life_inv W root state_root (s, I)"
    and rd: "fs_read (pf_fs W) record_path s = Inr t" "from_toml (pf_pending_codec W) t = Inr pending"
    and run: "execute_phase_b W E pending host root state_root mode s = (r, s')"
  shows "life_inv W root state_root (s', I)"
proof -
  obtain i where i: "i \<in> set I" "belongs pending i"
    using inv rd by (auto simp: life_inv_def record_known_def fs_content_read)
  have inst: "\<And>j. j \<in> set I \<Longrightarrow> installed W root state_root s j" and inj: "inj_on in_id (set I)"
    using inv by (auto simp: life_inv_def)
  have pid: "pp_snapshot_id pending = in_id i" and files: "\<forall>step \<in> set (pp_remaining pending). set (step_files pending step) \<subseteq> set (in_targets i)"
    using i(2) by (auto simp: belongs_def)
  have id: "plain_name (in_id i)" and away: "targets_apart root record_path (in_targets i)"
    using inst[OF i(1)] by (auto simp: installed_def)
  have own: "installed W root state_root s' i"
    using inst[OF i(1)] platform_laws.phase_b_safe[OF dir_laws[OF id] _ _ files record_not_in_dir[OF id] _ run] pid
    by (simp add: installed_def)
  have others: "installed W root state_root s' j" if j: "j \<in> set I" "j \<noteq> i" for j
  proof (rule installed_frame[OF inst[OF j(1)]])
    fix q assume q: "path_under (dir (in_id j)) q"
    have jd: "plain_name (in_id j)" using inst[OF j(1)] by (simp add: installed_def)
    have "in_id i \<noteq> in_id j" using inj j i(1) by (auto dest: inj_onD)
    then have "\<not> path_under (dir (in_id j)) (manifest_path root (pp_snapshot_id pending))"
      using siblings_apart[OF id jd] manifest_under pid by (simp add: manifest_path_def)
    moreover have "\<forall>step \<in> set (pp_remaining pending). \<forall>q \<in> set (step_files pending step). \<not> path_under (dir (in_id j)) q"
      using files targets_not_in_dir[OF away jd] by blast
    ultimately have "fs_content (pf_fs W) s' q = fs_content (pf_fs W) s q \<or> q = record_path"
      using platform_laws.phase_b_frame[OF dir_laws[OF jd] _ _ run q] by blast
    then show "fs_content (pf_fs W) s' q = fs_content (pf_fs W) s q"
      using q record_not_in_dir[OF jd] by blast
  qed
  have "\<not> path_under record_path (manifest_path root (pp_snapshot_id pending))"
    using apart[OF id] manifest_under pid by (metis manifest_path_def)
  moreover have "\<forall>step \<in> set (pp_remaining pending). \<forall>q \<in> set (step_files pending step). \<not> path_under record_path q"
    using files away by (auto simp: targets_apart_def)
  ultimately have "record_known W state_root s' I"
    using platform_laws.phase_b_frame[OF record_laws _ _ run path_under_refl] inv record_frame[of s I I s']
    by (auto simp: life_inv_def)
  then show ?thesis using own others inj by (auto simp: life_inv_def)
qed

lemma rollback_keeps:
  assumes inv: "life_inv W root state_root (s, I)" and i: "i \<in> set I"
    and run: "restore (pf_fs W) (pf_sha256 W) (pf_manifest_codec W) root (in_id i) s = (r, s')"
  shows "life_inv W root state_root (s', I)"
proof -
  have inst: "\<And>j. j \<in> set I \<Longrightarrow> installed W root state_root s j" using inv by (simp add: life_inv_def)
  note I = inst[OF i, unfolded installed_def]
  have "installed W root state_root s' j" if j: "j \<in> set I" for j
  proof (rule installed_frame[OF inst[OF j]])
    have jd: "plain_name (in_id j)" using inst[OF j] by (simp add: installed_def)
    show "fs_content (pf_fs W) s' q = fs_content (pf_fs W) s q" if "path_under (dir (in_id j)) q" for q
      using platform_laws.restore_frame[OF dir_laws[OF jd] _ _ run that] I targets_not_in_dir[OF _ jd] by blast
  qed
  moreover have "fs_content (pf_fs W) s' record_path = fs_content (pf_fs W) s record_path"
    using platform_laws.restore_frame[OF record_laws _ _ run path_under_refl] I by (auto simp: targets_apart_def)
  ultimately show ?thesis using inv record_frame[of s I I s'] by (auto simp: life_inv_def)
qed

lemma elsewhere_keeps:
  assumes inv: "life_inv W root state_root (s, I)"
    and frame: "\<And>p. path_under root p \<or> path_under record_path p \<Longrightarrow> fs_content (pf_fs W) s' p = fs_content (pf_fs W) s p"
  shows "life_inv W root state_root (s', I)"
proof -
  have "installed W root state_root s' i" if "i \<in> set I" for i
  proof (rule installed_frame)
    show "installed W root state_root s i" using inv that by (simp add: life_inv_def)
    then have "plain_name (in_id i)" by (simp add: installed_def)
    then show "fs_content (pf_fs W) s' p = fs_content (pf_fs W) s p" if "path_under (dir (in_id i)) p" for p
      using below_root that by (intro frame disjI1)
  qed
  moreover have "record_known W state_root s' I"
    using inv frame[of record_path] record_frame[of s I I s'] by (simp add: life_inv_def)
  ultimately show ?thesis using inv by (simp add: life_inv_def)
qed

lemma life_step_keeps:
  assumes "life_step W root state_root (s, I) (s', I')" and inv: "life_inv W root state_root (s, I)"
  shows "life_inv W root state_root (s', I')"
  by (rule life_stepE[OF assms(1)]; hypsubst)
    (blast intro: elsewhere_keeps[OF inv] apply_fails_keeps[OF inv] apply_keeps[OF inv] resume_keeps[OF inv] rollback_keeps[OF inv])+

lemma life_reachable:
  assumes "(life_step W root state_root)\<^sup>*\<^sup>* (s0, []) z" and "fs_content (pf_fs W) s0 record_path = None"
  shows "life_inv W root state_root z"
  using assms(1)
proof (induction rule: rtranclp_induct)
  case base
  show ?case using assms(2) by (simp add: life_inv_def record_known_def)
next
  case (step y z)
  then show ?case using life_step_keeps by (metis surj_pair)
qed

end

text \<open>The sample platform satisfies the contract for every snapshot below its root.\<close>

lemma quiet_platform_laws:
  assumes "is_absolute d" "hd (components d) = ''home''" "components d \<noteq> []"
  shows "platform_laws (quiet_platform ms ps) d"
proof -
  let ?W = "quiet_platform ms ps"
  have "\<not> path_under d (Path True [''tmp'', n])" for n
    using assms by (cases "components d") (auto simp: path_under_def)
  then have "host_leaves_alone (fs_content (pf_fs ?W)) (pf_host ?W) (path_under d)"
    by unfold_locales (auto simp: quiet_host_def)
  then show ?thesis
    using quiet_platform.platform_laws_axioms[of ms ps] by (simp add: platform_laws_def)
qed

interpretation quiet_life: lifecycle "quiet_platform ms ps" snap_root state_dir for ms ps
proof (rule lifecycle.intro)
  have q: "pending_path state_dir = Path True [''home'', ''u'', ''.virtu'', ''state'', ''pending.toml'']" by code_simp
  show "platform_laws (quiet_platform ms ps) (path_push snap_root n)" if "plain_name n" for n
    by (rule quiet_platform_laws) (simp_all add: path_push_plain[OF that] snap_root_def)
  show "platform_laws (quiet_platform ms ps) (pending_path state_dir)"
    by (rule quiet_platform_laws) (simp_all add: q)
  show "\<not> path_under snap_root (pending_path state_dir)" "\<not> path_under (pending_path state_dir) snap_root"
    by (simp_all add: q path_under_def snap_root_def)
qed

section \<open>The theorem\<close>

text \<open>C1: any history can be taken back. Start from a machine without a pending record and let anything happen:
  applies of any plans that keep off Virtu's own directories, each under a snapshot identifier of its own and with any outcome at any point, resumes of whatever
  record is then on disk, rollbacks to any snapshot, complete or broken off, and arbitrary changes to every
  other file of the machine. At the end, if the hash tells the contents of the targets apart, a rollback to any snapshot that was ever taken, if it returns, gives each of its
  targets the contents it had when that snapshot was taken, and touches no other file.\<close>

theorem life_recoverable:
  assumes laws: "lifecycle W root state_root"
    and start: "fs_content (pf_fs W) s0 (pending_path state_root) = None"
    and life: "(life_step W root state_root)\<^sup>*\<^sup>* (s0, []) (s, I)" and i: "i \<in> set I"
    and hash: "hash_separates (pf_sha256 W) (set (in_targets i)) (in_before i) (fs_content (pf_fs W) s)"
    and rollback: "restore (pf_fs W) (pf_sha256 W) (pf_manifest_codec W) root (in_id i) s = (Inr x, s')"
  shows "(\<forall>t \<in> set (in_targets i). fs_content (pf_fs W) s' t = in_before i t) \<and>
    (\<forall>p. p \<notin> set (in_targets i) \<longrightarrow> fs_content (pf_fs W) s' p = fs_content (pf_fs W) s p)"
proof -
  have "installed W root state_root s i"
    using lifecycle.life_reachable[OF laws life start] i by (simp add: life_inv_def)
  then show ?thesis
    using recoverable_restore[OF platform_laws.axioms(1)[OF lifecycle.record_laws[OF laws]] _ _ hash rollback]
    by (simp add: installed_def)
qed

text \<open>The sample host: an apply, a resume, and then the loss of everything that is not Virtu's.\<close>

definition only_records :: "mem_fs \<Rightarrow> mem_fs" where
  "only_records s = \<lparr>mem_files = (\<lambda>p. if path_under snap_root p \<or> path_under (pending_path state_dir) p
     then mem_files s p else None), mem_dirs = {}, mem_exec = {}\<rparr>"

definition sample_installation :: installation where
  "sample_installation = \<lparr>in_id = sample_sid, in_targets = collect_targets (plan_steps host_plan),
     in_before = mem_files host_fs\<rparr>"

lemma sample_installable:
  "installable (sample_platform ms) snap_root state_dir [] host_plan sample_profile sample_config (7, 8, 9)"
proof -
  have "plain_name sample_sid" by code_simp
  moreover have q: "pending_path state_dir = Path True [''home'', ''u'', ''.virtu'', ''state'', ''pending.toml'']" by code_simp
  have "targets_apart snap_root (pending_path state_dir) (collect_targets (plan_steps host_plan))"
    unfolding sample_targets
    by (simp add: targets_apart_def q path_under_def snap_root_def grub_file_def conf_file_def xml_file_def)
  moreover have "list_all (\<lambda>q. q \<in> set (collect_targets (plan_steps host_plan)))
      (concat (map (step_files sample_pending) (phase_b_steps host_plan)))" by code_simp
  then have "set (concat (map (step_files sample_pending) (phase_b_steps host_plan))) \<subseteq> set (collect_targets (plan_steps host_plan))"
    by (auto simp: list_all_iff)
  ultimately show ?thesis
    using sample_safe sample_named unfolding sample_dir_eq(1)
    by (simp add: installable_def plan_apart_def Let_def sample_pending_def[symmetric])
qed

text \<open>The plan that the planner makes for the sample host satisfies what the steps ask of a plan.\<close>

lemma sample_plan_installable:
  assumes "make_plan sample_exists sample_env sample_profile (build_compatibility_report sample_profile) sample_config = Inr pl"
  shows "installable (sample_platform ms) snap_root state_dir [] pl sample_profile sample_config clock"
proof (rule planned_installable[OF assms])
  let ?T = "[grub_file, conf_file, Path True [''etc'', ''mkinitcpio.conf''], xml_file,
    Path True [''var'', ''lib'', ''libvirt'', ''images'', ''win11.qcow2'']]"
  have targets: "collect_targets (plan_steps pl) = ?T"
  proof -
    have "collect_targets (build_steps sample_env sample_profile sample_config) = ?T" by code_simp
    then show ?thesis using assms by (simp add: make_plan_choices)
  qed
  have plain: "plain_name sample_sid" "list_all (\<lambda>t. plain_name (sanitize_path t)) ?T" "distinct (map sanitize_path ?T)"
    by code_simp+
  have q: "pending_path state_dir = Path True [''home'', ''u'', ''.virtu'', ''state'', ''pending.toml'']" by code_simp
  have outside: "\<forall>t \<in> set ?T. \<not> path_under snap_root t \<and> \<not> path_under (pending_path state_dir) t \<and> \<not> path_under sample_dir t"
    by (simp add: q path_under_def snap_root_def sample_dir_def grub_file_def conf_file_def xml_file_def)
  then have "snapshot_safe sample_dir ?T" "targets_apart snap_root (pending_path state_dir) ?T"
    using plain(2,3) by (auto simp: snapshot_safe_def targets_apart_def list_all_iff distinct_map)
  then show "plan_apart (sample_platform ms) snap_root state_dir [] pl (fst clock)"
    using plain(1) sample_plan_named[OF assms] by (simp add: plan_apart_def targets sample_dir_eq(1))
qed

lemma sample_life:
  "\<exists>s3. (life_step (sample_platform [final_manifest]) snap_root state_dir)\<^sup>*\<^sup>* (host_fs, []) (only_records s3, [sample_installation])"
proof -
  let ?W = "sample_platform [final_manifest]"
  obtain out s1 where run: "sample_run [final_manifest] = (Inr out, s1)" using sample_run_result by blast
  obtain rb s3 where phase_b: "execute_phase_b ?W sample_vm_env sample_pending sample_profile snap_root state_dir
      SkipCommands s1 = (Inr rb, s3)" using sample_phase_b[OF run] by blast
  have reads: "from_toml (list_codec [sample_pending]) ''m'' = Inr sample_pending"
    by (rule conjunct2[OF list_codec_reads]) (simp add: list_codec_def)
  have "life_step ?W snap_root state_dir (host_fs, []) (s1, [sample_installation])"
    using life_step.apply_runs[OF sample_installable sample_snapshot run[unfolded sample_run_def]]
    by (simp add: sample_installation_def)
  moreover have "mem_files s1 (pending_path state_dir) = Some ''m''" using run sample_run_result[of "[final_manifest]"] by auto
  then have "life_step ?W snap_root state_dir (s1, [sample_installation]) (s3, [sample_installation])"
    by (intro life_step.resume_runs[where t = "''m''", OF _ _ phase_b]) (simp_all add: mem_read_def reads)
  moreover have "life_step ?W snap_root state_dir (s3, [sample_installation]) (only_records s3, [sample_installation])"
    by (rule life_step.elsewhere) (auto simp: only_records_def)
  ultimately show ?thesis by (meson converse_rtranclp_into_rtranclp rtranclp.rtrancl_refl)
qed

theorem life_recoverable_witness:
  "\<exists>s3 x s5. (life_step (sample_platform [final_manifest]) snap_root state_dir)\<^sup>*\<^sup>* (host_fs, [])
       (only_records s3, [sample_installation]) \<and>
     restore mem_ops (\<lambda>c. c) (pf_manifest_codec (sample_platform [final_manifest])) snap_root sample_sid
       (only_records s3) = (Inr x, s5) \<and>
     mem_files s5 grub_file = mem_files host_fs grub_file \<and> mem_files s5 xml_file = None"
proof -
  let ?W = "sample_platform [final_manifest]" and ?T = "collect_targets (plan_steps host_plan)"
  obtain s3 where life: "(life_step ?W snap_root state_dir)\<^sup>*\<^sup>* (host_fs, []) (only_records s3, [sample_installation])"
    using sample_life by blast
  have laws: "lifecycle ?W snap_root state_dir"
    by (simp add: sample_platform_def quiet_life.lifecycle_axioms)
  have start: "mem_files host_fs (pending_path state_dir) = None" by code_simp
  have "installed ?W snap_root state_dir (only_records s3) sample_installation"
    using lifecycle.life_reachable[OF laws life] start by (simp add: life_inv_def)
  then have rec: "recoverable (\<lambda>c. c) (pf_manifest_codec ?W) (path_push snap_root sample_sid) ?T (mem_files host_fs)
      (mem_files (only_records s3))"
    by (simp add: installed_def sample_installation_def)
  have "targets_plain (only_records s3) (set ?T)"
    using sample_plain[of s3] by (simp add: targets_plain_def only_records_def only_snapshot_def)
  then obtain x s5 where undone: "restore mem_ops (\<lambda>c. c) (pf_manifest_codec ?W) snap_root sample_sid (only_records s3) = (Inr x, s5)"
    using recoverable_restore_mem[OF rec sample_safe[unfolded sample_dir_eq(1)] identity_separates] by blast
  have "\<forall>t \<in> set ?T. mem_files s5 t = mem_files host_fs t"
    using life_recoverable[OF laws _ life, of sample_installation, unfolded sample_platform_simps(1,3) mem_content,
        OF start] undone identity_separates
    by (simp add: sample_installation_def)
  moreover have "mem_files host_fs xml_file = None" by code_simp
  ultimately show ?thesis using life undone by (auto simp: sample_targets)
qed

end
