(* ===== verification/Session_Life.thy ===== *)
theory Session_Life
  imports Session_Props Lifecycle
begin

text \<open>
  The commands of the program as steps of \<open>Lifecycle\<close>: what one run of \<open>virtu\<close> does to the machine is one step
  of that relation, so the invariant of the snapshots holds for every session of commands.
\<close>

lemma life_stays: "life_step W root sr (s, I) (s, I)"
  by (rule life_step.elsewhere) (rule refl)

lemma apply_life_step:
  assumes run: "run_apply M confirm s = (r, s')"
    and planned: "\<And>host c pl. scan_system (mc_view M s) = Inr host \<Longrightarrow> recommended_defaults (mc_stamp M) host = Inr (Some c) \<Longrightarrow>
      make_plan (\<lambda>q. fs_exists (pf_fs (mc_platform M)) q s) (mc_getenv M) host (build_compatibility_report host) c = Inr pl \<Longrightarrow>
      plan_apart (mc_platform M) (snapshots_root M) (state_root M) I pl (fst (mc_clock M))"
  shows "\<exists>I'. life_step (mc_platform M) (snapshots_root M) (state_root M) (s, I) (s', I')"
proof -
  consider "s' = s"
  | host c pl r' where "scan_system (mc_view M s) = Inr host" "recommended_defaults (mc_stamp M) host = Inr (Some c)"
      "make_plan (\<lambda>q. fs_exists (pf_fs (mc_platform M)) q s) (mc_getenv M) host (build_compatibility_report host) c = Inr pl"
      "execute_phase_a (mc_platform M) (mc_clock M) pl host c (snapshots_root M) (state_root M) RunRegenerate s = (r', s')"
    using run by (auto simp: run_apply_def scan_host_def io_then_def io_map_err_def Let_def
        split: prod.splits sum.splits option.splits if_splits)
  then show ?thesis
  proof cases
    case 1
    then show ?thesis by (auto intro: life_stays)
  next
    case 2
    obtain t1 t2 t3 where clock: "mc_clock M = (t1, t2, t3)" by (cases "mc_clock M") auto
    obtain x u where snap: "execute_snapshot_step (mc_platform M) t1 t2 pl host (snapshots_root M) s = (x, u)" by fastforce
    note ok = planned_installable[OF 2(3) planned[OF 2(1-3)], unfolded clock] and a = 2(4)[unfolded clock]
    show ?thesis
      using life_step.apply_fails[OF ok _ a] life_step.apply_runs[OF ok _ a] snap by (cases x) blast+
  qed
qed

lemma resume_life_step:
  assumes run: "run_resume M s = (r, s')"
  shows "life_step (mc_platform M) (snapshots_root M) (state_root M) (s, I) (s', I)"
proof -
  consider "s' = s"
  | t pending host r' where "fs_read (pf_fs (mc_platform M)) (pending_path (state_root M)) s = Inr t"
      "from_toml (pf_pending_codec (mc_platform M)) t = Inr pending"
      "execute_phase_b (mc_platform M) (mc_vm_env M) pending host (snapshots_root M) (state_root M) RunCommands s = (r', s')"
    using run by (auto simp: run_resume_def read_pending_def scan_host_def io_then_def io_map_err_def Let_def
        split: prod.splits sum.splits option.splits if_splits dest!: from_utf8_SomeD)
  then show ?thesis
  proof cases
    case 1
    then show ?thesis by (simp add: life_stays)
  qed (rule life_step.resume_runs)
qed

lemma rollback_life_step:
  assumes run: "rollback_to M sid s = (r, s')" and sid: "sid \<in> in_id ` set I"
    and home: "or_else (mc_getenv M ''HOME'') (mc_getenv M ''USERPROFILE'') = Some h"
  shows "life_step (mc_platform M) (snapshots_root M) (state_root M) (s, I) (s', I)"
proof -
  consider "s' = s"
  | r' where "restore (pf_fs (mc_platform M)) (pf_sha256 (mc_platform M)) (pf_manifest_codec (mc_platform M))
      (snapshots_root M) sid s = (r', s')"
    using run by (auto simp: rollback_to_def rollback_root[OF home] io_then_def io_map_err_def Let_def
        split: prod.splits if_splits)
  then show ?thesis
  proof cases
    case 1
    then show ?thesis by (simp add: life_stays)
  next
    case 2
    obtain i where "i \<in> set I" "sid = in_id i" using sid by blast
    with 2 show ?thesis by (blast intro: life_step.rollback_runs)
  qed
qed



end
